(* ===== verification/Prelude.thy ===== *)
theory Prelude
  imports Complex_Main "HOL-Library.AList" "HOL-Library.Sublist"
begin

text \<open>
  What the components share: the pieces of the Go language and its standard library
  that the modelled code uses, each with the few facts the component theories need.

  \<^item> A call either returns or panics (\<open>outcome\<close>).
  \<^item> \<open>int64\<close> and \<open>uint64\<close> arithmetic is integer arithmetic with the wrap-around written
    out (\<open>i64\<close>, \<open>u64\<close>); \<open>/\<close> and \<open>%\<close> truncate (\<open>go_quot\<close>, \<open>go_rem\<close>).
  \<^item> A Go map is an association list with distinct keys. The order of the list is the
    order in which a \<open>range\<close> loop visits the map; Go leaves it open, so no property fixes it.
  \<^item> \<open>time.Time\<close> is the number of nanoseconds since Go's zero time (so \<open>IsZero\<close> is
    equality with 0) and \<open>time.Duration\<close> a number of nanoseconds.
  \<^item> A \<open>float64\<close> is the rational number it denotes; comparisons and formatting are exact,
    and the rounding of the few float additions and divisions is left out.
  \<^item> A Go string is a list of bytes.
\<close>

named_theorems go_simps "rewrite rules about Go's arithmetic, strings and maps"

subsection \<open>Calls that may panic\<close>

datatype panic =
    IndexOutOfRange
  | NilDereference
  | IntegerDivideByZero
  | UnlockOfUnlockedMutex
  | TypeAssertionFailed
  | UncomparableType
  | NonPositiveTicker

datatype 'a outcome = Ret 'a | Panics panic

fun obind :: "'a outcome \<Rightarrow> ('a \<Rightarrow> 'b outcome) \<Rightarrow> 'b outcome" where
  "obind (Ret x) f = f x"
| "obind (Panics p) f = Panics p"

lemma obind_Ret_iff: "obind m f = Ret y \<longleftrightarrow> (\<exists>x. m = Ret x \<and> f x = Ret y)"
  by (cases m) auto

lemma obind_Panics_iff: "obind m f = Panics p \<longleftrightarrow> m = Panics p \<or> (\<exists>x. m = Ret x \<and> f x = Panics p)"
  by (cases m) auto

lemma obind_split:
  "P (obind m f) \<longleftrightarrow> (\<forall>x. m = Ret x \<longrightarrow> P (f x)) \<and> (\<forall>p. m = Panics p \<longrightarrow> P (Panics p))"
  by (cases m) auto

subsection \<open>Machine integers\<close>

definition i64 :: "int \<Rightarrow> int" where
  "i64 x = (x + 2 ^ 63) mod 2 ^ 64 - 2 ^ 63"

definition u64 :: "int \<Rightarrow> int" where
  "u64 x = x mod 2 ^ 64"

definition max_i64 :: int where "max_i64 = 2 ^ 63 - 1"
definition min_i64 :: int where "min_i64 = - (2 ^ 63)"

lemma i64_id [go_simps]: "min_i64 \<le> x \<Longrightarrow> x \<le> max_i64 \<Longrightarrow> i64 x = x"
  by (simp add: i64_def min_i64_def max_i64_def mod_pos_pos_trivial)

lemma i64_range: "min_i64 \<le> i64 x \<and> i64 x \<le> max_i64"
proof -
  have "0 \<le> (x + 2 ^ 63) mod 2 ^ 64" and "(x + 2 ^ 63) mod 2 ^ 64 < (2 ^ 64 :: int)" by simp_all
  then show ?thesis by (simp add: i64_def min_i64_def max_i64_def)
qed

lemma u64_id [go_simps]: "0 \<le> x \<Longrightarrow> x < 2 ^ 64 \<Longrightarrow> u64 x = x"
  by (simp add: u64_def)

lemma u64_range: "0 \<le> u64 x \<and> u64 x < 2 ^ 64"
  by (simp add: u64_def)

text \<open>Go's integer division and remainder truncate towards zero.\<close>

definition go_quot :: "int \<Rightarrow> int \<Rightarrow> int" where
  "go_quot a b = sgn a * sgn b * (\<bar>a\<bar> div \<bar>b\<bar>)"

definition go_rem :: "int \<Rightarrow> int \<Rightarrow> int" where
  "go_rem a b = a - b * go_quot a b"

lemma go_quot_nonneg [go_simps]: "0 \<le> a \<Longrightarrow> 0 < b \<Longrightarrow> go_quot a b = a div b"
  by (cases "a = 0") (simp_all add: go_quot_def)

lemma go_rem_nonneg [go_simps]: "0 \<le> a \<Longrightarrow> 0 < b \<Longrightarrow> go_rem a b = a mod b"
  by (simp add: go_rem_def go_quot_nonneg minus_mult_div_eq_mod)

lemma go_quot_neg [go_simps]: "a < 0 \<Longrightarrow> 0 < b \<Longrightarrow> go_quot a b = - ((- a) div b)"
  by (simp add: go_quot_def)

lemma go_rem_neg [go_simps]: "a < 0 \<Longrightarrow> 0 < b \<Longrightarrow> go_rem a b = - ((- a) mod b)"
  by (simp add: go_rem_def go_quot_neg minus_mult_div_eq_mod [symmetric])

lemma go_rem_bound: "0 < b \<Longrightarrow> \<bar>go_rem a b\<bar> < b"
  using pos_mod_bound [of b a] pos_mod_sign [of b a] pos_mod_bound [of b "- a"] pos_mod_sign [of b "- a"]
  by (cases "0 \<le> a") (simp_all add: go_rem_nonneg go_rem_neg)

subsection \<open>Times and durations\<close>

type_synonym gtime = int
type_synonym duration = int

definition millisecond :: duration where "millisecond = 1000000"
definition second :: duration where "second = 1000000000"
definition minute :: duration where "minute = 60 * second"
definition hour :: duration where "hour = 60 * minute"
definition day :: duration where "day = 24 * hour"

lemmas duration_units = millisecond_def second_def minute_def hour_def day_def

text \<open>\<open>Time.Sub\<close> saturates at the ends of \<open>Duration\<close>.\<close>

definition time_sub :: "gtime \<Rightarrow> gtime \<Rightarrow> duration" where
  "time_sub t u = max min_i64 (min max_i64 (t - u))"

lemma time_sub_exact [go_simps]:
  "min_i64 \<le> t - u \<Longrightarrow> t - u \<le> max_i64 \<Longrightarrow> time_sub t u = t - u"
  by (simp add: time_sub_def)

lemma time_sub_less_iff: "min_i64 \<le> d \<Longrightarrow> d \<le> max_i64 \<Longrightarrow> d < time_sub t u \<longleftrightarrow> d < t - u \<and> d < max_i64"
  by (auto simp: time_sub_def max_def min_def)

text \<open>\<open>Time.Unix\<close>: seconds since 1970, for times from then on.\<close>

definition unix_seconds :: "gtime \<Rightarrow> int" where
  "unix_seconds t = t div second - 62135596800"

text \<open>The instant from which Unix times count.\<close>

definition unix_epoch :: gtime where "unix_epoch = 62135596800 * second"

subsection \<open>Go maps\<close>

text \<open>
  \<open>m[k] = v\<close> is \<open>AList.update\<close>, \<open>delete(m, k)\<close> is \<open>AList.delete\<close>, \<open>m[k]\<close> is \<open>map_of\<close>.
\<close>

abbreviation keys :: "('k \<times> 'v) list \<Rightarrow> 'k list" where
  "keys m \<equiv> map fst m"

definition has_key :: "'k \<Rightarrow> ('k \<times> 'v) list \<Rightarrow> bool" where
  "has_key k m \<longleftrightarrow> map_of m k \<noteq> None"

lemma has_key_iff [go_simps]: "has_key k m \<longleftrightarrow> k \<in> fst ` set m"
  by (simp add: has_key_def map_of_eq_None_iff)

lemma map_of_update [go_simps]: "map_of (AList.update k v m) = (map_of m)(k \<mapsto> v)"
  by (simp add: update_conv')

lemma map_of_delete [go_simps]: "map_of (AList.delete k m) = (map_of m)(k := None)"
  by (simp add: delete_conv')

lemma keys_update: "set (keys (AList.update k v m)) = insert k (set (keys m))"
  by (simp add: dom_update)

lemma keys_delete: "set (keys (AList.delete k m)) = set (keys m) - {k}"
  by (simp add: delete_keys)

lemma distinct_keys_update [simp]: "distinct (keys m) \<Longrightarrow> distinct (keys (AList.update k v m))"
  by (rule distinct_update)

lemma distinct_keys_delete [simp]: "distinct (keys m) \<Longrightarrow> distinct (keys (AList.delete k m))"
  by (rule distinct_delete)

lemma mem_update_iff:
  "distinct (keys m) \<Longrightarrow> (k', w) \<in> set (AList.update k v m) \<longleftrightarrow>
     (if k' = k then w = v else (k', w) \<in> set m)"
  using map_of_eq_Some_iff [of m k' w] map_of_eq_Some_iff [OF distinct_keys_update, of m k v k' w]
  by (auto simp: map_of_update)

lemma mem_delete_iff: "(k', w) \<in> set (AList.delete k m) \<longleftrightarrow> k' \<noteq> k \<and> (k', w) \<in> set m"
  by (auto simp: AList.delete_eq)

lemma map_of_filter_keys: "map_of (filter (\<lambda>(k, _). P k) m) k = (if P k then map_of m k else None)"
  by (induction m) auto

lemma update_subset: "set (AList.update k v m) \<subseteq> insert (k, v) (set m)"
  by (induction m) auto

text \<open>A change through the pointer that a map holds for a key.\<close>

definition adjust :: "'k \<Rightarrow> ('v \<Rightarrow> 'v) \<Rightarrow> ('k \<times> 'v) list \<Rightarrow> ('k \<times> 'v) list" where
  "adjust k f m = map (\<lambda>(k', v). (k', if k' = k then f v else v)) m"

lemma keys_adjust [simp]: "keys (adjust k f m) = keys m"
  by (simp add: adjust_def comp_def case_prod_beta)

lemma map_of_adjust [go_simps]: "map_of (adjust k f m) = (map_of m)(k := map_option f (map_of m k))"
  by (induction m) (auto simp: adjust_def)

lemma length_adjust [simp]: "length (adjust k f m) = length m"
  by (simp add: adjust_def)

lemma mem_adjust: "(k', v') \<in> set (adjust k f m) \<Longrightarrow>
    \<exists>v. (k', v) \<in> set m \<and> v' = (if k' = k then f v else v)"
  by (auto simp: adjust_def)

lemma length_update: "length (AList.update k v m) = (if has_key k m then length m else Suc (length m))"
  by (induction m) (auto simp: has_key_def)

lemma length_delete_distinct:
  "distinct (keys m) \<Longrightarrow> length (AList.delete k m) = (if has_key k m then length m - 1 else length m)"
proof -
  assume d: "distinct (keys m)"
  have "length (AList.delete k m) = length (keys (AList.delete k m))" by (simp only: length_map)
  also have "\<dots> = card (set (keys (AList.delete k m)))"
    using distinct_card [OF distinct_keys_delete [OF d, of k]] by simp
  also have "\<dots> = card (set (keys m) - {k})" by (simp add: delete_keys)
  finally have "length (AList.delete k m) = card (set (keys m) - {k})" .
  moreover have "card (set (keys m)) = length m" using distinct_card [OF d] by simp
  ultimately show ?thesis by (simp add: has_key_iff card_Diff_singleton_if)
qed

lemma if_less_max: "(if a < b then b else a) = max a (b :: 'a :: linorder)"
  by (auto simp: max_def)

lemma list_all_update [simp]: "list_all P xs \<Longrightarrow> P y \<Longrightarrow> list_all P (xs[i := y])"
  using set_update_subset_insert [of xs i y] by (auto simp: list_all_iff)

lemma map_update_same: "f y = f (xs ! i) \<Longrightarrow> map f (xs[i := y]) = map f xs"
  by (metis list_update_id map_update)

lemma length_le_1_iff: "length xs = 1 \<longleftrightarrow> (\<exists>x. xs = [x])"
  by (cases xs) auto

text \<open>Consecutive pieces of length \<open>n\<close>, the last one possibly shorter.\<close>

fun chop :: "nat \<Rightarrow> 'a list \<Rightarrow> 'a list list" where
  "chop n xs = (if n = 0 \<or> xs = [] then [] else take n xs # chop n (drop n xs))"

declare chop.simps [simp del]

lemma chop_Nil [simp]: "chop n [] = []"
  by (simp add: chop.simps)

lemma concat_chop: "0 < n \<Longrightarrow> concat (chop n xs) = xs"
  by (induction n xs rule: chop.induct) (subst chop.simps, auto)

lemma chop_pieces: "0 < n \<Longrightarrow> c \<in> set (chop n xs) \<Longrightarrow> c \<noteq> [] \<and> length c \<le> n"
proof (induction n xs rule: chop.induct)
  case (1 n xs)
  then show ?case by (subst (asm) (2) chop.simps) (auto split: if_splits)
qed

subsection \<open>Strings\<close>

abbreviation has_prefix :: "string \<Rightarrow> string \<Rightarrow> bool" where
  "has_prefix s p \<equiv> prefix p s"

abbreviation has_suffix :: "string \<Rightarrow> string \<Rightarrow> bool" where
  "has_suffix s p \<equiv> suffix p s"

fun contains :: "string \<Rightarrow> string \<Rightarrow> bool" where
  "contains [] sub = (sub = [])"
| "contains (c # s) sub = (prefix sub (c # s) \<or> contains s sub)"

lemma contains_iff_sublist: "contains s sub \<longleftrightarrow> sublist sub s"
  by (induction s) (auto simp: sublist_Cons_right)

definition trim_prefix :: "string \<Rightarrow> string \<Rightarrow> string" where
  "trim_prefix s p = (if prefix p s then drop (length p) s else s)"

lemma trim_prefix_append [simp]: "trim_prefix (p @ s) p = s"
  by (simp add: trim_prefix_def)

definition trim_suffix :: "string \<Rightarrow> string \<Rightarrow> string" where
  "trim_suffix s p = (if suffix p s then take (length s - length p) s else s)"

definition is_space :: "char \<Rightarrow> bool" where
  "is_space c \<longleftrightarrow> c = CHR '' '' \<or> c = CHR 0x09 \<or> c = CHR 0x0A \<or> c = CHR 0x0B \<or> c = CHR 0x0C \<or> c = CHR 0x0D"

definition trim_space :: "string \<Rightarrow> string" where
  "trim_space s = rev (dropWhile is_space (rev (dropWhile is_space s)))"

text \<open>\<open>strings.Split\<close> by a one-byte separator, \<open>strings.Fields\<close> and \<open>strings.Join\<close>.\<close>

fun split_on :: "char \<Rightarrow> string \<Rightarrow> string list" where
  "split_on c [] = [[]]"
| "split_on c (x # s) = (if x = c then [] # split_on c s
     else (case split_on c s of [] \<Rightarrow> [[x]] | w # ws \<Rightarrow> (x # w) # ws))"

lemma split_on_neq_Nil [simp]: "split_on c s \<noteq> []"
  by (induction s) (auto split: list.splits)

definition str_fields :: "string \<Rightarrow> string list" where
  "str_fields s = filter (\<lambda>w. w \<noteq> []) (split_on (CHR '' '') (map (\<lambda>c. if is_space c then CHR '' '' else c) s))"

fun join :: "string \<Rightarrow> string list \<Rightarrow> string" where
  "join sep [] = []"
| "join sep [x] = x"
| "join sep (x # y # xs) = x @ sep @ join sep (y # xs)"

lemma join_split_on: "join [c] (split_on c s) = s"
proof (induction s)
  case (Cons x s)
  then show ?case
    by (cases "split_on c s"; cases "tl (split_on c s)") auto
qed simp

definition newline :: char where "newline = CHR 0x0A"

text \<open>The lines that \<open>bufio.Scanner\<close> finds in a text, before its limit and carriage returns.\<close>

definition scan_lines :: "string \<Rightarrow> string list" where
  "scan_lines s = (let ls = split_on newline s in if last ls = [] then butlast ls else ls)"

text \<open>\<open>strconv.Itoa\<close> and the verb \<open>%d\<close>.\<close>

definition digit :: "nat \<Rightarrow> char" where
  "digit d = char_of (48 + d)"

fun nat_str :: "nat \<Rightarrow> string" where
  "nat_str n = (if n < 10 then [digit n] else nat_str (n div 10) @ [digit (n mod 10)])"

declare nat_str.simps [simp del]

lemma digit_chars [simp]:
  "digit 0 = CHR ''0''" "digit (Suc 0) = CHR ''1''" "digit 1 = CHR ''1''" "digit 2 = CHR ''2''"
  "digit 3 = CHR ''3''" "digit 4 = CHR ''4''" "digit 5 = CHR ''5''" "digit 6 = CHR ''6''"
  "digit 7 = CHR ''7''" "digit 8 = CHR ''8''" "digit 9 = CHR ''9''"
  by (simp_all add: digit_def char_of_def bit_iff_odd)

lemma nat_str_small [simp]: "n < 10 \<Longrightarrow> nat_str n = [digit n]"
  by (subst nat_str.simps) simp

definition itoa :: "int \<Rightarrow> string" where
  "itoa i = (if i < 0 then CHR ''-'' # nat_str (nat (- i)) else nat_str (nat i))"

text \<open>Reading decimal digits back (\<open>strconv.ParseInt\<close> on an unsigned text); \<open>None\<close> on anything else.\<close>

definition is_digit :: "char \<Rightarrow> bool" where
  "is_digit c \<longleftrightarrow> 48 \<le> (of_char c :: nat) \<and> (of_char c :: nat) \<le> 57"

definition digits_val :: "string \<Rightarrow> nat" where
  "digits_val s = foldl (\<lambda>n c. 10 * n + (of_char c - 48)) 0 s"

definition parse_nat :: "string \<Rightarrow> nat option" where
  "parse_nat s = (if s \<noteq> [] \<and> list_all is_digit s then Some (digits_val s) else None)"

lemma of_char_digit: "d < 10 \<Longrightarrow> (of_char (digit d) :: nat) = 48 + d"
  by (simp add: digit_def)

lemma is_digit_digit: "d < 10 \<Longrightarrow> is_digit (digit d)"
  by (simp add: is_digit_def of_char_digit)

lemma nat_str_digits: "nat_str n \<noteq> [] \<and> list_all is_digit (nat_str n)"
proof (induction n rule: nat_str.induct)
  case (1 n)
  then show ?case by (subst (1 2) nat_str.simps) (auto simp: is_digit_digit)
qed

lemma digits_val_nat_str: "digits_val (nat_str n) = n"
proof (induction n rule: nat_str.induct)
  case (1 n)
  then show ?case by (subst nat_str.simps) (auto simp: digits_val_def of_char_digit)
qed

lemma parse_nat_str [simp]: "parse_nat (nat_str n) = Some n"
  by (simp add: parse_nat_def nat_str_digits digits_val_nat_str)

lemma nat_str_inject [simp]: "nat_str m = nat_str n \<longleftrightarrow> m = n"
  by (metis digits_val_nat_str)

lemma nat_str_no_char: "\<not> is_digit c \<Longrightarrow> c \<notin> set (nat_str n)"
  using nat_str_digits [of n] by (auto simp: list_all_iff)

text \<open>\<open>strconv.ParseInt(s, 10, 64)\<close>: an optional sign and digits; \<open>None\<close> is an error.\<close>

definition parse_int :: "string \<Rightarrow> int option" where
  "parse_int s = (let (neg, ds) = (case s of c # r \<Rightarrow> if c = CHR ''-'' then (True, r)
        else if c = CHR ''+'' then (False, r) else (False, s) | [] \<Rightarrow> (False, [])) in
     case parse_nat ds of None \<Rightarrow> None
     | Some n \<Rightarrow> let i = (if neg then - int n else int n) in
         if min_i64 \<le> i \<and> i \<le> max_i64 then Some i else None)"

text \<open>The value \<open>strconv.ParseInt\<close> returns, also with an error: 0, or the end of the range that it passes.\<close>

definition parse_int_value :: "string \<Rightarrow> int" where
  "parse_int_value s = (case parse_int s of
     Some i \<Rightarrow> i
   | None \<Rightarrow> (let (neg, ds) = (case s of c # r \<Rightarrow> if c = CHR ''-'' then (True, r)
            else if c = CHR ''+'' then (False, r) else (False, s) | [] \<Rightarrow> (False, [])) in
       (case parse_nat ds of None \<Rightarrow> 0 | Some n \<Rightarrow> if neg then min_i64 else max_i64)))"

definition second_number :: "string \<Rightarrow> int \<Rightarrow> int" where
  "second_number line old = (case str_fields line of a # b # r \<Rightarrow> parse_int_value b | _ \<Rightarrow> old)"

text \<open>The verb \<open>%0nd\<close> for a non-negative number: padding with zeros to width \<open>w\<close>.\<close>

definition pad0 :: "nat \<Rightarrow> nat \<Rightarrow> string" where
  "pad0 w n = replicate (w - length (nat_str n)) (CHR ''0'') @ nat_str n"

text \<open>The verb \<open>%.2f\<close> (and any other precision): the rational rounded half to even.\<close>

definition round_even :: "rat \<Rightarrow> int" where
  "round_even q = (let f = \<lfloor>q\<rfloor>; r = q - of_int f in
     if r < 1 / 2 then f else if 1 / 2 < r then f + 1 else if even f then f else f + 1)"

definition fmt_float :: "nat \<Rightarrow> rat \<Rightarrow> string" where
  "fmt_float p q = (let n = nat \<bar>round_even (\<bar>q\<bar> * 10 ^ p)\<bar> in
     (if q < 0 then ''-'' else []) @ nat_str (n div 10 ^ p) @
     (if p = 0 then [] else CHR ''.'' # pad0 p (n mod 10 ^ p)))"

lemma split_on_append: "split_on c (s @ c # t) = split_on c s @ split_on c t"
  by (induction s) (auto split: list.splits)

lemma split_on_none: "c \<notin> set s \<Longrightarrow> split_on c s = [s]"
  by (induction s) auto

lemma digits_val_pad0 [simp]: "digits_val (pad0 w n) = n"
proof -
  have "digits_val (replicate k (CHR ''0'') @ s) = digits_val s" for k s
    by (induction k) (simp_all add: digits_val_def)
  then show ?thesis by (simp add: pad0_def digits_val_nat_str)
qed

lemma pad0_inject [simp]: "pad0 w m = pad0 w n \<longleftrightarrow> m = n"
  by (metis digits_val_pad0)

lemma pad0_digits: "list_all is_digit (pad0 w n)"
  using nat_str_digits [of n] by (auto simp: pad0_def list_all_iff is_digit_def)

lemma nat_str_head_digit: "\<exists>c r. nat_str n = c # r \<and> is_digit c"
  using nat_str_digits [of n] by (cases "nat_str n") auto

lemma parse_int_nat_str: "int n \<le> max_i64 \<Longrightarrow> parse_int (nat_str n) = Some (int n)"
proof -
  assume n: "int n \<le> max_i64"
  obtain c r where c: "nat_str n = c # r" "is_digit c" using nat_str_head_digit [of n] by blast
  then have "c \<noteq> CHR ''-''" "c \<noteq> CHR ''+''" by (auto simp: is_digit_def)
  then show ?thesis
    using n parse_nat_str [of n] by (simp add: parse_int_def c(1) Let_def min_i64_def)
qed

subsection \<open>Calls that return an error\<close>

text \<open>
  A method that mutates its receiver and returns \<open>error\<close> is a function to the new state and
  \<open>None\<close> (\<open>nil\<close>) or \<open>Some\<close> error; \<open>ok_then\<close> is the \<open>if err != nil { return err }\<close>
  between two calls and \<open>wrap_err\<close> the \<open>fmt.Errorf("...: %w", err)\<close> around one.
\<close>

fun ok_then :: "'s \<times> 'e option \<Rightarrow> ('s \<Rightarrow> 's \<times> 'e option) \<Rightarrow> 's \<times> 'e option" where
  "ok_then (s, None) f = f s"
| "ok_then (s, Some e) f = (s, Some e)"

definition wrap_err :: "('e \<Rightarrow> 'e) \<Rightarrow> 's \<times> 'e option \<Rightarrow> 's \<times> 'e option" where
  "wrap_err w r = (fst r, map_option w (snd r))"

lemma fst_wrap_err [simp]: "fst (wrap_err w r) = fst r"
  by (simp add: wrap_err_def)

lemma snd_wrap_err_None [simp]: "snd (wrap_err w r) = None \<longleftrightarrow> snd r = None"
  by (simp add: wrap_err_def)

lemma ok_then_cases:
  "ok_then r f = (if snd r = None then f (fst r) else r)"
  by (cases r; cases "snd r") auto

lemma ok_then_pres:
  assumes "P (fst r)" and "\<And>s. P s \<Longrightarrow> Q s" and "\<And>s. P s \<Longrightarrow> Q (fst (f s))"
  shows "Q (fst (ok_then r f))"
  using assms by (simp add: ok_then_cases)

end
