(* ===== verification/Ttl_Registry.thy ===== *)
theory Ttl_Registry
  imports Prelude
begin

text \<open>
  The cleanup goroutine that the agent's two fault managers share the shape of
  (\<open>cleanupRoutine\<close> in \<open>agent/netem.go\<close> and \<open>agent/cgroups.go\<close>): collect the keys of the
  entries whose TTL has run out, then destroy each. The locale \<open>ttl_registry\<close> is the contract
  the goroutine relies on, \<open>ttl_registry_total\<close> that of a registry whose removal cannot fail.
\<close>

definition ttl_expired :: "('e \<Rightarrow> duration) \<Rightarrow> ('e \<Rightarrow> gtime) \<Rightarrow> gtime \<Rightarrow> 'e \<Rightarrow> bool" where
  "ttl_expired ttl started now e \<longleftrightarrow> ttl e > 0 \<and> time_sub now (started e) > ttl e"

definition expired_keys :: "('e \<Rightarrow> duration) \<Rightarrow> ('e \<Rightarrow> gtime) \<Rightarrow> gtime \<Rightarrow> (string \<times> 'e) list \<Rightarrow> string list" where
  "expired_keys ttl started now m = map fst (filter (\<lambda>(k, e). ttl_expired ttl started now e) m)"

definition sweep :: "('s \<Rightarrow> string \<Rightarrow> 's) \<Rightarrow> string list \<Rightarrow> 's \<Rightarrow> 's" where
  "sweep destroy ks s = foldl destroy s ks"

lemma sweep_simps [simp]:
  "sweep destroy [] s = s"
  "sweep destroy (k # ks) s = sweep destroy ks (destroy s k)"
  by (simp_all add: sweep_def)

lemma expired_keys_iff:
  assumes "distinct (keys m)"
  shows "k \<in> set (expired_keys ttl started now m) \<longleftrightarrow>
    (\<exists>e. map_of m k = Some e \<and> ttl_expired ttl started now e)"
  using map_of_eq_Some_iff [OF assms] by (force simp: expired_keys_def)

locale ttl_registry =
  fixes entries :: "'s \<Rightarrow> (string \<times> 'e) list"
    and ttl :: "'e \<Rightarrow> duration"
    and started :: "'e \<Rightarrow> gtime"
    and destroy :: "'s \<Rightarrow> string \<Rightarrow> 's"
    and invar :: "'s \<Rightarrow> bool"
  assumes invar_distinct: "invar s \<Longrightarrow> distinct (keys (entries s))"
    and invar_destroy: "invar s \<Longrightarrow> invar (destroy s k)"
    and destroy_other: "invar s \<Longrightarrow> k' \<noteq> k \<Longrightarrow> map_of (entries (destroy s k)) k' = map_of (entries s) k'"
    and destroy_same: "invar s \<Longrightarrow> map_of (entries (destroy s k)) k = None \<or>
           map_of (entries (destroy s k)) k = map_of (entries s) k"
begin

lemma sweep_invar: "invar s \<Longrightarrow> invar (sweep destroy ks s)"
  by (induction ks arbitrary: s) (auto intro: invar_destroy)

lemma sweep_other:
  "invar s \<Longrightarrow> k \<notin> set ks \<Longrightarrow> map_of (entries (sweep destroy ks s)) k = map_of (entries s) k"
  by (induction ks arbitrary: s) (auto simp: destroy_other invar_destroy)

lemma sweep_none:
  "invar s \<Longrightarrow> map_of (entries s) k = None \<Longrightarrow> map_of (entries (sweep destroy ks s)) k = None"
proof (induction ks arbitrary: s)
  case (Cons k' ks)
  have "map_of (entries (destroy s k')) k = None"
    using Cons.prems destroy_other [of s k k'] destroy_same [of s k'] by (cases "k = k'") auto
  with Cons show ?case by (simp add: invar_destroy)
qed simp

lemma sweep_same:
  "invar s \<Longrightarrow> map_of (entries (sweep destroy ks s)) k = None \<or>
     map_of (entries (sweep destroy ks s)) k = map_of (entries s) k"
proof (induction ks arbitrary: s)
  case (Cons k' ks)
  note IH = Cons.IH [OF invar_destroy [OF Cons.prems], of k']
  show ?case
  proof (cases "k = k'")
    case True
    then show ?thesis using IH destroy_same [OF Cons.prems, of k'] by auto
  next
    case False
    then show ?thesis using IH destroy_other [OF Cons.prems, of k k'] by auto
  qed
qed simp

lemma cleanup_keeps_live:
  assumes "invar s" and "map_of (entries s) k = Some e" and "\<not> ttl_expired ttl started now e"
  shows "map_of (entries (sweep destroy (expired_keys ttl started now (entries s)) s)) k = Some e"
  using assms expired_keys_iff [OF invar_distinct [OF assms(1)], of k ttl started now]
  by (simp add: sweep_other)

end

locale ttl_registry_total = ttl_registry +
  assumes destroy_gone: "invar s \<Longrightarrow> map_of (entries (destroy s k)) k = None"
begin

lemma sweep_gone: "invar s \<Longrightarrow> k \<in> set ks \<Longrightarrow> map_of (entries (sweep destroy ks s)) k = None"
proof (induction ks arbitrary: s)
  case (Cons k' ks)
  show ?case
  proof (cases "k \<in> set ks")
    case True
    with Cons show ?thesis by (simp add: invar_destroy)
  next
    case False
    with Cons.prems show ?thesis by (simp add: sweep_other invar_destroy destroy_gone)
  qed
qed simp

text \<open>After a cleanup the registry holds exactly the entries that had not expired.\<close>

lemma cleanup_exact:
  assumes "invar s"
  shows "map_of (entries (sweep destroy (expired_keys ttl started now (entries s)) s)) k =
    (case map_of (entries s) k of None \<Rightarrow> None
     | Some e \<Rightarrow> if ttl_expired ttl started now e then None else Some e)"
proof (cases "k \<in> set (expired_keys ttl started now (entries s))")
  case True
  then show ?thesis
    using sweep_gone [OF assms True] expired_keys_iff [OF invar_distinct [OF assms], of k ttl started now]
    by auto
next
  case False
  then show ?thesis
    using sweep_other [OF assms False] expired_keys_iff [OF invar_distinct [OF assms], of k ttl started now]
    by (auto split: option.splits)
qed

end

end
