(* ===== verification/Netem.thy ===== *)
theory Netem
  imports Ttl_Registry "HOL-Library.Multiset"
begin

text \<open>
  The agent's network fault manager, \<open>agent/netem.go\<close>: per-interface bookkeeping, running
  experiments, the \<open>tc\<close> / \<open>ip\<close> / \<open>modprobe\<close> command lines it issues, TTL timers and the
  periodic cleanup. The operating system is the parameter \<open>osenv\<close>: what each command
  returns (an error, or its standard output) given the commands run before it. Every command
  run is appended to the trace \<open>nm_cmds\<close> with whether it succeeded.
\<close>

subsection \<open>Data\<close>

record netem_config =
  nc_delay :: int
  nc_jitter :: int
  nc_loss :: rat
  nc_duplicate :: rat
  nc_corrupt :: rat
  nc_reorder :: rat
  nc_rate :: int
  nc_limit :: int

definition zero_config :: netem_config where
  "zero_config = \<lparr>nc_delay = 0, nc_jitter = 0, nc_loss = 0, nc_duplicate = 0, nc_corrupt = 0,
     nc_reorder = 0, nc_rate = 0, nc_limit = 0\<rparr>"

record iface_state =
  if_name :: string
  if_has_netem :: bool
  if_original_qdisc :: string
  if_current_config :: "netem_config option"
  if_last_modified :: gtime
  if_has_ingress :: bool
  if_ingress_config :: "netem_config option"
  if_ifb_name :: string

record filter_config =
  fc_id :: string
  fc_priority :: int
  fc_protocol :: string
  fc_src_ip :: string
  fc_dst_ip :: string
  fc_src_port :: int
  fc_dst_port :: int
  fc_netem_config :: "netem_config option"
  fc_created :: gtime

record root_qdisc =
  rq_interface :: string
  rq_has_netem :: bool
  rq_original_qdisc :: string
  rq_current_netem :: "netem_config option"
  rq_filters :: "(string \<times> filter_config) list"
  rq_last_modified :: gtime

record net_experiment =
  ex_id :: string
  ex_interface :: string
  ex_config :: netem_config
  ex_start :: gtime
  ex_ttl :: duration
  ex_finalizer :: string
  ex_filters :: "string list"
  ex_direction :: string

type_synonym cmd = "string list"

text \<open>
  \<open>nm_timers\<close> are the pending \<open>time.AfterFunc\<close> calls (due time and the experiment they
  revert), \<open>nm_cleaners\<close> the number of cleanup goroutines started.
\<close>

record netem =
  nm_interfaces :: "(string \<times> iface_state) list"
  nm_experiments :: "(string \<times> net_experiment) list"
  nm_root_qdiscs :: "(string \<times> root_qdisc) list"
  nm_timers :: "(gtime \<times> string) list"
  nm_cleaners :: nat
  nm_cmds :: "(cmd \<times> bool) list"

definition new_netem_manager :: netem where
  "new_netem_manager = \<lparr>nm_interfaces = [], nm_experiments = [], nm_root_qdiscs = [],
     nm_timers = [], nm_cleaners = 1, nm_cmds = []\<rparr>"

record osenv =
  os_run :: "(cmd \<times> bool) list \<Rightarrow> cmd \<Rightarrow> string option"
  os_look_path :: "string \<Rightarrow> bool"

datatype net_err =
    InterfaceDoesNotExist string
  | TcNotAvailable
  | NetemModuleNotAvailable
  | InterfaceValidationFailed net_err
  | QdiscInfoFailed
  | BackupFailed net_err
  | TcCommandFailed
  | ApplyConfigFailed net_err
  | U32CommandFailed
  | AddU32FilterFailed net_err
  | ApplyWithFilterFailed net_err
  | LoadIfbFailed
  | IfbModuleNotAvailable net_err
  | IfbStepFailed nat
  | SetupIfbFailed net_err
  | ApplyIfbCommandFailed
  | ApplyIfbFailed net_err
  | DeleteQdiscFailed
  | RemoveNetemFailed
  | RestoreFailed net_err
  | RecalculateFailed net_err
  | ExperimentNotFound string
  | InterfaceNotFound string
  | UnmarshalStateFailed

subsection \<open>Commands\<close>

definition exec_output :: "osenv \<Rightarrow> cmd \<Rightarrow> netem \<Rightarrow> netem \<times> string option" where
  "exec_output env c s = (let r = os_run env (nm_cmds s) c in
     (s\<lparr>nm_cmds := nm_cmds s @ [(c, r \<noteq> None)]\<rparr>, r))"

definition exec_run :: "osenv \<Rightarrow> net_err \<Rightarrow> cmd \<Rightarrow> netem \<Rightarrow> netem \<times> net_err option" where
  "exec_run env e c s = (case exec_output env c s of
     (s', None) \<Rightarrow> (s', Some e) | (s', Some out) \<Rightarrow> (s', None))"

definition validate_interface :: "osenv \<Rightarrow> string \<Rightarrow> netem \<Rightarrow> netem \<times> net_err option" where
  "validate_interface env ifn s =
     ok_then (exec_run env (InterfaceDoesNotExist ifn) [''ip'', ''link'', ''show'', ifn] s) (\<lambda>s.
     if \<not> os_look_path env ''tc'' then (s, Some TcNotAvailable)
     else exec_run env NetemModuleNotAvailable [''modprobe'', ''sch_netem''] s)"

text \<open>The first line of \<open>tc qdisc show\<close> that names a qdisc other than netem.\<close>

definition find_root_qdisc :: "string \<Rightarrow> string option" where
  "find_root_qdisc out = map_option trim_space
     (find (\<lambda>l. contains l ''qdisc'' \<and> \<not> contains l ''netem'') (split_on newline out))"

definition backup_original_qdisc ::
  "osenv \<Rightarrow> iface_state \<Rightarrow> netem \<Rightarrow> netem \<times> iface_state \<times> net_err option" where
  "backup_original_qdisc env iface s =
     (case exec_output env [''tc'', ''qdisc'', ''show'', ''dev'', if_name iface] s of
        (s', None) \<Rightarrow> (s', iface, Some QdiscInfoFailed)
      | (s', Some out) \<Rightarrow> (s', (case find_root_qdisc out of None \<Rightarrow> iface
            | Some l \<Rightarrow> iface\<lparr>if_original_qdisc := l\<rparr>), None))"

definition backup_original_qdisc_for_root ::
  "osenv \<Rightarrow> root_qdisc \<Rightarrow> netem \<Rightarrow> netem \<times> root_qdisc \<times> net_err option" where
  "backup_original_qdisc_for_root env rq s =
     (case exec_output env [''tc'', ''qdisc'', ''show'', ''dev'', rq_interface rq] s of
        (s', None) \<Rightarrow> (s', rq, Some QdiscInfoFailed)
      | (s', Some out) \<Rightarrow> (s', (case find_root_qdisc out of None \<Rightarrow> rq
            | Some l \<Rightarrow> rq\<lparr>rq_original_qdisc := l\<rparr>), None))"

definition percent :: "rat \<Rightarrow> string" where
  "percent q = fmt_float 2 q @ ''%''"

definition build_netem_args :: "cmd \<Rightarrow> netem_config \<Rightarrow> cmd" where
  "build_netem_args args c = args
     @ (if nc_delay c > 0 then [''delay'', itoa (nc_delay c) @ ''ms'']
          @ (if nc_jitter c > 0 then [itoa (nc_jitter c) @ ''ms''] else []) else [])
     @ (if nc_loss c > 0 then [''loss'', percent (nc_loss c)] else [])
     @ (if nc_duplicate c > 0 then [''duplicate'', percent (nc_duplicate c)] else [])
     @ (if nc_corrupt c > 0 then [''corrupt'', percent (nc_corrupt c)] else [])
     @ (if nc_reorder c > 0 then [''reorder'', percent (nc_reorder c)] else [])
     @ (if nc_rate c > 0 then [''rate'', itoa (nc_rate c) @ ''mbit''] else [])
     @ (if nc_limit c > 0 then [''limit'', itoa (nc_limit c)] else [])"

definition qdisc_verb :: "bool \<Rightarrow> string" where
  "qdisc_verb has_netem = (if has_netem then ''change'' else ''add'')"

text \<open>\<open>applyNetemConfig\<close> builds its own argument list, option by option, and runs it.\<close>

definition netem_config_args :: "iface_state \<Rightarrow> netem_config \<Rightarrow> cmd" where
  "netem_config_args iface c =
     (let args = (if if_has_netem iface
          then [''tc'', ''qdisc'', ''change'', ''dev'', if_name iface, ''root'', ''netem'']
          else [''tc'', ''qdisc'', ''add'', ''dev'', if_name iface, ''root'', ''netem'']);
        args = (if nc_delay c > 0 then
            (let args = args @ [''delay'', itoa (nc_delay c) @ ''ms''] in
             if nc_jitter c > 0 then args @ [itoa (nc_jitter c) @ ''ms''] else args) else args);
        args = (if nc_loss c > 0 then args @ [''loss'', percent (nc_loss c)] else args);
        args = (if nc_duplicate c > 0 then args @ [''duplicate'', percent (nc_duplicate c)] else args);
        args = (if nc_corrupt c > 0 then args @ [''corrupt'', percent (nc_corrupt c)] else args);
        args = (if nc_reorder c > 0 then args @ [''reorder'', percent (nc_reorder c)] else args);
        args = (if nc_rate c > 0 then args @ [''rate'', itoa (nc_rate c) @ ''mbit''] else args)
      in if nc_limit c > 0 then args @ [''limit'', itoa (nc_limit c)] else args)"

definition apply_netem_config ::
  "osenv \<Rightarrow> iface_state \<Rightarrow> netem_config \<Rightarrow> netem \<Rightarrow> netem \<times> net_err option" where
  "apply_netem_config env iface c s = exec_run env TcCommandFailed (netem_config_args iface c) s"

definition apply_netem_config_atomic ::
  "osenv \<Rightarrow> root_qdisc \<Rightarrow> netem_config \<Rightarrow> netem \<Rightarrow> netem \<times> net_err option" where
  "apply_netem_config_atomic env rq c s = exec_run env TcCommandFailed
     (build_netem_args [''tc'', ''qdisc'', qdisc_verb (rq_has_netem rq), ''dev'', rq_interface rq,
        ''root'', ''netem''] c) s"

definition u32_filter_args :: "string \<Rightarrow> filter_config \<Rightarrow> cmd" where
  "u32_filter_args ifn f = [''tc'', ''filter'', ''add'', ''dev'', ifn, ''protocol'', ''ip'']
     @ [''prio'', itoa (fc_priority f)]
     @ [''u32'']
     @ (if fc_protocol f \<noteq> [] then [''match'', ''ip'', ''protocol'', fc_protocol f, ''0xff''] else [])
     @ (if fc_src_ip f \<noteq> [] then [''match'', ''ip'', ''src'', fc_src_ip f] else [])
     @ (if fc_dst_ip f \<noteq> [] then [''match'', ''ip'', ''dst'', fc_dst_ip f] else [])
     @ (if fc_src_port f > 0 then [''match'', ''ip'', ''sport'', itoa (fc_src_port f), ''0xffff''] else [])
     @ (if fc_dst_port f > 0 then [''match'', ''ip'', ''dport'', itoa (fc_dst_port f), ''0xffff''] else [])
     @ [''flowid'', ''1:1'']"

definition add_u32_filter :: "osenv \<Rightarrow> string \<Rightarrow> filter_config \<Rightarrow> netem \<Rightarrow> netem \<times> net_err option" where
  "add_u32_filter env ifn f s = exec_run env U32CommandFailed (u32_filter_args ifn f) s"

definition apply_netem_with_filter ::
  "osenv \<Rightarrow> root_qdisc \<Rightarrow> netem_config \<Rightarrow> filter_config \<Rightarrow> netem \<Rightarrow> netem \<times> net_err option" where
  "apply_netem_with_filter env rq c f s =
     ok_then (if \<not> rq_has_netem rq then apply_netem_config_atomic env rq c s else (s, None)) (\<lambda>s.
     wrap_err AddU32FilterFailed (add_u32_filter env (rq_interface rq) f s))"

definition ensure_ifb_module :: "osenv \<Rightarrow> netem \<Rightarrow> netem \<times> net_err option" where
  "ensure_ifb_module env s = exec_run env LoadIfbFailed [''modprobe'', ''ifb''] s"

text \<open>The seven commands of \<open>setupIFBInterface\<close>, run in order until one fails.\<close>

definition ifb_commands :: "string \<Rightarrow> string \<Rightarrow> cmd list" where
  "ifb_commands orig ifb =
    [[''ip'', ''link'', ''add'', ifb, ''type'', ''ifb''],
     [''ip'', ''link'', ''set'', ifb, ''up''],
     [''tc'', ''qdisc'', ''add'', ''dev'', ifb, ''root'', ''handle'', ''1:'', ''htb'', ''default'', ''1''],
     [''tc'', ''class'', ''add'', ''dev'', ifb, ''parent'', ''1:'', ''classid'', ''1:1'', ''htb'',
      ''rate'', ''1000mbit''],
     [''tc'', ''qdisc'', ''add'', ''dev'', ifb, ''parent'', ''1:1'', ''handle'', ''10:'', ''netem''],
     [''tc'', ''qdisc'', ''add'', ''dev'', orig, ''handle'', ''ffff:'', ''ingress''],
     [''tc'', ''filter'', ''add'', ''dev'', orig, ''parent'', ''ffff:'', ''protocol'', ''ip'', ''u32'',
      ''match'', ''u32'', ''0'', ''0'', ''flowid'', ''1:1'', ''action'', ''mirred'', ''egress'',
      ''redirect'', ''dev'', ifb]]"

fun run_steps :: "osenv \<Rightarrow> nat \<Rightarrow> cmd list \<Rightarrow> netem \<Rightarrow> netem \<times> net_err option" where
  "run_steps env i [] s = (s, None)"
| "run_steps env i (c # cs) s = ok_then (exec_run env (IfbStepFailed i) c s) (run_steps env (Suc i) cs)"

definition setup_ifb_interface :: "osenv \<Rightarrow> string \<Rightarrow> string \<Rightarrow> netem \<Rightarrow> netem \<times> net_err option" where
  "setup_ifb_interface env orig ifb s = run_steps env 0 (ifb_commands orig ifb) s"

definition apply_netem_to_ifb ::
  "osenv \<Rightarrow> string \<Rightarrow> netem_config \<Rightarrow> netem \<Rightarrow> netem \<times> net_err option" where
  "apply_netem_to_ifb env ifb c s = exec_run env ApplyIfbCommandFailed
     (build_netem_args [''tc'', ''qdisc'', ''change'', ''dev'', ifb, ''parent'', ''1:1'', ''handle'',
        ''10:'', ''netem''] c) s"

definition del_root_qdisc :: "string \<Rightarrow> cmd" where
  "del_root_qdisc ifn = [''tc'', ''qdisc'', ''del'', ''dev'', ifn, ''root'']"

definition restore_original_qdisc :: "osenv \<Rightarrow> iface_state \<Rightarrow> netem \<Rightarrow> netem \<times> net_err option" where
  "restore_original_qdisc env iface s =
     (if if_original_qdisc iface = [] then
        exec_run env DeleteQdiscFailed (del_root_qdisc (if_name iface)) s
      else
        exec_run env RemoveNetemFailed (del_root_qdisc (if_name iface)) s)"

subsection \<open>Merging configurations\<close>

definition max_config :: "netem_config \<Rightarrow> netem_config \<Rightarrow> netem_config" where
  "max_config m c = \<lparr>
     nc_delay = (if nc_delay c > nc_delay m then nc_delay c else nc_delay m),
     nc_jitter = (if nc_jitter c > nc_jitter m then nc_jitter c else nc_jitter m),
     nc_loss = (if nc_loss c > nc_loss m then nc_loss c else nc_loss m),
     nc_duplicate = (if nc_duplicate c > nc_duplicate m then nc_duplicate c else nc_duplicate m),
     nc_corrupt = (if nc_corrupt c > nc_corrupt m then nc_corrupt c else nc_corrupt m),
     nc_reorder = (if nc_reorder c > nc_reorder m then nc_reorder c else nc_reorder m),
     nc_rate = (if nc_rate c > nc_rate m then nc_rate c else nc_rate m),
     nc_limit = (if nc_limit c > nc_limit m then nc_limit c else nc_limit m)\<rparr>"

definition merge_configs :: "netem_config list \<Rightarrow> netem_config" where
  "merge_configs cs = (case cs of [] \<Rightarrow> zero_config | [c] \<Rightarrow> c | _ \<Rightarrow> foldl max_config zero_config cs)"

definition configs_on :: "string \<Rightarrow> (string \<times> net_experiment) list \<Rightarrow> netem_config list" where
  "configs_on ifn exps = map (ex_config \<circ> snd) (filter (\<lambda>(k, e). ex_interface e = ifn) exps)"

definition recalculate_netem_config :: "osenv \<Rightarrow> iface_state \<Rightarrow> netem \<Rightarrow> netem \<times> net_err option" where
  "recalculate_netem_config env iface s =
     (let configs = configs_on (if_name iface) (nm_experiments s) in
      if configs = [] then restore_original_qdisc env iface s
      else apply_netem_config env iface (merge_configs configs) s)"

subsection \<open>The operations of the manager\<close>

definition put_iface :: "string \<Rightarrow> iface_state \<Rightarrow> netem \<Rightarrow> netem" where
  "put_iface ifn i s = s\<lparr>nm_interfaces := AList.update ifn i (nm_interfaces s)\<rparr>"

definition put_root :: "string \<Rightarrow> root_qdisc \<Rightarrow> netem \<Rightarrow> netem" where
  "put_root ifn r s = s\<lparr>nm_root_qdiscs := AList.update ifn r (nm_root_qdiscs s)\<rparr>"

definition fresh_iface :: "string \<Rightarrow> gtime \<Rightarrow> iface_state" where
  "fresh_iface ifn now = \<lparr>if_name = ifn, if_has_netem = False, if_original_qdisc = [],
     if_current_config = None, if_last_modified = now, if_has_ingress = False,
     if_ingress_config = None, if_ifb_name = []\<rparr>"

definition fresh_root :: "string \<Rightarrow> root_qdisc" where
  "fresh_root ifn = \<lparr>rq_interface = ifn, rq_has_netem = False, rq_original_qdisc = [],
     rq_current_netem = None, rq_filters = [], rq_last_modified = 0\<rparr>"

definition get_or :: "'v \<Rightarrow> 'k \<Rightarrow> ('k \<times> 'v) list \<Rightarrow> 'v" where
  "get_or d k m = (case map_of m k of None \<Rightarrow> d | Some v \<Rightarrow> v)"

text \<open>A backup returns the possibly updated entry; its error is wrapped and returned.\<close>

definition after_backup :: "netem \<times> 'a \<times> net_err option \<Rightarrow> ('a \<Rightarrow> netem \<Rightarrow> netem \<times> net_err option) \<Rightarrow>
    netem \<times> net_err option" where
  "after_backup r f = (case r of (s, x, Some e) \<Rightarrow> (s, Some (BackupFailed e)) | (s, x, None) \<Rightarrow> f x s)"

text \<open>Recording the experiment and arming its timer, the common end of the three Apply methods.\<close>

definition record_experiment :: "gtime \<Rightarrow> net_experiment \<Rightarrow> netem \<Rightarrow> netem" where
  "record_experiment now e s = s\<lparr>
     nm_experiments := AList.update (ex_id e) e (nm_experiments s),
     nm_timers := (if ex_ttl e > 0 then nm_timers s @ [(now + ex_ttl e, ex_id e)] else nm_timers s)\<rparr>"

definition nm_apply ::
  "osenv \<Rightarrow> gtime \<Rightarrow> string \<Rightarrow> string \<Rightarrow> netem_config \<Rightarrow> duration \<Rightarrow> netem \<Rightarrow> netem \<times> net_err option" where
  "nm_apply env now expID ifn config ttl s =
     ok_then (wrap_err InterfaceValidationFailed (validate_interface env ifn s)) (\<lambda>s.
     let iface = get_or (fresh_iface ifn now) ifn (nm_interfaces s);
         s = put_iface ifn iface s
     in after_backup (if \<not> if_has_netem iface then backup_original_qdisc env iface s
                      else (s, iface, None)) (\<lambda>iface s.
     let s = put_iface ifn iface s in
     ok_then (wrap_err ApplyConfigFailed (apply_netem_config env iface config s)) (\<lambda>s.
     let s = put_iface ifn (iface\<lparr>if_has_netem := True, if_current_config := Some config,
               if_last_modified := now\<rparr>) s
     in (record_experiment now \<lparr>ex_id = expID, ex_interface = ifn, ex_config = config, ex_start = now,
           ex_ttl = ttl, ex_finalizer = ''netem-'' @ expID, ex_filters = [], ex_direction = []\<rparr> s, None))))"

definition filter_id :: "string \<Rightarrow> string \<Rightarrow> string" where
  "filter_id expID ifn = ''filter-'' @ expID @ ''-'' @ ifn"

definition nm_apply_with_filter ::
  "osenv \<Rightarrow> gtime \<Rightarrow> string \<Rightarrow> string \<Rightarrow> netem_config \<Rightarrow> filter_config \<Rightarrow> duration \<Rightarrow> netem
     \<Rightarrow> netem \<times> net_err option" where
  "nm_apply_with_filter env now expID ifn config filt ttl s =
     ok_then (wrap_err InterfaceValidationFailed (validate_interface env ifn s)) (\<lambda>s.
     let rq = get_or (fresh_root ifn) ifn (nm_root_qdiscs s);
         s = put_root ifn rq s
     in after_backup (if \<not> rq_has_netem rq then backup_original_qdisc_for_root env rq s
                      else (s, rq, None)) (\<lambda>rq s.
     let filt = filt\<lparr>fc_id := filter_id expID ifn, fc_created := now\<rparr>;
         rq = rq\<lparr>rq_filters := AList.update (fc_id filt) filt (rq_filters rq)\<rparr>;
         s = put_root ifn rq s
     in ok_then (wrap_err ApplyWithFilterFailed (apply_netem_with_filter env rq config filt s)) (\<lambda>s.
     let s = put_root ifn (rq\<lparr>rq_has_netem := True, rq_current_netem := Some config,
               rq_last_modified := now\<rparr>) s;
         iface = get_or (fresh_iface ifn now) ifn (nm_interfaces s);
         s = put_iface ifn (iface\<lparr>if_has_netem := True, if_current_config := Some config,
               if_last_modified := now\<rparr>) s
     in (record_experiment now \<lparr>ex_id = expID, ex_interface = ifn, ex_config = config, ex_start = now,
           ex_ttl = ttl, ex_finalizer = ''netem-'' @ expID, ex_filters = [fc_id filt],
           ex_direction = ''egress''\<rparr> s, None))))"

definition nm_apply_ingress ::
  "osenv \<Rightarrow> gtime \<Rightarrow> string \<Rightarrow> string \<Rightarrow> netem_config \<Rightarrow> duration \<Rightarrow> netem \<Rightarrow> netem \<times> net_err option" where
  "nm_apply_ingress env now expID ifn config ttl s =
     ok_then (wrap_err InterfaceValidationFailed (validate_interface env ifn s)) (\<lambda>s.
     ok_then (wrap_err IfbModuleNotAvailable (ensure_ifb_module env s)) (\<lambda>s.
     let ifb = ''ifb-'' @ ifn in
     ok_then (wrap_err SetupIfbFailed (setup_ifb_interface env ifn ifb s)) (\<lambda>s.
     ok_then (wrap_err ApplyIfbFailed (apply_netem_to_ifb env ifb config s)) (\<lambda>s.
     let iface = get_or (fresh_iface ifn now) ifn (nm_interfaces s);
         s = put_iface ifn (iface\<lparr>if_has_ingress := True, if_ingress_config := Some config,
               if_last_modified := now, if_ifb_name := ifb\<rparr>) s
     in (record_experiment now \<lparr>ex_id = expID, ex_interface = ifn, ex_config = config, ex_start = now,
           ex_ttl = ttl, ex_finalizer = ''ingress-'' @ expID, ex_filters = [],
           ex_direction = ''ingress''\<rparr> s, None)))))"

definition on_interface :: "string \<Rightarrow> string \<times> net_experiment \<Rightarrow> bool" where
  "on_interface ifn p \<longleftrightarrow> ex_interface (snd p) = ifn"

definition nm_revert :: "osenv \<Rightarrow> string \<Rightarrow> netem \<Rightarrow> netem \<times> net_err option" where
  "nm_revert env expID s = (case map_of (nm_experiments s) expID of
     None \<Rightarrow> (s, Some (ExperimentNotFound expID))
   | Some e \<Rightarrow> (case map_of (nm_interfaces s) (ex_interface e) of
       None \<Rightarrow> (s, Some (InterfaceNotFound (ex_interface e)))
     | Some iface \<Rightarrow>
       let s = s\<lparr>nm_experiments := AList.delete expID (nm_experiments s)\<rparr> in
       if \<not> list_ex (on_interface (ex_interface e)) (nm_experiments s) then
         ok_then (wrap_err RestoreFailed (restore_original_qdisc env iface s)) (\<lambda>s.
           (put_iface (ex_interface e) (iface\<lparr>if_has_netem := False, if_current_config := None\<rparr>) s, None))
       else
         wrap_err RecalculateFailed (recalculate_netem_config env iface s)))"

definition nm_revert_all :: "osenv \<Rightarrow> string \<Rightarrow> netem \<Rightarrow> netem \<times> net_err option" where
  "nm_revert_all env ifn s = (case map_of (nm_interfaces s) ifn of
     None \<Rightarrow> (s, Some (InterfaceNotFound ifn))
   | Some iface \<Rightarrow>
     let s = s\<lparr>nm_experiments := filter (\<lambda>p. \<not> on_interface ifn p) (nm_experiments s)\<rparr> in
     ok_then (wrap_err RestoreFailed (restore_original_qdisc env iface s)) (\<lambda>s.
       (put_iface ifn (iface\<lparr>if_has_netem := False, if_current_config := None\<rparr>) s, None)))"

text \<open>The cleanup goroutine collects the expired experiments, then reverts each.\<close>

definition nm_remove :: "osenv \<Rightarrow> netem \<Rightarrow> string \<Rightarrow> netem" where
  "nm_remove env s k = fst (nm_revert env k s)"

definition nm_cleanup :: "osenv \<Rightarrow> gtime \<Rightarrow> netem \<Rightarrow> netem" where
  "nm_cleanup env now s = sweep (nm_remove env) (expired_keys ex_ttl ex_start now (nm_experiments s)) s"

text \<open>A pending timer fires: the closure calls \<open>Revert\<close> with the identifier it captured.\<close>

definition nm_fire :: "osenv \<Rightarrow> gtime \<times> string \<Rightarrow> netem \<Rightarrow> netem" where
  "nm_fire env t s = fst (nm_revert env (snd t) (s\<lparr>nm_timers := remove1 t (nm_timers s)\<rparr>))"

subsection \<open>Queries, export and import\<close>

record iface_status =
  st_has_netem :: bool
  st_has_ingress :: bool
  st_last_modified :: gtime
  st_experiment_count :: nat
  st_current_config :: "netem_config option option"
  st_ingress_config :: "netem_config option option"
  st_ifb_name :: "string option"

definition nm_get_status :: "netem \<Rightarrow> (string \<times> iface_status) list" where
  "nm_get_status s = map (\<lambda>(name, i). (name, \<lparr>st_has_netem = if_has_netem i,
     st_has_ingress = if_has_ingress i, st_last_modified = if_last_modified i,
     st_experiment_count = length (filter (on_interface name) (nm_experiments s)),
     st_current_config = (if if_has_netem i then Some (if_current_config i) else None),
     st_ingress_config = (if if_has_ingress i then Some (if_ingress_config i) else None),
     st_ifb_name = (if if_has_ingress i then Some (if_ifb_name i) else None)\<rparr>)) (nm_interfaces s)"

definition nm_get_experiment_info :: "string \<Rightarrow> netem \<Rightarrow> net_err + net_experiment" where
  "nm_get_experiment_info expID s = (case map_of (nm_experiments s) expID of
     None \<Rightarrow> Inl (ExperimentNotFound expID) | Some e \<Rightarrow> Inr e)"

definition nm_list_experiments :: "netem \<Rightarrow> net_experiment list" where
  "nm_list_experiments s = map snd (nm_experiments s)"

text \<open>
  The exported structure, before and after its JSON text; \<open>None\<close> is a text that does not
  unmarshal. An import replaces the three maps and starts one more cleanup goroutine.
\<close>

record netem_export =
  ne_interfaces :: "(string \<times> iface_state) list"
  ne_experiments :: "(string \<times> net_experiment) list"
  ne_root_qdiscs :: "(string \<times> root_qdisc) list"
  ne_timestamp :: gtime

definition nm_export_state :: "gtime \<Rightarrow> netem \<Rightarrow> netem_export" where
  "nm_export_state now s = \<lparr>ne_interfaces = nm_interfaces s, ne_experiments = nm_experiments s,
     ne_root_qdiscs = nm_root_qdiscs s, ne_timestamp = now\<rparr>"

definition nm_import_state :: "netem_export option \<Rightarrow> netem \<Rightarrow> netem \<times> net_err option" where
  "nm_import_state d s = (case d of
     None \<Rightarrow> (s, Some UnmarshalStateFailed)
   | Some x \<Rightarrow> (s\<lparr>nm_interfaces := ne_interfaces x, nm_experiments := ne_experiments x,
       nm_root_qdiscs := ne_root_qdiscs x, nm_cleaners := Suc (nm_cleaners s)\<rparr>, None))"

subsection \<open>Runs of the manager\<close>

datatype net_event =
    EvApply gtime string string netem_config duration
  | EvApplyFilter gtime string string netem_config filter_config duration
  | EvApplyIngress gtime string string netem_config duration
  | EvRevert string
  | EvRevertAll string
  | EvCleanup gtime
  | EvTimer "gtime \<times> string"

fun net_step :: "osenv \<Rightarrow> net_event \<Rightarrow> netem \<Rightarrow> netem" where
  "net_step env (EvApply now x ifn c ttl) s = fst (nm_apply env now x ifn c ttl s)"
| "net_step env (EvApplyFilter now x ifn c f ttl) s = fst (nm_apply_with_filter env now x ifn c f ttl s)"
| "net_step env (EvApplyIngress now x ifn c ttl) s = fst (nm_apply_ingress env now x ifn c ttl s)"
| "net_step env (EvRevert x) s = fst (nm_revert env x s)"
| "net_step env (EvRevertAll ifn) s = fst (nm_revert_all env ifn s)"
| "net_step env (EvCleanup now) s = nm_cleanup env now s"
| "net_step env (EvTimer t) s = nm_fire env t s"

fun net_run :: "osenv \<Rightarrow> net_event list \<Rightarrow> netem \<Rightarrow> netem" where
  "net_run env [] s = s"
| "net_run env (e # es) s = net_run env es (net_step env e s)"

inductive net_reachable :: "osenv \<Rightarrow> netem \<Rightarrow> bool" for env where
  net_start: "net_reachable env new_netem_manager"
| net_next: "net_reachable env s \<Longrightarrow> (\<And>t. e = EvTimer t \<Longrightarrow> t \<in> set (nm_timers s)) \<Longrightarrow>
     net_reachable env (net_step env e s)"

subsection \<open>Commands only extend the trace\<close>

definition extends :: "netem \<Rightarrow> netem \<Rightarrow> bool" where
  "extends s s' \<longleftrightarrow> (\<exists>tr. s' = s\<lparr>nm_cmds := nm_cmds s @ tr\<rparr>)"

named_theorems extends_intros "helpers that only run commands"

lemma extends_refl [extends_intros]: "extends s s"
  by (auto simp: extends_def intro: exI [of _ "[]"])

lemma extends_trans: "extends s t \<Longrightarrow> extends t u \<Longrightarrow> extends s u"
  by (force simp: extends_def)

lemma extends_frame:
  assumes "extends s s'"
  shows "nm_interfaces s' = nm_interfaces s" "nm_experiments s' = nm_experiments s"
    "nm_root_qdiscs s' = nm_root_qdiscs s" "nm_timers s' = nm_timers s"
  using assms by (auto simp: extends_def)

lemma exec_output_eq:
  "exec_output env c s = (s\<lparr>nm_cmds := nm_cmds s @ [(c, os_run env (nm_cmds s) c \<noteq> None)]\<rparr>,
     os_run env (nm_cmds s) c)"
  by (simp add: exec_output_def Let_def)

lemma exec_run_eq:
  "exec_run env e c s = (s\<lparr>nm_cmds := nm_cmds s @ [(c, os_run env (nm_cmds s) c \<noteq> None)]\<rparr>,
     if os_run env (nm_cmds s) c = None then Some e else None)"
  by (simp add: exec_run_def exec_output_eq split: option.splits)

lemma extends_exec_run [extends_intros]: "extends s (fst (exec_run env e c s))"
  by (auto simp: exec_run_eq extends_def)

lemma extends_ok_then [extends_intros]:
  "extends s (fst r) \<Longrightarrow> (\<And>s'. extends s' (fst (f s'))) \<Longrightarrow> extends s (fst (ok_then r f))"
  by (auto simp: ok_then_cases intro: extends_trans)

lemma extends_validate [extends_intros]: "extends s (fst (validate_interface env ifn s))"
  unfolding validate_interface_def by (intro extends_ok_then) (auto intro: extends_intros)

lemma extends_apply_config [extends_intros]: "extends s (fst (apply_netem_config env i c s))"
  by (simp add: apply_netem_config_def extends_intros)

lemma extends_atomic [extends_intros]: "extends s (fst (apply_netem_config_atomic env r c s))"
  by (simp add: apply_netem_config_atomic_def extends_intros)

lemma extends_u32 [extends_intros]: "extends s (fst (add_u32_filter env ifn f s))"
  by (simp add: add_u32_filter_def extends_intros)

lemma extends_with_filter [extends_intros]: "extends s (fst (apply_netem_with_filter env r c f s))"
  unfolding apply_netem_with_filter_def by (intro extends_ok_then) (auto intro: extends_intros)

lemma extends_ifb_module [extends_intros]: "extends s (fst (ensure_ifb_module env s))"
  by (simp add: ensure_ifb_module_def extends_intros)

lemma extends_run_steps [extends_intros]: "extends s (fst (run_steps env i cs s))"
  by (induction cs arbitrary: i s) (auto intro: extends_intros)

lemma extends_setup_ifb [extends_intros]: "extends s (fst (setup_ifb_interface env a b s))"
  by (simp add: setup_ifb_interface_def extends_intros)

lemma extends_to_ifb [extends_intros]: "extends s (fst (apply_netem_to_ifb env b c s))"
  by (simp add: apply_netem_to_ifb_def extends_intros)

lemma extends_restore [extends_intros]: "extends s (fst (restore_original_qdisc env i s))"
  by (simp add: restore_original_qdisc_def extends_intros)

lemma extends_recalculate [extends_intros]: "extends s (fst (recalculate_netem_config env i s))"
  by (simp add: recalculate_netem_config_def Let_def extends_intros)

lemma backup_iface:
  assumes "backup_original_qdisc env iface s = (s', iface', err)"
  shows "extends s s'" "\<exists>q. iface' = iface\<lparr>if_original_qdisc := q\<rparr>"
proof -
  show "extends s s'"
    using assms by (auto simp: backup_original_qdisc_def exec_output_eq extends_def split: option.splits)
  have "\<exists>q. iface = iface\<lparr>if_original_qdisc := q\<rparr>" by (rule exI [of _ "if_original_qdisc iface"]) simp
  then show "\<exists>q. iface' = iface\<lparr>if_original_qdisc := q\<rparr>"
    using assms by (auto simp: backup_original_qdisc_def exec_output_eq split: option.splits)
qed

lemma backup_root:
  assumes "backup_original_qdisc_for_root env rq s = (s', rq', err)"
  shows "extends s s'" "\<exists>q. rq' = rq\<lparr>rq_original_qdisc := q\<rparr>"
proof -
  show "extends s s'"
    using assms by (auto simp: backup_original_qdisc_for_root_def exec_output_eq extends_def split: option.splits)
  have "\<exists>q. rq = rq\<lparr>rq_original_qdisc := q\<rparr>" by (rule exI [of _ "rq_original_qdisc rq"]) simp
  then show "\<exists>q. rq' = rq\<lparr>rq_original_qdisc := q\<rparr>"
    using assms by (auto simp: backup_original_qdisc_for_root_def exec_output_eq split: option.splits)
qed

subsection \<open>The manager's invariant\<close>

text \<open>
  Keys name their entries, every running experiment's interface is registered and marked as
  impaired (egress or ingress), and an interface is marked exactly when it has a configuration.
\<close>

definition iface_ok :: "string \<Rightarrow> iface_state \<Rightarrow> bool" where
  "iface_ok n i \<longleftrightarrow> if_name i = n \<and> (if_has_netem i \<longleftrightarrow> if_current_config i \<noteq> None) \<and>
     (if_has_ingress i \<longleftrightarrow> if_ingress_config i \<noteq> None)"

definition impaired :: "iface_state \<Rightarrow> bool" where
  "impaired i \<longleftrightarrow> if_has_netem i \<or> if_has_ingress i"

definition root_ok :: "string \<Rightarrow> root_qdisc \<Rightarrow> bool" where
  "root_ok n r \<longleftrightarrow> rq_interface r = n \<and> distinct (keys (rq_filters r))"

definition nm_inv :: "netem \<Rightarrow> bool" where
  "nm_inv s \<longleftrightarrow> distinct (keys (nm_interfaces s)) \<and> distinct (keys (nm_experiments s)) \<and>
     (\<forall>n i. map_of (nm_interfaces s) n = Some i \<longrightarrow> iface_ok n i) \<and>
     (\<forall>n r. map_of (nm_root_qdiscs s) n = Some r \<longrightarrow> root_ok n r) \<and>
     (\<forall>k e. map_of (nm_experiments s) k = Some e \<longrightarrow> ex_id e = k \<and>
        (\<exists>i. map_of (nm_interfaces s) (ex_interface e) = Some i \<and> impaired i))"

lemma nm_inv_new [simp]: "nm_inv new_netem_manager"
  by (simp add: nm_inv_def new_netem_manager_def)

lemma nm_inv_extends: "extends s s' \<Longrightarrow> nm_inv s \<Longrightarrow> nm_inv s'"
  by (auto simp: extends_def nm_inv_def)

lemma nm_inv_put_iface:
  assumes "nm_inv s" and "iface_ok n i"
    and "\<And>k e. map_of (nm_experiments s) k = Some e \<Longrightarrow> ex_interface e = n \<Longrightarrow> impaired i"
  shows "nm_inv (put_iface n i s)"
  using assms unfolding nm_inv_def put_iface_def by (auto simp: map_of_update)

lemma nm_inv_put_root: "nm_inv s \<Longrightarrow> root_ok n r \<Longrightarrow> nm_inv (put_root n r s)"
  unfolding nm_inv_def put_root_def by (auto simp: map_of_update)

lemma nm_inv_record:
  assumes "nm_inv s" and "map_of (nm_interfaces s) (ex_interface e) = Some i" and "impaired i"
  shows "nm_inv (record_experiment now e s)"
  using assms unfolding nm_inv_def record_experiment_def by (auto simp: map_of_update)

lemma nm_invD_iface: "nm_inv s \<Longrightarrow> map_of (nm_interfaces s) n = Some i \<Longrightarrow> iface_ok n i"
  by (simp add: nm_inv_def)

lemma nm_invD_exp:
  "nm_inv s \<Longrightarrow> map_of (nm_experiments s) k = Some e \<Longrightarrow>
    ex_id e = k \<and> (\<exists>i. map_of (nm_interfaces s) (ex_interface e) = Some i \<and> impaired i)"
  unfolding nm_inv_def by blast

lemma nm_invD_distinct: "nm_inv s \<Longrightarrow> distinct (keys (nm_experiments s))"
  by (simp add: nm_inv_def)

lemma iface_ok_get: "nm_inv s \<Longrightarrow> iface_ok n (get_or (fresh_iface n now) n (nm_interfaces s))"
  using nm_invD_iface [of s n] by (auto simp: get_or_def iface_ok_def fresh_iface_def split: option.splits)

lemma impaired_get:
  "nm_inv s \<Longrightarrow> map_of (nm_experiments s) k = Some e \<Longrightarrow> ex_interface e = n \<Longrightarrow>
    impaired (get_or d n (nm_interfaces s))"
  by (drule nm_invD_exp [of s k e]) (auto simp: get_or_def)

lemma root_ok_get: "nm_inv s \<Longrightarrow> root_ok n (get_or (fresh_root n) n (nm_root_qdiscs s))"
  unfolding nm_inv_def by (auto simp: get_or_def root_ok_def fresh_root_def split: option.splits)

lemma map_of_put_iface [simp]: "map_of (nm_interfaces (put_iface n i s)) = (map_of (nm_interfaces s))(n \<mapsto> i)"
  by (simp add: put_iface_def map_of_update)

lemma put_frame [simp]:
  "nm_experiments (put_iface n i s) = nm_experiments s" "nm_root_qdiscs (put_iface n i s) = nm_root_qdiscs s"
  "nm_timers (put_iface n i s) = nm_timers s" "nm_cmds (put_iface n i s) = nm_cmds s"
  "nm_experiments (put_root n r s) = nm_experiments s" "nm_interfaces (put_root n r s) = nm_interfaces s"
  "nm_timers (put_root n r s) = nm_timers s" "nm_cmds (put_root n r s) = nm_cmds s"
  by (simp_all add: put_iface_def put_root_def)

text \<open>An interface entry held by an operation: the state is fine with it stored back.\<close>

definition held :: "string \<Rightarrow> iface_state \<Rightarrow> netem \<Rightarrow> bool" where
  "held n i s \<longleftrightarrow> nm_inv s \<and> iface_ok n i \<and>
     (\<forall>k e. map_of (nm_experiments s) k = Some e \<longrightarrow> ex_interface e = n \<longrightarrow> impaired i)"

lemma heldD: "held n i s \<Longrightarrow> nm_inv s"
  by (simp add: held_def)

lemma held_get: "nm_inv s \<Longrightarrow> held n (get_or (fresh_iface n now) n (nm_interfaces s)) s"
  by (simp add: held_def iface_ok_get impaired_get)

lemma held_get_root: "nm_inv s \<Longrightarrow> root_ok m r \<Longrightarrow>
    held n (get_or (fresh_iface n now) n (nm_interfaces s)) (put_root m r s)"
  using held_get [OF nm_inv_put_root] by simp

lemma held_put: "held n i s \<Longrightarrow> held n i (put_iface n i s)"
  by (auto simp: held_def intro!: nm_inv_put_iface)

lemma held_extends: "held n i s \<Longrightarrow> extends s s' \<Longrightarrow> held n i s'"
  using nm_inv_extends [of s s'] extends_frame(2) [of s s'] unfolding held_def by simp

lemma qdisc_frame [simp]:
  "iface_ok n (i\<lparr>if_original_qdisc := q\<rparr>) = iface_ok n i"
  "impaired (i\<lparr>if_original_qdisc := q\<rparr>) = impaired i"
  by (simp_all add: iface_ok_def impaired_def)

lemma held_qdisc: "held n i s \<Longrightarrow> held n (i\<lparr>if_original_qdisc := q\<rparr>) s"
  by (simp add: held_def)

lemma held_backup:
  assumes "held n i s"
    and "(if \<not> if_has_netem i then backup_original_qdisc env i s else (s, i, None)) = (s', i', e)"
  shows "held n i' s'"
proof (cases "if_has_netem i")
  case False
  then have "backup_original_qdisc env i s = (s', i', e)" using assms(2) by simp
  from backup_iface [OF this] show ?thesis
    using held_qdisc [OF held_extends [OF assms(1)]] by auto
qed (use assms in auto)

lemma held_mark_netem: "held n i s \<Longrightarrow> held n (i\<lparr>if_has_netem := True, if_current_config := Some c, if_last_modified := t\<rparr>) s"
  by (simp add: held_def iface_ok_def impaired_def)

lemma held_mark_ingress: "held n i s \<Longrightarrow> held n (i\<lparr>if_has_ingress := True, if_ingress_config := Some c,
    if_last_modified := t, if_ifb_name := b\<rparr>) s"
  by (simp add: held_def iface_ok_def impaired_def)

lemma held_record:
  assumes "held n i s" and "impaired i" and "ex_interface e = n"
  shows "nm_inv (record_experiment now e (put_iface n i s))"
  using assms heldD [OF held_put [OF assms(1)]] by (intro nm_inv_record) auto

lemma after_backup_pres:
  assumes "\<And>s x e. r = (s, x, e) \<Longrightarrow> Q x s"
    and "\<And>s x. Q x s \<Longrightarrow> P s" and "\<And>s x. Q x s \<Longrightarrow> P (fst (f x s))"
  shows "P (fst (after_backup r f))"
  using assms by (auto simp: after_backup_def split: prod.splits option.splits)

lemma nm_inv_apply: "nm_inv s \<Longrightarrow> nm_inv (fst (nm_apply env now x ifn c ttl s))"
  unfolding nm_apply_def Let_def
proof (rule ok_then_pres [where P = nm_inv], goal_cases)
  case 1
  then show ?case using nm_inv_extends [OF extends_validate] by simp
next
  case (3 s)
  note inv = 3(2)
  show ?case
  proof (rule after_backup_pres [where Q = "held ifn"], goal_cases)
    case (1 s' i e)
    then show ?case by (rule held_backup [OF held_put [OF held_get [OF inv]]])
  next
    case (3 s' i)
    show ?case
      by (rule ok_then_pres [where P = "held ifn i"])
        (auto intro: held_extends [OF held_put [OF 3] extends_apply_config] held_record held_mark_netem
           heldD simp: impaired_def)
  qed (rule heldD)
qed

lemma root_ok_filter:
  "root_ok n r \<Longrightarrow> root_ok n (r\<lparr>rq_filters := AList.update k f (rq_filters r)\<rparr>)"
  by (simp add: root_ok_def)

lemma root_ok_fields:
  "root_ok n (r\<lparr>rq_original_qdisc := q\<rparr>) = root_ok n r"
  "root_ok n (r\<lparr>rq_has_netem := b, rq_current_netem := c, rq_last_modified := t\<rparr>) = root_ok n r"
  by (simp_all add: root_ok_def)

lemma root_ok_backup:
  assumes "nm_inv s" and "root_ok n r"
    and "(if \<not> rq_has_netem r then backup_original_qdisc_for_root env r s else (s, r, None)) = (s', r', e)"
  shows "nm_inv s' \<and> root_ok n r'"
proof (cases "rq_has_netem r")
  case False
  then have "backup_original_qdisc_for_root env r s = (s', r', e)" using assms(3) by simp
  from backup_root [OF this] show ?thesis
    using nm_inv_extends [OF _ assms(1)] assms(2) by (auto simp: root_ok_fields)
qed (use assms in auto)

lemma nm_inv_apply_with_filter: "nm_inv s \<Longrightarrow> nm_inv (fst (nm_apply_with_filter env now x ifn c f ttl s))"
  unfolding nm_apply_with_filter_def Let_def
proof (rule ok_then_pres [where P = nm_inv], goal_cases)
  case 1
  then show ?case using nm_inv_extends [OF extends_validate] by simp
next
  case (3 s)
  note inv = 3(2)
  show ?case
  proof (rule after_backup_pres [where Q = "\<lambda>r s. nm_inv s \<and> root_ok ifn r"], goal_cases)
    case (1 s' r e)
    then show ?case by (rule root_ok_backup [OF nm_inv_put_root [OF inv root_ok_get [OF inv]] root_ok_get [OF inv]])
  next
    case (3 s' r)
    show ?case
    proof (rule ok_then_pres [where P = nm_inv], goal_cases)
      case 1
      show ?case using 3 by (auto intro: nm_inv_extends [OF extends_with_filter] nm_inv_put_root root_ok_filter)
    next
      case (3 t)
      show ?case
        using \<open>nm_inv s' \<and> root_ok ifn r\<close> 3
        by (auto simp: impaired_def root_ok_fields intro!: held_record held_mark_netem held_get_root root_ok_filter)
    qed
  qed auto
qed

lemma nm_inv_apply_ingress: "nm_inv s \<Longrightarrow> nm_inv (fst (nm_apply_ingress env now x ifn c ttl s))"
proof -
  have fin: "nm_inv (record_experiment now e (put_iface ifn ((get_or (fresh_iface ifn now) ifn (nm_interfaces s))
      \<lparr>if_has_ingress := True, if_ingress_config := Some c, if_last_modified := now, if_ifb_name := b\<rparr>) s))"
    if "nm_inv s" "ex_interface e = ifn" for s e b
    using that by (intro held_record held_mark_ingress held_get) (simp_all add: impaired_def)
  note pres = ok_then_pres [where P = nm_inv and Q = nm_inv]
  show "nm_inv s \<Longrightarrow> ?thesis"
    unfolding nm_apply_ingress_def Let_def
    apply (rule pres, simp add: nm_inv_extends [OF extends_validate], assumption)
    apply (rule pres, simp add: nm_inv_extends [OF extends_ifb_module], assumption)
    apply (rule pres, simp add: nm_inv_extends [OF extends_setup_ifb], assumption)
    apply (rule pres, simp add: nm_inv_extends [OF extends_to_ifb], assumption)
    by (simp add: fin)
qed

lemma list_ex_on_interface:
  assumes "distinct (keys m)"
  shows "list_ex (on_interface n) m \<longleftrightarrow> (\<exists>k e. map_of m k = Some e \<and> ex_interface e = n)"
  unfolding map_of_eq_Some_iff [OF assms] list_ex_iff on_interface_def by force

lemma nm_inv_remove_exp:
  "nm_inv s \<Longrightarrow> nm_inv (s\<lparr>nm_experiments := AList.delete x (nm_experiments s)\<rparr>)"
  unfolding nm_inv_def by (auto simp: map_of_delete simp del: map_of_eq_Some_iff)

lemma nm_inv_unmark:
  assumes "nm_inv s" and "map_of (nm_interfaces s) n = Some i" and "\<not> list_ex (on_interface n) (nm_experiments s)"
  shows "held n (i\<lparr>if_has_netem := False, if_current_config := None\<rparr>) s"
  using assms nm_invD_iface [OF assms(1,2)] list_ex_on_interface [OF nm_invD_distinct [OF assms(1)], of n]
  by (auto simp: held_def iface_ok_def)

lemma nm_inv_restore:
  assumes "nm_inv s" and "map_of (nm_interfaces s) n = Some i" and "\<not> list_ex (on_interface n) (nm_experiments s)"
  shows "nm_inv (fst (ok_then (wrap_err RestoreFailed (restore_original_qdisc env i s)) (\<lambda>s.
           (put_iface n (i\<lparr>if_has_netem := False, if_current_config := None\<rparr>) s, None))))"
  by (rule ok_then_pres [where P = "held n (i\<lparr>if_has_netem := False, if_current_config := None\<rparr>)"])
    (auto intro: heldD held_put held_extends [OF nm_inv_unmark [OF assms] extends_restore])

lemma nm_inv_revert: "nm_inv s \<Longrightarrow> nm_inv (fst (nm_revert env x s))"
  unfolding nm_revert_def Let_def
  using nm_inv_remove_exp [of s x]
  by (auto intro: nm_inv_restore nm_inv_extends [OF extends_recalculate] split: option.split)

lemma nm_inv_drop_interface:
  assumes "nm_inv s"
  shows "nm_inv (s\<lparr>nm_experiments := filter (\<lambda>p. \<not> on_interface n p) (nm_experiments s)\<rparr>)"
proof -
  have d: "distinct (keys (filter (\<lambda>p. \<not> on_interface n p) (nm_experiments s)))"
    using nm_invD_distinct [OF assms] by (simp add: distinct_map_filter)
  then show ?thesis
    using assms unfolding nm_inv_def
    by (simp add: map_of_eq_Some_iff [OF d] map_of_eq_Some_iff [OF nm_invD_distinct [OF assms]]
        del: map_of_eq_Some_iff) blast
qed

lemma nm_inv_revert_all: "nm_inv s \<Longrightarrow> nm_inv (fst (nm_revert_all env n s))"
  unfolding nm_revert_all_def Let_def
  using nm_inv_drop_interface [of s n]
  by (auto simp: list_ex_iff intro!: nm_inv_restore split: option.split)

subsection \<open>What a revert does to the experiments\<close>

lemma revert_experiments:
  assumes "nm_inv s"
  shows "map_of (nm_experiments (fst (nm_revert env x s))) = (map_of (nm_experiments s))(x := None)"
proof (cases "map_of (nm_experiments s) x")
  case None
  then show ?thesis by (simp add: nm_revert_def fun_upd_idem)
next
  case (Some e)
  then obtain i where i: "map_of (nm_interfaces s) (ex_interface e) = Some i"
    using nm_invD_exp [OF assms Some] by blast
  show ?thesis
    using Some i by (simp add: nm_revert_def Let_def ok_then_cases map_of_delete
        extends_frame(2) [OF extends_restore] extends_frame(2) [OF extends_recalculate])
qed

interpretation netem_ttl: ttl_registry_total nm_experiments ex_ttl ex_start "nm_remove env" nm_inv for env
proof
  fix s :: netem and k k' :: string
  assume inv: "nm_inv s"
  show "distinct (keys (nm_experiments s))" by (rule nm_invD_distinct [OF inv])
  show "nm_inv (nm_remove env s k)" unfolding nm_remove_def by (rule nm_inv_revert [OF inv])
  show "k' \<noteq> k \<Longrightarrow> map_of (nm_experiments (nm_remove env s k)) k' = map_of (nm_experiments s) k'"
    by (simp add: nm_remove_def revert_experiments [OF inv])
  show gone: "map_of (nm_experiments (nm_remove env s k)) k = None"
    by (simp add: nm_remove_def revert_experiments [OF inv])
  then show "map_of (nm_experiments (nm_remove env s k)) k = None \<or>
      map_of (nm_experiments (nm_remove env s k)) k = map_of (nm_experiments s) k" ..
qed

lemma nm_inv_timers [simp]: "nm_inv (s\<lparr>nm_timers := ts\<rparr>) = nm_inv s"
  by (simp add: nm_inv_def)

lemma nm_inv_step: "nm_inv s \<Longrightarrow> nm_inv (net_step env e s)"
  by (cases e) (simp_all add: nm_inv_apply nm_inv_apply_with_filter nm_inv_apply_ingress nm_inv_revert
      nm_inv_revert_all nm_cleanup_def netem_ttl.sweep_invar nm_fire_def)

lemma reachable_nm_inv: "net_reachable env s \<Longrightarrow> nm_inv s"
  by (induction rule: net_reachable.induct) (simp_all add: nm_inv_step)

subsection \<open>The argument builders\<close>

lemma netem_config_args_eq:
  "netem_config_args i c = build_netem_args
     [''tc'', ''qdisc'', qdisc_verb (if_has_netem i), ''dev'', if_name i, ''root'', ''netem''] c"
  by (simp add: netem_config_args_def build_netem_args_def Let_def qdisc_verb_def)

lemma build_netem_args_prefix: "\<exists>opts. build_netem_args args c = args @ opts"
  by (auto simp: build_netem_args_def)

lemma take_build_netem_args: "n \<le> length args \<Longrightarrow> take n (build_netem_args args c) = take n args"
  using build_netem_args_prefix [of args c] by auto

subsection \<open>The bookkeeping against the commands that were run\<close>

text \<open>
  The specification reads the trace of successful commands: a netem qdisc is installed at the
  root of device \<open>n\<close> by \<open>tc qdisc add dev n root netem ...\<close> and removed by
  \<open>tc qdisc del dev n root\<close>; \<open>tc qdisc change\<close> keeps it.
\<close>

definition netem_effect :: "string \<Rightarrow> cmd \<Rightarrow> bool \<Rightarrow> bool" where
  "netem_effect n c on =
     (if take 7 c = [''tc'', ''qdisc'', ''add'', ''dev'', n, ''root'', ''netem''] then True
      else if c = del_root_qdisc n then False else on)"

definition netem_on :: "string \<Rightarrow> (cmd \<times> bool) list \<Rightarrow> bool" where
  "netem_on n tr = foldl (\<lambda>on (c, ok). if ok then netem_effect n c on else on) False tr"

lemma netem_on_Nil [simp]: "\<not> netem_on n []"
  by (simp add: netem_on_def)

lemma netem_on_snoc [simp]:
  "netem_on n (tr @ [(c, ok)]) = (if ok then netem_effect n c (netem_on n tr) else netem_on n tr)"
  by (simp add: netem_on_def)

lemma netem_effect_simps [simp]:
  "netem_effect n [''ip'', ''link'', ''show'', m] on = on"
  "netem_effect n [''modprobe'', m] on = on"
  "netem_effect n [''tc'', ''qdisc'', ''show'', ''dev'', m] on = on"
  "netem_effect n (del_root_qdisc m) on = (if n = m then False else on)"
  by (auto simp: netem_effect_def del_root_qdisc_def)

lemma netem_effect_config [simp]:
  "netem_effect n (netem_config_args i c) on = (if \<not> if_has_netem i \<and> if_name i = n then True else on)"
proof -
  obtain opts where opts: "netem_config_args i c =
     [''tc'', ''qdisc'', qdisc_verb (if_has_netem i), ''dev'', if_name i, ''root'', ''netem''] @ opts"
    using build_netem_args_prefix netem_config_args_eq by metis
  show ?thesis by (auto simp: opts netem_effect_def del_root_qdisc_def qdisc_verb_def)
qed


definition marked :: "string \<Rightarrow> netem \<Rightarrow> bool" where
  "marked n s \<longleftrightarrow> (case map_of (nm_interfaces s) n of None \<Rightarrow> False | Some i \<Rightarrow> if_has_netem i)"

definition no_ingress :: "netem \<Rightarrow> bool" where
  "no_ingress s \<longleftrightarrow> (\<forall>n i. map_of (nm_interfaces s) n = Some i \<longrightarrow> \<not> if_has_ingress i)"

definition in_sync :: "netem \<Rightarrow> bool" where
  "in_sync s \<longleftrightarrow> nm_inv s \<and> no_ingress s \<and> (\<forall>n. marked n s \<longleftrightarrow> netem_on n (nm_cmds s))"

fun egress_event :: "net_event \<Rightarrow> bool" where
  "egress_event (EvApplyFilter now x ifn c f ttl) = False"
| "egress_event (EvApplyIngress now x ifn c ttl) = False"
| "egress_event _ = True"

text \<open>Commands that leave every root netem as it is.\<close>

definition quiet :: "netem \<Rightarrow> netem \<Rightarrow> bool" where
  "quiet s s' \<longleftrightarrow> extends s s' \<and> (\<forall>n. netem_on n (nm_cmds s') = netem_on n (nm_cmds s))"

lemma quiet_trans: "quiet s t \<Longrightarrow> quiet t u \<Longrightarrow> quiet s u"
  by (auto simp: quiet_def intro: extends_trans)

lemma quiet_extends: "quiet s t \<Longrightarrow> extends s t"
  by (simp add: quiet_def)

lemma quiet_exec_run:
  "(\<And>n on. netem_effect n c on = on) \<Longrightarrow> quiet s (fst (exec_run env e c s))"
  using extends_exec_run [of s env e c] by (auto simp: quiet_def exec_run_eq)

lemma quiet_validate: "quiet s (fst (validate_interface env ifn s))"
proof -
  have 1: "quiet s (fst (exec_run env (InterfaceDoesNotExist ifn) [''ip'', ''link'', ''show'', ifn] s))"
    by (rule quiet_exec_run) simp
  have 2: "quiet t (fst (exec_run env NetemModuleNotAvailable [''modprobe'', ''sch_netem''] t))" for t
    by (rule quiet_exec_run) simp
  show ?thesis
    using 1 2 by (auto simp: validate_interface_def ok_then_cases intro: quiet_trans)
qed

lemma in_sync_quiet: "quiet s s' \<Longrightarrow> in_sync s \<Longrightarrow> in_sync s'"
  using nm_inv_extends [of s s'] extends_frame(1) [of s s']
  unfolding in_sync_def quiet_def marked_def no_ingress_def by auto

lemma quiet_backup:
  assumes "backup_original_qdisc env i s = (s', i', e)"
  shows "quiet s s'"
  using backup_iface(1) [OF assms] assms
  by (auto simp: quiet_def backup_original_qdisc_def exec_output_eq split: option.splits)

text \<open>Storing back an entry whose netem flag is the one in force.\<close>

lemma in_sync_put:
  assumes "nm_inv (put_iface n i s)" and "no_ingress s" and "\<not> if_has_ingress i"
    and "\<And>m. m \<noteq> n \<Longrightarrow> marked m s \<longleftrightarrow> netem_on m (nm_cmds s)" and "if_has_netem i \<longleftrightarrow> netem_on n (nm_cmds s)"
  shows "in_sync (put_iface n i s)"
  using assms by (auto simp: in_sync_def marked_def no_ingress_def)

lemma marked_extends: "extends s s' \<Longrightarrow> marked n s' = marked n s"
  by (simp add: marked_def extends_frame)

lemma no_ingress_extends: "extends s s' \<Longrightarrow> no_ingress s' = no_ingress s"
  by (simp add: no_ingress_def extends_frame)

lemma netem_on_run:
  "netem_on n (nm_cmds (fst (exec_run env e c s))) =
     (if snd (exec_run env e c s) = None then netem_effect n c (netem_on n (nm_cmds s)) else netem_on n (nm_cmds s))"
  by (auto simp: exec_run_eq)


definition held_sync :: "string \<Rightarrow> iface_state \<Rightarrow> netem \<Rightarrow> bool" where
  "held_sync n i s \<longleftrightarrow> held n i s \<and> no_ingress s \<and> \<not> if_has_ingress i \<and>
     (\<forall>m. m \<noteq> n \<longrightarrow> (marked m s \<longleftrightarrow> netem_on m (nm_cmds s))) \<and> (if_has_netem i \<longleftrightarrow> netem_on n (nm_cmds s))"

lemma held_sync_quiet: "held_sync n i s \<Longrightarrow> quiet s s' \<Longrightarrow> held_sync n i s'"
  using held_extends [of n i s s'] marked_extends [of s s'] no_ingress_extends [of s s']
  by (simp add: held_sync_def quiet_def)

lemma held_sync_put: "held_sync n i s \<Longrightarrow> held_sync n i (put_iface n i s) \<and> in_sync (put_iface n i s)"
  using held_put [of n i s] heldD [OF held_put [of n i s]]
  by (auto simp: held_sync_def in_sync_def marked_def no_ingress_def)

lemma held_sync_get: "in_sync s \<Longrightarrow> held_sync n (get_or (fresh_iface n now) n (nm_interfaces s)) s"
  using held_get [of s n now] spec [of "\<lambda>m. marked m s = netem_on m (nm_cmds s)" n]
  by (cases "map_of (nm_interfaces s) n")
    (auto simp: held_sync_def in_sync_def get_or_def marked_def no_ingress_def fresh_iface_def)

lemma held_sync_stored: "in_sync s \<Longrightarrow> map_of (nm_interfaces s) n = Some i \<Longrightarrow> held_sync n i s"
  using held_sync_get [of s n 0] by (simp add: get_or_def)

lemma held_sync_qdisc: "held_sync n i s \<Longrightarrow> held_sync n (i\<lparr>if_original_qdisc := q\<rparr>) s"
  by (simp add: held_sync_def held_qdisc)

lemma held_sync_name: "held_sync n i s \<Longrightarrow> if_name i = n"
  by (simp add: held_sync_def held_def iface_ok_def)

lemma quiet_failed: "snd (exec_run env e c s) \<noteq> None \<Longrightarrow> quiet s (fst (exec_run env e c s))"
  using extends_exec_run [of s env e c] unfolding quiet_def netem_on_run by auto

lemma in_sync_record: "in_sync s \<Longrightarrow> marked (ex_interface e) s \<Longrightarrow> in_sync (record_experiment now e s)"
  by (cases "map_of (nm_interfaces s) (ex_interface e)")
    (auto simp: in_sync_def marked_def no_ingress_def impaired_def record_experiment_def
       dest: nm_inv_record [of s e _ now])

lemma held_sync_applied:
  assumes "held_sync n i s" and "snd (apply_netem_config env i c s) = None"
  shows "held_sync n (i\<lparr>if_has_netem := True, if_current_config := Some d, if_last_modified := t\<rparr>)
    (fst (apply_netem_config env i c s))"
  using assms held_mark_netem [OF held_extends [OF _ extends_apply_config [of s env i c]], where n = n and i = i and c = d and t = t]
    marked_extends [OF extends_apply_config [of s env i c]]
    no_ingress_extends [OF extends_apply_config [of s env i c]]
  by (auto simp: held_sync_def apply_netem_config_def netem_on_run held_def iface_ok_def)

lemma in_sync_apply: "in_sync s \<Longrightarrow> in_sync (fst (nm_apply env now x ifn c ttl s))"
  unfolding nm_apply_def Let_def
proof (rule ok_then_pres [where P = in_sync], goal_cases)
  case 1
  then show ?case using in_sync_quiet [OF quiet_validate] by simp
next
  case (3 s)
  note sync = 3(2)
  show ?case
  proof (rule after_backup_pres [where Q = "\<lambda>i s. in_sync s \<and> held_sync ifn i s"], goal_cases)
    case (1 s' i e)
    note put = held_sync_put [OF held_sync_get [OF sync, of ifn now]]
    show ?case
    proof (cases "if_has_netem (get_or (fresh_iface ifn now) ifn (nm_interfaces s))")
      case False
      with 1 have b: "backup_original_qdisc env (get_or (fresh_iface ifn now) ifn (nm_interfaces s))
          (put_iface ifn (get_or (fresh_iface ifn now) ifn (nm_interfaces s)) s) = (s', i, e)" by simp
      from put quiet_backup [OF b] backup_iface(2) [OF b] show ?thesis
        by (auto intro: in_sync_quiet held_sync_quiet held_sync_qdisc)
    next
      case True
      with 1 have "s' = put_iface ifn i s \<and> i = get_or (fresh_iface ifn now) ifn (nm_interfaces s)" by auto
      with put show ?thesis by simp
    qed
  next
    case (3 s' i)
    then have h: "held_sync ifn i (put_iface ifn i s')" and p: "in_sync (put_iface ifn i s')"
      using held_sync_put by auto
    let ?r = "apply_netem_config env i c (put_iface ifn i s')"
    show ?case
    proof (cases "snd ?r = None")
      case True
      then show ?thesis
        using held_sync_put [OF held_sync_applied [OF h True, where d = c and t = now]]
        by (auto simp: ok_then_cases marked_def intro: in_sync_record)
    next
      case False
      then have "quiet (put_iface ifn i s') (fst ?r)"
        unfolding apply_netem_config_def by (rule quiet_failed)
      then show ?thesis using False in_sync_quiet [OF _ p] by (auto simp: ok_then_cases)
    qed
  qed simp
qed


lemma restore_eq: "restore_original_qdisc env i s = exec_run env
    (if if_original_qdisc i = [] then DeleteQdiscFailed else RemoveNetemFailed) (del_root_qdisc (if_name i)) s"
  by (simp add: restore_original_qdisc_def)

lemma held_sync_restored:
  assumes "held_sync n i s" and "\<not> list_ex (on_interface n) (nm_experiments s)"
    and "snd (restore_original_qdisc env i s) = None"
  shows "held_sync n (i\<lparr>if_has_netem := False, if_current_config := None\<rparr>) (fst (restore_original_qdisc env i s))"
proof -
  have inv: "nm_inv s" using assms(1) by (simp add: held_sync_def held_def)
  have "held n (i\<lparr>if_has_netem := False, if_current_config := None\<rparr>) s"
    using assms(1,2) list_ex_on_interface [OF nm_invD_distinct [OF inv], of n]
    by (auto simp: held_sync_def held_def iface_ok_def)
  from held_extends [OF this extends_restore [of s env i]] show ?thesis
    using assms marked_extends [OF extends_restore [of s env i]] no_ingress_extends [OF extends_restore [of s env i]]
      held_sync_name [OF assms(1)]
    by (auto simp: held_sync_def restore_eq netem_on_run)
qed

lemma in_sync_restore:
  assumes "in_sync s" and "map_of (nm_interfaces s) n = Some i" and "\<not> list_ex (on_interface n) (nm_experiments s)"
  shows "in_sync (fst (ok_then (wrap_err RestoreFailed (restore_original_qdisc env i s)) (\<lambda>s.
           (put_iface n (i\<lparr>if_has_netem := False, if_current_config := None\<rparr>) s, None))))"
proof (cases "snd (restore_original_qdisc env i s) = None")
  case True
  then show ?thesis
    using held_sync_put [OF held_sync_restored [OF held_sync_stored [OF assms(1,2)] assms(3) True]]
    by (simp add: ok_then_cases)
next
  case False
  then have "quiet s (fst (restore_original_qdisc env i s))"
    unfolding restore_eq by (rule quiet_failed)
  then show ?thesis using False in_sync_quiet [OF _ assms(1)] by (auto simp: ok_then_cases)
qed

lemma configs_on_Nil_iff: "configs_on n m = [] \<longleftrightarrow> \<not> list_ex (on_interface n) m"
  by (auto simp: configs_on_def on_interface_def filter_empty_conv list_ex_iff)

lemma in_sync_recalculate:
  assumes "in_sync s" and "map_of (nm_interfaces s) n = Some i" and "list_ex (on_interface n) (nm_experiments s)"
  shows "in_sync (fst (recalculate_netem_config env i s))"
proof -
  have inv: "nm_inv s" using assms(1) by (simp add: in_sync_def)
  have h: "held_sync n i s" by (rule held_sync_stored [OF assms(1,2)])
  then have "if_has_netem i"
    using assms(3) list_ex_on_interface [OF nm_invD_distinct [OF inv], of n]
    by (auto simp: held_sync_def held_def impaired_def)
  then have "quiet s (fst (apply_netem_config env i c s))" for c
    unfolding apply_netem_config_def by (intro quiet_exec_run) simp
  then show ?thesis
    using assms(3) held_sync_name [OF h] in_sync_quiet [OF _ assms(1)]
    by (simp add: recalculate_netem_config_def Let_def configs_on_Nil_iff)
qed

lemma in_sync_experiments:
  "in_sync s \<Longrightarrow> nm_inv (s\<lparr>nm_experiments := es\<rparr>) \<Longrightarrow> in_sync (s\<lparr>nm_experiments := es\<rparr>)"
  by (auto simp: in_sync_def no_ingress_def marked_def split: option.splits)

lemma in_sync_revert: "in_sync s \<Longrightarrow> in_sync (fst (nm_revert env x s))"
  unfolding nm_revert_def Let_def
  using in_sync_experiments [of s "AList.delete x (nm_experiments s)"] nm_inv_remove_exp [of s x]
  by (auto simp: in_sync_def [of s] intro: in_sync_restore in_sync_recalculate split: option.split)

lemma in_sync_revert_all: "in_sync s \<Longrightarrow> in_sync (fst (nm_revert_all env n s))"
  unfolding nm_revert_all_def Let_def
  using in_sync_experiments [OF _ nm_inv_drop_interface, of s n]
  by (auto simp: in_sync_def [of s] list_ex_iff intro!: in_sync_restore split: option.split)

lemma in_sync_timers: "in_sync s \<Longrightarrow> in_sync (s\<lparr>nm_timers := ts\<rparr>)"
  by (simp add: in_sync_def marked_def no_ingress_def)

lemma in_sync_sweep: "in_sync s \<Longrightarrow> in_sync (sweep (nm_remove env) ks s)"
  by (induction ks arbitrary: s) (auto simp: nm_remove_def in_sync_revert)

lemma in_sync_step: "egress_event e \<Longrightarrow> in_sync s \<Longrightarrow> in_sync (net_step env e s)"
  by (cases e) (simp_all add: in_sync_apply in_sync_revert in_sync_revert_all nm_cleanup_def in_sync_sweep
      nm_fire_def in_sync_timers)

lemma in_sync_new: "in_sync new_netem_manager"
  by (simp add: in_sync_def marked_def no_ingress_def) (simp add: new_netem_manager_def)

lemma in_sync_run: "list_all egress_event es \<Longrightarrow> in_sync s \<Longrightarrow> in_sync (net_run env es s)"
  by (induction es arbitrary: s) (auto intro: in_sync_step)


subsection \<open>Merging is a least upper bound\<close>

definition cfg_le :: "netem_config \<Rightarrow> netem_config \<Rightarrow> bool" where
  "cfg_le c d \<longleftrightarrow> nc_delay c \<le> nc_delay d \<and> nc_jitter c \<le> nc_jitter d \<and> nc_loss c \<le> nc_loss d \<and>
     nc_duplicate c \<le> nc_duplicate d \<and> nc_corrupt c \<le> nc_corrupt d \<and> nc_reorder c \<le> nc_reorder d \<and>
     nc_rate c \<le> nc_rate d \<and> nc_limit c \<le> nc_limit d"

lemma max_config_eq: "max_config m c = \<lparr>
    nc_delay = max (nc_delay m) (nc_delay c), nc_jitter = max (nc_jitter m) (nc_jitter c),
    nc_loss = max (nc_loss m) (nc_loss c), nc_duplicate = max (nc_duplicate m) (nc_duplicate c),
    nc_corrupt = max (nc_corrupt m) (nc_corrupt c), nc_reorder = max (nc_reorder m) (nc_reorder c),
    nc_rate = max (nc_rate m) (nc_rate c), nc_limit = max (nc_limit m) (nc_limit c)\<rparr>"
  by (simp add: max_config_def if_less_max)

lemma max_config_left_commute: "max_config (max_config m c) d = max_config (max_config m d) c"
  by (simp add: max_config_eq max.assoc max.commute [of "f c" "f d" for f])

lemma cfg_le_max: "cfg_le m (max_config m c)" "cfg_le c (max_config m c)"
  by (simp_all add: cfg_le_def max_config_eq)

lemma cfg_le_trans: "cfg_le a b \<Longrightarrow> cfg_le b c \<Longrightarrow> cfg_le a c"
  by (auto simp: cfg_le_def)

lemma cfg_le_refl [simp]: "cfg_le a a"
  by (simp add: cfg_le_def)

lemma max_config_least: "cfg_le m b \<Longrightarrow> cfg_le c b \<Longrightarrow> cfg_le (max_config m c) b"
  by (simp add: cfg_le_def max_config_eq)

lemma foldl_max_upper: "cfg_le m (foldl max_config m cs) \<and> (\<forall>c \<in> set cs. cfg_le c (foldl max_config m cs))"
  by (induction cs arbitrary: m) (auto intro: cfg_le_trans [OF cfg_le_max(1)] cfg_le_trans [OF cfg_le_max(2)])

lemma foldl_max_least: "cfg_le m b \<Longrightarrow> (\<forall>c \<in> set cs. cfg_le c b) \<Longrightarrow> cfg_le (foldl max_config m cs) b"
  by (induction cs arbitrary: m) (auto intro: max_config_least)

lemma foldl_max_perm: "mset cs = mset ds \<Longrightarrow> foldl max_config m cs = foldl max_config m ds"
  using fold_multiset_equiv [of cs "\<lambda>c m. max_config m c" ds]
  by (simp add: foldl_conv_fold fun_eq_iff max_config_left_commute)


lemma merge_configs_perm: "mset cs = mset ds \<Longrightarrow> merge_configs cs = merge_configs ds"
proof -
  assume m: "mset cs = mset ds"
  then have "length cs = length ds" by (rule mset_eq_length)
  moreover have "[a] = ds" if "cs = [a]" for a using m that by auto
  ultimately show ?thesis
    using foldl_max_perm [OF m, of zero_config]
    by (cases cs; cases ds; cases "tl cs"; cases "tl ds") (auto simp: merge_configs_def)
qed

lemma merge_configs_foldl: "2 \<le> length cs \<Longrightarrow> merge_configs cs = foldl max_config zero_config cs"
  by (cases cs; cases "tl cs") (auto simp: merge_configs_def)

lemma merge_configs_upper: "c \<in> set cs \<Longrightarrow> cfg_le c (merge_configs cs)"
  using foldl_max_upper [of zero_config cs] merge_configs_foldl [of cs]
  by (cases cs; cases "tl cs") (auto simp: merge_configs_def)

lemma merge_configs_least:
  "cfg_le zero_config b \<Longrightarrow> (\<And>c. c \<in> set cs \<Longrightarrow> cfg_le c b) \<Longrightarrow> cfg_le (merge_configs cs) b"
  using foldl_max_least [of zero_config b cs] merge_configs_foldl [of cs]
  by (cases cs; cases "tl cs") (auto simp: merge_configs_def)

subsection \<open>Properties\<close>

definition ok_env :: osenv where
  "ok_env = \<lparr>os_run = \<lambda>_ _. Some [], os_look_path = \<lambda>_. True\<rparr>"

definition icmp_filter :: filter_config where
  "icmp_filter = \<lparr>fc_id = [], fc_priority = 1, fc_protocol = ''1'', fc_src_ip = [], fc_dst_ip = [],
     fc_src_port = 0, fc_dst_port = 0, fc_netem_config = None, fc_created = 0\<rparr>"

definition delay_config :: "int \<Rightarrow> netem_config" where
  "delay_config d = zero_config\<lparr>nc_delay := d\<rparr>"

lemmas run_defs = nm_apply_def nm_apply_with_filter_def nm_revert_def validate_interface_def
  exec_run_eq exec_output_eq backup_original_qdisc_def backup_original_qdisc_for_root_def after_backup_def
  get_or_def fresh_iface_def fresh_root_def put_iface_def put_root_def apply_netem_config_def
  record_experiment_def wrap_err_def ok_env_def new_netem_manager_def restore_eq on_interface_def



text \<open>C1: for runs of plain faults, the bookkeeping refines the host: after any sequence of
  Apply, Revert, RevertAll, timers and cleanups, with any commands failing, an interface is marked
  as having netem exactly when the trace of successful tc commands left a netem root on it.\<close>

theorem netem_marks_match_commands:
  assumes "list_all egress_event es"
  shows "(\<exists>i. map_of (nm_interfaces (net_run env es new_netem_manager)) n = Some i \<and> if_has_netem i)
    \<longleftrightarrow> netem_on n (nm_cmds (net_run env es new_netem_manager))"
  using in_sync_run [OF assms in_sync_new, of env]
  unfolding in_sync_def marked_def by (auto split: option.splits)

theorem netem_marks_match_commands_witness:
  "let s = net_run ok_env [EvApply 5 ''x'' ''e'' (delay_config 10) 100, EvRevert ''x''] new_netem_manager in
   (\<exists>i. map_of (nm_interfaces s) ''e'' = Some i \<and> if_has_netem i) \<longleftrightarrow> netem_on ''e'' (nm_cmds s)"
  unfolding Let_def by (rule netem_marks_match_commands) simp

text \<open>one round of the cleanup goroutine removes exactly the experiments whose TTL has run
  out, and leaves every other experiment as it was.\<close>

theorem netem_cleanup_removes_expired:
  assumes "net_reachable env s"
  shows "map_of (nm_experiments (nm_cleanup env now s)) k = (case map_of (nm_experiments s) k of
     None \<Rightarrow> None
   | Some e \<Rightarrow> if 0 < ex_ttl e \<and> ex_ttl e < time_sub now (ex_start e) then None else Some e)"
  unfolding nm_cleanup_def netem_ttl.cleanup_exact [OF reachable_nm_inv [OF assms]]
  by (simp add: ttl_expired_def split: option.split)

theorem netem_cleanup_removes_expired_witness:
  "let s = net_step ok_env (EvApply 5 ''x'' ''eth0'' (delay_config 10) 100) new_netem_manager in
     map_of (nm_experiments (nm_cleanup ok_env 106 s)) ''x'' = None"
proof -
  let ?e = "EvApply 5 ''x'' ''eth0'' (delay_config 10) 100"
  have "map_of (nm_experiments (net_step ok_env ?e new_netem_manager)) ''x'' \<noteq> None"
    by (simp add: run_defs map_of_update Let_def)
  then show ?thesis
    unfolding Let_def
    by (subst netem_cleanup_removes_expired [OF net_next [OF net_start]])
      (simp_all add: run_defs map_of_update Let_def time_sub_def min_i64_def max_i64_def)
qed



text \<open>C27: Revert of a running experiment runs one command. If other experiments remain on the
  interface it re-applies the merge of their configurations; otherwise it deletes the root qdisc,
  and the interface is unmarked exactly when that succeeds. In every case, success or not, the
  experiment is forgotten, so a failed restore is never retried by its TTL.\<close>

theorem netem_revert_behaviour:
  assumes "net_reachable env s" and "map_of (nm_experiments s) x = Some e" and "n = ex_interface e"
    and "map_of (nm_interfaces s) n = Some i" and "nm_revert env x s = (s', err)"
    and "rest = AList.delete x (nm_experiments s)"
    and "c = (if list_ex (on_interface n) rest
              then netem_config_args i (merge_configs (configs_on n rest)) else del_root_qdisc n)"
  shows "nm_experiments s' = rest \<and>
    nm_cmds s' = nm_cmds s @ [(c, os_run env (nm_cmds s) c \<noteq> None)] \<and>
    (err = None \<longleftrightarrow> os_run env (nm_cmds s) c \<noteq> None) \<and>
    (marked n s' \<longleftrightarrow> marked n s \<and> (err \<noteq> None \<or> list_ex (on_interface n) rest))"
proof -
  have name: "if_name i = n"
    using nm_invD_iface [OF reachable_nm_inv [OF assms(1)] assms(4)] by (simp add: iface_ok_def)
  note eqs = ok_then_cases wrap_err_def exec_run_eq marked_def name assms(3,6,7)
  show ?thesis
  proof (cases "list_ex (on_interface n) rest")
    case True
    then have "configs_on n rest \<noteq> []" by (simp add: configs_on_Nil_iff)
    then show ?thesis
      using True assms(2,4,5)
      by (auto simp: nm_revert_def recalculate_netem_config_def apply_netem_config_def Let_def eqs split: if_splits)
  next
    case False
    then show ?thesis
      using assms(2,4,5) by (auto simp: nm_revert_def restore_eq Let_def eqs split: if_splits)
  qed
qed

theorem netem_revert_behaviour_witness:
  "let s = net_step ok_env (EvApply 5 ''x'' ''e'' (delay_config 10) 100) new_netem_manager;
       r = nm_revert ok_env ''x'' s in
   nm_experiments (fst r) = [] \<and> nm_cmds (fst r) = nm_cmds s @ [(del_root_qdisc ''e'', True)] \<and> snd r = None"
proof -
  let ?s = "net_step ok_env (EvApply 5 ''x'' ''e'' (delay_config 10) 100) new_netem_manager"
  have r: "net_reachable ok_env ?s" by (rule net_next [OF net_start]) simp
  have none: "AList.delete ''x'' (nm_experiments ?s) = []" by code_simp
  have "case map_of (nm_experiments ?s) ''x'' of None \<Rightarrow> False | Some e \<Rightarrow> ex_interface e = ''e''" by code_simp
  then obtain e where e: "map_of (nm_experiments ?s) ''x'' = Some e" "ex_interface e = ''e''"
    by (auto split: option.splits)
  obtain i where i: "map_of (nm_interfaces ?s) ''e'' = Some i"
    using nm_invD_exp [OF reachable_nm_inv [OF r] e(1)] e(2) by auto
  obtain s' err where rv: "nm_revert ok_env ''x'' ?s = (s', err)" by fastforce
  from netem_revert_behaviour [OF r e(1) e(2) [symmetric] i rv none [symmetric] refl] rv show ?thesis
    by (simp add: Let_def ok_env_def)
qed

text \<open>Revert leaves the root qdisc record alone, so once a filter has been installed on an
  interface the record says netem is there for ever: every later ApplyWithFilter on it, also
  after the netem was deleted, adds the filter but no command that installs netem.\<close>

theorem netem_filter_after_revert_installs_nothing:
  assumes "map_of (nm_root_qdiscs s) n = Some r" and "rq_has_netem r"
  shows "map_of (nm_root_qdiscs (fst (nm_revert env y s))) n = Some r \<and>
    (netem_on n (nm_cmds (fst (nm_apply_with_filter env now x n c f ttl s))) \<longleftrightarrow> netem_on n (nm_cmds s))"
proof
  show "map_of (nm_root_qdiscs (fst (nm_revert env y s))) n = Some r"
    using assms(1) by (auto simp: nm_revert_def Let_def ok_then_cases extends_frame(3) [OF extends_restore]
        extends_frame(3) [OF extends_recalculate] split: option.split)
  have v: "netem_on n (nm_cmds (fst (validate_interface env n t))) = netem_on n (nm_cmds t)" for t
    using quiet_validate by (simp add: quiet_def)
  have u: "netem_effect n (u32_filter_args m g) on = on" for m g on
    by (simp add: netem_effect_def u32_filter_args_def del_root_qdisc_def)
  have root: "map_of (nm_root_qdiscs (fst (validate_interface env n s))) n = Some r"
    by (simp add: extends_frame(3) [OF extends_validate] assms(1))
  show "netem_on n (nm_cmds (fst (nm_apply_with_filter env now x n c f ttl s))) \<longleftrightarrow> netem_on n (nm_cmds s)"
    by (auto simp: nm_apply_with_filter_def Let_def ok_then_cases v get_or_def root assms(2) after_backup_def
        apply_netem_with_filter_def add_u32_filter_def netem_on_run u record_experiment_def)
qed

theorem netem_filter_after_revert_installs_nothing_witness:
  "\<not> netem_on ''e'' (nm_cmds (net_run ok_env
     [EvApplyFilter 1 ''x'' ''e'' (delay_config 5) icmp_filter 0, EvRevert ''x'',
      EvApplyFilter 2 ''x'' ''e'' (delay_config 5) icmp_filter 0] new_netem_manager))"
proof -
  let ?s1 = "net_step ok_env (EvApplyFilter 1 ''x'' ''e'' (delay_config 5) icmp_filter 0) new_netem_manager"
  let ?s2 = "net_step ok_env (EvRevert ''x'') ?s1"
  have "case map_of (nm_root_qdiscs ?s1) ''e'' of None \<Rightarrow> False | Some r \<Rightarrow> rq_has_netem r" by code_simp
  then obtain r where r: "map_of (nm_root_qdiscs ?s1) ''e'' = Some r" "rq_has_netem r"
    by (auto split: option.splits)
  have s2: "map_of (nm_root_qdiscs ?s2) ''e'' = Some r"
    using netem_filter_after_revert_installs_nothing [OF r] by simp
  have off: "\<not> netem_on ''e'' (nm_cmds ?s2)" by code_simp
  from netem_filter_after_revert_installs_nothing [OF s2 r(2)] off show ?thesis by simp
qed

end
