(* ===== verification/Paths.thy ===== *)
theory Paths
  imports Prelude
begin

text \<open>
  \<open>path/filepath\<close> on Unix: cleaned paths, joining, and the fact that joining plain components
  appends them, which the agent's cgroup manager and the controller's storage rely on.
\<close>

subsection \<open>Cleaning and joining\<close>

text \<open>A cleaned path: whether it is rooted, and its components (\<open>filepath.Clean\<close>).\<close>

type_synonym path = "bool \<times> string list"

definition slash :: char where "slash = CHR ''/''"

definition clean_step :: "bool \<Rightarrow> string list \<Rightarrow> string \<Rightarrow> string list" where
  "clean_step rooted cs c =
     (if c = [] \<or> c = ''.'' then cs
      else if c = ''..'' then
        (if cs = [] then (if rooted then [] else [c]) else if last cs = ''..'' then cs @ [c] else butlast cs)
      else cs @ [c])"

definition clean_path :: "string \<Rightarrow> path" where
  "clean_path s = (let rooted = (case s of c # _ \<Rightarrow> c = slash | [] \<Rightarrow> False) in
     (rooted, foldl (clean_step rooted) [] (split_on slash s)))"

definition join_path :: "string \<Rightarrow> string \<Rightarrow> path" where
  "join_path base key = clean_path (if base = [] then key else if key = [] then base else base @ slash # key)"

subsection \<open>Keys made of plain components\<close>

definition plain :: "string \<Rightarrow> bool" where
  "plain c \<longleftrightarrow> c \<noteq> [] \<and> c \<noteq> ''.'' \<and> c \<noteq> ''..'' \<and> slash \<notin> set c"

lemma clean_step_plain: "plain c \<Longrightarrow> clean_step r cs c = cs @ [c]"
  by (simp add: clean_step_def plain_def)

lemma clean_plain: "list_all plain cs \<Longrightarrow> foldl (clean_step r) acc cs = acc @ cs"
  by (induction cs arbitrary: acc) (simp_all add: clean_step_plain)

lemma split_join_plain: "cs \<noteq> [] \<Longrightarrow> list_all plain cs \<Longrightarrow> split_on slash (join [slash] cs) = cs"
proof (induction cs)
  case (Cons c cs)
  then show ?case
    by (cases cs) (simp_all add: plain_def split_on_none split_on_append)
qed simp

lemma join_plain_head: "cs \<noteq> [] \<Longrightarrow> list_all plain cs \<Longrightarrow> \<exists>d ds. join [slash] cs = d # ds \<and> d \<noteq> slash"
  by (cases cs; cases "tl cs"; cases "hd cs") (auto simp: plain_def)

lemma join_path_plain:
  assumes "cs \<noteq> []" and "list_all plain cs"
  shows "join_path base (join [slash] cs) = (fst (clean_path base), snd (clean_path base) @ cs)"
proof -
  obtain d ds where d: "join [slash] cs = d # ds" "d \<noteq> slash" using join_plain_head [OF assms] by blast
  show ?thesis
  proof (cases "base = []")
    case True
    have "clean_path (join [slash] cs) = (False, cs)"
      using d split_join_plain [OF assms] clean_plain [OF assms(2)]
      by (simp add: clean_path_def Let_def del: split_on.simps)
    moreover have "clean_path [] = (False, [])" by (simp add: clean_path_def clean_step_def)
    ultimately show ?thesis using True by (simp add: join_path_def)
  next
    case False
    then obtain b bs where b: "base = b # bs" by (cases base) auto
    have "split_on slash (base @ slash # join [slash] cs) = split_on slash base @ cs"
      by (simp add: split_on_append split_join_plain [OF assms])
    then show ?thesis
      using d(1) by (simp add: join_path_def b clean_path_def Let_def clean_plain [OF assms(2)] del: split_on.simps)
  qed
qed

end
