(* ===== verification/Cgroups.thy ===== *)
theory Cgroups
  imports Ttl_Registry Paths
begin

text \<open>
  The agent's cgroup manager, \<open>agent/cgroups.go\<close>: creating a cgroup with its limits, destroying
  it with the processes in it, TTL timers, cleanup and status. The operating system is the
  parameter \<open>cgroup_env\<close>: what each system call returns given the calls made before it
  (\<open>None\<close> is an error, \<open>Some\<close> the bytes read). Every call is appended to the trace \<open>cgm_ops\<close>
  with whether it succeeded.
\<close>

subsection \<open>Data\<close>

record cgroup_config =
  cg_cpu_quota :: int
  cg_cpu_max :: rat
  cg_memory_high :: int
  cg_memory_max :: int
  cg_memory_swap :: int
  cg_pids_max :: int
  cg_io_weight :: int
  cg_network_class :: int

record cgroup_state =
  cs_experiment :: string
  cs_path :: path
  cs_config :: cgroup_config
  cs_created :: gtime
  cs_ttl :: duration

datatype sys_op =
    SysStat path
  | SysMkdirAll path
  | SysWriteFile path string
  | SysReadFile path
  | SysRemoveAll path
  | SysKill string int

record cgroup_manager =
  cgm_root :: string
  cgm_experiments :: "(string \<times> cgroup_state) list"
  cgm_timers :: "(gtime \<times> string) list"
  cgm_cleaners :: nat
  cgm_ops :: "(sys_op \<times> bool) list"

record resource_usage =
  ru_processes :: nat
  ru_cpu :: rat
  ru_memory :: int

type_synonym cgroup_env = "(sys_op \<times> bool) list \<Rightarrow> sys_op \<Rightarrow> string option"

datatype cgroup_err =
    CgroupsUnavailable
  | CannotCreateTestDir
  | CannotWriteTestProcs
  | CgroupValidationFailed cgroup_err
  | CreateCgroupDirFailed
  | SetLimitFailed string
  | ApplyLimitsFailed cgroup_err
  | CgroupNotFound string
  | RemoveCgroupFailed
  | ReadProcsFailed
  | AddProcessFailed int
  | UnmarshalCgroupStateFailed

definition new_cgroup_manager :: cgroup_manager where
  "new_cgroup_manager = \<lparr>cgm_root = ''/sys/fs/cgroup'', cgm_experiments = [], cgm_timers = [],
     cgm_cleaners = 1, cgm_ops = []\<rparr>"

subsection \<open>System calls\<close>

definition sys_call :: "cgroup_env \<Rightarrow> sys_op \<Rightarrow> cgroup_manager \<Rightarrow> cgroup_manager \<times> string option" where
  "sys_call env c s = (let r = env (cgm_ops s) c in (s\<lparr>cgm_ops := cgm_ops s @ [(c, r \<noteq> None)]\<rparr>, r))"

definition sys_do :: "cgroup_env \<Rightarrow> cgroup_err \<Rightarrow> sys_op \<Rightarrow> cgroup_manager \<Rightarrow> cgroup_manager \<times> cgroup_err option" where
  "sys_do env e c s = (case sys_call env c s of (s, None) \<Rightarrow> (s, Some e) | (s, Some _) \<Rightarrow> (s, None))"

definition sub_path :: "path \<Rightarrow> string \<Rightarrow> path" where
  "sub_path p f = (fst p, snd p @ [f])"

definition cgroup_path :: "cgroup_manager \<Rightarrow> string \<Rightarrow> path" where
  "cgroup_path s k = join_path (cgm_root s @ ''/chaoslabs'') k"

text \<open>\<open>validateCgroupsV2\<close>: the probe directory is removed on every return after its creation.\<close>

definition validate_cgroups_v2 :: "cgroup_env \<Rightarrow> cgroup_manager \<Rightarrow> cgroup_manager \<times> cgroup_err option" where
  "validate_cgroups_v2 env s = (let probe = cgroup_path s ''test'' in
     ok_then (sys_do env CgroupsUnavailable (SysStat (join_path (cgm_root s) ''cgroup.controllers'')) s) (\<lambda>s.
     ok_then (sys_do env CannotCreateTestDir (SysMkdirAll probe) s) (\<lambda>s.
     case sys_do env CannotWriteTestProcs (SysWriteFile (sub_path probe ''cgroup.procs'') ''0'') s of
       (s, e) \<Rightarrow> (fst (sys_call env (SysRemoveAll probe) s), e))))"

definition write_limit :: "cgroup_env \<Rightarrow> path \<Rightarrow> bool \<Rightarrow> string \<Rightarrow> string \<Rightarrow> cgroup_manager
    \<Rightarrow> cgroup_manager \<times> cgroup_err option" where
  "write_limit env p wanted file v s =
     (if wanted then sys_do env (SetLimitFailed file) (SysWriteFile (sub_path p file) v) s else (s, None))"

text \<open>The limits in the order they are written: file, whether it is wanted, and its value.\<close>

definition limits :: "cgroup_config \<Rightarrow> (string \<times> bool \<times> string) list" where
  "limits c =
    [(''cpu.max'', cg_cpu_quota c > 0, itoa (cg_cpu_quota c) @ '' 100000''),
     (''cpu.max'', cg_cpu_max c > 0, fmt_float 0 (cg_cpu_max c * 1000) @ '' 100000''),
     (''memory.high'', cg_memory_high c > 0, itoa (cg_memory_high c)),
     (''memory.max'', cg_memory_max c > 0, itoa (cg_memory_max c)),
     (''memory.swap.max'', cg_memory_swap c > 0, itoa (cg_memory_swap c)),
     (''pids.max'', cg_pids_max c > 0, itoa (cg_pids_max c)),
     (''io.weight'', cg_io_weight c > 0, itoa (cg_io_weight c))]"

fun write_limits :: "cgroup_env \<Rightarrow> path \<Rightarrow> (string \<times> bool \<times> string) list \<Rightarrow> cgroup_manager
    \<Rightarrow> cgroup_manager \<times> cgroup_err option" where
  "write_limits env p [] s = (s, None)"
| "write_limits env p ((file, wanted, v) # ls) s =
     ok_then (write_limit env p wanted file v s) (write_limits env p ls)"

definition apply_resource_limits :: "cgroup_env \<Rightarrow> path \<Rightarrow> cgroup_config \<Rightarrow> cgroup_manager
    \<Rightarrow> cgroup_manager \<times> cgroup_err option" where
  "apply_resource_limits env p c s = write_limits env p (limits c) s"

fun kill_pids :: "cgroup_env \<Rightarrow> string list \<Rightarrow> cgroup_manager \<Rightarrow> cgroup_manager" where
  "kill_pids env [] s = s"
| "kill_pids env (w # ws) s = kill_pids env ws (case parse_int w of None \<Rightarrow> s
     | Some pid \<Rightarrow> if pid > 1 then
         (case sys_call env (SysKill ''-TERM'' pid) s of
            (s, None) \<Rightarrow> s | (s, Some _) \<Rightarrow> fst (sys_call env (SysKill ''-KILL'' pid) s))
       else s)"

definition kill_processes_in_cgroup :: "cgroup_env \<Rightarrow> path \<Rightarrow> cgroup_manager
    \<Rightarrow> cgroup_manager \<times> cgroup_err option" where
  "kill_processes_in_cgroup env p s = (case sys_call env (SysReadFile (sub_path p ''cgroup.procs'')) s of
     (s, None) \<Rightarrow> (s, Some ReadProcsFailed) | (s, Some d) \<Rightarrow> (kill_pids env (str_fields d) s, None))"

subsection \<open>The operations of the manager\<close>

definition record_cgroup :: "gtime \<Rightarrow> cgroup_state \<Rightarrow> cgroup_manager \<Rightarrow> cgroup_manager" where
  "record_cgroup now e s = s\<lparr>cgm_experiments := AList.update (cs_experiment e) e (cgm_experiments s),
     cgm_timers := (if cs_ttl e > 0 then cgm_timers s @ [(now + cs_ttl e, cs_experiment e)] else cgm_timers s)\<rparr>"

definition create_cgroup :: "cgroup_env \<Rightarrow> gtime \<Rightarrow> string \<Rightarrow> cgroup_config \<Rightarrow> duration \<Rightarrow> cgroup_manager
    \<Rightarrow> cgroup_manager \<times> cgroup_err option" where
  "create_cgroup env now k c ttl s =
     ok_then (wrap_err CgroupValidationFailed (validate_cgroups_v2 env s)) (\<lambda>s.
     let p = cgroup_path s k in
     ok_then (sys_do env CreateCgroupDirFailed (SysMkdirAll p) s) (\<lambda>s.
     case apply_resource_limits env p c s of
       (s, Some e) \<Rightarrow> (fst (sys_call env (SysRemoveAll p) s), Some (ApplyLimitsFailed e))
     | (s, None) \<Rightarrow> (record_cgroup now \<lparr>cs_experiment = k, cs_path = p, cs_config = c,
           cs_created = now, cs_ttl = ttl\<rparr> s, None)))"

text \<open>A failure to kill is only logged.\<close>

definition destroy_cgroup :: "cgroup_env \<Rightarrow> string \<Rightarrow> cgroup_manager \<Rightarrow> cgroup_manager \<times> cgroup_err option" where
  "destroy_cgroup env k s = (case map_of (cgm_experiments s) k of
     None \<Rightarrow> (s, Some (CgroupNotFound k))
   | Some e \<Rightarrow> (let s = fst (kill_processes_in_cgroup env (cs_path e) s) in
       ok_then (sys_do env RemoveCgroupFailed (SysRemoveAll (cs_path e)) s) (\<lambda>s.
       (s\<lparr>cgm_experiments := AList.delete k (cgm_experiments s)\<rparr>, None))))"

definition add_process :: "cgroup_env \<Rightarrow> string \<Rightarrow> int \<Rightarrow> cgroup_manager \<Rightarrow> cgroup_manager \<times> cgroup_err option" where
  "add_process env k pid s = (case map_of (cgm_experiments s) k of
     None \<Rightarrow> (s, Some (CgroupNotFound k))
   | Some e \<Rightarrow> sys_do env (AddProcessFailed pid)
       (SysWriteFile (sub_path (cs_path e) ''cgroup.procs'') (itoa pid)) s)"

text \<open>The last \<open>usage_usec\<close> line that parses; an unreadable file leaves the zero value.\<close>

definition cpu_seconds :: "string \<Rightarrow> rat" where
  "cpu_seconds d = foldl (\<lambda>u l. if has_prefix l ''usage_usec'' then
       (case str_fields l of _ # v # _ \<Rightarrow> (case parse_int v of Some n \<Rightarrow> of_int n / 1000000 | None \<Rightarrow> u) | _ \<Rightarrow> u)
     else u) 0 (split_on newline d)"

definition get_resource_usage :: "(path \<Rightarrow> string option) \<Rightarrow> path \<Rightarrow> resource_usage" where
  "get_resource_usage read p = \<lparr>
     ru_processes = (case read (sub_path p ''cgroup.procs'') of None \<Rightarrow> 0 | Some d \<Rightarrow> length (str_fields d)),
     ru_cpu = (case read (sub_path p ''cpu.stat'') of None \<Rightarrow> 0 | Some d \<Rightarrow> cpu_seconds d),
     ru_memory = (case read (sub_path p ''memory.current'') of None \<Rightarrow> 0
       | Some d \<Rightarrow> (case parse_int (trim_space d) of Some n \<Rightarrow> n | None \<Rightarrow> 0))\<rparr>"

definition get_cgroup_status :: "(path \<Rightarrow> string option) \<Rightarrow> cgroup_manager
    \<Rightarrow> (string \<times> cgroup_state \<times> resource_usage) list" where
  "get_cgroup_status read s =
     map (\<lambda>(k, e). (k, e, get_resource_usage read (cs_path e))) (cgm_experiments s)"

definition cgm_remove :: "cgroup_env \<Rightarrow> cgroup_manager \<Rightarrow> string \<Rightarrow> cgroup_manager" where
  "cgm_remove env s k = fst (destroy_cgroup env k s)"

definition cgm_cleanup :: "cgroup_env \<Rightarrow> gtime \<Rightarrow> cgroup_manager \<Rightarrow> cgroup_manager" where
  "cgm_cleanup env now s =
     sweep (cgm_remove env) (expired_keys cs_ttl cs_created now (cgm_experiments s)) s"

definition cgm_fire :: "cgroup_env \<Rightarrow> gtime \<times> string \<Rightarrow> cgroup_manager \<Rightarrow> cgroup_manager" where
  "cgm_fire env t s = cgm_remove env (s\<lparr>cgm_timers := remove1 t (cgm_timers s)\<rparr>) (snd t)"

text \<open>The exported structure, before and after its JSON text.\<close>

definition cgm_export_state :: "gtime \<Rightarrow> cgroup_manager \<Rightarrow> (string \<times> cgroup_state) list \<times> gtime" where
  "cgm_export_state now s = (cgm_experiments s, now)"

definition cgm_import_state :: "((string \<times> cgroup_state) list \<times> gtime) option \<Rightarrow> cgroup_manager
    \<Rightarrow> cgroup_manager \<times> cgroup_err option" where
  "cgm_import_state d s = (case d of None \<Rightarrow> (s, Some UnmarshalCgroupStateFailed)
     | Some (es, _) \<Rightarrow> (s\<lparr>cgm_experiments := es, cgm_cleaners := Suc (cgm_cleaners s)\<rparr>, None))"

definition get_default_config :: cgroup_config where
  "get_default_config = \<lparr>cg_cpu_quota = 50000, cg_cpu_max = 25, cg_memory_high = 100 * 1024 * 1024,
     cg_memory_max = 200 * 1024 * 1024, cg_memory_swap = 50 * 1024 * 1024, cg_pids_max = 10,
     cg_io_weight = 100, cg_network_class = 1\<rparr>"

definition get_high_load_config :: cgroup_config where
  "get_high_load_config = \<lparr>cg_cpu_quota = 200000, cg_cpu_max = 50, cg_memory_high = 500 * 1024 * 1024,
     cg_memory_max = 1024 * 1024 * 1024, cg_memory_swap = 200 * 1024 * 1024, cg_pids_max = 50,
     cg_io_weight = 200, cg_network_class = 2\<rparr>"

subsection \<open>Sequences of operations\<close>

datatype cgroup_event =
    CeCreate gtime string cgroup_config duration
  | CeDestroy string
  | CeAddProcess string int
  | CeCleanup gtime
  | CeTimer "gtime \<times> string"

fun cgm_step :: "cgroup_env \<Rightarrow> cgroup_manager \<Rightarrow> cgroup_event \<Rightarrow> cgroup_manager" where
  "cgm_step env s (CeCreate now k c ttl) = fst (create_cgroup env now k c ttl s)"
| "cgm_step env s (CeDestroy k) = fst (destroy_cgroup env k s)"
| "cgm_step env s (CeAddProcess k pid) = fst (add_process env k pid s)"
| "cgm_step env s (CeCleanup now) = cgm_cleanup env now s"
| "cgm_step env s (CeTimer t) = cgm_fire env t s"

definition cgm_run :: "cgroup_env \<Rightarrow> cgroup_event list \<Rightarrow> cgroup_manager" where
  "cgm_run env es = foldl (cgm_step env) new_cgroup_manager es"

lemma cgm_run_Nil [simp]: "cgm_run env [] = new_cgroup_manager"
  and cgm_run_snoc [simp]: "cgm_run env (es @ [e]) = cgm_step env (cgm_run env es) e"
  by (simp_all add: cgm_run_def)

text \<open>An invariant kept by every step holds after every run.\<close>

lemma cgm_run_invariant:
  assumes "P new_cgroup_manager" and "\<And>s e. P s \<Longrightarrow> Q e \<Longrightarrow> P (cgm_step env s e)" and "list_all Q es"
  shows "P (cgm_run env es)"
  using assms(3) by (induction es rule: rev_induct) (simp_all add: assms(1,2))

subsection \<open>System calls only extend the trace\<close>

definition new_ops :: "cgroup_manager \<Rightarrow> cgroup_manager \<Rightarrow> (sys_op \<times> bool) list" where
  "new_ops s s' = drop (length (cgm_ops s)) (cgm_ops s')"

text \<open>\<open>traces s tr s'\<close>: \<open>s'\<close> is \<open>s\<close> with the calls \<open>tr\<close> made.\<close>

definition traces :: "cgroup_manager \<Rightarrow> (sys_op \<times> bool) list \<Rightarrow> cgroup_manager \<Rightarrow> bool" where
  "traces s tr s' \<longleftrightarrow> s' = s\<lparr>cgm_ops := cgm_ops s @ tr\<rparr>"

lemma traces_refl [simp]: "traces s [] s"
  by (simp add: traces_def)

lemma traces_trans: "traces s t1 s1 \<Longrightarrow> traces s1 t2 s2 \<Longrightarrow> traces s (t1 @ t2) s2"
  by (simp add: traces_def)

lemma tracesD:
  "traces s tr s' \<Longrightarrow> cgm_experiments s' = cgm_experiments s"
  "traces s tr s' \<Longrightarrow> cgm_root s' = cgm_root s"
  "traces s tr s' \<Longrightarrow> cgm_timers s' = cgm_timers s"
  "traces s tr s' \<Longrightarrow> cgm_ops s' = cgm_ops s @ tr"
  "traces s tr s' \<Longrightarrow> cgroup_path s' k = cgroup_path s k"
  by (simp_all add: traces_def cgroup_path_def)

lemma sys_call_traces: "traces s [(c, snd (sys_call env c s) \<noteq> None)] (fst (sys_call env c s))"
  by (simp add: traces_def sys_call_def Let_def)

lemma sys_do_traces: "traces s [(c, snd (sys_do env e c s) = None)] (fst (sys_do env e c s))"
  by (simp add: traces_def sys_do_def sys_call_def Let_def split: option.split)

lemma sys_do_err: "snd (sys_do env e c s) \<in> {None, Some e}"
  by (simp add: sys_do_def sys_call_def Let_def split: option.split)

lemma sys_do_cases:
  obtains s' where "sys_do env e c s = (s', None)" "traces s [(c, True)] s'"
  | s' where "sys_do env e c s = (s', Some e)" "traces s [(c, False)] s'"
  using sys_do_traces [of s c env e] sys_do_err [of env e c s]
  by (cases "sys_do env e c s") auto

subsection \<open>What the limits do\<close>

definition wanted_limits :: "(string \<times> bool \<times> string) list \<Rightarrow> (string \<times> string) list" where
  "wanted_limits ls = map (\<lambda>(f, w, v). (f, v)) (filter (\<lambda>(f, w, v). w) ls)"

lemma write_limits_ok:
  assumes "snd (write_limits env p ls s) = None"
  shows "traces s (map (\<lambda>(f, v). (SysWriteFile (sub_path p f) v, True)) (wanted_limits ls))
     (fst (write_limits env p ls s))"
  using assms
proof (induction env p ls s rule: write_limits.induct)
  case (2 env p fname wanted v ls s)
  show ?case
  proof (cases wanted)
    case True
    show ?thesis
      by (rule sys_do_cases [of env "SetLimitFailed fname" "SysWriteFile (sub_path p fname) v" s])
        (use 2 True traces_trans in \<open>fastforce simp: write_limit_def wanted_limits_def\<close>)+
  next
    case False
    with 2 show ?thesis by (simp add: write_limit_def wanted_limits_def)
  qed
qed (simp add: wanted_limits_def)

lemma write_limits_traces:
  "\<exists>tr. traces s tr (fst (write_limits env p ls s)) \<and>
     (\<forall>(c, b) \<in> set tr. \<exists>f v. c = SysWriteFile (sub_path p f) v)"
proof (induction env p ls s rule: write_limits.induct)
  case (1 env p s)
  then show ?case by (auto intro: exI [of _ "[]"])
next
  case (2 env p fname wanted v ls s)
  show ?case
  proof (cases wanted)
    case True
    let ?c = "SysWriteFile (sub_path p fname) v"
    show ?thesis
    proof (rule sys_do_cases [of env "SetLimitFailed fname" ?c s])
      fix s' assume s': "sys_do env (SetLimitFailed fname) ?c s = (s', None)" "traces s [(?c, True)] s'"
      from True 2 [of s'] obtain tr where "traces s' tr (fst (write_limits env p ls s'))"
        "\<forall>(c, b) \<in> set tr. \<exists>f v. c = SysWriteFile (sub_path p f) v"
        by (auto simp: write_limit_def)
      with s' True show ?thesis
        by (intro exI [of _ "(?c, True) # tr"]) (use traces_trans [OF s'(2)] in \<open>auto simp: write_limit_def\<close>)
    next
      fix s' assume "sys_do env (SetLimitFailed fname) ?c s = (s', Some (SetLimitFailed fname))" "traces s [(?c, False)] s'"
      with True show ?thesis by (intro exI [of _ "[(?c, False)]"]) (auto simp: write_limit_def)
    qed
  next
    case False
    with 2 show ?thesis by (auto simp: write_limit_def)
  qed
qed

subsection \<open>Creating a cgroup\<close>

definition last_write :: "path \<Rightarrow> (sys_op \<times> bool) list \<Rightarrow> string option" where
  "last_write p tr = map_of (rev (concat (map (\<lambda>(c, b). case c of
     SysWriteFile q v \<Rightarrow> if b then [(q, v)] else [] | _ \<Rightarrow> []) tr))) p"

lemma last_write_append:
  "last_write p (t1 @ t2) = (case last_write p t2 of None \<Rightarrow> last_write p t1 | Some v \<Rightarrow> Some v)"
  by (simp add: last_write_def map_add_def split: option.split)

lemma sub_path_inject [simp]: "sub_path p f = sub_path q g \<longleftrightarrow> p = q \<and> f = g"
  by (auto simp: sub_path_def prod_eq_iff)

lemma last_write_limits:
  "last_write (sub_path p f) (map (\<lambda>(f, v). (SysWriteFile (sub_path p f) v, True)) ws) = map_of (rev ws) f"
proof (induction ws rule: rev_induct)
  case Nil
  then show ?case by (simp add: last_write_def)
next
  case (snoc w ws)
  then show ?case
    by (cases w) (simp only: map_append last_write_append snoc.IH, simp add: last_write_def)
qed

text \<open>The calls of \<open>validateCgroupsV2\<close>, and of a creation that succeeds.\<close>

lemma validate_ok:
  assumes "snd (validate_cgroups_v2 env s) = None"
  shows "\<exists>b. traces s [(SysStat (join_path (cgm_root s) ''cgroup.controllers''), True),
      (SysMkdirAll (cgroup_path s ''test''), True),
      (SysWriteFile (sub_path (cgroup_path s ''test'') ''cgroup.procs'') ''0'', True),
      (SysRemoveAll (cgroup_path s ''test''), b)] (fst (validate_cgroups_v2 env s))"
  using assms
  by (auto simp: validate_cgroups_v2_def Let_def sys_do_def sys_call_def traces_def split: option.splits)

lemma validate_traces:
  "\<exists>tr. traces s tr (fst (validate_cgroups_v2 env s)) \<and> (\<forall>(c, b) \<in> set tr.
     c \<in> {SysStat (join_path (cgm_root s) ''cgroup.controllers''), SysMkdirAll (cgroup_path s ''test''),
       SysWriteFile (sub_path (cgroup_path s ''test'') ''cgroup.procs'') ''0'', SysRemoveAll (cgroup_path s ''test'')})"
  by (auto simp: validate_cgroups_v2_def Let_def sys_do_def sys_call_def traces_def split: option.splits)

definition new_cgroup :: "gtime \<Rightarrow> string \<Rightarrow> cgroup_config \<Rightarrow> duration \<Rightarrow> cgroup_manager \<Rightarrow> cgroup_state" where
  "new_cgroup now k c ttl s = \<lparr>cs_experiment = k, cs_path = cgroup_path s k, cs_config = c,
     cs_created = now, cs_ttl = ttl\<rparr>"

lemma create_cgroup_ok:
  assumes "create_cgroup env now k c ttl s = (s', None)"
  shows "\<exists>b s1. traces s ([(SysStat (join_path (cgm_root s) ''cgroup.controllers''), True),
      (SysMkdirAll (cgroup_path s ''test''), True),
      (SysWriteFile (sub_path (cgroup_path s ''test'') ''cgroup.procs'') ''0'', True),
      (SysRemoveAll (cgroup_path s ''test''), b), (SysMkdirAll (cgroup_path s k), True)] @
      map (\<lambda>(f, v). (SysWriteFile (sub_path (cgroup_path s k) f) v, True)) (wanted_limits (limits c))) s1 \<and>
    s' = record_cgroup now (new_cgroup now k c ttl s) s1"
proof -
  obtain s1 where v: "validate_cgroups_v2 env s = (s1, None)"
    using assms by (cases "validate_cgroups_v2 env s"; cases "snd (validate_cgroups_v2 env s)")
      (auto simp: create_cgroup_def wrap_err_def)
  obtain b where t1: "traces s [(SysStat (join_path (cgm_root s) ''cgroup.controllers''), True),
      (SysMkdirAll (cgroup_path s ''test''), True),
      (SysWriteFile (sub_path (cgroup_path s ''test'') ''cgroup.procs'') ''0'', True),
      (SysRemoveAll (cgroup_path s ''test''), b)] s1" using validate_ok [of env s] v by auto
  note p = tracesD(5) [OF t1, of k]
  obtain s2 where m: "sys_do env CreateCgroupDirFailed (SysMkdirAll (cgroup_path s k)) s1 = (s2, None)"
    and t2: "traces s1 [(SysMkdirAll (cgroup_path s k), True)] s2"
    using assms v p
    by (cases rule: sys_do_cases [of env CreateCgroupDirFailed "SysMkdirAll (cgroup_path s k)" s1])
      (auto simp: create_cgroup_def wrap_err_def Let_def)
  obtain s3 where l: "apply_resource_limits env (cgroup_path s k) c s2 = (s3, None)"
    and s': "s' = record_cgroup now (new_cgroup now k c ttl s) s3"
    using assms v p m
    by (auto simp: create_cgroup_def wrap_err_def Let_def new_cgroup_def split: prod.splits option.splits)
  have t3: "traces s2 (map (\<lambda>(f, v). (SysWriteFile (sub_path (cgroup_path s k) f) v, True))
      (wanted_limits (limits c))) s3"
    using write_limits_ok [of env "cgroup_path s k" "limits c" s2] l by (simp add: apply_resource_limits_def)
  from traces_trans [OF traces_trans [OF t1 t2] t3] s' show ?thesis by auto
qed

lemma sub_path_no_probe: "f \<noteq> ''cgroup.procs'' \<Longrightarrow>
  last_write (sub_path p f) [(c1, True), (SysMkdirAll q, True), (SysWriteFile (sub_path q ''cgroup.procs'') v, True),
     (SysRemoveAll q', b), (SysMkdirAll p', True)] = last_write (sub_path p f) [(c1, True)]"
  by (cases c1) (simp_all add: last_write_def)

lemma create_cgroup_writes:
  assumes "create_cgroup env now k c ttl s = (s', None)" and "f \<noteq> ''cgroup.procs''"
  shows "last_write (sub_path (cgroup_path s k) f) (new_ops s s') = map_of (rev (wanted_limits (limits c))) f"
proof -
  obtain b s1 where t: "traces s ([(SysStat (join_path (cgm_root s) ''cgroup.controllers''), True),
      (SysMkdirAll (cgroup_path s ''test''), True),
      (SysWriteFile (sub_path (cgroup_path s ''test'') ''cgroup.procs'') ''0'', True),
      (SysRemoveAll (cgroup_path s ''test''), b), (SysMkdirAll (cgroup_path s k), True)] @
      map (\<lambda>(f, v). (SysWriteFile (sub_path (cgroup_path s k) f) v, True)) (wanted_limits (limits c))) s1"
    and s': "s' = record_cgroup now (new_cgroup now k c ttl s) s1"
    using create_cgroup_ok [OF assms(1)] by blast
  have "new_ops s s' = new_ops s s1" by (simp add: s' new_ops_def record_cgroup_def)
  moreover have "cgm_ops s1 = cgm_ops s @ tr \<Longrightarrow> new_ops s s1 = tr" for tr by (simp add: new_ops_def)
  moreover note tracesD(4) [OF t]
  ultimately show ?thesis
    by (simp only: last_write_append sub_path_no_probe [OF assms(2)] last_write_limits)
      (simp add: last_write_def split: option.split)
qed

lemma map_of_wanted_Cons:
  "map_of (rev (wanted_limits ((g, w, v) # ls))) f = (case map_of (rev (wanted_limits ls)) f of
     Some x \<Rightarrow> Some x | None \<Rightarrow> if w \<and> g = f then Some v else None)"
  by (auto simp: wanted_limits_def map_add_def split: option.split)

lemma map_of_wanted_Nil: "map_of (rev (wanted_limits [])) f = None"
  by (simp add: wanted_limits_def)

lemma map_of_wanted_limits:
  "map_of (rev (wanted_limits (limits c))) ''cpu.max'' =
     (if 0 < cg_cpu_max c then Some (fmt_float 0 (cg_cpu_max c * 1000) @ '' 100000'')
      else if 0 < cg_cpu_quota c then Some (itoa (cg_cpu_quota c) @ '' 100000'') else None)"
  "map_of (rev (wanted_limits (limits c))) ''memory.high'' = (if 0 < cg_memory_high c then Some (itoa (cg_memory_high c)) else None)"
  "map_of (rev (wanted_limits (limits c))) ''memory.max'' = (if 0 < cg_memory_max c then Some (itoa (cg_memory_max c)) else None)"
  "map_of (rev (wanted_limits (limits c))) ''memory.swap.max'' = (if 0 < cg_memory_swap c then Some (itoa (cg_memory_swap c)) else None)"
  "map_of (rev (wanted_limits (limits c))) ''pids.max'' = (if 0 < cg_pids_max c then Some (itoa (cg_pids_max c)) else None)"
  "map_of (rev (wanted_limits (limits c))) ''io.weight'' = (if 0 < cg_io_weight c then Some (itoa (cg_io_weight c)) else None)"
  by (simp_all add: limits_def map_of_wanted_Cons map_of_wanted_Nil)

text \<open>A creation that fails records nothing, and removes the directory if it got as far as the limits.\<close>

lemma create_cgroup_error:
  assumes "create_cgroup env now k c ttl s = (s', Some e)"
  shows "\<exists>tr. traces s tr s' \<and> (case e of
     ApplyLimitsFailed e' \<Rightarrow> \<exists>b. last tr = (SysRemoveAll (cgroup_path s k), b) \<and> tr \<noteq> []
   | CreateCgroupDirFailed \<Rightarrow> last tr = (SysMkdirAll (cgroup_path s k), False) \<and> tr \<noteq> []
   | CgroupValidationFailed e' \<Rightarrow> (SysMkdirAll (cgroup_path s k)) \<notin> fst ` set tr \<or>
       cgroup_path s k = cgroup_path s ''test''
   | _ \<Rightarrow> False)"
proof -
  obtain s1 r where v: "validate_cgroups_v2 env s = (s1, r)" by (cases "validate_cgroups_v2 env s")
  obtain tr where t1: "traces s tr s1" and tr: "\<forall>(c, b) \<in> set tr.
     c \<in> {SysStat (join_path (cgm_root s) ''cgroup.controllers''), SysMkdirAll (cgroup_path s ''test''),
       SysWriteFile (sub_path (cgroup_path s ''test'') ''cgroup.procs'') ''0'', SysRemoveAll (cgroup_path s ''test'')}"
    using validate_traces [of s env] v by auto
  note p = tracesD(5) [OF t1, of k]
  show ?thesis
  proof (cases r)
    case (Some e')
    then have "s' = s1" "e = CgroupValidationFailed e'"
      using assms v by (simp_all add: create_cgroup_def wrap_err_def)
    moreover have "SysMkdirAll (cgroup_path s k) \<notin> fst ` set tr \<or> cgroup_path s k = cgroup_path s ''test''"
      using tr by force
    ultimately show ?thesis using t1 by auto
  next
    case None
    let ?c = "SysMkdirAll (cgroup_path s k)"
    show ?thesis
    proof (rule sys_do_cases [of env CreateCgroupDirFailed ?c s1])
      fix s2 assume m: "sys_do env CreateCgroupDirFailed ?c s1 = (s2, None)" "traces s1 [(?c, True)] s2"
      obtain tr3 where t3: "traces s2 tr3 (fst (apply_resource_limits env (cgroup_path s k) c s2))"
        using write_limits_traces [of s2 env "cgroup_path s k" "limits c"] by (auto simp: apply_resource_limits_def)
      obtain s3 e' where l: "apply_resource_limits env (cgroup_path s k) c s2 = (s3, Some e')"
        and s': "s' = fst (sys_call env (SysRemoveAll (cgroup_path s k)) s3)" "e = ApplyLimitsFailed e'"
        using assms v None p m(1)
        by (auto simp: create_cgroup_def wrap_err_def Let_def split: prod.splits option.splits)
      obtain b where t4: "traces s3 [(SysRemoveAll (cgroup_path s k), b)] s'"
        using sys_call_traces [of s3 "SysRemoveAll (cgroup_path s k)" env] s'(1) by blast
      have "traces s (tr @ (?c, True) # tr3 @ [(SysRemoveAll (cgroup_path s k), b)]) s'"
        using traces_trans [OF traces_trans [OF t1 m(2)] traces_trans [OF t3, unfolded l fst_conv, OF t4]]
        by simp
      with s'(2) show ?thesis
        by - (rule exI [of _ "tr @ (?c, True) # tr3 @ [(SysRemoveAll (cgroup_path s k), b)]"], simp)
    next
      fix s2 assume m: "sys_do env CreateCgroupDirFailed ?c s1 = (s2, Some CreateCgroupDirFailed)"
        "traces s1 [(?c, False)] s2"
      then have "s' = s2" "e = CreateCgroupDirFailed"
        using assms v None p by (simp_all add: create_cgroup_def wrap_err_def Let_def)
      with traces_trans [OF t1 m(2)] show ?thesis by auto
    qed
  qed
qed

subsection \<open>Destroying cgroups, and the cleanup contract\<close>

lemma same_ops: "P [] \<Longrightarrow> \<exists>tr. s = s\<lparr>cgm_ops := cgm_ops s @ tr\<rparr> \<and> P tr"
  and more_ops: "P t \<Longrightarrow> \<exists>tr. s\<lparr>cgm_ops := cgm_ops s @ t\<rparr> = s\<lparr>cgm_ops := cgm_ops s @ tr\<rparr> \<and> P tr"
  by (auto intro: exI [of _ "[]"])

lemma kill_traces:
  "\<exists>tr. traces s tr (kill_pids env ws s) \<and> (\<forall>(c, b) \<in> set tr. \<exists>sig pid. c = SysKill sig pid \<and> pid > 1)"
proof (induction env ws s rule: kill_pids.induct)
  case (2 env w ws s)
  let ?s = "case parse_int w of None \<Rightarrow> s
     | Some pid \<Rightarrow> if pid > 1 then
         (case sys_call env (SysKill ''-TERM'' pid) s of
            (s, None) \<Rightarrow> s | (s, Some _) \<Rightarrow> fst (sys_call env (SysKill ''-KILL'' pid) s))
       else s"
  have "\<exists>tr. traces s tr ?s \<and> (\<forall>(c, b) \<in> set tr. \<exists>sig pid. c = SysKill sig pid \<and> pid > 1)"
    by (auto simp: traces_def sys_call_def Let_def split: option.splits prod.splits intro!: same_ops more_ops)
  then obtain t1 where 1: "traces s t1 ?s" "\<forall>(c, b) \<in> set t1. \<exists>sig pid. c = SysKill sig pid \<and> pid > 1" by blast
  obtain t2 where 2: "traces ?s t2 (kill_pids env ws ?s)" "\<forall>(c, b) \<in> set t2. \<exists>sig pid. c = SysKill sig pid \<and> pid > 1"
    using "2.IH" by blast
  show ?case
    using traces_trans [OF 1(1) 2(1)] 1(2) 2(2)
    by - (rule exI [of _ "t1 @ t2"], simp only: kill_pids.simps set_append, blast)
qed (auto intro: exI [of _ "[]"])

lemma kill_cgroup_traces:
  "\<exists>tr. traces s tr (fst (kill_processes_in_cgroup env p s)) \<and>
     (\<forall>(c, b) \<in> set tr. c = SysReadFile (sub_path p ''cgroup.procs'') \<or> (\<exists>sig pid. c = SysKill sig pid \<and> pid > 1))"
proof (cases "sys_call env (SysReadFile (sub_path p ''cgroup.procs'')) s")
  case (Pair s1 r)
  then obtain b where 1: "traces s [(SysReadFile (sub_path p ''cgroup.procs''), b)] s1"
    using sys_call_traces [of s "SysReadFile (sub_path p ''cgroup.procs'')" env] by auto
  show ?thesis
  proof (cases r)
    case None
    with 1 Pair show ?thesis by (auto simp: kill_processes_in_cgroup_def)
  next
    case (Some d)
    obtain t where 2: "traces s1 t (kill_pids env (str_fields d) s1)"
      "\<forall>(c, b) \<in> set t. \<exists>sig pid. c = SysKill sig pid \<and> pid > 1" using kill_traces by blast
    from Pair Some have e: "fst (kill_processes_in_cgroup env p s) = kill_pids env (str_fields d) s1"
      by (simp add: kill_processes_in_cgroup_def)
    show ?thesis
      using traces_trans [OF 1 2(1)] 2(2) unfolding e
      by - (rule exI [of _ "(SysReadFile (sub_path p ''cgroup.procs''), b) # t"], auto)
  qed
qed

text \<open>
  What \<open>DestroyCgroup\<close> does on an experiment it knows: reads, kills, and one removal of the
  cgroup's directory, which decides whether the experiment is forgotten.
\<close>

lemma destroy_cgroup_known:
  assumes "map_of (cgm_experiments s) k = Some e"
  obtains tr b where "\<forall>(c, b) \<in> set tr. c = SysReadFile (sub_path (cs_path e) ''cgroup.procs'') \<or>
      (\<exists>sig pid. c = SysKill sig pid \<and> pid > 1)"
    and "fst (destroy_cgroup env k s) = s\<lparr>cgm_ops := cgm_ops s @ tr @ [(SysRemoveAll (cs_path e), b)],
      cgm_experiments := (if b then AList.delete k (cgm_experiments s) else cgm_experiments s)\<rparr>"
    and "snd (destroy_cgroup env k s) = (if b then None else Some RemoveCgroupFailed)"
proof -
  obtain tr where t: "traces s tr (fst (kill_processes_in_cgroup env (cs_path e) s))"
    and tr: "\<forall>(c, b) \<in> set tr. c = SysReadFile (sub_path (cs_path e) ''cgroup.procs'') \<or>
      (\<exists>sig pid. c = SysKill sig pid \<and> pid > 1)" using kill_cgroup_traces by blast
  let ?s1 = "fst (kill_processes_in_cgroup env (cs_path e) s)"
  show thesis
    by (rule sys_do_cases [of env RemoveCgroupFailed "SysRemoveAll (cs_path e)" ?s1])
      (rule that [OF tr, of True] that [OF tr, of False];
       use t in \<open>simp add: destroy_cgroup_def assms Let_def traces_def\<close>)+
qed

lemma destroy_cgroup_unknown:
  "map_of (cgm_experiments s) k = None \<Longrightarrow> destroy_cgroup env k s = (s, Some (CgroupNotFound k))"
  by (simp add: destroy_cgroup_def)

lemma destroy_experiments:
  "cgm_experiments (fst (destroy_cgroup env k s)) = AList.delete k (cgm_experiments s) \<or>
   cgm_experiments (fst (destroy_cgroup env k s)) = cgm_experiments s"
proof (cases "map_of (cgm_experiments s) k")
  case (Some e)
  show ?thesis by (rule destroy_cgroup_known [OF Some, of env]) simp
qed (simp add: destroy_cgroup_unknown)

definition cgm_distinct :: "cgroup_manager \<Rightarrow> bool" where
  "cgm_distinct s \<longleftrightarrow> distinct (keys (cgm_experiments s))"

lemma cgm_distinct_destroy: "cgm_distinct s \<Longrightarrow> cgm_distinct (fst (destroy_cgroup env k s))"
  using destroy_experiments [of env k s] by (auto simp: cgm_distinct_def distinct_delete)

interpretation cgm_ttl: ttl_registry cgm_experiments cs_ttl cs_created "cgm_remove env" cgm_distinct for env
proof
  fix s :: cgroup_manager and k k' :: string
  assume inv: "cgm_distinct s"
  show "distinct (keys (cgm_experiments s))" using inv by (simp add: cgm_distinct_def)
  show "cgm_distinct (cgm_remove env s k)" unfolding cgm_remove_def by (rule cgm_distinct_destroy [OF inv])
  show "k' \<noteq> k \<Longrightarrow> map_of (cgm_experiments (cgm_remove env s k)) k' = map_of (cgm_experiments s) k'"
    using destroy_experiments [of env k s] by (auto simp: cgm_remove_def map_of_delete)
  show "map_of (cgm_experiments (cgm_remove env s k)) k = None \<or>
      map_of (cgm_experiments (cgm_remove env s k)) k = map_of (cgm_experiments s) k"
    using destroy_experiments [of env k s] by (auto simp: cgm_remove_def map_of_delete)
qed

lemma create_experiments:
  "cgm_experiments (fst (create_cgroup env now k c ttl s)) = cgm_experiments s \<or>
   cgm_experiments (fst (create_cgroup env now k c ttl s)) =
     AList.update k (new_cgroup now k c ttl s) (cgm_experiments s)"
proof (cases "create_cgroup env now k c ttl s")
  case (Pair s' r)
  show ?thesis
  proof (cases r)
    case None
    then show ?thesis
      using create_cgroup_ok [of env now k c ttl s s'] Pair
      by (auto simp: record_cgroup_def new_cgroup_def traces_def)
  next
    case (Some e)
    then show ?thesis
      using create_cgroup_error [of env now k c ttl s s' e] Pair by (auto simp: traces_def)
  qed
qed

lemma add_process_experiments [simp]:
  "cgm_experiments (fst (add_process env k pid s)) = cgm_experiments s"
  using tracesD(1) [OF sys_do_traces] by (auto simp: add_process_def split: option.split)

lemma cgm_distinct_step: "cgm_distinct s \<Longrightarrow> cgm_distinct (cgm_step env s e)"
proof (induction env s e rule: cgm_step.induct)
  case (1 env s now k c ttl)
  then show ?case
    using create_experiments [of env now k c ttl s] by (auto simp: cgm_distinct_def distinct_update)
next
  case (4 env s now)
  then show ?case by (simp add: cgm_cleanup_def cgm_ttl.sweep_invar)
next
  case (5 env s t)
  then show ?case
    by (auto simp: cgm_fire_def cgm_remove_def intro!: cgm_distinct_destroy) (simp add: cgm_distinct_def)
qed (auto simp: cgm_distinct_def intro: cgm_distinct_destroy [unfolded cgm_distinct_def])

lemma cgm_run_distinct: "cgm_distinct (cgm_run env es)"
  by (rule cgm_run_invariant [where Q = "\<lambda>_. True"])
    (auto simp: cgm_distinct_step list_all_iff, simp add: cgm_distinct_def new_cgroup_manager_def)

lemma destroy_ops: "prefix (cgm_ops s) (cgm_ops (cgm_remove env s k))"
proof (cases "map_of (cgm_experiments s) k")
  case (Some e)
  show ?thesis by (rule destroy_cgroup_known [OF Some, of env]) (simp add: cgm_remove_def)
qed (simp add: cgm_remove_def destroy_cgroup_unknown)

lemma sweep_ops: "prefix (cgm_ops s) (cgm_ops (sweep (cgm_remove env) ks s))"
  by (induction ks arbitrary: s) (use destroy_ops prefix_order.trans in \<open>fastforce+\<close>)

lemma new_ops_later: "prefix (cgm_ops s) (cgm_ops s1) \<Longrightarrow> set (new_ops s1 s2) \<subseteq> set (new_ops s s2)"
  unfolding new_ops_def by (intro set_drop_subset_set_drop) (simp add: prefix_length_le)

lemma new_ops_earlier:
  "prefix (cgm_ops s1) (cgm_ops s2) \<Longrightarrow> set (new_ops s s1) \<subseteq> set (new_ops s s2)"
  by (auto simp: new_ops_def prefix_def)

lemma remove_result:
  assumes "map_of (cgm_experiments s) k = Some e"
  shows "map_of (cgm_experiments (cgm_remove env s k)) k = None \<and>
      (SysRemoveAll (cs_path e), True) \<in> set (new_ops s (cgm_remove env s k)) \<or>
    map_of (cgm_experiments (cgm_remove env s k)) k = Some e \<and>
      (SysRemoveAll (cs_path e), False) \<in> set (new_ops s (cgm_remove env s k))"
  by (rule destroy_cgroup_known [OF assms, of env])
    (use assms in \<open>auto simp: cgm_remove_def map_of_delete new_ops_def\<close>)

lemma sweep_result:
  assumes "cgm_distinct s" and "map_of (cgm_experiments s) k = Some e" and "k \<in> set ks"
  shows "map_of (cgm_experiments (sweep (cgm_remove env) ks s)) k = None \<and>
      (SysRemoveAll (cs_path e), True) \<in> set (new_ops s (sweep (cgm_remove env) ks s)) \<or>
    map_of (cgm_experiments (sweep (cgm_remove env) ks s)) k = Some e \<and>
      (SysRemoveAll (cs_path e), False) \<in> set (new_ops s (sweep (cgm_remove env) ks s))"
  using assms
proof (induction ks arbitrary: s)
  case (Cons k' ks)
  let ?s1 = "cgm_remove env s k'"
  have d: "cgm_distinct ?s1" unfolding cgm_remove_def by (rule cgm_distinct_destroy [OF Cons.prems(1)])
  let ?s2 = "sweep (cgm_remove env) ks ?s1"
  have later: "set (new_ops ?s1 ?s2) \<subseteq> set (new_ops s ?s2)" by (rule new_ops_later [OF destroy_ops])
  have early: "set (new_ops s ?s1) \<subseteq> set (new_ops s ?s2)" by (rule new_ops_earlier [OF sweep_ops])
  show ?case
  proof (cases "map_of (cgm_experiments ?s1) k = Some e \<and> k \<in> set ks")
    case True
    then show ?thesis using Cons.IH [OF d] later by auto
  next
    case False
    then have "k' = k"
      using Cons.prems cgm_ttl.destroy_other [OF Cons.prems(1), of k k' env] by auto
    with remove_result [OF Cons.prems(2), of env] False show ?thesis
      using early cgm_ttl.sweep_none [OF d, of k] cgm_ttl.sweep_other [OF d, of k ks env] by auto
  qed
qed simp

subsection \<open>Where the manager may touch the file system\<close>

definition inside_chaoslabs :: "path \<Rightarrow> bool" where
  "inside_chaoslabs p \<longleftrightarrow> fst p \<and> strict_prefix [''sys'', ''fs'', ''cgroup'', ''chaoslabs''] (snd p)"

fun op_confined :: "sys_op \<Rightarrow> bool" where
  "op_confined (SysStat p) = True"
| "op_confined (SysReadFile p) = True"
| "op_confined (SysKill sig pid) = (pid > 1)"
| "op_confined (SysMkdirAll p) = inside_chaoslabs p"
| "op_confined (SysWriteFile p v) = inside_chaoslabs p"
| "op_confined (SysRemoveAll p) = inside_chaoslabs p"

fun plain_event :: "cgroup_event \<Rightarrow> bool" where
  "plain_event (CeCreate now k c ttl) = plain k"
| "plain_event _ = True"

definition confined :: "cgroup_manager \<Rightarrow> bool" where
  "confined s \<longleftrightarrow> cgm_root s = ''/sys/fs/cgroup'' \<and> (\<forall>(c, b) \<in> set (cgm_ops s). op_confined c) \<and>
     (\<forall>(k, e) \<in> set (cgm_experiments s). inside_chaoslabs (cs_path e))"

lemma cgroup_path_plain:
  assumes "cgm_root s = ''/sys/fs/cgroup''" and "plain k"
  shows "cgroup_path s k = (True, [''sys'', ''fs'', ''cgroup'', ''chaoslabs'', k])"
proof -
  have "clean_path ''/sys/fs/cgroup/chaoslabs'' = (True, [''sys'', ''fs'', ''cgroup'', ''chaoslabs''])"
    by code_simp
  with join_path_plain [of "[k]" "''/sys/fs/cgroup/chaoslabs''"] assms(2)
  show ?thesis by (simp add: cgroup_path_def assms(1))
qed

lemma inside_plain: "cgm_root s = ''/sys/fs/cgroup'' \<Longrightarrow> plain k \<Longrightarrow> inside_chaoslabs (cgroup_path s k)"
  by (simp add: cgroup_path_plain inside_chaoslabs_def)

lemma inside_probe: "cgm_root s = ''/sys/fs/cgroup'' \<Longrightarrow> inside_chaoslabs (cgroup_path s ''test'')"
  by (rule inside_plain) (simp_all add: plain_def slash_def)

lemma inside_sub [simp]: "inside_chaoslabs p \<Longrightarrow> inside_chaoslabs (sub_path p f)"
  by (auto simp: inside_chaoslabs_def sub_path_def strict_prefix_def prefix_def)

lemma confined_traces:
  "confined s \<Longrightarrow> traces s tr s' \<Longrightarrow> \<forall>(c, b) \<in> set tr. op_confined c \<Longrightarrow> confined s'"
  by (auto simp: confined_def traces_def)

lemma confined_call: "confined s \<Longrightarrow> op_confined c \<Longrightarrow> confined (fst (sys_call env c s))"
  by (rule confined_traces [OF _ sys_call_traces]) auto

lemma confined_do: "confined s \<Longrightarrow> op_confined c \<Longrightarrow> confined (fst (sys_do env e c s))"
  by (rule confined_traces [OF _ sys_do_traces]) auto

lemma confined_rootD: "confined s \<Longrightarrow> cgm_root s = ''/sys/fs/cgroup''"
  by (simp add: confined_def)

lemma confined_lookup: "confined s \<Longrightarrow> map_of (cgm_experiments s) k = Some e \<Longrightarrow> inside_chaoslabs (cs_path e)"
  by (auto simp: confined_def dest!: map_of_SomeD)

lemma confined_validate: "confined s \<Longrightarrow> confined (fst (validate_cgroups_v2 env s))"
proof -
  assume s: "confined s"
  obtain tr where "traces s tr (fst (validate_cgroups_v2 env s))" and "\<forall>(c, b) \<in> set tr.
     c \<in> {SysStat (join_path (cgm_root s) ''cgroup.controllers''), SysMkdirAll (cgroup_path s ''test''),
       SysWriteFile (sub_path (cgroup_path s ''test'') ''cgroup.procs'') ''0'', SysRemoveAll (cgroup_path s ''test'')}"
    using validate_traces [of s env] by blast
  then show ?thesis
    by (intro confined_traces [OF s]) (use inside_probe [OF confined_rootD [OF s]] in auto)
qed

lemma confined_limits:
  "confined s \<Longrightarrow> inside_chaoslabs p \<Longrightarrow> confined (fst (apply_resource_limits env p c s))"
proof -
  assume s: "confined s" and p: "inside_chaoslabs p"
  obtain tr where "traces s tr (fst (apply_resource_limits env p c s))"
    "\<forall>(c, b) \<in> set tr. \<exists>f v. c = SysWriteFile (sub_path p f) v"
    unfolding apply_resource_limits_def using write_limits_traces by blast
  then show ?thesis by (intro confined_traces [OF s]) (use p in fastforce)+
qed

lemma confined_create:
  assumes "confined s" and k: "plain k"
  shows "confined (fst (create_cgroup env now k c ttl s))"
  unfolding create_cgroup_def Let_def
proof (rule ok_then_pres [where P = confined and Q = confined])
  show "confined (fst (wrap_err CgroupValidationFailed (validate_cgroups_v2 env s)))"
    using confined_validate [OF assms(1)] by simp
next
  fix s assume s: "confined s"
  let ?p = "cgroup_path s k"
  note p = inside_plain [OF confined_rootD [OF s] k]
  show "confined (fst (ok_then (sys_do env CreateCgroupDirFailed (SysMkdirAll ?p) s)
         (\<lambda>s. case apply_resource_limits env ?p c s of
            (s, None) \<Rightarrow> (record_cgroup now \<lparr>cs_experiment = k, cs_path = ?p, cs_config = c, cs_created = now,
               cs_ttl = ttl\<rparr> s, None)
          | (s, Some e) \<Rightarrow> (fst (sys_call env (SysRemoveAll ?p) s), Some (ApplyLimitsFailed e)))))"
  proof (rule ok_then_pres [where P = confined and Q = confined])
    show "confined (fst (sys_do env CreateCgroupDirFailed (SysMkdirAll ?p) s))"
      by (rule confined_do [OF s]) (simp add: p)
  next
    fix t assume t: "confined t"
    note l = confined_limits [OF t p, of env c]
    show "confined (fst (case apply_resource_limits env ?p c t of
            (s, None) \<Rightarrow> (record_cgroup now \<lparr>cs_experiment = k, cs_path = ?p, cs_config = c, cs_created = now,
               cs_ttl = ttl\<rparr> s, None)
          | (s, Some e) \<Rightarrow> (fst (sys_call env (SysRemoveAll ?p) s), Some (ApplyLimitsFailed e))))"
      using l p by (cases "apply_resource_limits env ?p c t"; cases "snd (apply_resource_limits env ?p c t)")
        (auto simp: confined_call, auto simp: confined_def record_cgroup_def dest!: subsetD [OF update_subset])
  qed simp
qed

lemma confined_remove: "confined s \<Longrightarrow> confined (cgm_remove env s k)"
proof (cases "map_of (cgm_experiments s) k")
  case (Some e)
  assume s: "confined s"
  with Some have e: "inside_chaoslabs (cs_path e)" by (rule confined_lookup [rotated])
  show ?thesis
    by (rule destroy_cgroup_known [OF Some, of env])
      (use s e in \<open>auto simp: cgm_remove_def confined_def mem_delete_iff\<close>)
qed (simp add: cgm_remove_def destroy_cgroup_unknown)

lemma confined_sweep: "confined s \<Longrightarrow> confined (sweep (cgm_remove env) ks s)"
  by (induction ks arbitrary: s) (simp_all add: confined_remove)

lemma confined_step: "confined s \<Longrightarrow> plain_event e \<Longrightarrow> confined (cgm_step env s e)"
proof (induction env s e rule: cgm_step.induct)
  case (3 env s k pid)
  then show ?case
    by (auto simp: add_process_def confined_lookup split: option.split intro!: confined_do)
next
  case (5 env s t)
  then show ?case by (auto simp: cgm_fire_def intro!: confined_remove) (simp add: confined_def)
qed (auto simp: confined_create confined_remove [unfolded cgm_remove_def] cgm_cleanup_def confined_sweep)

lemma confined_run: "list_all plain_event es \<Longrightarrow> confined (cgm_run env es)"
  by (rule cgm_run_invariant [where Q = plain_event])
    (simp_all add: confined_step, simp add: confined_def new_cgroup_manager_def)

subsection \<open>Properties\<close>

definition all_ok :: cgroup_env where
  "all_ok tr c = Some []"

definition pids_config :: "int \<Rightarrow> cgroup_config" where
  "pids_config n = \<lparr>cg_cpu_quota = 0, cg_cpu_max = 0, cg_memory_high = 0, cg_memory_max = 0,
     cg_memory_swap = 0, cg_pids_max = n, cg_io_weight = 0, cg_network_class = 0\<rparr>"

text \<open>C28: what CreateCgroup leaves behind. On success the experiment is recorded with the clock
  reading and the last write to each limit file of the cgroup is the configured value, where
  cpu.max holds the percentage whenever one is given: the quota written before it is lost. On
  failure nothing is recorded, no timer is set, and a directory made before the limits failed
  is removed again.\<close>

theorem cgroup_create_result:
  "case create_cgroup env now k c ttl s of
     (s', None) \<Rightarrow>
       (let written = (\<lambda>f. last_write (sub_path (cgroup_path s k) f) (new_ops s s'));
            value = (\<lambda>n. if 0 < n then Some (itoa n) else None) in
        written ''cpu.max'' = (if 0 < cg_cpu_max c then Some (fmt_float 0 (cg_cpu_max c * 1000) @ '' 100000'')
            else if 0 < cg_cpu_quota c then Some (itoa (cg_cpu_quota c) @ '' 100000'') else None) \<and>
        written ''memory.high'' = value (cg_memory_high c) \<and>
        written ''memory.max'' = value (cg_memory_max c) \<and>
        written ''memory.swap.max'' = value (cg_memory_swap c) \<and>
        written ''pids.max'' = value (cg_pids_max c) \<and>
        written ''io.weight'' = value (cg_io_weight c) \<and>
        cgm_experiments s' = AList.update k \<lparr>cs_experiment = k, cs_path = cgroup_path s k, cs_config = c,
          cs_created = now, cs_ttl = ttl\<rparr> (cgm_experiments s) \<and>
        cgm_timers s' = cgm_timers s @ (if 0 < ttl then [(now + ttl, k)] else []))
   | (s', Some e) \<Rightarrow>
       cgm_experiments s' = cgm_experiments s \<and> cgm_timers s' = cgm_timers s \<and>
       (case e of ApplyLimitsFailed _ \<Rightarrow>
          (\<exists>b. last (new_ops s s') = (SysRemoveAll (cgroup_path s k), b) \<and> new_ops s s' \<noteq> [])
        | _ \<Rightarrow> True)"
proof (cases "create_cgroup env now k c ttl s")
  case (Pair s' r)
  show ?thesis
  proof (cases r)
    case None
    note ok = Pair [unfolded None]
    obtain tr s1 where "traces s tr s1" and s': "s' = record_cgroup now (new_cgroup now k c ttl s) s1"
      using create_cgroup_ok [OF ok] by blast
    then have es: "cgm_experiments s' = AList.update k (new_cgroup now k c ttl s) (cgm_experiments s)"
      and ts: "cgm_timers s' = cgm_timers s @ (if 0 < ttl then [(now + ttl, k)] else [])"
      by (simp_all add: tracesD record_cgroup_def new_cgroup_def)
    show ?thesis
      unfolding ok prod.case option.case Let_def es ts
      by (intro conjI) (simp_all add: create_cgroup_writes [OF ok] map_of_wanted_limits new_cgroup_def)
  next
    case (Some e)
    then show ?thesis
      using create_cgroup_error [of env now k c ttl s s' e] Pair
      by (auto simp: tracesD new_ops_def split: cgroup_err.splits)
  qed
qed

text \<open>One round of the cgroup manager's cleanup loop. An experiment whose TTL has not run out
  stays; one whose TTL has run out is forgotten exactly when the removal of its cgroup directory
  succeeded, so that a failed removal is tried again by the next round.\<close>

theorem cgroup_cleanup_result:
  "let s = cgm_run env es; s' = cgm_cleanup env now s in
   case map_of (cgm_experiments s) k of
     None \<Rightarrow> map_of (cgm_experiments s') k = None
   | Some e \<Rightarrow>
       if 0 < cs_ttl e \<and> cs_ttl e < time_sub now (cs_created e) then
         map_of (cgm_experiments s') k = None \<and> (SysRemoveAll (cs_path e), True) \<in> set (new_ops s s') \<or>
         map_of (cgm_experiments s') k = Some e \<and> (SysRemoveAll (cs_path e), False) \<in> set (new_ops s s')
       else map_of (cgm_experiments s') k = Some e"
proof -
  let ?s = "cgm_run env es"
  note d = cgm_run_distinct [of env es]
  show ?thesis
  proof (cases "map_of (cgm_experiments ?s) k")
    case None
    then show ?thesis by (simp add: cgm_cleanup_def cgm_ttl.sweep_none [OF d])
  next
    case (Some e)
    have "k \<in> set (expired_keys cs_ttl cs_created now (cgm_experiments ?s)) \<longleftrightarrow>
        0 < cs_ttl e \<and> cs_ttl e < time_sub now (cs_created e)"
      using Some by (simp add: expired_keys_iff [OF cgm_ttl.invar_distinct [OF d]] ttl_expired_def)
    then show ?thesis
      using sweep_result [OF d Some] cgm_ttl.sweep_other [OF d] Some
      by (simp add: cgm_cleanup_def Let_def split: if_splits)
  qed
qed



text \<open>
  What plainness excludes, and the name that collides with the probe of \<open>validateCgroupsV2\<close>:
  every later creation removes the cgroup of an experiment called \<open>test\<close> while it is registered.
\<close>

lemma dotdot_is_cgroup_root: "cgroup_path new_cgroup_manager ''../..'' = (True, [''sys'', ''fs''])"
    "cgroup_path new_cgroup_manager ''..'' = (True, [''sys'', ''fs'', ''cgroup''])"
  by code_simp+

lemma probe_removes_test_experiment:
  assumes "create_cgroup env now k c ttl s = (s', None)"
  shows "\<exists>b. (SysRemoveAll (cgroup_path s ''test''), b) \<in> set (new_ops s s')"
proof -
  obtain b tr s1 where "traces s ([(SysStat (join_path (cgm_root s) ''cgroup.controllers''), True),
      (SysMkdirAll (cgroup_path s ''test''), True),
      (SysWriteFile (sub_path (cgroup_path s ''test'') ''cgroup.procs'') ''0'', True),
      (SysRemoveAll (cgroup_path s ''test''), b), (SysMkdirAll (cgroup_path s k), True)] @ tr) s1"
    and "s' = record_cgroup now (new_cgroup now k c ttl s) s1"
    using create_cgroup_ok [OF assms] by blast
  then have "(SysRemoveAll (cgroup_path s ''test''), b) \<in> set (new_ops s s')"
    by (simp add: new_ops_def traces_def record_cgroup_def)
  then show ?thesis ..
qed

end
