(* ===== verification/Scheduler.thy ===== *)
theory Scheduler
  imports Prelude "HOL-Library.Multiset"
begin

text \<open>
  The agent's scheduler, \<open>agent/scheduler.go\<close>: four timing wheels, the table of operations and
  its statistics. Operations are heap objects (\<open>sd_heap\<close>, keyed by their unique ID): the wheels'
  slots, the table \<open>sd_operations\<close> and the running goroutines (\<open>sd_running\<close>) hold references.
  The goroutine of \<open>executeOperation\<close> is two events: its start, inside \<open>tick\<close>, and its end
  (\<open>finish_operation\<close>), which brings the handler's result. Handler, metadata and the unused
  \<open>index\<close> of an operation are left out.
\<close>

subsection \<open>Data\<close>

record schedule_config =
  cf_run_at :: gtime
  cf_interval :: duration
  cf_repeat_count :: int
  cf_cron_expression :: string
  cf_jitter_percent :: rat

record sched_op =
  op_id :: string
  op_name :: string
  op_type :: string
  op_schedule :: schedule_config
  op_created :: gtime
  op_next_run :: gtime
  op_last_run :: gtime
  op_run_count :: int
  op_max_runs :: int
  op_jitter :: duration
  op_priority :: int

record wheel =
  tw_level :: nat
  tw_slot_count :: nat
  tw_slot_size :: duration
  tw_current :: nat
  tw_slots :: "string list list"

record sched_stats =
  ss_total :: int
  ss_active :: int
  ss_completed :: int
  ss_failed :: int
  ss_average_latency :: duration
  ss_last_tick :: gtime
  ss_tick_count :: int
  ss_drift_total :: duration
  ss_max_drift :: duration

text \<open>\<open>sd_stopping\<close> is a cancelled context, \<open>sd_ticking\<close> the ticker goroutine being alive.\<close>

record sched =
  sd_wheels :: "wheel list"
  sd_operations :: "string list"
  sd_heap :: "(string \<times> sched_op) list"
  sd_next_id :: nat
  sd_stats :: sched_stats
  sd_running :: "string list"
  sd_stopping :: bool
  sd_ticking :: bool

datatype sched_err = UnsupportedOperationType string | OperationNotFound string

definition zero_stats :: sched_stats where
  "zero_stats = \<lparr>ss_total = 0, ss_active = 0, ss_completed = 0, ss_failed = 0, ss_average_latency = 0,
     ss_last_tick = 0, ss_tick_count = 0, ss_drift_total = 0, ss_max_drift = 0\<rparr>"

definition new_wheel :: "nat \<Rightarrow> nat \<Rightarrow> duration \<Rightarrow> wheel" where
  "new_wheel level n d = \<lparr>tw_level = level, tw_slot_count = n, tw_slot_size = d,
     tw_current = 0, tw_slots = replicate n []\<rparr>"

definition new_scheduler :: sched where
  "new_scheduler = \<lparr>sd_wheels = [new_wheel 0 1000 millisecond, new_wheel 1 60 second,
     new_wheel 2 60 minute, new_wheel 3 24 hour], sd_operations = [], sd_heap = [], sd_next_id = 0,
     sd_stats = zero_stats, sd_running = [], sd_stopping = False, sd_ticking = True\<rparr>"

subsection \<open>The wheels\<close>

text \<open>\<open>advanceWheel\<close>: the new wheels and the operations it starts, innermost wheel first.\<close>

fun advance_wheel :: "(string \<Rightarrow> bool) \<Rightarrow> wheel list \<Rightarrow> wheel list \<times> string list" where
  "advance_wheel due [] = ([], [])"
| "advance_wheel due (w # next) =
     (let cur = Suc (tw_current w) mod tw_slot_count w;
        started = filter due (tw_slots w ! cur);
        w = w\<lparr>tw_current := cur, tw_slots := (tw_slots w)[cur := []]\<rparr> in
      if cur = 0 \<and> next \<noteq> [] then
        (case advance_wheel due next of (next, later) \<Rightarrow> (w # next, started @ later))
      else (w # next, started))"

definition wheel_span :: "wheel \<Rightarrow> duration" where
  "wheel_span w = int (tw_slot_count w) * tw_slot_size w"

text \<open>The first wheel whose span exceeds the delay, or the last one.\<close>

definition target_wheel :: "duration \<Rightarrow> wheel list \<Rightarrow> nat" where
  "target_wheel delay ws = (case List.find (\<lambda>i. delay < wheel_span (ws ! i)) [0..<length ws] of
     Some i \<Rightarrow> i | None \<Rightarrow> length ws - 1)"

definition slot_index :: "duration \<Rightarrow> wheel \<Rightarrow> int" where
  "slot_index delay w = go_rem (go_quot delay (tw_slot_size w)) (int (tw_slot_count w))"

definition add_to_slot :: "string \<Rightarrow> nat \<Rightarrow> wheel \<Rightarrow> wheel" where
  "add_to_slot k j w = w\<lparr>tw_slots := (tw_slots w)[j := tw_slots w ! j @ [k]]\<rparr>"

definition put_on_wheel :: "gtime \<Rightarrow> sched_op \<Rightarrow> sched \<Rightarrow> sched outcome" where
  "put_on_wheel now op s =
     (let delay = time_sub (op_next_run op) now;
        i = target_wheel delay (sd_wheels s);
        j = slot_index delay (sd_wheels s ! i) in
      if j < 0 then Panics IndexOutOfRange
      else Ret (s\<lparr>sd_wheels := (sd_wheels s)[i := add_to_slot (op_id op) (nat j) (sd_wheels s ! i)]\<rparr>))"

text \<open>
  The inner loop of \<open>CancelOperation\<close>: \<open>slot = append(slot[:i], slot[i+1:]...)\<close> shifts the
  elements after the match one place down in the shared backing array, but assigns the shorter
  slice to the loop's own variable: the wheel's slice keeps its length, hence its last element.
\<close>

definition cancel_slot :: "string \<Rightarrow> string list \<Rightarrow> string list" where
  "cancel_slot k xs = (case dropWhile (\<lambda>x. x \<noteq> k) xs of
     [] \<Rightarrow> xs | _ # post \<Rightarrow> takeWhile (\<lambda>x. x \<noteq> k) xs @ post @ [last xs])"

subsection \<open>The scheduler's operations\<close>

definition set_op :: "sched_op \<Rightarrow> sched \<Rightarrow> sched" where
  "set_op op s = s\<lparr>sd_heap := AList.update (op_id op) op (sd_heap s)\<rparr>"

definition set_stats :: "(sched_stats \<Rightarrow> sched_stats) \<Rightarrow> sched \<Rightarrow> sched" where
  "set_stats f s = s\<lparr>sd_stats := f (sd_stats s)\<rparr>"

definition parse_cron_expression :: "string \<Rightarrow> gtime \<Rightarrow> string + gtime" where
  "parse_cron_expression expr from = Inr (from + minute)"

text \<open>\<open>time.Duration(f)\<close> truncates; the random factor is the argument \<open>r\<close>.\<close>

definition truncate_rat :: "rat \<Rightarrow> int" where
  "truncate_rat q = (if 0 \<le> q then \<lfloor>q\<rfloor> else \<lceil>q\<rceil>)"

definition first_run :: "gtime \<Rightarrow> string \<Rightarrow> schedule_config \<Rightarrow> gtime option" where
  "first_run now ty cfg =
     (if ty = ''once'' then Some (cf_run_at cfg)
      else if ty = ''repeating'' then Some (now + cf_interval cfg)
      else if ty = ''cron'' then
        (case parse_cron_expression (cf_cron_expression cfg) now of Inl e \<Rightarrow> None | Inr t \<Rightarrow> Some t)
      else None)"

definition apply_jitter :: "gtime \<Rightarrow> rat \<Rightarrow> schedule_config \<Rightarrow> sched_op \<Rightarrow> sched_op" where
  "apply_jitter now r cfg op =
     (if cf_jitter_percent cfg > 0 then
        (let interval = time_sub (op_next_run op) now;
             jitter = truncate_rat (of_int interval * cf_jitter_percent cfg * r)
         in op\<lparr>op_next_run := op_next_run op + jitter, op_jitter := jitter\<rparr>)
      else op)"

definition opid :: "nat \<Rightarrow> string" where
  "opid n = ''op_'' @ nat_str n"

definition schedule_operation :: "gtime \<Rightarrow> rat \<Rightarrow> string \<Rightarrow> string \<Rightarrow> schedule_config \<Rightarrow> sched
    \<Rightarrow> (sched \<times> (sched_err + string)) outcome" where
  "schedule_operation now r name ty cfg s =
     (let k = opid (sd_next_id s); s = s\<lparr>sd_next_id := Suc (sd_next_id s)\<rparr> in
      case first_run now ty cfg of
        None \<Rightarrow> Ret (s, Inl (UnsupportedOperationType ty))
      | Some t \<Rightarrow>
        let op = apply_jitter now r cfg \<lparr>op_id = k, op_name = name, op_type = ty, op_schedule = cfg,
              op_created = now, op_next_run = t, op_last_run = 0, op_run_count = 0, op_max_runs = 0,
              op_jitter = 0, op_priority = 0\<rparr>;
            s = (set_op op s)\<lparr>sd_operations := List.insert k (sd_operations s)\<rparr>;
            s = set_stats (\<lambda>st. st\<lparr>ss_total := ss_total st + 1, ss_active := ss_active st + 1\<rparr>) s
        in obind (put_on_wheel now op s) (\<lambda>s. Ret (s, Inr k)))"

definition op_due :: "gtime \<Rightarrow> sched \<Rightarrow> string \<Rightarrow> bool" where
  "op_due now s k = (case map_of (sd_heap s) k of None \<Rightarrow> False | Some op \<Rightarrow> op_next_run op < now)"

definition record_tick :: "gtime \<Rightarrow> duration \<Rightarrow> sched_stats \<Rightarrow> sched_stats" where
  "record_tick now elapsed st = (let drift = elapsed - millisecond in
     st\<lparr>ss_tick_count := ss_tick_count st + 1, ss_last_tick := now,
        ss_drift_total := i64 (ss_drift_total st + drift),
        ss_max_drift := (if drift > ss_max_drift st then drift else ss_max_drift st)\<rparr>)"

definition sched_tick :: "gtime \<Rightarrow> duration \<Rightarrow> sched \<Rightarrow> sched" where
  "sched_tick now elapsed s = (case advance_wheel (op_due now s) (sd_wheels s) of (ws, started) \<Rightarrow>
     set_stats (record_tick now elapsed)
       (s\<lparr>sd_wheels := ws, sd_running := sd_running s @ started\<rparr>))"

definition record_run :: "bool \<Rightarrow> duration \<Rightarrow> sched_stats \<Rightarrow> sched_stats" where
  "record_run failed latency st =
     st\<lparr>ss_completed := ss_completed st + 1,
        ss_failed := (if failed then ss_failed st + 1 else ss_failed st),
        ss_average_latency := (if ss_average_latency st = 0 then latency
          else go_quot (i64 (ss_average_latency st * 9 + latency)) 10)\<rparr>"

definition remove_operation :: "string \<Rightarrow> sched \<Rightarrow> sched" where
  "remove_operation k s = set_stats (\<lambda>st. st\<lparr>ss_active := ss_active st - 1\<rparr>)
     (s\<lparr>sd_operations := filter (\<lambda>k'. k' \<noteq> k) (sd_operations s)\<rparr>)"

text \<open>The end of an execution: the handler of \<open>k\<close> returned, with or without an error.\<close>

definition finish_operation :: "gtime \<Rightarrow> duration \<Rightarrow> bool \<Rightarrow> string \<Rightarrow> sched \<Rightarrow> sched outcome" where
  "finish_operation now latency failed k s =
     (let s = set_stats (record_run failed latency) (s\<lparr>sd_running := remove1 k (sd_running s)\<rparr>) in
      case map_of (sd_heap s) k of None \<Rightarrow> Panics NilDereference | Some op \<Rightarrow>
      let op = op\<lparr>op_last_run := now, op_run_count := op_run_count op + 1\<rparr> in
      if op_type op = ''repeating'' \<and> (op_max_runs op = 0 \<or> op_run_count op < op_max_runs op) then
        (let op = op\<lparr>op_next_run := op_next_run op + cf_interval (op_schedule op)\<rparr>
         in put_on_wheel now op (set_op op s))
      else if op_type op = ''cron'' then
        (case parse_cron_expression (cf_cron_expression (op_schedule op)) (op_next_run op) of
           Inl e \<Rightarrow> Ret (set_op op s)
         | Inr t \<Rightarrow> put_on_wheel now (op\<lparr>op_next_run := t\<rparr>) (set_op (op\<lparr>op_next_run := t\<rparr>) s))
      else Ret (remove_operation k (set_op op s)))"

definition cancel_operation :: "string \<Rightarrow> sched \<Rightarrow> sched \<times> sched_err option" where
  "cancel_operation k s =
     (if k \<notin> set (sd_operations s) then (s, Some (OperationNotFound k))
      else (remove_operation k (s\<lparr>sd_wheels :=
              map (\<lambda>w. w\<lparr>tw_slots := map (cancel_slot k) (tw_slots w)\<rparr>) (sd_wheels s)\<rparr>), None))"

definition get_operation :: "string \<Rightarrow> sched \<Rightarrow> sched_op option" where
  "get_operation k s = (if k \<in> set (sd_operations s) then map_of (sd_heap s) k else None)"

definition list_operations :: "sched \<Rightarrow> sched_op option list" where
  "list_operations s = map (map_of (sd_heap s)) (sd_operations s)"

definition get_stats :: "sched \<Rightarrow> sched_stats" where
  "get_stats s = sd_stats s"

text \<open>\<open>Stop\<close> cancels the context and waits; the wait is over when the ticker goroutine has left
  its loop and no execution runs. \<open>Shutdown\<close> gives up waiting when its own context ends.\<close>

definition request_stop :: "sched \<Rightarrow> sched" where
  "request_stop s = s\<lparr>sd_stopping := True\<rparr>"

definition wait_over :: "sched \<Rightarrow> bool" where
  "wait_over s \<longleftrightarrow> \<not> sd_ticking s \<and> sd_running s = []"

definition shutdown_result :: "bool \<Rightarrow> sched \<Rightarrow> bool option" where
  "shutdown_result ctx_done s =
     (if wait_over s then Some True else if ctx_done then Some False else None)"

text \<open>Steps carry a label, so that a run can be restricted to some of the operations.\<close>

datatype sched_label = LSchedule | LCancel | LTick | LFinish | LStop | LExit

inductive sched_step :: "sched_label \<Rightarrow> sched \<Rightarrow> sched \<Rightarrow> bool" where
  st_schedule: "schedule_operation now r name ty cfg s = Ret (s', res) \<Longrightarrow> sched_step LSchedule s s'"
| st_cancel: "cancel_operation k s = (s', err) \<Longrightarrow> sched_step LCancel s s'"
| st_tick: "sd_ticking s \<Longrightarrow> sched_step LTick s (sched_tick now elapsed s)"
| st_finish: "k \<in> set (sd_running s) \<Longrightarrow> finish_operation now latency failed k s = Ret s' \<Longrightarrow> sched_step LFinish s s'"
| st_stop: "sched_step LStop s (request_stop s)"
| st_exit: "sd_stopping s \<Longrightarrow> sched_step LExit s (s\<lparr>sd_ticking := False\<rparr>)"

inductive sched_runs :: "(sched_label \<Rightarrow> bool) \<Rightarrow> sched \<Rightarrow> sched \<Rightarrow> bool" for P where
  runs_refl: "sched_runs P s s"
| runs_step: "sched_runs P s t \<Longrightarrow> P l \<Longrightarrow> sched_step l t u \<Longrightarrow> sched_runs P s u"

definition any_label :: "sched_label \<Rightarrow> bool" where
  "any_label l = True"

definition not_cancel :: "sched_label \<Rightarrow> bool" where
  "not_cancel l \<longleftrightarrow> l \<noteq> LCancel"

subsection \<open>Counting the references\<close>

definition on_wheel :: "wheel \<Rightarrow> string list" where
  "on_wheel w = concat (tw_slots w)"

definition queued :: "wheel list \<Rightarrow> string list" where
  "queued ws = concat (map on_wheel ws)"

definition pending :: "sched \<Rightarrow> string multiset" where
  "pending s = mset (queued (sd_wheels s)) + mset (sd_running s)"

definition wheel_ok :: "wheel \<Rightarrow> bool" where
  "wheel_ok w \<longleftrightarrow> 0 < tw_slot_count w \<and> length (tw_slots w) = tw_slot_count w \<and>
     tw_current w < tw_slot_count w \<and> 0 < tw_slot_size w"

lemma mset_concat_update:
  "i < length xs \<Longrightarrow> mset (concat (xs[i := x])) + mset (xs ! i) = mset (concat xs) + mset x"
proof (induction xs arbitrary: i)
  case (Cons y ys)
  then show ?case by (cases i) (simp_all add: ac_simps)
qed simp

lemma queued_simps [simp]: "queued [] = []" "queued (w # ws) = on_wheel w @ queued ws"
  by (simp_all add: queued_def)

lemma mset_queued_update:
  "i < length ws \<Longrightarrow> mset (queued (ws[i := w])) + mset (on_wheel (ws ! i)) = mset (queued ws) + mset (on_wheel w)"
  using mset_concat_update [of i "map on_wheel ws" "on_wheel w"] by (simp add: queued_def map_update)

lemma advance_frame:
  "advance_wheel due ws = (ws', started) \<Longrightarrow> list_all wheel_ok ws \<Longrightarrow>
     list_all wheel_ok ws' \<and> map tw_slot_count ws' = map tw_slot_count ws \<and>
     map tw_slot_size ws' = map tw_slot_size ws"
proof (induction due ws arbitrary: ws' started rule: advance_wheel.induct)
  case (2 due w ws)
  then show ?case
    by (auto simp: Let_def wheel_ok_def split: if_splits prod.splits)
qed simp

lemma on_wheel_clear:
  assumes "c < length (tw_slots w)"
  shows "mset (on_wheel (w\<lparr>tw_current := x, tw_slots := (tw_slots w)[c := []]\<rparr>)) + mset (tw_slots w ! c)
    = mset (on_wheel w)"
  using mset_concat_update [OF assms, of "[]"] by (simp add: on_wheel_def)

lemma advance_mset:
  "advance_wheel due ws = (ws', started) \<Longrightarrow> list_all wheel_ok ws \<Longrightarrow>
     mset (queued ws') + mset started \<subseteq># mset (queued ws)"
proof (induction due ws arbitrary: ws' started rule: advance_wheel.induct)
  case (2 due w ws)
  let ?c = "Suc (tw_current w) mod tw_slot_count w"
  let ?w = "w\<lparr>tw_current := ?c, tw_slots := (tw_slots w)[?c := []]\<rparr>"
  have c: "?c < length (tw_slots w)" using 2(3) by (simp add: wheel_ok_def)
  have sub: "mset (on_wheel ?w) + mset (filter due (tw_slots w ! ?c)) \<subseteq># mset (on_wheel w)"
    unfolding on_wheel_clear [OF c, of ?c, symmetric] by (simp add: mset_filter)
  show ?case
  proof (cases "?c = 0 \<and> ws \<noteq> []")
    case True
    then obtain ws1 later where a: "advance_wheel due ws = (ws1, later)"
      and e: "ws' = ?w # ws1" "started = filter due (tw_slots w ! ?c) @ later"
      using 2(2) by (auto simp: Let_def split: prod.splits)
    from 2(1) [OF refl refl refl True a] 2(3)
    have "mset (queued ws1) + mset later \<subseteq># mset (queued ws)" by simp
    with sub have "(mset (on_wheel ?w) + mset (filter due (tw_slots w ! ?c))) + (mset (queued ws1) + mset later)
      \<subseteq># mset (on_wheel w) + mset (queued ws)" by (rule subset_mset.add_mono)
    then show ?thesis by (simp add: e ac_simps)
  next
    case False
    then have "ws' = ?w # ws" "started = filter due (tw_slots w ! ?c)" using 2(2) by (auto simp: Let_def)
    then show ?thesis using subset_mset.add_mono [OF sub subset_mset.order_refl, of "mset (queued ws)"]
      by (simp add: ac_simps)
  qed
qed simp


lemma target_wheel_less: "ws \<noteq> [] \<Longrightarrow> target_wheel d ws < length ws"
  unfolding target_wheel_def
  by (auto split: option.splits simp: find_Some_iff)

lemma slot_index_less: "wheel_ok w \<Longrightarrow> slot_index d w < int (tw_slot_count w)"
  using go_rem_bound [of "int (tw_slot_count w)" "go_quot d (tw_slot_size w)"]
  by (auto simp: slot_index_def wheel_ok_def)

lemma put_on_wheel_cases:
  "put_on_wheel now op s = Panics IndexOutOfRange \<or> (\<exists>ws. put_on_wheel now op s = Ret (s\<lparr>sd_wheels := ws\<rparr>))"
  by (simp add: put_on_wheel_def Let_def) blast

lemma put_on_wheel_frame:
  assumes "put_on_wheel now op s = Ret s'" and "sd_wheels s \<noteq> []" and ok: "list_all wheel_ok (sd_wheels s)"
  shows "s' = s\<lparr>sd_wheels := sd_wheels s'\<rparr>" and "list_all wheel_ok (sd_wheels s')"
    and "map tw_slot_count (sd_wheels s') = map tw_slot_count (sd_wheels s)"
    and "map tw_slot_size (sd_wheels s') = map tw_slot_size (sd_wheels s)"
    and "mset (queued (sd_wheels s')) = add_mset (op_id op) (mset (queued (sd_wheels s)))"
proof -
  let ?i = "target_wheel (time_sub (op_next_run op) now) (sd_wheels s)"
  let ?w = "sd_wheels s ! ?i"
  let ?j = "slot_index (time_sub (op_next_run op) now) ?w"
  have i: "?i < length (sd_wheels s)" by (rule target_wheel_less [OF assms(2)])
  have w: "wheel_ok ?w" using ok i by (simp add: list_all_length)
  have j: "0 \<le> ?j" and s': "s' = s\<lparr>sd_wheels := (sd_wheels s)[?i := add_to_slot (op_id op) (nat ?j) ?w]\<rparr>"
    using assms(1) by (auto simp: put_on_wheel_def Let_def split: if_splits)
  have jl: "nat ?j < length (tw_slots ?w)" using j slot_index_less [OF w] w by (simp add: wheel_ok_def nat_less_iff)
  have wok: "wheel_ok (add_to_slot (op_id op) (nat ?j) ?w)" using w by (simp add: wheel_ok_def add_to_slot_def)
  show "s' = s\<lparr>sd_wheels := sd_wheels s'\<rparr>" by (simp add: s')
  show "list_all wheel_ok (sd_wheels s')"
    using ok wok by (simp add: s')
  show "map tw_slot_count (sd_wheels s') = map tw_slot_count (sd_wheels s)"
    "map tw_slot_size (sd_wheels s') = map tw_slot_size (sd_wheels s)"
    by (simp_all add: s' map_update_same add_to_slot_def)
  have "mset (on_wheel (add_to_slot (op_id op) (nat ?j) ?w)) = add_mset (op_id op) (mset (on_wheel ?w))"
    using mset_concat_update [OF jl, of "tw_slots ?w ! nat ?j @ [op_id op]"]
    by (simp add: on_wheel_def add_to_slot_def)
  with mset_queued_update [OF i, of "add_to_slot (op_id op) (nat ?j) ?w"]
  show "mset (queued (sd_wheels s')) = add_mset (op_id op) (mset (queued (sd_wheels s)))"
    by (simp add: s')
qed

lemma cancel_slot_length [simp]: "length (cancel_slot k xs) = length xs"
proof -
  have "length (takeWhile (\<lambda>x. x \<noteq> k) xs) + length (dropWhile (\<lambda>x. x \<noteq> k) xs) = length xs"
    by (metis length_append takeWhile_dropWhile_id)
  then show ?thesis by (auto simp: cancel_slot_def split: list.splits)
qed

lemma cancel_slot_set: "set (cancel_slot k xs) \<subseteq> set xs"
proof (cases "dropWhile (\<lambda>x. x \<noteq> k) xs")
  case (Cons y post)
  then have "xs \<noteq> []" by auto
  moreover have "set post \<subseteq> set xs" using set_dropWhileD [of _ "\<lambda>x. x \<noteq> k" xs] Cons by auto
  ultimately show ?thesis using Cons by (auto simp: cancel_slot_def dest: set_takeWhileD)
qed (auto simp: cancel_slot_def simp del: dropWhile_eq_Nil_conv)


subsection \<open>The scheduler's invariant\<close>

definition wheels_ok :: "wheel list \<Rightarrow> bool" where
  "wheels_ok ws \<longleftrightarrow> list_all wheel_ok ws \<and> map tw_slot_count ws = [1000, 60, 60, 24] \<and>
     map tw_slot_size ws = [millisecond, second, minute, hour]"

definition heap_ok :: "sched \<Rightarrow> bool" where
  "heap_ok s \<longleftrightarrow> (\<forall>k op. map_of (sd_heap s) k = Some op \<longrightarrow>
     op_id op = k \<and> op_max_runs op = 0 \<and> (\<exists>n < sd_next_id s. k = opid n))"

definition refs_ok :: "sched \<Rightarrow> bool" where
  "refs_ok s \<longleftrightarrow> set (queued (sd_wheels s)) \<union> set (sd_running s) \<union> set (sd_operations s) \<subseteq> fst ` set (sd_heap s)"

definition counts_ok :: "sched \<Rightarrow> bool" where
  "counts_ok s \<longleftrightarrow> distinct (sd_operations s) \<and> ss_active (sd_stats s) \<le> int (length (sd_operations s))"

definition sched_inv :: "sched \<Rightarrow> bool" where
  "sched_inv s \<longleftrightarrow> wheels_ok (sd_wheels s) \<and> heap_ok s \<and> refs_ok s \<and> counts_ok s"

lemma wheels_ok_new: "wheels_ok (sd_wheels new_scheduler)"
  by (simp add: wheels_ok_def new_scheduler_def wheel_ok_def new_wheel_def duration_units)

lemma sched_inv_new: "sched_inv new_scheduler"
  using wheels_ok_new
  by (simp add: sched_inv_def heap_ok_def refs_ok_def counts_ok_def)
    (simp add: new_scheduler_def zero_stats_def on_wheel_def new_wheel_def)

lemma wheels_ok_nonempty: "wheels_ok ws \<Longrightarrow> ws \<noteq> []"
  by (auto simp: wheels_ok_def)

lemma wheels_ok_put:
  assumes "put_on_wheel now op s = Ret s'" and "wheels_ok (sd_wheels s)"
  shows "wheels_ok (sd_wheels s')"
  using put_on_wheel_frame [OF assms(1) wheels_ok_nonempty [OF assms(2)]] assms(2)
  by (simp add: wheels_ok_def)

lemma sched_inv_put:
  assumes "put_on_wheel now op s = Ret s'" and "sched_inv s" and "op_id op \<in> fst ` set (sd_heap s)"
  shows "sched_inv s'"
proof -
  have ok: "wheels_ok (sd_wheels s)" using assms(2) by (simp add: sched_inv_def)
  note f = put_on_wheel_frame [OF assms(1) wheels_ok_nonempty [OF ok]]
  have l: "list_all wheel_ok (sd_wheels s)" using ok by (simp add: wheels_ok_def)
  have q: "set (queued (sd_wheels s')) = insert (op_id op) (set (queued (sd_wheels s)))"
    using f(5) [OF l] by (metis set_mset_add_mset_insert set_mset_mset)
  obtain ws where "s' = s\<lparr>sd_wheels := ws\<rparr>"
    using put_on_wheel_cases [of now op s] assms(1) by auto
  with assms(2,3) q wheels_ok_put [OF assms(1) ok] show ?thesis
    by (auto simp: sched_inv_def heap_ok_def refs_ok_def counts_ok_def)
qed


lemma opid_inject [simp]: "opid m = opid n \<longleftrightarrow> m = n"
  by (simp add: opid_def)

lemma apply_jitter_frame [simp]:
  "op_id (apply_jitter now r cfg op) = op_id op" "op_max_runs (apply_jitter now r cfg op) = op_max_runs op"
  "op_type (apply_jitter now r cfg op) = op_type op"
  by (simp_all add: apply_jitter_def Let_def)

lemma sched_inv_set_op:
  assumes "sched_inv s" and "op_max_runs op = 0" and "op_id op \<in> fst ` set (sd_heap s)"
  shows "sched_inv (set_op op s)"
proof -
  from assms(3) obtain op' where "map_of (sd_heap s) (op_id op) = Some op'"
    using has_key_iff [of "op_id op" "sd_heap s"] by (auto simp: has_key_def)
  then have "\<exists>n < sd_next_id s. op_id op = opid n"
    using assms(1) by (auto simp: sched_inv_def heap_ok_def)
  then show ?thesis
    using assms(1,2) by (auto simp: sched_inv_def heap_ok_def refs_ok_def counts_ok_def set_op_def map_of_update dom_update)
qed

lemma sched_inv_stats:
  "sched_inv s \<Longrightarrow> (\<And>st. ss_active (f st) \<le> ss_active st) \<Longrightarrow> sched_inv (set_stats f s)"
  by (auto simp: sched_inv_def heap_ok_def refs_ok_def counts_ok_def set_stats_def intro: order.trans)

lemma sched_inv_remove:
  assumes "sched_inv s" shows "sched_inv (remove_operation k s)"
proof -
  have "distinct (sd_operations s)" using assms by (simp add: sched_inv_def counts_ok_def)
  then have "filter (\<lambda>k'. k' \<noteq> k) (sd_operations s) = remove1 k (sd_operations s)"
    by (simp add: distinct_remove1_removeAll removeAll_filter_not_eq) (metis (no_types))
  moreover have "length (sd_operations s) - 1 \<le> length (remove1 k (sd_operations s))"
    by (simp add: length_remove1)
  ultimately show ?thesis
    using assms by (auto simp: sched_inv_def heap_ok_def refs_ok_def counts_ok_def remove_operation_def set_stats_def)
qed

lemma heap_fresh: "heap_ok s \<Longrightarrow> map_of (sd_heap s) (opid (sd_next_id s)) = None"
  by (metis (no_types, lifting) heap_ok_def less_irrefl not_Some_eq opid_inject)

text \<open>The state in which \<open>schedule_operation\<close> puts the new operation on its wheel.\<close>

lemma sched_inv_stored:
  assumes "sched_inv s" and "op_id op = opid (sd_next_id s)" and "op_max_runs op = 0"
  shows "sched_inv (set_stats (\<lambda>st. st\<lparr>ss_total := ss_total st + 1, ss_active := ss_active st + 1\<rparr>)
    ((set_op op (s\<lparr>sd_next_id := Suc (sd_next_id s)\<rparr>))
       \<lparr>sd_operations := List.insert (opid (sd_next_id s)) (sd_operations s)\<rparr>))"
proof -
  have h: "heap_ok s" using assms(1) by (simp add: sched_inv_def)
  then have "opid (sd_next_id s) \<notin> set (sd_operations s)"
    using heap_fresh [OF h] assms(1) by (auto simp: sched_inv_def refs_ok_def map_of_eq_None_iff)
  then show ?thesis
    using assms
    by (auto simp: sched_inv_def heap_ok_def refs_ok_def counts_ok_def set_op_def set_stats_def map_of_update
        dom_update less_Suc_eq)
qed

lemma schedule_cases:
  assumes "schedule_operation now r name ty cfg s = Ret (s', res)"
  obtains (bad) "first_run now ty cfg = None" "s' = s\<lparr>sd_next_id := Suc (sd_next_id s)\<rparr>"
      "res = Inl (UnsupportedOperationType ty)"
    | (ok) op where "op_id op = opid (sd_next_id s)" "op_max_runs op = 0" "op_type op = ty"
      "res = Inr (opid (sd_next_id s))"
      "put_on_wheel now op (set_stats (\<lambda>st. st\<lparr>ss_total := ss_total st + 1, ss_active := ss_active st + 1\<rparr>)
        ((set_op op (s\<lparr>sd_next_id := Suc (sd_next_id s)\<rparr>))
          \<lparr>sd_operations := List.insert (opid (sd_next_id s)) (sd_operations s)\<rparr>)) = Ret s'"
proof (cases "first_run now ty cfg")
  case None
  then show ?thesis using assms by (intro bad) (auto simp: schedule_operation_def Let_def)
next
  case (Some t)
  let ?op = "apply_jitter now r cfg \<lparr>op_id = opid (sd_next_id s), op_name = name, op_type = ty,
      op_schedule = cfg, op_created = now, op_next_run = t, op_last_run = 0, op_run_count = 0,
      op_max_runs = 0, op_jitter = 0, op_priority = 0\<rparr>"
  show ?thesis
    using assms Some by (intro ok [of ?op]) (auto simp: schedule_operation_def Let_def obind_Ret_iff set_op_def)
qed


lemma sched_inv_schedule:
  assumes "sched_inv s" and "schedule_operation now r name ty cfg s = Ret (s', res)"
  shows "sched_inv s'"
  using assms(2)
proof (cases rule: schedule_cases)
  case bad
  then show ?thesis
    using assms(1) by (auto simp: sched_inv_def heap_ok_def refs_ok_def counts_ok_def less_Suc_eq)
next
  case (ok op)
  show ?thesis
    by (rule sched_inv_put [OF ok(5) sched_inv_stored [OF assms(1) ok(1,2)]])
      (simp add: ok(1) set_stats_def set_op_def dom_update)
qed

lemma finish_cases:
  assumes "finish_operation now latency failed k s = Ret s'"
  obtains (again) op where "map_of (sd_heap s) k = Some op"
      "op_type op = ''repeating'' \<and> (op_max_runs op = 0 \<or> op_run_count op + 1 < op_max_runs op) \<or> op_type op = ''cron''"
      "put_on_wheel now (op\<lparr>op_last_run := now, op_run_count := op_run_count op + 1,
          op_next_run := op_next_run op + (if op_type op = ''repeating'' \<and>
             (op_max_runs op = 0 \<or> op_run_count op + 1 < op_max_runs op) then cf_interval (op_schedule op) else minute)\<rparr>)
        (set_op (op\<lparr>op_last_run := now, op_run_count := op_run_count op + 1,
          op_next_run := op_next_run op + (if op_type op = ''repeating'' \<and>
             (op_max_runs op = 0 \<or> op_run_count op + 1 < op_max_runs op) then cf_interval (op_schedule op) else minute)\<rparr>)
          (set_stats (record_run failed latency) (s\<lparr>sd_running := remove1 k (sd_running s)\<rparr>))) = Ret s'"
    | (over) op where "map_of (sd_heap s) k = Some op"
      "\<not> (op_type op = ''repeating'' \<and> (op_max_runs op = 0 \<or> op_run_count op + 1 < op_max_runs op))"
      "op_type op \<noteq> ''cron''"
      "s' = remove_operation k (set_op (op\<lparr>op_last_run := now, op_run_count := op_run_count op + 1\<rparr>)
          (set_stats (record_run failed latency) (s\<lparr>sd_running := remove1 k (sd_running s)\<rparr>)))"
  using assms
  by (cases "map_of (sd_heap s) k")
    (force simp: finish_operation_def Let_def set_stats_def parse_cron_expression_def split: if_splits)+

lemma sched_inv_less_running:
  "sched_inv s \<Longrightarrow> sched_inv (s\<lparr>sd_running := remove1 k (sd_running s)\<rparr>)"
  using set_remove1_subset [of k "sd_running s"]
  by (auto simp: sched_inv_def heap_ok_def refs_ok_def counts_ok_def)

lemma sched_inv_finish:
  assumes inv: "sched_inv s" and "finish_operation now latency failed k s = Ret s'"
  shows "sched_inv s'"
proof -
  have st: "sched_inv (set_stats (record_run failed latency) (s\<lparr>sd_running := remove1 k (sd_running s)\<rparr>))"
    by (intro sched_inv_stats sched_inv_less_running inv) (simp add: record_run_def)
  have heap: "op_id op = k \<and> op_max_runs op = 0 \<and> k \<in> fst ` set (sd_heap s)" if "map_of (sd_heap s) k = Some op" for op
    using that inv has_key_iff [of k "sd_heap s"] by (auto simp: has_key_def sched_inv_def heap_ok_def simp del: map_of_eq_Some_iff)
  from assms(2) show ?thesis
  proof (cases rule: finish_cases)
    case (again op)
    show ?thesis
      by (rule sched_inv_put [OF again(3) sched_inv_set_op [OF st]])
        (use heap [OF again(1)] in \<open>simp_all add: set_stats_def set_op_def dom_update\<close>)
  next
    case (over op)
    show ?thesis unfolding over(4)
      by (intro sched_inv_remove sched_inv_set_op st)
        (use heap [OF over(1)] in \<open>simp_all add: set_stats_def\<close>)
  qed
qed

lemma sched_inv_tick: "sched_inv s \<Longrightarrow> sched_inv (sched_tick now el s)"
proof -
  assume inv: "sched_inv s"
  obtain ws st where a: "advance_wheel (op_due now s) (sd_wheels s) = (ws, st)" by fastforce
  have l: "list_all wheel_ok (sd_wheels s)" using inv by (simp add: sched_inv_def wheels_ok_def)
  have "set_mset (mset (queued ws) + mset st) \<subseteq> set_mset (mset (queued (sd_wheels s)))"
    by (rule set_mset_mono [OF advance_mset [OF a l]])
  then have "sched_inv (s\<lparr>sd_wheels := ws, sd_running := sd_running s @ st\<rparr>)"
    using inv advance_frame [OF a l]
    by (auto simp: sched_inv_def wheels_ok_def heap_ok_def refs_ok_def counts_ok_def)
  then show ?thesis
    by (simp add: sched_tick_def a sched_inv_stats record_tick_def Let_def)
qed

lemma queued_cancel: "set (queued (map (\<lambda>w. w\<lparr>tw_slots := map (cancel_slot k) (tw_slots w)\<rparr>) ws)) \<subseteq> set (queued ws)"
  using cancel_slot_set by (fastforce simp: queued_def on_wheel_def)

lemma sched_inv_cancel: "sched_inv s \<Longrightarrow> sched_inv (fst (cancel_operation k s))"
proof -
  assume inv: "sched_inv s"
  let ?ws = "map (\<lambda>w. w\<lparr>tw_slots := map (cancel_slot k) (tw_slots w)\<rparr>) (sd_wheels s)"
  have "wheels_ok ?ws"
    using inv by (auto simp: sched_inv_def wheels_ok_def list_all_iff wheel_ok_def comp_def)
  then have "sched_inv (s\<lparr>sd_wheels := ?ws\<rparr>)"
    using inv queued_cancel [of k "sd_wheels s"]
    by (auto simp: sched_inv_def heap_ok_def refs_ok_def counts_ok_def)
  then show ?thesis using inv by (simp add: cancel_operation_def sched_inv_remove)
qed

lemma sched_inv_step: "sched_step l s s' \<Longrightarrow> sched_inv s \<Longrightarrow> sched_inv s'"
proof (induction rule: sched_step.induct)
  case (st_cancel k s s' err)
  then show ?case using sched_inv_cancel [of s k] by simp
next
  case (st_stop s)
  then show ?case by (simp add: request_stop_def sched_inv_def heap_ok_def refs_ok_def counts_ok_def)
next
  case (st_exit s)
  then show ?case by (simp add: sched_inv_def heap_ok_def refs_ok_def counts_ok_def)
qed (auto intro: sched_inv_schedule sched_inv_finish sched_inv_tick)

lemma runs_sched_inv: "sched_runs P s s' \<Longrightarrow> sched_inv s \<Longrightarrow> sched_inv s'"
  by (induction rule: sched_runs.induct) (auto intro: sched_inv_step)

lemmas reachable_sched_inv = runs_sched_inv [OF _ sched_inv_new]

subsection \<open>References added by a step\<close>

lemma pending_put:
  assumes "put_on_wheel now op s = Ret s'" and "wheels_ok (sd_wheels s)"
  shows "pending s' = add_mset (op_id op) (pending s)" "sd_operations s' = sd_operations s"
    "sd_stats s' = sd_stats s" "sd_running s' = sd_running s" "sd_heap s' = sd_heap s"
proof -
  note f = put_on_wheel_frame [OF assms(1) wheels_ok_nonempty [OF assms(2)]]
  have l: "list_all wheel_ok (sd_wheels s)" using assms(2) by (simp add: wheels_ok_def)
  obtain ws where s': "s' = s\<lparr>sd_wheels := ws\<rparr>"
    using put_on_wheel_cases [of now op s] assms(1) by auto
  show "pending s' = add_mset (op_id op) (pending s)" using f(5) [OF l] by (simp add: pending_def s')
  show "sd_operations s' = sd_operations s" "sd_stats s' = sd_stats s" "sd_running s' = sd_running s"
    "sd_heap s' = sd_heap s" by (simp_all add: s')
qed

lemma pending_frame [simp]:
  "pending (set_stats f s) = pending s" "pending (set_op op s) = pending s"
  "pending (s\<lparr>sd_operations := x\<rparr>) = pending s" "pending (s\<lparr>sd_next_id := n\<rparr>) = pending s"
  "pending (remove_operation k s) = pending s"
  by (simp_all add: pending_def set_stats_def set_op_def remove_operation_def)

lemma pending_finish_running:
  "k \<in> set (sd_running s) \<Longrightarrow> pending (s\<lparr>sd_running := remove1 k (sd_running s)\<rparr>) = pending s - {#k#}"
  by (simp add: pending_def)

lemma pending_tick: "wheels_ok (sd_wheels s) \<Longrightarrow> pending (sched_tick now el s) \<subseteq># pending s"
proof -
  assume "wheels_ok (sd_wheels s)"
  then have l: "list_all wheel_ok (sd_wheels s)" by (simp add: wheels_ok_def)
  obtain ws st where a: "advance_wheel (op_due now s) (sd_wheels s) = (ws, st)" by fastforce
  from subset_mset.add_right_mono [OF advance_mset [OF a l], of "mset (sd_running s)"]
  show ?thesis by (simp add: sched_tick_def a pending_def set_stats_def ac_simps)
qed

lemma pending_stop [simp]: "pending (request_stop s) = pending s" "pending (s\<lparr>sd_ticking := b\<rparr>) = pending s"
  by (simp_all add: pending_def request_stop_def)

text \<open>An operation that is on no wheel and not running stays so for ever.\<close>

lemma gone_step:
  assumes "sched_step l s s'" and "sched_inv s" and "k \<in> fst ` set (sd_heap s)" and "k \<notin># pending s"
  shows "k \<in> fst ` set (sd_heap s') \<and> k \<notin># pending s'"
  using assms
proof (induction rule: sched_step.induct)
  case (st_schedule now r name ty cfg s s' res)
  have w: "wheels_ok (sd_wheels s)" and h: "heap_ok s" using st_schedule(2) by (simp_all add: sched_inv_def)
  have "k \<noteq> opid (sd_next_id s)" using heap_fresh [OF h] st_schedule(3) by (metis map_of_eq_None_iff)
  from st_schedule(1) show ?case
  proof (cases rule: schedule_cases)
    case bad
    then show ?thesis using st_schedule(3,4) by simp
  next
    case (ok op)
    note put = pending_put [OF ok(5)]
    show ?thesis using put(1,5) w \<open>k \<noteq> opid (sd_next_id s)\<close> ok(1) st_schedule(3,4)
      by (simp add: set_stats_def set_op_def dom_update pending_def)
  qed
next
  case (st_cancel k' s s' err)
  have "set (queued (sd_wheels s')) \<subseteq> set (queued (sd_wheels s))"
    using st_cancel(1) queued_cancel [of k' "sd_wheels s"]
    by (auto simp: cancel_operation_def remove_operation_def set_stats_def split: if_splits)
  then show ?case
    using st_cancel by (auto simp: cancel_operation_def remove_operation_def set_stats_def pending_def split: if_splits)
next
  case (st_tick s now el)
  have "wheels_ok (sd_wheels s)" using st_tick(2) by (simp add: sched_inv_def)
  from pending_tick [OF this, of now el] st_tick show ?case
    by (auto simp: sched_tick_def set_stats_def split: prod.splits dest: mset_subset_eqD)
next
  case (st_finish k' s now lat failed s')
  have w: "wheels_ok (sd_wheels s)" using st_finish(3) by (simp add: sched_inv_def)
  have neq: "k' \<noteq> k" "\<And>op. map_of (sd_heap s) k' = Some op \<Longrightarrow> op_id op = k'"
    using st_finish(1,3,5) by (auto simp: pending_def sched_inv_def heap_ok_def simp del: map_of_eq_Some_iff)
  from st_finish(2) show ?case
  proof (cases rule: finish_cases)
    case (again op)
    note put = pending_put [OF again(3)]
    show ?thesis using put(1,5) w neq(1) neq(2) [OF again(1)] st_finish(4,5) pending_finish_running [OF st_finish(1)]
      by (auto simp: set_stats_def set_op_def dom_update pending_def dest: in_diffD)
  next
    case (over op)
    then show ?thesis using neq(1) neq(2) [OF over(1)] st_finish(4,5)
      by (auto simp: set_stats_def set_op_def dom_update pending_def remove_operation_def dest: in_diffD)
  qed
qed (auto simp: request_stop_def pending_def)

lemma gone_runs:
  "sched_runs P s s' \<Longrightarrow> sched_inv s \<Longrightarrow> k \<in> fst ` set (sd_heap s) \<Longrightarrow> k \<notin># pending s \<Longrightarrow>
     k \<in> fst ` set (sd_heap s') \<and> k \<notin># pending s'"
  by (induction rule: sched_runs.induct) (auto dest: gone_step runs_sched_inv)


subsection \<open>Runs without cancellation\<close>

definition once_inv :: "sched \<Rightarrow> bool" where
  "once_inv s \<longleftrightarrow> (\<forall>k. count (pending s) k \<le> 1) \<and> set_mset (pending s) \<subseteq> set (sd_operations s) \<and>
     ss_active (sd_stats s) = int (length (sd_operations s))"

lemma once_inv_new: "once_inv new_scheduler"
  by (simp add: once_inv_def pending_def) (simp add: new_scheduler_def zero_stats_def new_wheel_def on_wheel_def)

lemma filter_neq_length:
  "distinct xs \<Longrightarrow> k \<in> set xs \<Longrightarrow> Suc (length (filter (\<lambda>x. x \<noteq> k) xs)) = length xs"
proof (induction xs)
  case (Cons x xs)
  moreover have "k \<notin> set xs \<Longrightarrow> filter (\<lambda>x. x \<noteq> k) xs = xs" by (rule filter_True) auto
  ultimately show ?case by auto
qed simp

lemma once_put:
  assumes "put_on_wheel now op s = Ret s'" and "wheels_ok (sd_wheels s)"
    and "once_inv s" and "op_id op \<notin># pending s" and "op_id op \<in> set (sd_operations s)"
  shows "once_inv s'"
  using pending_put [OF assms(1,2)] assms(3-5) by (auto simp: once_inv_def not_in_iff)

lemma once_step:
  assumes "sched_step l s s'" and "not_cancel l" and "sched_inv s" and "once_inv s"
  shows "once_inv s'"
  using assms
proof (induction rule: sched_step.induct)
  case (st_schedule now r name ty cfg s s' res)
  have w: "wheels_ok (sd_wheels s)" and h: "heap_ok s" using st_schedule(3) by (simp_all add: sched_inv_def)
  have fresh: "opid (sd_next_id s) \<notin> fst ` set (sd_heap s)" using heap_fresh [OF h] by (simp add: map_of_eq_None_iff)
  then have new: "opid (sd_next_id s) \<notin> set (sd_operations s)" "opid (sd_next_id s) \<notin># pending s"
    using st_schedule(3) by (auto simp: sched_inv_def refs_ok_def pending_def)
  from st_schedule(1) show ?case
  proof (cases rule: schedule_cases)
    case bad
    then show ?thesis using st_schedule(4) by (simp add: once_inv_def)
  next
    case (ok op)
    show ?thesis
      by (rule once_put [OF ok(5)])
        (use w new st_schedule(4) ok(1) in \<open>auto simp: set_stats_def set_op_def once_inv_def pending_def\<close>)
  qed
next
  case (st_tick s now el)
  have "wheels_ok (sd_wheels s)" using st_tick(3) by (simp add: sched_inv_def)
  note sub = pending_tick [OF this, of now el]
  have "sd_operations (sched_tick now el s) = sd_operations s \<and> ss_active (sd_stats (sched_tick now el s)) = ss_active (sd_stats s)"
    by (simp add: sched_tick_def set_stats_def record_tick_def Let_def split: prod.split)
  moreover have "count (pending (sched_tick now el s)) k \<le> count (pending s) k" for k
    using sub by (simp add: mset_subset_eq_count)
  ultimately show ?case
    using st_tick(4) set_mset_mono [OF sub] by (auto simp: once_inv_def intro: order.trans)
next
  case (st_finish k s now lat failed s')
  let ?s = "set_stats (record_run failed lat) (s\<lparr>sd_running := remove1 k (sd_running s)\<rparr>)"
  have w: "wheels_ok (sd_wheels s)" and d: "distinct (sd_operations s)"
    using st_finish(4) by (simp_all add: sched_inv_def counts_ok_def)
  have idk: "op_id op = k" if "map_of (sd_heap s) k = Some op" for op
    using that st_finish(4) by (simp add: sched_inv_def heap_ok_def)
  have kp: "k \<in># pending s" using st_finish(1) by (simp add: pending_def)
  have pend: "pending ?s = pending s - {#k#}" using pending_finish_running [OF st_finish(1)] by simp
  have cnt: "count (pending s) x \<le> 1" for x using st_finish(5) by (simp add: once_inv_def)
  have out: "k \<notin># pending ?s" unfolding pend using cnt [of k] by (simp add: not_in_iff)
  have kops: "k \<in> set (sd_operations s)" using st_finish(5) kp by (auto simp: once_inv_def)
  have same: "sd_operations ?s = sd_operations s" "ss_active (sd_stats ?s) = ss_active (sd_stats s)"
    by (simp_all add: set_stats_def record_run_def)
  have le: "count (pending s - {#k#}) x \<le> 1" for x
    using cnt [of x] by simp
  have once: "once_inv ?s"
    unfolding once_inv_def pend same using st_finish(5) le by (auto simp: once_inv_def dest: in_diffD)
  from st_finish(2) show ?case
  proof (cases rule: finish_cases)
    case (again op)
    show ?thesis
      by (rule once_put [OF again(3)])
        (use w once out kops idk [OF again(1)] in \<open>auto simp: set_stats_def set_op_def once_inv_def pending_def\<close>)
  next
    case (over op)
    show ?thesis
      unfolding over(4) using once out filter_neq_length [OF d kops]
      by (auto simp: once_inv_def remove_operation_def set_stats_def set_op_def pending_def)
  qed
next
  case (st_stop s)
  then show ?case by (simp add: once_inv_def request_stop_def pending_def)
next
  case (st_exit s)
  then show ?case by (simp add: once_inv_def)
qed (simp add: not_cancel_def)

lemma once_runs:
  "sched_runs not_cancel s s' \<Longrightarrow> sched_inv s \<Longrightarrow> once_inv s \<Longrightarrow> once_inv s'"
  by (induction rule: sched_runs.induct) (auto intro: once_step runs_sched_inv)


subsection \<open>Placement\<close>

definition overdue :: "gtime \<Rightarrow> gtime \<Rightarrow> bool" where
  "overdue now next \<longleftrightarrow> next < now \<and> ((now - next) div millisecond) mod 1000 \<noteq> 0"

lemma wheels_ok_first:
  "wheels_ok ws \<Longrightarrow> \<exists>w ws'. ws = w # ws' \<and> tw_slot_count w = 1000 \<and> tw_slot_size w = millisecond"
  by (cases ws) (auto simp: wheels_ok_def)

lemma target_wheel_first: "wheels_ok ws \<Longrightarrow> d < second \<Longrightarrow> target_wheel d ws = 0"
  by (drule wheels_ok_first)
    (auto simp: target_wheel_def upt_conv_Cons wheel_span_def duration_units simp del: upt_Suc)

lemma slot_index_nonneg: "wheel_ok w \<Longrightarrow> 0 \<le> d \<Longrightarrow> 0 \<le> slot_index d w"
  by (simp add: slot_index_def wheel_ok_def go_simps pos_imp_zdiv_nonneg_iff)

lemma slot_index_negative:
  "wheels_ok ws \<Longrightarrow> d < 0 \<Longrightarrow> slot_index d (ws ! target_wheel d ws) = - ((- d) div millisecond mod 1000)"
proof -
  assume ws: "wheels_ok ws" and d: "d < 0"
  obtain w ws' where w: "ws = w # ws'" "tw_slot_count w = 1000" "tw_slot_size w = millisecond"
    using wheels_ok_first [OF ws] by blast
  have "target_wheel d ws = 0" using target_wheel_first [OF ws] d by (simp add: duration_units)
  moreover have ms: "0 < millisecond" by (simp add: duration_units)
  moreover have "slot_index d w = - ((- d) div millisecond mod 1000)"
  proof (cases "(- d) div millisecond = 0")
    case True
    then show ?thesis using d ms by (simp add: slot_index_def w go_quot_neg go_rem_def go_quot_def)
  next
    case False
    then have "0 < (- d) div millisecond"
      using d ms by (simp add: order.not_eq_order_implies_strict pos_imp_zdiv_nonneg_iff)
    then show ?thesis using d ms by (simp add: slot_index_def w go_quot_neg go_rem_neg)
  qed
  ultimately show ?thesis by (simp add: w(1))
qed

lemma put_on_wheel_panics:
  assumes "wheels_ok (sd_wheels s)" and "now - op_next_run op \<le> max_i64"
  shows "(\<exists>s'. put_on_wheel now op s = Ret s') \<longleftrightarrow> \<not> overdue now (op_next_run op)"
proof (cases "op_next_run op < now")
  case True
  then have d: "time_sub (op_next_run op) now = op_next_run op - now"
    using assms(2) by (simp add: time_sub_exact max_i64_def min_i64_def)
  have "slot_index (op_next_run op - now) (sd_wheels s ! target_wheel (op_next_run op - now) (sd_wheels s)) =
      - ((now - op_next_run op) div millisecond mod 1000)"
    using slot_index_negative [OF assms(1), of "op_next_run op - now"] True by simp
  moreover have "0 \<le> (now - op_next_run op) div millisecond mod 1000" by simp
  ultimately show ?thesis using True unfolding put_on_wheel_def d overdue_def Let_def by (simp add: order_less_le)
next
  case False
  let ?d = "time_sub (op_next_run op) now"
  have "0 \<le> ?d" using False by (simp add: time_sub_def max_i64_def min_i64_def)
  moreover have "wheel_ok (sd_wheels s ! target_wheel ?d (sd_wheels s))"
    using assms(1) target_wheel_less [OF wheels_ok_nonempty [OF assms(1)], of ?d]
    by (simp add: wheels_ok_def list_all_length)
  ultimately show ?thesis using False slot_index_nonneg by (simp add: put_on_wheel_def Let_def overdue_def not_less)
qed


subsection \<open>Properties\<close>

definition every :: "duration \<Rightarrow> schedule_config" where
  "every d = \<lparr>cf_run_at = 0, cf_interval = d, cf_repeat_count = 0, cf_cron_expression = [], cf_jitter_percent = 0\<rparr>"

definition at_time :: "gtime \<Rightarrow> schedule_config" where
  "at_time t = \<lparr>cf_run_at = t, cf_interval = 0, cf_repeat_count = 0, cf_cron_expression = [], cf_jitter_percent = 0\<rparr>"

text \<open>A scheduler with one operation, scheduled at time 0 to run first at a time below one second.\<close>

definition sched_one :: "string \<Rightarrow> schedule_config \<Rightarrow> sched" where
  "sched_one ty cfg = (case schedule_operation 0 0 [] ty cfg new_scheduler of
     Ret (s, _) \<Rightarrow> s | Panics _ \<Rightarrow> new_scheduler)"

lemma sched_one_eq:
  assumes "first_run 0 ty cfg = Some t" and "0 \<le> t" and "t < second" and "cf_jitter_percent cfg = 0"
  obtains st op s where "schedule_operation 0 0 [] ty cfg new_scheduler = Ret (s, Inr ''op_0'')"
    "s = sched_one ty cfg"
    "sched_one ty cfg = new_scheduler\<lparr>sd_next_id := 1, sd_operations := [''op_0''], sd_stats := st,
       sd_heap := [(''op_0'', op)], sd_wheels := (sd_wheels new_scheduler)
         [0 := add_to_slot ''op_0'' (nat (t div millisecond)) (sd_wheels new_scheduler ! 0)]\<rparr>"
    "op_next_run op = t" "op_type op = ty" "op_schedule op = cfg" "op_id op = ''op_0''"
proof -
  let ?op = "\<lparr>op_id = ''op_0'', op_name = [], op_type = ty, op_schedule = cfg, op_created = 0,
     op_next_run = t, op_last_run = 0, op_run_count = 0, op_max_runs = 0, op_jitter = 0, op_priority = 0\<rparr>"
  have w: "target_wheel t (sd_wheels new_scheduler) = 0"
    by (rule target_wheel_first [OF wheels_ok_new assms(3)])
  have z: "time_sub t 0 = t" using assms(2,3) by (simp add: time_sub_def max_i64_def min_i64_def second_def)
  have k: "opid 0 = ''op_0''" by (simp add: opid_def)
  have "t div millisecond < 1000" "0 \<le> t div millisecond"
    using assms(2,3) by (simp_all add: duration_units div_less_iff_less_mult pos_imp_zdiv_nonneg_iff)
  then have j: "slot_index t (sd_wheels new_scheduler ! 0) = t div millisecond"
    using assms(2) by (simp add: slot_index_def new_scheduler_def new_wheel_def go_simps duration_units)
  have eq: "schedule_operation 0 0 [] ty cfg new_scheduler = Ret (new_scheduler\<lparr>sd_next_id := 1,
      sd_operations := [''op_0''], sd_stats := zero_stats\<lparr>ss_total := 1, ss_active := 1\<rparr>,
      sd_heap := [(''op_0'', ?op)], sd_wheels := (sd_wheels new_scheduler)
        [0 := add_to_slot ''op_0'' (nat (t div millisecond)) (sd_wheels new_scheduler ! 0)]\<rparr>, Inr ''op_0'')"
    unfolding schedule_operation_def apply_jitter_def put_on_wheel_def Let_def
    using assms w j \<open>0 \<le> t div millisecond\<close>
    by (simp add: set_op_def set_stats_def z) (simp add: new_scheduler_def k zero_stats_def)
  show thesis
    by (rule that [OF _ refl, where st = "zero_stats\<lparr>ss_total := 1, ss_active := 1\<rparr>" and op = ?op])
      (simp_all add: sched_one_def eq)
qed

lemma sched_one_once: "0 \<le> t \<Longrightarrow> t < second \<Longrightarrow>
  sched_runs not_cancel new_scheduler (sched_one ''once'' (at_time t)) \<and>
  sd_operations (sched_one ''once'' (at_time t)) = [''op_0''] \<and>
  (\<exists>op w. map_of (sd_heap (sched_one ''once'' (at_time t))) ''op_0'' = Some op \<and> op_next_run op = t \<and>
    sd_wheels (sched_one ''once'' (at_time t)) = w # tl (sd_wheels new_scheduler) \<and> tw_current w = 0 \<and>
    tw_slot_count w = 1000 \<and> length (tw_slots w) = 1000 \<and> tw_slots w ! nat (t div millisecond) = [''op_0''])"
proof -
  assume t: "0 \<le> t" "t < second"
  have l: "nat (t div millisecond) < 1000"
    using t by (simp add: duration_units nat_less_iff div_less_iff_less_mult pos_imp_zdiv_nonneg_iff)
  obtain st op s where s: "schedule_operation 0 0 [] ''once'' (at_time t) new_scheduler = Ret (s, Inr ''op_0'')"
    "s = sched_one ''once'' (at_time t)" and
    eq: "sched_one ''once'' (at_time t) = new_scheduler\<lparr>sd_next_id := 1, sd_operations := [''op_0''], sd_stats := st,
       sd_heap := [(''op_0'', op)], sd_wheels := (sd_wheels new_scheduler)
         [0 := add_to_slot ''op_0'' (nat (t div millisecond)) (sd_wheels new_scheduler ! 0)]\<rparr>"
    and op: "op_next_run op = t"
    by (rule sched_one_eq [of "''once''" "at_time t" t]) (use t in \<open>auto simp: first_run_def at_time_def\<close>)
  have "sched_runs not_cancel new_scheduler (sched_one ''once'' (at_time t))"
    by (rule runs_step [OF runs_refl _ st_schedule [OF s(1) [unfolded s(2)]]]) (simp add: not_cancel_def)
  with l op show ?thesis
    unfolding eq by (simp add: new_scheduler_def add_to_slot_def new_wheel_def nth_append)
qed

text \<open>C12: in every reachable state the wheels have their shape (slots 1000, 60, 60 and 24, the
  current slot in range), every reference on a wheel, in the table or in flight points to an
  operation, and the count of active operations never exceeds the number of registered ones.\<close>

theorem scheduler_reachable_consistent:
  assumes "sched_runs any_label new_scheduler s"
  shows "wheels_ok (sd_wheels s) \<and> refs_ok s \<and> heap_ok s \<and>
    ss_active (sd_stats s) \<le> int (length (sd_operations s)) \<and>
    (k \<in> set (sd_running s) \<longrightarrow> finish_operation now latency failed k s \<noteq> Panics NilDereference)"
proof -
  have inv: "sched_inv s" by (rule reachable_sched_inv [OF assms])
  have "finish_operation now latency failed k s \<noteq> Panics NilDereference" if "k \<in> set (sd_running s)"
  proof -
    have "k \<in> fst ` set (sd_heap s)" using that inv by (auto simp: sched_inv_def refs_ok_def)
    then obtain op where "map_of (sd_heap s) k = Some op"
      using has_key_iff [of k "sd_heap s"] by (auto simp: has_key_def)
    then show ?thesis
      by (auto simp: finish_operation_def Let_def set_stats_def parse_cron_expression_def put_on_wheel_def)
  qed
  with inv show ?thesis by (auto simp: sched_inv_def counts_ok_def)
qed

theorem scheduler_reachable_consistent_witness:
  "wheels_ok (sd_wheels new_scheduler) \<and> ss_active (sd_stats new_scheduler) \<le> int (length (sd_operations new_scheduler))"
  using scheduler_reachable_consistent [OF runs_refl] by blast

text \<open>C3: without cancellations no operation is ever in two places: each is on at most one slot
  of one wheel or in at most one execution, only registered operations are, and the statistics
  count the registered operations exactly.\<close>

theorem scheduler_at_most_once:
  assumes "sched_runs not_cancel new_scheduler s"
  shows "count (pending s) k \<le> 1 \<and> set_mset (pending s) \<subseteq> set (sd_operations s) \<and>
    ss_active (sd_stats s) = int (length (sd_operations s))"
  using once_runs [OF assms sched_inv_new once_inv_new] by (simp add: once_inv_def)

theorem scheduler_at_most_once_witness:
  "count (pending new_scheduler) ''op_0'' \<le> 1 \<and> ss_active (sd_stats new_scheduler) = 0"
  using scheduler_at_most_once [OF runs_refl, of "''op_0''"] by (simp add: new_scheduler_def zero_stats_def)



text \<open>What a tick does with an operation in the slot it visits that is not due yet.\<close>

lemma tick_drops:
  assumes inv: "sched_inv s" and once: "count (pending s) k \<le> 1" and ws: "sd_wheels s = w # ws"
    and k: "k \<in> set (tw_slots w ! (Suc (tw_current w) mod tw_slot_count w))" and due: "\<not> op_due now s k"
  shows "k \<notin># pending (sched_tick now el s)"
proof -
  let ?c = "Suc (tw_current w) mod tw_slot_count w"
  let ?w = "w\<lparr>tw_current := ?c, tw_slots := (tw_slots w)[?c := []]\<rparr>"
  have l: "list_all wheel_ok (w # ws)" using inv ws by (simp add: sched_inv_def wheels_ok_def)
  have c: "?c < length (tw_slots w)" using l by (simp add: wheel_ok_def)
  have one: "count (mset (tw_slots w ! ?c)) k \<ge> 1" using k by (simp add: Suc_leI)
  have sum: "count (mset (on_wheel ?w)) k + count (mset (tw_slots w ! ?c)) k = count (mset (on_wheel w)) k"
    using arg_cong [where f = "\<lambda>m. count m k", OF on_wheel_clear [OF c, of ?c]] by simp
  have "count (mset (on_wheel w)) k + count (mset (queued ws)) k + count (mset (sd_running s)) k \<le> 1"
    using once by (simp add: pending_def ws)
  with one sum have zero: "count (mset (on_wheel ?w)) k = 0" "count (mset (queued ws)) k = 0"
    "count (mset (sd_running s)) k = 0" by linarith+
  obtain ws' st where a: "advance_wheel (op_due now s) ws = (ws', st)" by fastforce
  have "mset (queued ws') + mset st \<subseteq># mset (queued ws)" using advance_mset [OF a] l by simp
  from mset_subset_eq_count [OF this, of k] zero(2) have deep: "k \<notin> set (queued ws')" "k \<notin> set st"
    by (simp_all add: count_eq_zero_iff)
  show ?thesis
    using deep zero due
    by (auto simp: sched_tick_def ws Let_def a pending_def set_stats_def count_eq_zero_iff count_mset_0_iff)
qed



text \<open>when the handler of a repeating operation returns, the operation is due one interval
  after its last due time and goes back on a wheel, whatever its repeat count; but if that time
  lies one millisecond or more in the past (and not a whole number of seconds), the slot index is
  negative and the goroutine panics.\<close>

theorem repeating_runs_again:
  assumes "sched_runs any_label new_scheduler s" and "k \<in> set (sd_running s)"
    and "map_of (sd_heap s) k = Some op" and "op_type op = ''repeating''"
    and "next = op_next_run op + cf_interval (op_schedule op)" and "now - next \<le> max_i64"
  shows "if overdue now next then finish_operation now latency failed k s = Panics IndexOutOfRange
    else \<exists>s'. finish_operation now latency failed k s = Ret s' \<and> k \<in># mset (queued (sd_wheels s')) \<and>
      map_of (sd_heap s') k = Some (op\<lparr>op_last_run := now, op_run_count := op_run_count op + 1, op_next_run := next\<rparr>)"
proof -
  have inv: "sched_inv s" by (rule reachable_sched_inv [OF assms(1)])
  let ?s = "set_stats (record_run failed latency) (s\<lparr>sd_running := remove1 k (sd_running s)\<rparr>)"
  let ?op = "op\<lparr>op_last_run := now, op_run_count := op_run_count op + 1, op_next_run := next\<rparr>"
  have heap: "op_id op = k" "op_max_runs op = 0"
    using inv assms(3) by (auto simp: sched_inv_def heap_ok_def simp del: map_of_eq_Some_iff)
  have w: "wheels_ok (sd_wheels (set_op ?op ?s))"
    using inv by (simp add: sched_inv_def set_op_def set_stats_def)
  have fin: "finish_operation now latency failed k s = put_on_wheel now ?op (set_op ?op ?s)"
    using assms(3-5) heap by (simp add: finish_operation_def Let_def set_stats_def)
  note iff = put_on_wheel_panics [OF w, of now ?op]
  show ?thesis
  proof (cases "overdue now next")
    case True
    then show ?thesis using iff put_on_wheel_cases [of now ?op "set_op ?op ?s"] assms(6) fin by auto
  next
    case False
    then obtain s' where s': "put_on_wheel now ?op (set_op ?op ?s) = Ret s'" using iff assms(6) by auto
    from put_on_wheel_frame(5) [OF s' wheels_ok_nonempty [OF w]] w
    have "k \<in># mset (queued (sd_wheels s'))" by (simp add: wheels_ok_def heap)
    moreover have "map_of (sd_heap s') k = Some ?op"
      using pending_put(5) [OF s' w] by (simp add: set_op_def set_stats_def map_of_update heap)
    ultimately show ?thesis using False fin s' by auto
  qed
qed

text \<open>A repeating operation of one millisecond, started by the first tick, two milliseconds in.\<close>

definition sched_started :: sched where
  "sched_started = sched_tick (2 * millisecond) 0 (sched_one ''repeating'' (every millisecond))"

lemma sched_started_facts:
  "sched_runs any_label new_scheduler sched_started \<and> ''op_0'' \<in> set (sd_running sched_started) \<and>
   (\<exists>op. map_of (sd_heap sched_started) ''op_0'' = Some op \<and> op_type op = ''repeating'' \<and>
      op_next_run op = millisecond \<and> op_schedule op = every millisecond)"
proof -
  let ?s = "sched_one ''repeating'' (every millisecond)"
  obtain st op s where s: "schedule_operation 0 0 [] ''repeating'' (every millisecond) new_scheduler = Ret (s, Inr ''op_0'')"
    "s = ?s" and
    eq: "?s = new_scheduler\<lparr>sd_next_id := 1, sd_operations := [''op_0''], sd_stats := st,
       sd_heap := [(''op_0'', op)], sd_wheels := (sd_wheels new_scheduler)
         [0 := add_to_slot ''op_0'' (nat (millisecond div millisecond)) (sd_wheels new_scheduler ! 0)]\<rparr>"
    and op: "op_next_run op = millisecond" "op_type op = ''repeating''" "op_schedule op = every millisecond"
    by (rule sched_one_eq [of "''repeating''" "every millisecond" millisecond])
      (auto simp: first_run_def every_def duration_units)
  have "sched_runs any_label new_scheduler ?s"
    by (rule runs_step [OF runs_refl _ st_schedule [OF s(1) [unfolded s(2)]]]) (simp add: any_label_def)
  then have runs: "sched_runs any_label new_scheduler sched_started"
    unfolding sched_started_def
    by (rule runs_step [OF _ _ st_tick]) (simp_all add: any_label_def eq new_scheduler_def)
  have "op_due (2 * millisecond) ?s ''op_0''" by (simp add: op_due_def eq op(1)) (simp add: millisecond_def)
  then have "''op_0'' \<in> set (sd_running sched_started)"
    unfolding sched_started_def sched_tick_def
    by (simp add: eq set_stats_def) (simp add: new_scheduler_def new_wheel_def add_to_slot_def millisecond_def Let_def)
  moreover have "sd_heap sched_started = [(''op_0'', op)]"
    by (simp add: sched_started_def sched_tick_def eq set_stats_def split: prod.split)
  ultimately show ?thesis using runs op by simp
qed

theorem repeating_runs_again_witness:
  "finish_operation (3 * millisecond) 0 False ''op_0'' sched_started = Panics IndexOutOfRange"
proof -
  obtain op where op: "map_of (sd_heap sched_started) ''op_0'' = Some op" "op_type op = ''repeating''"
    "op_next_run op = millisecond" "op_schedule op = every millisecond"
    using sched_started_facts by blast
  have n: "2 * millisecond = op_next_run op + cf_interval (op_schedule op)"
    by (simp add: op every_def millisecond_def)
  have late: "3 * millisecond - 2 * millisecond \<le> max_i64" "overdue (3 * millisecond) (2 * millisecond)"
    by (simp_all add: millisecond_def max_i64_def overdue_def)
  from repeating_runs_again [OF _ _ op(1,2) n late(1)] sched_started_facts late(2) show ?thesis by simp
qed

text \<open>C23: once Stop has returned (the ticker goroutine is gone and nothing is in flight), no
  operation is executed in any later state, whatever is scheduled or cancelled.\<close>

theorem nothing_runs_after_stop:
  assumes "wait_over s" and "sched_runs any_label s s'"
  shows "wait_over s'"
  using assms(2,1)
proof (induction rule: sched_runs.induct)
  case (runs_step s t l u)
  then have "wait_over t" by simp
  with runs_step(3) show ?case
  proof (induction rule: sched_step.induct)
    case (st_schedule now r name ty cfg s s' res)
    from st_schedule(1) show ?case
      by (cases rule: schedule_cases)
        (use st_schedule(2) in \<open>auto simp: wait_over_def put_on_wheel_def Let_def set_stats_def set_op_def split: if_splits\<close>)
  qed (auto simp: wait_over_def cancel_operation_def remove_operation_def set_stats_def request_stop_def
      split: if_splits)
qed

theorem nothing_runs_after_stop_witness:
  "let s = new_scheduler\<lparr>sd_stopping := True, sd_ticking := False\<rparr> in
   wait_over s \<and> wait_over (fst (cancel_operation ''op_0'' s))"
proof -
  let ?s = "new_scheduler\<lparr>sd_stopping := True, sd_ticking := False\<rparr>"
  have w: "wait_over ?s" by (simp add: wait_over_def new_scheduler_def)
  have "sched_runs any_label ?s (fst (cancel_operation ''op_0'' ?s))"
    by (rule runs_step [OF runs_refl _ st_cancel]) (simp_all add: any_label_def prod_eq_iff)
  from nothing_runs_after_stop [OF w this] w show ?thesis by (simp add: Let_def)
qed

end
