(* ===== verification/Storage.thy ===== *)
theory Storage
  imports Paths "HOL-Library.List_Lexorder" "HOL-Library.Char_ord"
begin

text \<open>
  The storage interface of the export service (\<open>ExportStorage\<close> in \<open>controller/export_service.go\<close>)
  as the locale \<open>export_storage\<close>, and its implementation on the local file system
  (\<open>controller/storage.go\<close>), which interprets it. The operating system is a tree of files and
  directories addressed by cleaned paths, with the outcome of a write given by \<open>fs_io\<close>.
\<close>

subsection \<open>The interface\<close>

text \<open>
  Keys that name the same location (\<open>loc\<close>) share their content; a successful store is read back,
  and a store, successful or not, leaves every other location as it was.
\<close>

locale export_storage =
  fixes store :: "'st \<Rightarrow> string \<Rightarrow> string \<Rightarrow> 'st \<times> 'e option"
    and retrieve :: "'st \<Rightarrow> string \<Rightarrow> 'e + string"
    and loc :: "string \<Rightarrow> 'l"
    and invar :: "'st \<Rightarrow> bool"
  assumes invar_store: "invar s \<Longrightarrow> invar (fst (store s k d))"
    and retrieve_store: "invar s \<Longrightarrow> snd (store s k d) = None \<Longrightarrow> loc k' = loc k \<Longrightarrow>
           retrieve (fst (store s k d)) k' = Inr d"
    and retrieve_other: "invar s \<Longrightarrow> loc k' \<noteq> loc k \<Longrightarrow> retrieve (fst (store s k d)) k' = retrieve s k'"

subsection \<open>Directories and relative paths\<close>

definition parent :: "path \<Rightarrow> path" where
  "parent p = (fst p, butlast (snd p))"

definition ancestors :: "path \<Rightarrow> path list" where
  "ancestors p = map (\<lambda>i. (fst p, take i (snd p))) [0..<Suc (length (snd p))]"

definition slash_free :: "string \<Rightarrow> string" where
  "slash_free s = map (\<lambda>c. if c = CHR 0x5C then slash else c) s"

text \<open>\<open>filepath.Rel\<close> on cleaned paths.\<close>

fun common_length :: "string list \<Rightarrow> string list \<Rightarrow> nat" where
  "common_length (a # as) (b # bs) = (if a = b then Suc (common_length as bs) else 0)"
| "common_length _ _ = 0"

definition rel_path :: "path \<Rightarrow> path \<Rightarrow> string" where
  "rel_path base p = (let n = common_length (snd base) (snd p);
      cs = replicate (length (snd base) - n) ''..'' @ drop n (snd p)
    in if cs = [] then ''.'' else join [slash] cs)"

subsection \<open>The file system\<close>

datatype io_result = IoOk | IoOpenFails | IoWriteFails nat

record fs_state =
  fs_base :: string
  fs_url :: string
  fs_files :: "(path \<times> string) list"
  fs_dirs :: "path list"
  fs_io :: "path \<Rightarrow> io_result"

datatype storage_err = CreateDirFailed path | WriteFileFailed path | ReadFileFailed path
  | DeleteFileFailed path | ListFilesFailed

definition new_file_system_storage :: "string \<Rightarrow> string \<Rightarrow> (path \<times> string) list \<Rightarrow> path list
    \<Rightarrow> (path \<Rightarrow> io_result) \<Rightarrow> fs_state" where
  "new_file_system_storage base url files dirs io =
     \<lparr>fs_base = base, fs_url = url, fs_files = files, fs_dirs = dirs, fs_io = io\<rparr>"

definition is_file :: "fs_state \<Rightarrow> path \<Rightarrow> bool" where
  "is_file s p \<longleftrightarrow> has_key p (fs_files s)"

text \<open>\<open>os.MkdirAll\<close> fails when a component is a file.\<close>

definition mkdir_all :: "path \<Rightarrow> fs_state \<Rightarrow> fs_state option" where
  "mkdir_all d s = (if list_ex (is_file s) (ancestors d) \<or> fs_io s d = IoOpenFails then None
     else Some (s\<lparr>fs_dirs := remdups (ancestors d @ fs_dirs s)\<rparr>))"

definition write_file :: "path \<Rightarrow> string \<Rightarrow> fs_state \<Rightarrow> fs_state \<times> bool" where
  "write_file p d s = (if p \<in> set (fs_dirs s) then (s, False) else (case fs_io s p of
       IoOpenFails \<Rightarrow> (s, False)
     | IoWriteFails n \<Rightarrow> (s\<lparr>fs_files := AList.update p (take n d) (fs_files s)\<rparr>, False)
     | IoOk \<Rightarrow> (s\<lparr>fs_files := AList.update p d (fs_files s)\<rparr>, True)))"

definition fs_store :: "fs_state \<Rightarrow> string \<Rightarrow> string \<Rightarrow> fs_state \<times> storage_err option" where
  "fs_store s key data = (let p = join_path (fs_base s) key in
     case mkdir_all (parent p) s of
       None \<Rightarrow> (s, Some (CreateDirFailed (parent p)))
     | Some s \<Rightarrow> (case write_file p data s of
         (s, True) \<Rightarrow> (s, None) | (s, False) \<Rightarrow> (s, Some (WriteFileFailed p))))"

definition fs_retrieve :: "fs_state \<Rightarrow> string \<Rightarrow> storage_err + string" where
  "fs_retrieve s key = (let p = join_path (fs_base s) key in
     case map_of (fs_files s) p of None \<Rightarrow> Inl (ReadFileFailed p) | Some d \<Rightarrow> Inr d)"

definition fs_get_url :: "fs_state \<Rightarrow> string \<Rightarrow> string" where
  "fs_get_url s key = fs_url s @ ''/'' @ slash_free key"

text \<open>\<open>os.Remove\<close> also removes an empty directory; a missing file is not an error.\<close>

definition fs_delete :: "fs_state \<Rightarrow> string \<Rightarrow> fs_state \<times> storage_err option" where
  "fs_delete s key = (let p = join_path (fs_base s) key in
     if is_file s p then (s\<lparr>fs_files := AList.delete p (fs_files s)\<rparr>, None)
     else if p \<in> set (fs_dirs s) then
       (if list_ex (\<lambda>q. q \<noteq> p \<and> p \<in> set (ancestors q)) (map fst (fs_files s) @ fs_dirs s)
        then (s, Some (DeleteFileFailed p))
        else (s\<lparr>fs_dirs := filter (\<lambda>q. q \<noteq> p) (fs_dirs s)\<rparr>, None))
     else (s, None))"

text \<open>\<open>filepath.Walk\<close> visits the files below the prefix in lexical order.\<close>

definition fs_list :: "fs_state \<Rightarrow> string \<Rightarrow> storage_err + string list" where
  "fs_list s pfx = (let p = join_path (fs_base s) pfx; base = clean_path (fs_base s) in
     if \<not> is_file s p \<and> p \<notin> set (fs_dirs s) then Inl ListFilesFailed
     else Inr (map (\<lambda>q. slash_free (rel_path base q))
            (sort_key snd (filter (\<lambda>q. p \<in> set (ancestors q)) (map fst (fs_files s))))))"

subsection \<open>The file system provides the interface\<close>

definition fs_invar :: "string \<Rightarrow> fs_state \<Rightarrow> bool" where
  "fs_invar base s \<longleftrightarrow> fs_base s = base \<and> distinct (keys (fs_files s))"

lemma mkdir_all_frame:
  "mkdir_all d s = Some s' \<Longrightarrow> fs_base s' = fs_base s \<and> fs_files s' = fs_files s \<and> fs_io s' = fs_io s"
  by (auto simp: mkdir_all_def split: if_splits)

lemma write_file_frame:
  "write_file p d s = (s', ok) \<Longrightarrow> fs_base s' = fs_base s \<and>
     (fs_files s' = fs_files s \<or> (\<exists>x. fs_files s' = AList.update p x (fs_files s))) \<and>
     (ok \<longrightarrow> fs_files s' = AList.update p d (fs_files s))"
  by (auto simp: write_file_def split: if_splits io_result.splits)

lemma fs_store_frame:
  assumes "fs_store s k d = (s', err)" and "p = join_path (fs_base s) k"
  shows "fs_base s' = fs_base s \<and>
    (fs_files s' = fs_files s \<or> (\<exists>x. fs_files s' = AList.update p x (fs_files s))) \<and>
    (err = None \<longrightarrow> fs_files s' = AList.update p d (fs_files s))"
  using assms
  by (auto simp: fs_store_def Let_def split: option.splits prod.splits bool.splits
      dest!: mkdir_all_frame write_file_frame)

interpretation fs: export_storage fs_store fs_retrieve "join_path base" "fs_invar base" for base
proof
  fix s k d k'
  assume inv: "fs_invar base s"
  obtain s' err where st: "fs_store s k d = (s', err)" by fastforce
  note frame = fs_store_frame [OF st refl]
  show "fs_invar base (fst (fs_store s k d))"
    using frame inv by (auto simp: st fs_invar_def)
  show "snd (fs_store s k d) = None \<Longrightarrow> join_path base k' = join_path base k \<Longrightarrow>
      fs_retrieve (fst (fs_store s k d)) k' = Inr d"
    using frame inv by (simp add: st fs_invar_def fs_retrieve_def map_of_update)
  show "join_path base k' \<noteq> join_path base k \<Longrightarrow> fs_retrieve (fst (fs_store s k d)) k' = fs_retrieve s k'"
    using frame inv by (auto simp: st fs_invar_def fs_retrieve_def map_of_update)
qed

end
