(* ===== verification/Http.thy ===== *)
theory Http
  imports Prelude
begin

text \<open>
  The part of \<open>net/http\<close> that the controller's handlers use. Header names are in canonical form;
  a response's body has the handler's own type, since most bodies are encoded values.
\<close>

record http_request =
  hr_method :: string
  hr_path :: string
  hr_headers :: "(string \<times> string) list"
  hr_remote :: string

record 'b http_response =
  rs_status :: int
  rs_headers :: "(string \<times> string) list"
  rs_body :: 'b

definition header_get :: "(string \<times> string) list \<Rightarrow> string \<Rightarrow> string" where
  "header_get hs k = (case map_of hs k of None \<Rightarrow> [] | Some v \<Rightarrow> v)"

definition header_set :: "string \<Rightarrow> string \<Rightarrow> (string \<times> string) list \<Rightarrow> (string \<times> string) list" where
  "header_set k v hs = AList.update k v hs"

text \<open>\<open>http.Error\<close>: it drops the length set before and writes the message as plain text.\<close>

definition http_error :: "(string \<Rightarrow> 'b) \<Rightarrow> string \<Rightarrow> int \<Rightarrow> (string \<times> string) list \<Rightarrow> 'b http_response" where
  "http_error body msg code hs = \<lparr>rs_status = code,
     rs_headers = header_set ''X-Content-Type-Options'' ''nosniff'' (header_set ''Content-Type''
       ''text/plain; charset=utf-8'' (AList.delete ''Content-Length'' hs)),
     rs_body = body (msg @ [newline])\<rparr>"

lemma http_error_status [simp]: "rs_status (http_error body msg code hs) = code"
  by (simp add: http_error_def)

lemma http_error_body [simp]: "rs_body (http_error body msg code hs) = body (msg @ [newline])"
  by (simp add: http_error_def)

lemma header_get_set [simp]: "header_get (header_set k v hs) k' = (if k = k' then v else header_get hs k')"
  by (simp add: header_get_def header_set_def map_of_update)

end
