(* ===== verification/Json.thy ===== *)
theory Json
  imports Prelude "HOL-Library.Multiset" "HOL-Library.List_Lexorder" "HOL-Library.Char_ord"
begin

text \<open>
  \<open>encoding/json\<close> and the verb \<open>%v\<close> on the values the program exchanges: \<open>json_str\<close> is
  \<open>json.Marshal\<close> of a \<open>map[string]interface{}\<close>, \<open>json_parse\<close> is \<open>json.Unmarshal\<close> into one and
  \<open>show_v\<close> is \<open>fmt.Sprintf("%v", x)\<close>. Numbers are integers (a text with a fraction or an exponent
  is outside the model and does not parse). Strings are byte strings: bytes from 0x80 on are copied,
  as Go does for valid UTF-8 other than U+2028 and U+2029; an escaped surrogate decodes to U+FFFD,
  also when it is half of a pair.
\<close>

datatype json =
    JNull
  | JBool bool
  | JInt int
  | JStr string
  | JArr "json list"
  | JObj "(string \<times> json) list"

subsection \<open>Marshal\<close>

definition hex1 :: "nat \<Rightarrow> char" where
  "hex1 n = char_of (if n < 10 then 48 + n else 87 + n)"

definition escape_char :: "char \<Rightarrow> string" where
  "escape_char c = (let n = (of_char c :: nat) in
     if c = CHR 0x22 \<or> c = CHR 0x5C then [CHR 0x5C, c]
     else if n = 8 then [CHR 0x5C, CHR ''b'']
     else if n = 12 then [CHR 0x5C, CHR ''f'']
     else if n = 10 then [CHR 0x5C, CHR ''n'']
     else if n = 13 then [CHR 0x5C, CHR ''r'']
     else if n = 9 then [CHR 0x5C, CHR ''t'']
     else if n < 32 \<or> n = 38 \<or> n = 60 \<or> n = 62
       then [CHR 0x5C, CHR ''u'', CHR ''0'', CHR ''0'', hex1 (n div 16), hex1 (n mod 16)]
     else [c])"

definition quote_str :: "string \<Rightarrow> string" where
  "quote_str s = CHR 0x22 # concat (map escape_char s) @ [CHR 0x22]"

text \<open>Go marshals the keys of a map in increasing order.\<close>

definition sort_members :: "(string \<times> 'a) list \<Rightarrow> (string \<times> 'a) list" where
  "sort_members ms = sort_key fst ms"

fun json_str :: "json \<Rightarrow> string" where
  "json_str JNull = ''null''"
| "json_str (JBool b) = (if b then ''true'' else ''false'')"
| "json_str (JInt i) = itoa i"
| "json_str (JStr s) = quote_str s"
| "json_str (JArr vs) = CHR ''['' # join '','' (map json_str vs) @ '']''"
| "json_str (JObj ms) = CHR ''{'' # join '',''
     (map (\<lambda>(k, s). quote_str k @ '':'' @ s) (sort_members (map (\<lambda>(k, v). (k, json_str v)) ms))) @ ''}''"

fun show_v :: "json \<Rightarrow> string" where
  "show_v JNull = ''<nil>''"
| "show_v (JBool b) = (if b then ''true'' else ''false'')"
| "show_v (JInt i) = itoa i"
| "show_v (JStr s) = s"
| "show_v (JArr vs) = CHR ''['' # join '' '' (map show_v vs) @ '']''"
| "show_v (JObj ms) = ''map['' @ join '' ''
     (map (\<lambda>(k, s). k @ '':'' @ s) (sort_members (map (\<lambda>(k, v). (k, show_v v)) ms))) @ '']''"

subsection \<open>Unmarshal\<close>

fun skip_ws :: "string \<Rightarrow> string" where
  "skip_ws (c # s) = (if c = CHR '' '' \<or> c = CHR 0x09 \<or> c = CHR 0x0A \<or> c = CHR 0x0D then skip_ws s else c # s)"
| "skip_ws [] = []"

definition hex_val :: "char \<Rightarrow> nat option" where
  "hex_val c = (let n = (of_char c :: nat) in
     if 48 \<le> n \<and> n \<le> 57 then Some (n - 48)
     else if 97 \<le> n \<and> n \<le> 102 then Some (n - 87)
     else if 65 \<le> n \<and> n \<le> 70 then Some (n - 55) else None)"

definition utf8 :: "nat \<Rightarrow> string" where
  "utf8 n = (if n < 128 then [char_of n]
     else if n < 2048 then [char_of (192 + n div 64), char_of (128 + n mod 64)]
     else if 55296 \<le> n \<and> n < 57344 then [CHR 0xEF, CHR 0xBF, CHR 0xBD]
     else [char_of (224 + n div 4096), char_of (128 + n div 64 mod 64), char_of (128 + n mod 64)])"

definition simple_escape :: "char \<Rightarrow> char option" where
  "simple_escape c = (if c = CHR 0x22 \<or> c = CHR 0x5C \<or> c = CHR 0x2F then Some c
     else if c = CHR ''b'' then Some (CHR 0x08) else if c = CHR ''f'' then Some (CHR 0x0C)
     else if c = CHR ''n'' then Some (CHR 0x0A) else if c = CHR ''r'' then Some (CHR 0x0D)
     else if c = CHR ''t'' then Some (CHR 0x09) else None)"

definition cons_bytes :: "string \<Rightarrow> (string \<times> string) option \<Rightarrow> (string \<times> string) option" where
  "cons_bytes p r = map_option (\<lambda>(s, rest). (p @ s, rest)) r"

text \<open>The characters of a string literal after its opening quote.\<close>

fun parse_chars :: "string \<Rightarrow> (string \<times> string) option" where
  "parse_chars [] = None"
| "parse_chars (c # s) =
     (if c = CHR 0x22 then Some ([], s)
      else if c = CHR 0x5C then
        (case s of
           [] \<Rightarrow> None
         | e # r \<Rightarrow>
           if e = CHR ''u'' then
             (case r of
                h1 # h2 # h3 # h4 # r' \<Rightarrow>
                  (case (hex_val h1, hex_val h2, hex_val h3, hex_val h4) of
                     (Some a, Some b, Some d, Some f) \<Rightarrow>
                       cons_bytes (utf8 (((a * 16 + b) * 16 + d) * 16 + f)) (parse_chars r')
                   | _ \<Rightarrow> None)
              | _ \<Rightarrow> None)
           else (case simple_escape e of None \<Rightarrow> None | Some b \<Rightarrow> cons_bytes [b] (parse_chars r)))
      else if (of_char c :: nat) < 32 then None
      else cons_bytes [c] (parse_chars s))"

definition is_frac :: "string \<Rightarrow> bool" where
  "is_frac s \<longleftrightarrow> (case s of [] \<Rightarrow> False | c # _ \<Rightarrow> c = CHR ''.'' \<or> c = CHR ''e'' \<or> c = CHR ''E'')"

definition parse_digits :: "string \<Rightarrow> (nat \<times> string) option" where
  "parse_digits s = (case s of
     [] \<Rightarrow> None
   | c # r \<Rightarrow> if c = CHR ''0'' then (if is_frac r then None else Some (0, r))
       else let ds = takeWhile is_digit s; rest = dropWhile is_digit s in
         if ds = [] \<or> is_frac rest then None else Some (digits_val ds, rest))"

definition parse_number :: "string \<Rightarrow> (json \<times> string) option" where
  "parse_number s = (case s of
     [] \<Rightarrow> None
   | c # r \<Rightarrow> if c = CHR ''-'' then map_option (\<lambda>(n, rest). (JInt (- int n), rest)) (parse_digits r)
       else map_option (\<lambda>(n, rest). (JInt (int n), rest)) (parse_digits s))"

definition keyword :: "string \<Rightarrow> json \<Rightarrow> string \<Rightarrow> (json \<times> string) option" where
  "keyword w v s = (if prefix w s then Some (v, drop (length w) s) else None)"

definition add_member :: "string \<Rightarrow> json \<Rightarrow> (string \<times> json) list \<Rightarrow> (string \<times> json) list" where
  "add_member k v ms = AList.update k v ms"

text \<open>
  Arrays and objects: \<open>parse_elems\<close> and \<open>parse_members\<close> read what follows the opening bracket,
  with the elements read so far; the fuel \<open>n\<close> bounds the depth of calls, and the length of the text
  is enough. A later member of the same key overwrites an earlier one.
\<close>

fun parse_value :: "nat \<Rightarrow> string \<Rightarrow> (json \<times> string) option"
  and parse_elems :: "nat \<Rightarrow> json list \<Rightarrow> string \<Rightarrow> (json \<times> string) option"
  and parse_members :: "nat \<Rightarrow> (string \<times> json) list \<Rightarrow> string \<Rightarrow> (json \<times> string) option" where
  "parse_value 0 s = None"
| "parse_value (Suc n) s = (case skip_ws s of
     [] \<Rightarrow> None
   | c # r \<Rightarrow>
     if c = CHR ''n'' then keyword ''null'' JNull (c # r)
     else if c = CHR ''t'' then keyword ''true'' (JBool True) (c # r)
     else if c = CHR ''f'' then keyword ''false'' (JBool False) (c # r)
     else if c = CHR 0x22 then map_option (\<lambda>(x, rest). (JStr x, rest)) (parse_chars r)
     else if c = CHR ''['' then
       (case skip_ws r of d # r' \<Rightarrow> if d = CHR '']'' then Some (JArr [], r') else parse_elems n [] r
        | [] \<Rightarrow> None)
     else if c = CHR ''{'' then
       (case skip_ws r of d # r' \<Rightarrow> if d = CHR ''}'' then Some (JObj [], r') else parse_members n [] r
        | [] \<Rightarrow> None)
     else parse_number (c # r))"
| "parse_elems 0 acc s = None"
| "parse_elems (Suc n) acc s = (case parse_value n s of
     None \<Rightarrow> None
   | Some (v, r) \<Rightarrow> (case skip_ws r of
       [] \<Rightarrow> None
     | c # r' \<Rightarrow> if c = CHR '','' then parse_elems n (acc @ [v]) r'
         else if c = CHR '']'' then Some (JArr (acc @ [v]), r') else None))"
| "parse_members 0 acc s = None"
| "parse_members (Suc n) acc s = (case skip_ws s of
     [] \<Rightarrow> None
   | c # r \<Rightarrow> if c \<noteq> CHR 0x22 then None else
     (case parse_chars r of
       None \<Rightarrow> None
     | Some (k, r1) \<Rightarrow> (case skip_ws r1 of
         [] \<Rightarrow> None
       | d # r2 \<Rightarrow> if d \<noteq> CHR '':'' then None else
         (case parse_value n r2 of
           None \<Rightarrow> None
         | Some (v, r3) \<Rightarrow> (case skip_ws r3 of
             [] \<Rightarrow> None
           | e # r4 \<Rightarrow> if e = CHR '','' then parse_members n (add_member k v acc) r4
               else if e = CHR ''}'' then Some (JObj (add_member k v acc), r4) else None)))))"

definition json_parse :: "string \<Rightarrow> json option" where
  "json_parse s = (case parse_value (Suc (length s)) s of
     Some (v, rest) \<Rightarrow> if skip_ws rest = [] then Some v else None | None \<Rightarrow> None)"

text \<open>A value as the parser rebuilds it: the members of every object in increasing key order.\<close>

fun canon :: "json \<Rightarrow> json" where
  "canon (JArr vs) = JArr (map canon vs)"
| "canon (JObj ms) = JObj (sort_members (map (\<lambda>(k, v). (k, canon v)) ms))"
| "canon v = v"

text \<open>A Go map has distinct keys.\<close>

fun json_ok :: "json \<Rightarrow> bool" where
  "json_ok (JArr vs) = list_all json_ok vs"
| "json_ok (JObj ms) = (distinct (map fst ms) \<and> list_all (\<lambda>(k, v). json_ok v) ms)"
| "json_ok _ = True"


subsection \<open>Strings and numbers read back\<close>

lemma of_char_cases: "(of_char c :: nat) = of_char d \<longleftrightarrow> c = d"
  by (rule of_char_eq_iff)

lemma hex_val_hex1: "n < 16 \<Longrightarrow> hex_val (hex1 n) = Some n"
  by (auto simp: hex_val_def hex1_def)

lemma hex_val_zero: "hex_val (CHR ''0'') = Some 0"
  by (simp add: hex_val_def)

lemma parse_hex_escape:
  "n < 128 \<Longrightarrow> parse_chars (CHR 0x5C # CHR ''u'' # CHR ''0'' # CHR ''0'' # hex1 (n div 16) # hex1 (n mod 16) # t) =
     cons_bytes [char_of n] (parse_chars t)"
proof -
  assume n: "n < 128"
  then have "n div 16 < 16" "n mod 16 < 16" by auto
  note h = hex_val_hex1 [OF this(1)] hex_val_hex1 [OF this(2)] hex_val_zero
  have "utf8 (((0 * 16 + 0) * 16 + n div 16) * 16 + n mod 16) = [char_of n]"
    using n by (simp add: utf8_def)
  with h show ?thesis by simp
qed

lemma simple_escapes:
  "parse_chars (CHR 0x5C # CHR 0x22 # t) = cons_bytes [CHR 0x22] (parse_chars t)"
  "parse_chars (CHR 0x5C # CHR 0x5C # t) = cons_bytes [CHR 0x5C] (parse_chars t)"
  "parse_chars (CHR 0x5C # CHR ''b'' # t) = cons_bytes [CHR 0x08] (parse_chars t)"
  "parse_chars (CHR 0x5C # CHR ''f'' # t) = cons_bytes [CHR 0x0C] (parse_chars t)"
  "parse_chars (CHR 0x5C # CHR ''n'' # t) = cons_bytes [CHR 0x0A] (parse_chars t)"
  "parse_chars (CHR 0x5C # CHR ''r'' # t) = cons_bytes [CHR 0x0D] (parse_chars t)"
  "parse_chars (CHR 0x5C # CHR ''t'' # t) = cons_bytes [CHR 0x09] (parse_chars t)"
  by (simp_all add: simple_escape_def)

lemma char_codes:
  "c = CHR 0x22 \<longleftrightarrow> (of_char c :: nat) = 34" "c = CHR 0x5C \<longleftrightarrow> (of_char c :: nat) = 92"
  "c = CHR 0x08 \<longleftrightarrow> (of_char c :: nat) = 8" "c = CHR 0x0C \<longleftrightarrow> (of_char c :: nat) = 12"
  "c = CHR 0x0A \<longleftrightarrow> (of_char c :: nat) = 10" "c = CHR 0x0D \<longleftrightarrow> (of_char c :: nat) = 13"
  "c = CHR 0x09 \<longleftrightarrow> (of_char c :: nat) = 9"
  using of_char_cases [of c "CHR 0x22"] of_char_cases [of c "CHR 0x5C"] of_char_cases [of c "CHR 0x08"]
    of_char_cases [of c "CHR 0x0C"] of_char_cases [of c "CHR 0x0A"] of_char_cases [of c "CHR 0x0D"]
    of_char_cases [of c "CHR 0x09"] by (simp_all del: of_char_eq_iff)

lemma parse_escape: "parse_chars (escape_char c @ t) = cons_bytes [c] (parse_chars t)"
proof -
  let ?n = "of_char c :: nat"
  consider "c = CHR 0x22" | "c = CHR 0x5C" | "c = CHR 0x08" | "c = CHR 0x0C" | "c = CHR 0x0A" | "c = CHR 0x0D"
    | "c = CHR 0x09" | (hex) "?n < 32 \<or> ?n = 38 \<or> ?n = 60 \<or> ?n = 62" "?n \<notin> {8, 12, 10, 13, 9, 34, 92}"
    | (plain) "\<not> (?n < 32 \<or> ?n = 38 \<or> ?n = 60 \<or> ?n = 62)" "?n \<noteq> 34" "?n \<noteq> 92"
    using char_codes [of c] by fastforce
  then show ?thesis
  proof cases
    case hex
    then have "escape_char c = [CHR 0x5C, CHR ''u'', CHR ''0'', CHR ''0'', hex1 (?n div 16), hex1 (?n mod 16)]"
      by (simp add: escape_char_def char_codes Let_def)
    moreover have "?n < 128" using hex(1) by auto
    ultimately show ?thesis using parse_hex_escape [of ?n t] by simp
  next
    case plain
    then have "escape_char c = [c]" by (auto simp: escape_char_def char_codes Let_def)
    then show ?thesis using plain char_codes [of c] by simp
  qed (simp_all add: escape_char_def simple_escapes del: parse_chars.simps)
qed

lemma parse_chars_quoted: "parse_chars (concat (map escape_char s) @ CHR 0x22 # rest) = Some (s, rest)"
  by (induction s) (simp_all add: parse_escape cons_bytes_def)

text \<open>What may follow a value in a text: a separator, a closing bracket or a line end.\<close>

definition stops :: "string \<Rightarrow> bool" where
  "stops s \<longleftrightarrow> (case s of [] \<Rightarrow> True | c # _ \<Rightarrow> c \<in> {CHR '','', CHR '']'', CHR ''}'', CHR 0x0A})"

lemma stops_simps [simp]:
  "stops []" "stops (CHR '','' # s)" "stops (CHR '']'' # s)" "stops (CHR ''}'' # s)" "stops (CHR 0x0A # s)"
  by (simp_all add: stops_def)

lemma stops_digits:
  assumes "stops s" and "list_all is_digit ds"
  shows "takeWhile is_digit (ds @ s) = ds" "dropWhile is_digit (ds @ s) = s" "\<not> is_frac s"
proof -
  have "s = [] \<or> \<not> is_digit (hd s)" and "\<not> is_frac s"
    using assms(1) by (cases s; force simp: stops_def is_frac_def is_digit_def)+
  then have "takeWhile is_digit s = []" "dropWhile is_digit s = s" by (cases s; simp)+
  moreover have "\<And>x. x \<in> set ds \<Longrightarrow> is_digit x" using assms(2) by (simp add: list_all_iff)
  ultimately show "takeWhile is_digit (ds @ s) = ds" "dropWhile is_digit (ds @ s) = s"
    by simp_all
  show "\<not> is_frac s" by fact
qed

lemma nat_str_head: "0 < n \<Longrightarrow> hd (nat_str n) \<noteq> CHR ''0''"
proof (induction n rule: nat_str.induct)
  case (1 n)
  show ?case
  proof (cases "n < 10")
    case True
    then have "digit n \<noteq> digit 0" using 1(2) of_char_digit [of n] of_char_digit [of 0] by auto
    then show ?thesis using True by simp
  next
    case False
    then have "hd (nat_str n) = hd (nat_str (n div 10))"
      using nat_str_digits [of "n div 10"] by (subst nat_str.simps) simp
    with 1(1) [OF False] False show ?thesis by simp
  qed
qed

lemma parse_digits_nat_str: "stops s \<Longrightarrow> parse_digits (nat_str n @ s) = Some (n, s)"
proof (cases "n = 0")
  case True
  assume "stops s"
  with True show ?thesis using stops_digits(3) [of s "[]"] by (simp add: parse_digits_def)
next
  case False
  assume st: "stops s"
  obtain c r where cr: "nat_str n = c # r" using nat_str_digits [of n] by (cases "nat_str n") auto
  then have "c \<noteq> CHR ''0''" using nat_str_head [of n] False by simp
  with stops_digits [OF st, of "nat_str n"] nat_str_digits [of n] cr
  show ?thesis by (simp add: parse_digits_def Let_def digits_val_nat_str [of n, unfolded cr])
qed

lemma parse_number_itoa: "stops s \<Longrightarrow> parse_number (itoa i @ s) = Some (JInt i, s)"
proof (cases "i < 0")
  case True
  assume "stops s"
  with True show ?thesis by (simp add: parse_number_def itoa_def parse_digits_nat_str)
next
  case False
  assume st: "stops s"
  obtain c r where cr: "nat_str (nat i) = c # r" using nat_str_digits [of "nat i"] by (cases "nat_str (nat i)") auto
  then have "is_digit c" using nat_str_digits [of "nat i"] by simp
  then have "c \<noteq> CHR ''-''" by (auto simp: is_digit_def)
  then show ?thesis
    using parse_digits_nat_str [OF st, of "nat i"] False by (simp add: parse_number_def itoa_def cr)
qed


subsection \<open>Values read back\<close>

lemma insort_map_fst:
  "insort_key fst (k, f v) (map (\<lambda>(k, v). (k, f v)) ms) = map (\<lambda>(k, v). (k, f v)) (insort_key fst (k, v) ms)"
  by (induction ms) auto

lemma sort_members_map:
  "sort_members (map (\<lambda>(k, v). (k, f v)) ms) = map (\<lambda>(k, v). (k, f v)) (sort_members ms)"
  unfolding sort_members_def by (induction ms) (auto simp: insort_map_fst)

lemma set_sort_members [simp]: "set (sort_members ms) = set ms"
  by (simp add: sort_members_def)

lemma distinct_sort_members: "distinct (map fst ms) \<Longrightarrow> distinct (map fst (sort_members ms))"
proof -
  assume "distinct (map fst ms)"
  moreover have "mset (map fst (sort_members ms)) = mset (map fst ms)" by (simp add: sort_members_def)
  ultimately show ?thesis by (metis mset_eq_imp_distinct_iff)
qed

definition member_str :: "string \<times> json \<Rightarrow> string" where
  "member_str p = quote_str (fst p) @ CHR '':'' # json_str (snd p)"

lemma json_str_obj: "json_str (JObj ms) = CHR ''{'' # join '','' (map member_str (sort_members ms)) @ ''}''"
  by (simp add: sort_members_map member_str_def [abs_def] case_prod_beta comp_def)

lemma join_Cons: "join sep (x # xs) = (if xs = [] then x else x @ sep @ join sep xs)"
  by (cases xs) simp_all

lemma json_str_head: "\<exists>c r. json_str v = c # r \<and> c \<notin> {CHR '' '', CHR 0x09, CHR 0x0A, CHR 0x0D, CHR '']''}"
proof (cases v)
  case (JInt i)
  obtain c r where cr: "nat_str (nat \<bar>i\<bar>) = c # r" and "is_digit c"
    using nat_str_digits [of "nat \<bar>i\<bar>"] by (cases "nat_str (nat \<bar>i\<bar>)") auto
  then have "c \<notin> {CHR '' '', CHR 0x09, CHR 0x0A, CHR 0x0D, CHR '']''}" by (auto simp: is_digit_def)
  then show ?thesis using JInt cr by (cases "i < 0") (simp_all add: itoa_def)
qed (auto simp: quote_str_def)

lemma skip_json [simp]: "skip_ws (json_str v @ s) = json_str v @ s"
  using json_str_head [of v] by auto

lemma json_str_pos: "0 < length (json_str v)"
  using json_str_head [of v] by auto

lemma parse_int_value: "0 < n \<Longrightarrow> stops s \<Longrightarrow> parse_value n (itoa i @ s) = Some (JInt i, s)"
proof -
  assume n: "0 < n" and st: "stops s"
  obtain c r where cr: "nat_str (nat \<bar>i\<bar>) = c # r" and d: "is_digit c"
    using nat_str_digits [of "nat \<bar>i\<bar>"] by (cases "nat_str (nat \<bar>i\<bar>)") auto
  define e where "e = (if i < 0 then CHR ''-'' else c)"
  obtain t where t: "itoa i = e # t" using cr by (cases "i < 0") (auto simp: itoa_def e_def)
  have "e \<notin> {CHR '' '', CHR 0x09, CHR 0x0A, CHR 0x0D, CHR ''n'', CHR ''t'', CHR ''f'', CHR 0x22, CHR ''['', CHR ''{''}"
    using d by (auto simp: e_def is_digit_def)
  moreover obtain m where "n = Suc m" using n by (cases n) auto
  ultimately show ?thesis using parse_number_itoa [OF st, of i] by (simp add: t)
qed

lemma parse_elems_join:
  assumes "\<And>v m r. v \<in> set vs \<Longrightarrow> length (json_str v) \<le> m \<Longrightarrow> stops r \<Longrightarrow>
      parse_value m (json_str v @ r) = Some (canon v, r)"
    and "vs \<noteq> []" and "Suc (length (join '','' (map json_str vs))) \<le> n"
  shows "parse_elems n acc (join '','' (map json_str vs) @ CHR '']'' # r) = Some (JArr (acc @ map canon vs), r)"
  using assms
proof (induction vs arbitrary: n acc)
  case (Cons v vs)
  then obtain m where n: "n = Suc m" by (cases n) auto
  show ?case
  proof (cases "vs = []")
    case True
    then show ?thesis using Cons.prems(1) [of v m "CHR '']'' # r"] Cons.prems(3) by (simp add: n)
  next
    case False
    have "parse_value m (json_str v @ CHR '','' # join '','' (map json_str vs) @ CHR '']'' # r) =
        Some (canon v, CHR '','' # join '','' (map json_str vs) @ CHR '']'' # r)"
      by (rule Cons.prems(1)) (use Cons.prems(3) False in \<open>simp_all add: n join_Cons\<close>)
    moreover have "parse_elems m (acc @ [canon v]) (join '','' (map json_str vs) @ CHR '']'' # r) =
        Some (JArr ((acc @ [canon v]) @ map canon vs), r)"
      by (rule Cons.IH) (use Cons.prems False in \<open>auto simp: n join_Cons\<close>)
    ultimately show ?thesis using False by (simp add: n join_Cons)
  qed
qed simp

lemma add_member_fresh: "k \<notin> set (keys ms) \<Longrightarrow> add_member k v ms = ms @ [(k, v)]"
  unfolding add_member_def by (induction ms) auto

lemma parse_members_join:
  assumes "\<And>k v m r. (k, v) \<in> set ms \<Longrightarrow> length (json_str v) \<le> m \<Longrightarrow> stops r \<Longrightarrow>
      parse_value m (json_str v @ r) = Some (canon v, r)"
    and "ms \<noteq> []" and "distinct (keys (acc @ ms))" and "Suc (length (join '','' (map member_str ms))) \<le> n"
  shows "parse_members n acc (join '','' (map member_str ms) @ CHR ''}'' # r) =
    Some (JObj (acc @ map (\<lambda>(k, v). (k, canon v)) ms), r)"
  using assms
proof (induction ms arbitrary: n acc)
  case (Cons p ms)
  obtain k v where p: "p = (k, v)" by (cases p)
  obtain m where n: "n = Suc m" using Cons.prems(4) by (cases n) auto
  have fresh: "add_member k (canon v) acc = acc @ [(k, canon v)]"
    using Cons.prems(3) by (intro add_member_fresh) (auto simp: p)
  show ?case
  proof (cases "ms = []")
    case True
    have "parse_value m (json_str v @ CHR ''}'' # r) = Some (canon v, CHR ''}'' # r)"
      by (rule Cons.prems(1) [of k v]) (use Cons.prems(4) True in \<open>simp_all add: n p member_str_def\<close>)
    then show ?thesis using True fresh by (simp add: n p member_str_def quote_str_def parse_chars_quoted)
  next
    case False
    let ?rest = "join '','' (map member_str ms) @ CHR ''}'' # r"
    have "parse_value m (json_str v @ CHR '','' # ?rest) = Some (canon v, CHR '','' # ?rest)"
      by (rule Cons.prems(1) [of k v]) (use Cons.prems(4) False in \<open>simp_all add: n p member_str_def join_Cons\<close>)
    moreover have "parse_members m (acc @ [(k, canon v)]) ?rest =
        Some (JObj ((acc @ [(k, canon v)]) @ map (\<lambda>(k, v). (k, canon v)) ms), r)"
      by (rule Cons.IH) (use Cons.prems False in \<open>auto simp: n p join_Cons\<close>)
    moreover have "member_str (k, v) = CHR 0x22 # concat (map escape_char k) @ CHR 0x22 # CHR '':'' # json_str v"
      by (simp add: member_str_def quote_str_def)
    ultimately show ?thesis
      using False fresh by (simp add: n p join_Cons parse_chars_quoted)
  qed
qed simp


lemma parse_value_json:
  "json_ok v \<Longrightarrow> length (json_str v) \<le> n \<Longrightarrow> stops r \<Longrightarrow> parse_value n (json_str v @ r) = Some (canon v, r)"
proof (induction v arbitrary: n r)
  case (JInt i)
  then show ?case using parse_int_value [of n r i] json_str_pos [of "JInt i"] by auto
next
  case (JArr vs)
  then obtain m where n: "n = Suc m" by (cases n) auto
  show ?case
  proof (cases "vs = []")
    case False
    then obtain v ws where ws: "vs = v # ws" by (cases vs) auto
    obtain c t where "json_str v = c # t" "c \<notin> {CHR '' '', CHR 0x09, CHR 0x0A, CHR 0x0D, CHR '']''}"
      using json_str_head [of v] by blast
    then have ct: "join '','' (map json_str vs) = c # t @ (if ws = [] then [] else '','' @ join '','' (map json_str ws))"
        "c \<notin> {CHR '' '', CHR 0x09, CHR 0x0A, CHR 0x0D, CHR '']''}"
      by (simp_all add: ws join_Cons)
    have "parse_elems m [] (join '','' (map json_str vs) @ CHR '']'' # r) = Some (JArr ([] @ map canon vs), r)"
      by (rule parse_elems_join) (use JArr False in \<open>auto simp: n list_all_iff\<close>)
    with ct show ?thesis by (simp add: n)
  qed (simp add: n)
next
  case (JObj ms)
  then obtain m where n: "n = Suc m" by (cases n) auto
  let ?ms = "sort_members ms"
  show ?case
  proof (cases "ms = []")
    case False
    then obtain p ps where ps: "?ms = p # ps" by (cases ?ms) (auto simp: sort_members_def dest: arg_cong [where f = length])
    then obtain t where ct: "join '','' (map member_str ?ms) = CHR 0x22 # t"
      by (cases ps) (auto simp: member_str_def quote_str_def)
    have "parse_members m [] (join '','' (map member_str ?ms) @ CHR ''}'' # r) =
        Some (JObj ([] @ map (\<lambda>(k, v). (k, canon v)) ?ms), r)"
    proof (rule parse_members_join)
      fix k v i r'
      assume "(k, v) \<in> set ?ms" "length (json_str v) \<le> i" "stops r'"
      then show "parse_value i (json_str v @ r') = Some (canon v, r')"
        using JObj by (fastforce simp: list_all_iff)
    next
      show "distinct (keys ([] @ ?ms))" using JObj.prems(1) by (simp add: distinct_sort_members)
    qed (use JObj ps in \<open>simp_all add: n json_str_obj del: json_str.simps\<close>)
    with ct show ?thesis by (simp add: n json_str_obj sort_members_map del: json_str.simps)
  qed (simp add: n sort_members_def)
next
  case JNull
  then show ?case by (cases n) (auto simp: keyword_def)
next
  case (JBool b)
  then show ?case by (cases n; cases b) (auto simp: keyword_def)
next
  case (JStr s)
  then show ?case by (cases n) (auto simp: quote_str_def parse_chars_quoted)
qed

theorem json_parse_str: "json_ok v \<Longrightarrow> json_parse (json_str v) = Some (canon v)"
  using parse_value_json [of v "Suc (length (json_str v))" "[]"] by (simp add: json_parse_def)

subsection \<open>One line\<close>

lemma newline_escape: "newline \<notin> set (escape_char c)"
proof -
  have "hex1 n \<noteq> newline" if "n < 16" for n
    using that by (auto simp: hex1_def newline_def char_codes)
  moreover have "(of_char c :: nat) < 32 \<Longrightarrow> (of_char c :: nat) div 16 < 16" by auto
  ultimately show ?thesis
    using char_codes(5) [of c] by (auto simp: escape_char_def Let_def newline_def eq_commute [of "CHR 0x0A"])
qed

lemma newline_join: "(\<And>x. x \<in> set xs \<Longrightarrow> newline \<notin> set x) \<Longrightarrow> newline \<notin> set sep \<Longrightarrow> newline \<notin> set (join sep xs)"
  by (induction xs) (auto simp: join_Cons)

lemma newline_quote: "newline \<notin> set (quote_str s)"
  using newline_escape by (auto simp: quote_str_def newline_def)

lemma newline_json: "newline \<notin> set (json_str v)"
proof (induction v)
  case (JInt i)
  have "\<not> is_digit newline" by (simp add: is_digit_def newline_def)
  then show ?case using nat_str_no_char by (simp add: itoa_def newline_def)
next
  case (JArr vs)
  then show ?case using newline_join [of "map json_str vs" "'',''"] by (auto simp: newline_def)
next
  case (JObj ms)
  have "newline \<notin> set (join '','' (map member_str (sort_members ms)))"
  proof (rule newline_join)
    fix x assume "x \<in> set (map member_str (sort_members ms))"
    then obtain k v where "(k, v) \<in> set ms" "x = member_str (k, v)" by auto
    then show "newline \<notin> set x" using JObj newline_quote by (fastforce simp: member_str_def newline_def)
  qed (simp add: newline_def)
  then show ?case by (simp add: json_str_obj newline_def del: json_str.simps)
qed (use newline_quote in \<open>auto simp: newline_def\<close>)

end
