(* ===== verification/Sha256.thy ===== *)
theory Sha256
  imports Prelude "HOL-Library.Word"
begin

unbundle bit_operations_syntax

text \<open>
  \<open>crypto/sha256\<close> and \<open>encoding/hex\<close> of Go's standard library, which the export service and
  the command-line tool both use for checksums, Merkle nodes and signatures (FIPS 180-4).
  The properties rest only on the digest being a function of the bytes with a fixed length.
\<close>

type_synonym w32 = "32 word"

definition sha_k :: "w32 list" where
  "sha_k = [1116352408, 1899447441, 3049323471, 3921009573, 961987163, 1508970993, 2453635748, 2870763221,
    3624381080, 310598401, 607225278, 1426881987, 1925078388, 2162078206, 2614888103, 3248222580,
    3835390401, 4022224774, 264347078, 604807628, 770255983, 1249150122, 1555081692, 1996064986,
    2554220882, 2821834349, 2952996808, 3210313671, 3336571891, 3584528711, 113926993, 338241895,
    666307205, 773529912, 1294757372, 1396182291, 1695183700, 1986661051, 2177026350, 2456956037,
    2730485921, 2820302411, 3259730800, 3345764771, 3516065817, 3600352804, 4094571909, 275423344,
    430227734, 506948616, 659060556, 883997877, 958139571, 1322822218, 1537002063, 1747873779,
    1955562222, 2024104815, 2227730452, 2361852424, 2428436474, 2756734187, 3204031479, 3329325298]"

definition sha_init :: "w32 list" where
  "sha_init = [1779033703, 3144134277, 1013904242, 2773480762, 1359893119, 2600822924, 528734635, 1541459225]"

definition rotr :: "nat \<Rightarrow> w32 \<Rightarrow> w32" where
  "rotr n x = drop_bit n x OR push_bit (32 - n) x"

definition bytes_of :: "string \<Rightarrow> nat list" where
  "bytes_of s = map of_char s"

text \<open>Padding: a one bit, zeros, and the bit length as 64 bits big-endian.\<close>

definition be_bytes :: "nat \<Rightarrow> nat \<Rightarrow> nat list" where
  "be_bytes n x = map (\<lambda>i. (x div 256 ^ i) mod 256) (rev [0..<n])"

definition sha_pad :: "nat list \<Rightarrow> nat list" where
  "sha_pad bs = (let l = length bs; z = (119 - l mod 64) mod 64 in
     bs @ [128] @ replicate z 0 @ be_bytes 8 (8 * l))"

fun words_be :: "nat list \<Rightarrow> w32 list" where
  "words_be (a # b # c # d # rest) = of_nat (((a * 256 + b) * 256 + c) * 256 + d) # words_be rest"
| "words_be _ = []"

text \<open>The message schedule, kept in reverse: the next word depends on the 2nd, 7th, 15th and 16th last.\<close>

definition sched_word :: "w32 list \<Rightarrow> w32" where
  "sched_word rs = (let x = rs ! 14; y = rs ! 1;
     s0 = rotr 7 x XOR rotr 18 x XOR drop_bit 3 x; s1 = rotr 17 y XOR rotr 19 y XOR drop_bit 10 y
   in rs ! 15 + s0 + rs ! 6 + s1)"

definition message_schedule :: "w32 list \<Rightarrow> w32 list" where
  "message_schedule block = rev (((\<lambda>rs. sched_word rs # rs) ^^ 48) (rev block))"

fun sha_round :: "w32 list \<Rightarrow> w32 \<times> w32 \<Rightarrow> w32 list" where
  "sha_round [a, b, c, d, e, f, g, h] (k, w) =
     (let s1 = rotr 6 e XOR rotr 11 e XOR rotr 25 e; ch = (e AND f) XOR (NOT e AND g);
        t1 = h + s1 + ch + k + w;
        s0 = rotr 2 a XOR rotr 13 a XOR rotr 22 a; maj = (a AND b) XOR (a AND c) XOR (b AND c);
        t2 = s0 + maj
      in [t1 + t2, a, b, c, d + t1, e, f, g])"
| "sha_round st _ = st"

definition sha_block :: "w32 list \<Rightarrow> w32 list \<Rightarrow> w32 list" where
  "sha_block st block = map (\<lambda>(x, y). x + y)
     (zip st (foldl sha_round st (zip sha_k (message_schedule block))))"

definition word_bytes :: "w32 \<Rightarrow> nat list" where
  "word_bytes w = be_bytes 4 (unat w)"

definition sha256_sum :: "string \<Rightarrow> nat list" where
  "sha256_sum s = concat (map word_bytes
     (foldl sha_block sha_init (map words_be (chop 64 (sha_pad (bytes_of s))))))"

definition hex_digit :: "nat \<Rightarrow> char" where
  "hex_digit n = (if n < 10 then char_of (48 + n) else char_of (87 + n))"

definition hex_encode :: "nat list \<Rightarrow> string" where
  "hex_encode bs = concat (map (\<lambda>b. [hex_digit (b div 16), hex_digit (b mod 16)]) bs)"

text \<open>\<open>hex.EncodeToString(sha256(s))\<close>\<close>

definition sha256_hex :: "string \<Rightarrow> string" where
  "sha256_hex s = hex_encode (sha256_sum s)"

lemma hex_encode_length: "length (hex_encode bs) = 2 * length bs"
  by (induction bs) (simp_all add: hex_encode_def)

lemma sha_round_length: "length st = 8 \<Longrightarrow> length (sha_round st p) = 8"
  by (cases "(st, p)" rule: sha_round.cases) (simp_all add: Let_def)

lemma sha_rounds_length: "length st = 8 \<Longrightarrow> length (foldl sha_round st ps) = 8"
  by (induction ps arbitrary: st) (simp_all add: sha_round_length)

lemma sha_block_length: "length st = 8 \<Longrightarrow> length (sha_block st b) = 8"
  by (simp add: sha_block_def sha_rounds_length)

lemma sha_blocks_length: "length st = 8 \<Longrightarrow> length (foldl sha_block st bs) = 8"
  by (induction bs arbitrary: st) (simp_all add: sha_block_length)

lemma sum_list_const: "(\<And>x. x \<in> set xs \<Longrightarrow> f x = c) \<Longrightarrow> sum_list (map f xs) = c * length xs" for c :: nat
  by (induction xs) simp_all

lemma sha256_hex_length [simp]: "length (sha256_hex s) = 64"
proof -
  let ?st = "foldl sha_block sha_init (map words_be (chop 64 (sha_pad (bytes_of s))))"
  have "length ?st = 8" by (rule sha_blocks_length) (simp add: sha_init_def)
  moreover have "length (word_bytes w) = 4" for w by (simp add: word_bytes_def be_bytes_def)
  ultimately show ?thesis
    by (simp add: sha256_hex_def hex_encode_length sha256_sum_def length_concat comp_def sum_list_const)
qed

end
