(* ===== verification/Export.thy ===== *)
theory Export
  imports Storage Http Json Sha256
begin

text \<open>
  The controller's export service, \<open>controller/export_service.go\<close>: the job table, the background
  processing of a job (fetch, format, chunk, Merkle root, signature, manifest) over the storage
  interface, and the HTTP handlers with range requests. Jobs are heap objects: the table maps an
  identifier to a reference (\<open>es_jobs\<close>, \<open>es_heap\<close>), because the service also writes through the
  reference it was given. The processing of one job is one step. Metrics, traces and log lines are
  left out.
\<close>

subsection \<open>Data\<close>

datatype export_status = XPending | XProcessing | XCompleted | XFailed | XExpired

record export_filters =
  xf_start_date :: "gtime option"
  xf_end_date :: "gtime option"
  xf_experiment_type :: string
  xf_status :: string
  xf_target :: string
  xf_user_id :: string
  xf_tags :: "string list"

record export_job =
  xj_id :: string
  xj_user :: string
  xj_status :: export_status
  xj_format :: string
  xj_filters :: export_filters
  xj_created :: gtime
  xj_completed :: "gtime option"
  xj_progress :: rat
  xj_total_size :: int
  xj_chunk_count :: int
  xj_signature :: string
  xj_merkle_root :: string
  xj_manifest_url :: string
  xj_error :: string
  xj_metadata :: "(string \<times> json) list"
  xj_expires :: gtime

record export_file =
  ef_name :: string
  ef_path :: string
  ef_size :: int
  ef_checksum :: string
  ef_chunk_index :: int
  ef_start_byte :: int
  ef_end_byte :: int

record export_manifest =
  xm_job_id :: string
  xm_created :: gtime
  xm_format :: string
  xm_filters :: export_filters
  xm_total_records :: int
  xm_total_size :: int
  xm_chunk_count :: int
  xm_signature :: string
  xm_merkle_root :: string
  xm_files :: "export_file list"
  xm_metadata :: "(string \<times> json) list"
  xm_instructions :: string

record crypto_manager =
  cm_private_key :: string
  cm_public_key :: string

record 'st export_service =
  es_storage :: 'st
  es_crypto :: crypto_manager
  es_jobs :: "(string \<times> nat) list"
  es_heap :: "export_job list"

datatype 'e export_err =
    UnsupportedFormat string
  | ChunkStoreFailed nat 'e
  | ManifestMarshalFailed
  | ManifestStoreFailed 'e
  | ExportJobNotFound string

definition new_crypto_manager :: crypto_manager where
  "new_crypto_manager = \<lparr>cm_private_key = ''mock-private-key'', cm_public_key = ''mock-public-key''\<rparr>"

definition new_export_service :: "'st \<Rightarrow> 'st export_service" where
  "new_export_service st = \<lparr>es_storage = st, es_crypto = new_crypto_manager, es_jobs = [], es_heap = []\<rparr>"

subsection \<open>Fetching and formatting\<close>

definition str_field :: "json \<Rightarrow> string \<Rightarrow> string option" where
  "str_field r k = (case r of JObj ms \<Rightarrow>
       (case map_of ms k of Some (JStr s) \<Rightarrow> Some s | _ \<Rightarrow> None) | _ \<Rightarrow> None)"

definition matches_filters :: "json \<Rightarrow> export_filters \<Rightarrow> bool" where
  "matches_filters r f \<longleftrightarrow>
     (xf_experiment_type f \<noteq> [] \<longrightarrow> str_field r ''experiment_type'' = Some (xf_experiment_type f)) \<and>
     (xf_status f \<noteq> [] \<longrightarrow> str_field r ''status'' = Some (xf_status f)) \<and>
     (xf_target f \<noteq> [] \<longrightarrow> str_field r ''target'' = Some (xf_target f))"

text \<open>The generated records; \<open>fmt\<close> is \<open>Format(time.RFC3339)\<close> in the local time zone.\<close>

definition sample_record :: "(gtime \<Rightarrow> string) \<Rightarrow> gtime \<Rightarrow> nat \<Rightarrow> json" where
  "sample_record fmt now i = JObj [
     (''id'', JStr (''exp-'' @ nat_str i)),
     (''name'', JStr (''Experiment '' @ nat_str i)),
     (''experiment_type'', JStr ([''network_latency'', ''cpu_stress'', ''memory_stress''] ! (i mod 3))),
     (''status'', JStr ([''completed'', ''failed'', ''running''] ! (i mod 3))),
     (''target'', JStr (''server-'' @ nat_str (i mod 10))),
     (''duration'', JInt (300 + int (i mod 1800))),
     (''created_at'', JStr (fmt (now - int i * hour))),
     (''metadata'', JObj [(''version'', JStr ''1.0''), (''tags'', JArr [JStr ''test''])])]"

definition fetch_filtered_data :: "(gtime \<Rightarrow> string) \<Rightarrow> gtime \<Rightarrow> export_filters \<Rightarrow> json list" where
  "fetch_filtered_data fmt now f =
     filter (\<lambda>r. matches_filters r f) (map (sample_record fmt now) [0..<10000])"

definition format_as_ndjson :: "json list \<Rightarrow> string" where
  "format_as_ndjson data = concat (map (\<lambda>r. json_str r @ [newline]) data)"

text \<open>\<open>json.MarshalIndent(v, "", "  ")\<close>\<close>

definition indent_line :: "nat \<Rightarrow> string" where
  "indent_line d = newline # replicate (2 * d) (CHR '' '')"

fun json_indent :: "nat \<Rightarrow> json \<Rightarrow> string" where
  "json_indent d (JArr vs) = (if vs = [] then ''[]'' else CHR ''['' # indent_line (Suc d) @
     join (CHR '','' # indent_line (Suc d)) (map (json_indent (Suc d)) vs) @ indent_line d @ '']'')"
| "json_indent d (JObj ms) = (if ms = [] then ''{}'' else CHR ''{'' # indent_line (Suc d) @
     join (CHR '','' # indent_line (Suc d)) (map (\<lambda>(k, s). quote_str k @ '': '' @ s)
       (sort_members (map (\<lambda>(k, v). (k, json_indent (Suc d) v)) ms))) @ indent_line d @ ''}'')"
| "json_indent d v = json_str v"

definition format_as_parquet :: "json list \<Rightarrow> string" where
  "format_as_parquet data = ''-- Parquet Format Export --'' @ [newline] @
     json_indent 0 (if data = [] then JNull else JArr data)"

definition members :: "json \<Rightarrow> (string \<times> json) list" where
  "members r = (case r of JObj ms \<Rightarrow> ms | _ \<Rightarrow> [])"

definition csv_value :: "json \<Rightarrow> string \<Rightarrow> string" where
  "csv_value r h = (let v = show_v (case map_of (members r) h of Some x \<Rightarrow> x | None \<Rightarrow> JNull) in
     if CHR '','' \<in> set v \<or> CHR 0x22 \<in> set v
     then CHR 0x22 # concat (map (\<lambda>c. if c = CHR 0x22 then [c, c] else [c]) v) @ [CHR 0x22] else v)"

definition format_as_csv :: "json list \<Rightarrow> string" where
  "format_as_csv data = (case data of [] \<Rightarrow> [] | r # _ \<Rightarrow>
     let headers = sort (map fst (members r)) in
     join '','' headers @ [newline] @
     concat (map (\<lambda>r. join '','' (map (csv_value r) headers) @ [newline]) data))"

definition format_data :: "json list \<Rightarrow> string \<Rightarrow> 'e export_err + string" where
  "format_data data fmt =
     (if fmt = ''ndjson'' then Inr (format_as_ndjson data)
      else if fmt = ''parquet'' then Inr (format_as_parquet data)
      else if fmt = ''csv'' then Inr (format_as_csv data)
      else Inl (UnsupportedFormat fmt))"

subsection \<open>Chunks\<close>

definition chunk_size :: nat where
  "chunk_size = 10 * 1024 * 1024"

definition chunk_name :: "string \<Rightarrow> nat \<Rightarrow> string" where
  "chunk_name job i = job @ ''_chunk_'' @ pad0 3 i @ ''.dat''"

definition chunk_path :: "string \<Rightarrow> nat \<Rightarrow> string" where
  "chunk_path job i = ''exports/'' @ job @ ''/'' @ chunk_name job i"

definition chunk_info :: "string \<Rightarrow> nat \<Rightarrow> int \<Rightarrow> string \<Rightarrow> export_file" where
  "chunk_info job i start c = \<lparr>ef_name = chunk_name job i, ef_path = chunk_path job i,
     ef_size = int (length c), ef_checksum = sha256_hex c, ef_chunk_index = int i,
     ef_start_byte = start, ef_end_byte = start + int (length c) - 1\<rparr>"

fun store_chunks :: "('st \<Rightarrow> string \<Rightarrow> string \<Rightarrow> 'st \<times> 'e option) \<Rightarrow> string \<Rightarrow> nat \<Rightarrow> int \<Rightarrow> string list \<Rightarrow> 'st
    \<Rightarrow> 'st \<times> ('e export_err + export_file list)" where
  "store_chunks store job i start [] s = (s, Inr [])"
| "store_chunks store job i start (c # cs) s = (case store s (chunk_path job i) c of
     (s, Some e) \<Rightarrow> (s, Inl (ChunkStoreFailed i e))
   | (s, None) \<Rightarrow> (case store_chunks store job (Suc i) (start + int (length c)) cs s of
       (s, Inl e) \<Rightarrow> (s, Inl e)
     | (s, Inr files) \<Rightarrow> (s, Inr (chunk_info job i start c # files))))"

definition create_chunks :: "('st \<Rightarrow> string \<Rightarrow> string \<Rightarrow> 'st \<times> 'e option) \<Rightarrow> string \<Rightarrow> string \<Rightarrow> 'st
    \<Rightarrow> 'st \<times> ('e export_err + export_file list)" where
  "create_chunks store data job s = store_chunks store job 0 0 (chop chunk_size data) s"

definition calculate_total_size :: "export_file list \<Rightarrow> int" where
  "calculate_total_size fs = i64 (sum_list (map ef_size fs))"

subsection \<open>Proofs and manifest\<close>

fun merkle_level :: "string list \<Rightarrow> string list" where
  "merkle_level (a # b # hs) = sha256_hex (a @ b) # merkle_level hs"
| "merkle_level [a] = [sha256_hex (a @ a)]"
| "merkle_level [] = []"

lemma merkle_level_length: "length (merkle_level hs) = Suc (length hs) div 2"
  by (induction hs rule: merkle_level.induct) auto

function build_merkle_tree :: "string list \<Rightarrow> string" where
  "build_merkle_tree hs = (case hs of [] \<Rightarrow> [] | [h] \<Rightarrow> h | _ \<Rightarrow> build_merkle_tree (merkle_level hs))"
  by pat_completeness auto
termination
  by (relation "measure length") (auto simp: merkle_level_length split: list.splits)

declare build_merkle_tree.simps [simp del]

definition sign_data :: "crypto_manager \<Rightarrow> string \<Rightarrow> string" where
  "sign_data c data = sha256_hex (data @ cm_private_key c)"

definition generate_crypto_proofs :: "crypto_manager \<Rightarrow> export_file list \<Rightarrow> string \<times> string" where
  "generate_crypto_proofs c files = (let root = build_merkle_tree (map ef_checksum files) in
     (''sha256:'' @ sign_data c root, ''merkle:'' @ root))"

definition instructions :: string where
  "instructions = [newline] @ join [newline] [''To verify this export:'',
   ''1. Download the CLI tool: curl -L https://github.com/fraware/chaoslabs/releases/latest/download/chaoslabs-cli-linux-amd64'',
   ''2. Verify signature: chaoslabs-cli verify --manifest manifest.json --public-key public.pem'',
   ''3. Check file integrity: chaoslabs-cli check-files --manifest manifest.json'',
   ''4. Compare with another export: chaoslabs-cli diff export1.json export2.json''] @ [newline]"

definition create_manifest :: "export_job \<Rightarrow> export_file list \<Rightarrow> string \<Rightarrow> string \<Rightarrow> export_manifest" where
  "create_manifest job files sig mroot = \<lparr>xm_job_id = xj_id job, xm_created = xj_created job,
     xm_format = xj_format job, xm_filters = xj_filters job, xm_total_records = int (length files),
     xm_total_size = calculate_total_size files, xm_chunk_count = int (length files),
     xm_signature = sig, xm_merkle_root = mroot, xm_files = files, xm_metadata = xj_metadata job,
     xm_instructions = instructions\<rparr>"

definition manifest_key :: "string \<Rightarrow> string" where
  "manifest_key job = ''exports/'' @ job @ ''/manifest.json''"

text \<open>\<open>text\<close> is the JSON text of the manifest, if it can be written, \<open>url\<close> the storage's \<open>GetURL\<close>.\<close>

definition store_manifest :: "('st \<Rightarrow> string \<Rightarrow> string \<Rightarrow> 'st \<times> 'e option) \<Rightarrow> ('st \<Rightarrow> string \<Rightarrow> string)
    \<Rightarrow> (export_manifest \<Rightarrow> string option) \<Rightarrow> string \<Rightarrow> export_manifest \<Rightarrow> 'st \<Rightarrow> 'st \<times> ('e export_err + string)" where
  "store_manifest store url text job m s = (case text m of None \<Rightarrow> (s, Inl ManifestMarshalFailed)
     | Some d \<Rightarrow> (case store s (manifest_key job) d of
         (s, Some e) \<Rightarrow> (s, Inl (ManifestStoreFailed e)) | (s, None) \<Rightarrow> (s, Inr (url s (manifest_key job)))))"


fun export_err_text :: "('e \<Rightarrow> string) \<Rightarrow> 'e export_err \<Rightarrow> string" where
  "export_err_text etext (UnsupportedFormat f) = ''unsupported format: '' @ f"
| "export_err_text etext (ChunkStoreFailed i e) = ''failed to store chunk '' @ nat_str i @ '': '' @ etext e"
| "export_err_text etext ManifestMarshalFailed = ''failed to marshal manifest: json: error calling MarshalJSON for '' @
     ''type time.Time: Time.MarshalJSON: year outside of range [0,9999]''"
| "export_err_text etext (ManifestStoreFailed e) = ''failed to store manifest: '' @ etext e"
| "export_err_text etext (ExportJobNotFound k) = ''export job '' @ k @ '' not found''"

subsection \<open>The job table\<close>

definition update_heap :: "nat \<Rightarrow> (export_job \<Rightarrow> export_job) \<Rightarrow> 'st export_service \<Rightarrow> 'st export_service" where
  "update_heap i f s = s\<lparr>es_heap := (es_heap s)[i := f (es_heap s ! i)]\<rparr>"

text \<open>\<open>updateJobStatus\<close> goes through the table; an empty message leaves \<open>Error\<close> as it was.\<close>

definition update_job_status :: "string \<Rightarrow> export_status \<Rightarrow> rat \<Rightarrow> string \<Rightarrow> 'st export_service
    \<Rightarrow> 'st export_service" where
  "update_job_status k st progress msg s = (case map_of (es_jobs s) k of None \<Rightarrow> s
     | Some i \<Rightarrow> update_heap i (\<lambda>j. j\<lparr>xj_status := st, xj_progress := progress,
         xj_error := (if msg \<noteq> [] then msg else xj_error j)\<rparr>) s)"

definition charset :: string where
  "charset = ''abcdefghijklmnopqrstuvwxyz0123456789''"

definition generate_random_string :: "nat \<Rightarrow> string" where
  "generate_random_string n = map (\<lambda>i. charset ! (i mod length charset)) [0..<n]"

definition generate_job_id :: "gtime \<Rightarrow> string" where
  "generate_job_id now = ''export_'' @ itoa (unix_seconds now) @ ''_'' @ generate_random_string 8"

definition new_export_job :: "gtime \<Rightarrow> string \<Rightarrow> string \<Rightarrow> export_filters \<Rightarrow> export_job" where
  "new_export_job now user fmt filters = \<lparr>xj_id = generate_job_id now, xj_user = user, xj_status = XPending,
     xj_format = fmt, xj_filters = filters, xj_created = now, xj_completed = None, xj_progress = 0,
     xj_total_size = 0, xj_chunk_count = 0, xj_signature = [], xj_merkle_root = [], xj_manifest_url = [],
     xj_error = [], xj_metadata = [], xj_expires = now + 7 * day\<rparr>"

text \<open>The new job and its reference, with which the background goroutine is started.\<close>

definition create_export_job :: "gtime \<Rightarrow> string \<Rightarrow> string \<Rightarrow> export_filters \<Rightarrow> 'st export_service
    \<Rightarrow> 'st export_service \<times> nat" where
  "create_export_job now user fmt filters s =
     (let job = new_export_job now user fmt filters; i = length (es_heap s) in
      (s\<lparr>es_heap := es_heap s @ [job], es_jobs := AList.update (xj_id job) i (es_jobs s)\<rparr>, i))"

definition get_export_job :: "string \<Rightarrow> 'st export_service \<Rightarrow> 'e export_err + export_job" where
  "get_export_job k s = (case map_of (es_jobs s) k of None \<Rightarrow> Inl (ExportJobNotFound k)
     | Some i \<Rightarrow> Inr (es_heap s ! i))"

definition list_export_jobs :: "string \<Rightarrow> 'st export_service \<Rightarrow> export_job list" where
  "list_export_jobs user s = sort_key (\<lambda>j. - xj_created j)
     (filter (\<lambda>j. xj_user j = user) (map (\<lambda>(k, i). es_heap s ! i) (es_jobs s)))"

text \<open>What the background goroutine calls on the outside: storage, clock formats, JSON text.\<close>

record ('st, 'e) export_env =
  xe_store :: "'st \<Rightarrow> string \<Rightarrow> string \<Rightarrow> 'st \<times> 'e option"
  xe_retrieve :: "'st \<Rightarrow> string \<Rightarrow> 'e + string"
  xe_url :: "'st \<Rightarrow> string \<Rightarrow> string"
  xe_format_time :: "gtime \<Rightarrow> string"
  xe_manifest_text :: "export_manifest \<Rightarrow> string option"
  xe_error_text :: "'e \<Rightarrow> string"

definition fail_job :: "('st, 'e) export_env \<Rightarrow> string \<Rightarrow> rat \<Rightarrow> 'e export_err \<Rightarrow> 'st export_service
    \<Rightarrow> 'st export_service" where
  "fail_job env k progress e s = update_job_status k XFailed progress (export_err_text (xe_error_text env) e) s"

text \<open>The end of \<open>processExportJob\<close>: proofs, manifest, and the job's final details.\<close>

definition finish_export :: "('st, 'e) export_env \<Rightarrow> gtime \<Rightarrow> nat \<Rightarrow> string \<Rightarrow> export_file list
    \<Rightarrow> 'st export_service \<Rightarrow> 'st export_service" where
  "finish_export env now i k files s =
     (let s = update_job_status k XProcessing (8 / 10) ''Creating signatures and manifest...'' s;
          (sig, mroot) = generate_crypto_proofs (es_crypto s) files;
          m = create_manifest (es_heap s ! i) files sig mroot in
      case store_manifest (xe_store env) (xe_url env) (xe_manifest_text env) k m (es_storage s) of
        (st, Inl e) \<Rightarrow> fail_job env k (95 / 100) e (s\<lparr>es_storage := st\<rparr>)
      | (st, Inr url) \<Rightarrow> update_heap i (\<lambda>j. j\<lparr>xj_status := XCompleted, xj_progress := 1,
            xj_total_size := calculate_total_size files, xj_chunk_count := int (length files),
            xj_signature := sig, xj_merkle_root := mroot, xj_manifest_url := url,
            xj_completed := Some now\<rparr>) (s\<lparr>es_storage := st\<rparr>))"

definition process_export_job :: "('st, 'e) export_env \<Rightarrow> gtime \<Rightarrow> nat \<Rightarrow> 'st export_service
    \<Rightarrow> 'st export_service" where
  "process_export_job env now i s =
     (let k = xj_id (es_heap s ! i);
          s = update_job_status k XProcessing 0 [] s;
          data = fetch_filtered_data (xe_format_time env) now (xj_filters (es_heap s ! i));
          s = update_job_status k XProcessing (2 / 10) ''Data fetched, formatting...'' s in
      case format_data data (xj_format (es_heap s ! i)) of
        Inl e \<Rightarrow> fail_job env k (2 / 10) e s
      | Inr bytes \<Rightarrow>
        let s = update_job_status k XProcessing (6 / 10) ''Data formatted, creating chunks...'' s in
        (case create_chunks (xe_store env) bytes k (es_storage s) of
          (st, Inl e) \<Rightarrow> fail_job env k (6 / 10) e (s\<lparr>es_storage := st\<rparr>)
        | (st, Inr files) \<Rightarrow> finish_export env now i k files (s\<lparr>es_storage := st\<rparr>)))"

subsection \<open>HTTP handlers\<close>

datatype export_body = XText string | XJob export_job | XJobs "export_job list" | XData string

definition extract_user_id :: "http_request \<Rightarrow> string" where
  "extract_user_id r = header_get (hr_headers r) ''X-User-ID''"

text \<open>The path segment after the first segment \<open>w\<close> that has one.\<close>

fun segment_after :: "string \<Rightarrow> string list \<Rightarrow> string" where
  "segment_after w (p # q # ps) = (if p = w then q else segment_after w (q # ps))"
| "segment_after w _ = []"

definition extract_job_id :: "string \<Rightarrow> string" where
  "extract_job_id path = segment_after ''exports'' (split_on slash path)"

definition extract_chunk_index :: "string \<Rightarrow> string" where
  "extract_chunk_index path = segment_after ''chunks'' (split_on slash path)"

definition json_header :: "(string \<times> string) list" where
  "json_header = [(''Content-Type'', ''application/json'')]"

text \<open>\<open>StartExportHandler\<close>: the decoded body, or \<open>None\<close> if it does not decode.\<close>

definition start_export_handler :: "gtime \<Rightarrow> http_request \<Rightarrow> (string \<times> export_filters) option
    \<Rightarrow> 'st export_service \<Rightarrow> 'st export_service \<times> nat option \<times> export_body http_response" where
  "start_export_handler now r req s =
     (if hr_method r \<noteq> ''POST'' then (s, None, http_error XText ''Method not allowed'' 405 [])
      else (case req of
        None \<Rightarrow> (s, None, http_error XText ''Invalid JSON'' 400 [])
      | Some (fmt, filters) \<Rightarrow>
        let fmt = (if fmt = [] then ''ndjson'' else fmt);
            (s, i) = create_export_job now (extract_user_id r) fmt filters s
        in (s, Some i, \<lparr>rs_status = 200, rs_headers = json_header, rs_body = XJob (es_heap s ! i)\<rparr>)))"

definition get_export_handler :: "http_request \<Rightarrow> 'st export_service \<Rightarrow> export_body http_response" where
  "get_export_handler r s =
     (if hr_method r \<noteq> ''GET'' then http_error XText ''Method not allowed'' 405 []
      else let k = extract_job_id (hr_path r) in
      if k = [] then http_error XText ''Missing job ID'' 400 []
      else (case get_export_job k s of
        Inl e \<Rightarrow> http_error XText (export_err_text (\<lambda>_ :: unit. []) e) 404 []
      | Inr job \<Rightarrow> if xj_user job \<noteq> extract_user_id r then http_error XText ''Access denied'' 403 []
          else \<lparr>rs_status = 200, rs_headers = json_header, rs_body = XJob job\<rparr>))"

definition list_exports_handler :: "http_request \<Rightarrow> 'st export_service \<Rightarrow> export_body http_response" where
  "list_exports_handler r s =
     (if hr_method r \<noteq> ''GET'' then http_error XText ''Method not allowed'' 405 []
      else \<lparr>rs_status = 200, rs_headers = json_header,
        rs_body = XJobs (list_export_jobs (extract_user_id r) s)\<rparr>)"

text \<open>Slicing \<open>data[a:b]\<close>.\<close>

definition go_slice :: "string \<Rightarrow> int \<Rightarrow> int \<Rightarrow> string outcome" where
  "go_slice d a b = (if 0 \<le> a \<and> a \<le> b \<and> b \<le> int (length d)
     then Ret (take (nat (b - a)) (drop (nat a) d)) else Panics IndexOutOfRange)"

definition handle_range_request :: "string \<Rightarrow> string \<Rightarrow> (string \<times> string) list
    \<Rightarrow> export_body http_response outcome" where
  "handle_range_request data rng hs =
     (case split_on (CHR ''-'') (trim_prefix rng ''bytes='') of
        [a, b] \<Rightarrow>
          let len = int (length data);
              start = (case parse_int a of None \<Rightarrow> 0 | Some x \<Rightarrow> if x < 0 then 0 else x);
              last = (if b = [] then len - 1
                else (case parse_int b of None \<Rightarrow> len - 1 | Some e \<Rightarrow> if e < len then e else len - 1))
          in if start > last \<or> start \<ge> len then Ret (http_error XText ''Invalid range'' 416 hs)
             else obind (go_slice data start (last + 1)) (\<lambda>d. Ret \<lparr>rs_status = 206,
               rs_headers = header_set ''Content-Length'' (itoa (last - start + 1))
                 (header_set ''Content-Range''
                   (''bytes '' @ itoa start @ ''-'' @ itoa last @ ''/'' @ itoa len) hs),
               rs_body = XData d\<rparr>)
      | _ \<Rightarrow> Ret (http_error XText ''Invalid range header'' 416 hs))"

definition download_headers :: "string \<Rightarrow> string \<Rightarrow> (string \<times> string) list" where
  "download_headers filename data = header_set ''Content-Length'' (itoa (int (length data)))
     (header_set ''Accept-Ranges'' ''bytes''
     (header_set ''Content-Disposition'' (''attachment; filename='' @ filename)
     (header_set ''Content-Type'' ''application/octet-stream'' [])))"

text \<open>\<open>%03d\<close> of a chunk index that may be negative.\<close>

definition chunk_file_name :: "string \<Rightarrow> int \<Rightarrow> string" where
  "chunk_file_name k i = k @ ''_chunk_'' @
     (if i < 0 then CHR ''-'' # pad0 2 (nat (- i)) else pad0 3 (nat i)) @ ''.dat''"

definition download_chunk_handler :: "('st, 'e) export_env \<Rightarrow> http_request \<Rightarrow> 'st export_service
    \<Rightarrow> export_body http_response outcome" where
  "download_chunk_handler env r s =
     (if hr_method r \<noteq> ''GET'' then Ret (http_error XText ''Method not allowed'' 405 [])
      else let k = extract_job_id (hr_path r) in
      (case parse_int (extract_chunk_index (hr_path r)) of
        None \<Rightarrow> Ret (http_error XText ''Invalid chunk index'' 400 [])
      | Some i \<Rightarrow> (case get_export_job k s of
          Inl e \<Rightarrow> Ret (http_error XText (export_err_text (\<lambda>_ :: unit. []) e) 404 [])
        | Inr job \<Rightarrow>
          if xj_user job \<noteq> extract_user_id r then Ret (http_error XText ''Access denied'' 403 [])
          else if xj_status job \<noteq> XCompleted then Ret (http_error XText ''Export not ready'' 409 [])
          else let filename = chunk_file_name k i in
            (case xe_retrieve env (es_storage s) (''exports/'' @ k @ ''/'' @ filename) of
              Inl e \<Rightarrow> Ret (http_error XText ''Chunk not found'' 404 [])
            | Inr data \<Rightarrow>
              let hs = download_headers filename data; rng = header_get (hr_headers r) ''Range'' in
              if rng \<noteq> [] then handle_range_request data rng hs
              else Ret \<lparr>rs_status = 200, rs_headers = hs, rs_body = XData data\<rparr>))))"


subsection \<open>Chunks over any storage\<close>

definition chunk_infos :: "string \<Rightarrow> nat \<Rightarrow> int \<Rightarrow> string list \<Rightarrow> export_file list" where
  "chunk_infos job i start cs = map (\<lambda>j. chunk_info job (i + j)
     (start + int (length (concat (take j cs)))) (cs ! j)) [0..<length cs]"

lemma chunk_infos_Nil [simp]: "chunk_infos job i start [] = []"
  by (simp add: chunk_infos_def)

lemma chunk_infos_Cons [simp]:
  "chunk_infos job i start (c # cs) = chunk_info job i start c # chunk_infos job (Suc i) (start + int (length c)) cs"
  by (auto simp: chunk_infos_def upt_conv_Cons map_Suc_upt [symmetric] add.assoc simp del: upt_Suc intro!: nth_equalityI)

context export_storage begin

lemma store_chunks_ok:
  assumes "store_chunks store job i start cs s = (s', Inr files)" and "invar s"
    and inj: "\<And>a b. loc (chunk_path job a) = loc (chunk_path job b) \<Longrightarrow> a = b"
  shows "files = chunk_infos job i start cs \<and> invar s' \<and>
    (\<forall>j < length cs. retrieve s' (chunk_path job (i + j)) = Inr (cs ! j)) \<and>
    (\<forall>k. (\<forall>j < length cs. loc k \<noteq> loc (chunk_path job (i + j))) \<longrightarrow> retrieve s' k = retrieve s k)"
  using assms(1,2)
proof (induction cs arbitrary: i start s files)
  case (Cons c cs)
  obtain t err where st: "store s (chunk_path job i) c = (t, err)" by fastforce
  have none: "err = None" using Cons.prems(1) st by (cases err) auto
  obtain rest where rest: "store_chunks store job (Suc i) (start + int (length c)) cs t = (s', Inr rest)"
    and files: "files = chunk_info job i start c # rest"
    using Cons.prems(1) st none by (auto split: prod.splits sum.splits)
  have inv: "invar t" using invar_store [OF Cons.prems(2), of "chunk_path job i" c] by (simp add: st)
  note IH = Cons.IH [OF rest inv]
  have other: "\<forall>j < length cs. loc (chunk_path job i) \<noteq> loc (chunk_path job (Suc i + j))"
    using inj by fastforce
  have "retrieve t (chunk_path job i) = Inr c"
    using retrieve_store [OF Cons.prems(2), of "chunk_path job i" c "chunk_path job i"] by (simp add: st none)
  then have first: "retrieve s' (chunk_path job i) = Inr c" using IH other by simp
  have "retrieve s' (chunk_path job (i + j)) = Inr ((c # cs) ! j)" if "j < length (c # cs)" for j
    using first IH that by (cases j) simp_all
  moreover have "retrieve s' k = retrieve s k" if "\<forall>j < length (c # cs). loc k \<noteq> loc (chunk_path job (i + j))" for k
  proof -
    have "loc k \<noteq> loc (chunk_path job i)" using that by force
    moreover have "\<forall>j < length cs. loc k \<noteq> loc (chunk_path job (Suc i + j))" using that by fastforce
    ultimately show ?thesis
      using IH retrieve_other [OF Cons.prems(2), of k "chunk_path job i" c] by (simp add: st)
  qed
  ultimately show ?case using IH files by simp
qed simp

lemma store_chunks_invar: "invar s \<Longrightarrow> invar (fst (store_chunks store job i start cs s))"
proof (induction cs arbitrary: i start s)
  case (Cons c cs)
  obtain t err where st: "store s (chunk_path job i) c = (t, err)" by fastforce
  have "invar t" using invar_store [OF Cons.prems, of "chunk_path job i" c] by (simp add: st)
  then show ?case
    using Cons.IH [of t "Suc i" "start + int (length c)"] st
    by (auto split: option.split prod.splits sum.splits)
qed simp

end


subsection \<open>Chunks on the file system\<close>

lemma slash_not_digit: "list_all is_digit s \<Longrightarrow> slash \<notin> set s"
  by (auto simp: list_all_iff is_digit_def slash_def)

lemma plain_chunk_name: "plain job \<Longrightarrow> plain (chunk_name job i)"
proof -
  assume "plain job"
  then have "slash \<notin> set (chunk_name job i)"
    using slash_not_digit [OF pad0_digits [of 3 i]] by (simp add: plain_def chunk_name_def slash_def)
  moreover have "2 < length (chunk_name job i)" by (simp add: chunk_name_def)
  then have "chunk_name job i \<notin> {[], ''.'', ''..''}" by auto
  ultimately show ?thesis by (simp add: plain_def)
qed

lemma chunk_path_join: "chunk_path job i = join [slash] [''exports'', job, chunk_name job i]"
  by (simp add: chunk_path_def slash_def)

lemma chunk_path_inject:
  assumes "plain job" and "join_path base (chunk_path job a) = join_path base (chunk_path job b)"
  shows "a = b"
proof -
  have p: "list_all plain [''exports'', job, chunk_name job i]" for i
    using assms(1) plain_chunk_name [OF assms(1), of i] by (simp add: plain_def slash_def)
  from assms(2) have "chunk_name job a = chunk_name job b"
    by (simp add: chunk_path_join join_path_plain [OF _ p] del: join.simps)
  then show ?thesis by (simp add: chunk_name_def)
qed

lemma chunk_infos_stored:
  assumes "\<forall>j < length cs. get (chunk_path job (i + j)) = Inr (cs ! j)"
  shows "map (\<lambda>f. get (ef_path f)) (chunk_infos job i start cs) = map Inr cs"
  by (rule nth_equalityI) (use assms in \<open>simp_all add: chunk_infos_def chunk_info_def\<close>)

lemma chunk_infos_sizes: "sum_list (map ef_size (chunk_infos job i start cs)) = int (length (concat cs))"
  by (induction cs arbitrary: i start) (simp_all add: chunk_info_def)

lemma chunk_infos_checksums: "map ef_checksum (chunk_infos job i start cs) = map sha256_hex cs"
  by (induction cs arbitrary: i start) (simp_all add: chunk_info_def)

fun contiguous :: "int \<Rightarrow> export_file list \<Rightarrow> bool" where
  "contiguous start [] = True"
| "contiguous start (f # fs) = (ef_start_byte f = start \<and> ef_end_byte f = start + ef_size f - 1 \<and>
     contiguous (ef_end_byte f + 1) fs)"

lemma chunk_infos_contiguous: "contiguous start (chunk_infos job i start cs)"
  by (induction cs arbitrary: i start) (simp_all add: chunk_info_def)

lemma fs_create_chunks:
  assumes "create_chunks fs_store data job s = (s', Inr files)" and "fs_invar base s" and "plain job"
  shows "files = chunk_infos job 0 0 (chop chunk_size data) \<and> fs_invar base s' \<and>
    map (\<lambda>f. fs_retrieve s' (ef_path f)) files = map Inr (chop chunk_size data)"
  using fs.store_chunks_ok [OF assms(1) [unfolded create_chunks_def] assms(2) chunk_path_inject [OF assms(3)]]
    chunk_infos_stored [where get = "fs_retrieve s'" and i = 0]
  by auto

subsection \<open>The processing of a job\<close>

lemma update_heap_simps [simp]:
  "es_jobs (update_heap i f s) = es_jobs s" "es_storage (update_heap i f s) = es_storage s"
  "es_crypto (update_heap i f s) = es_crypto s" "length (es_heap (update_heap i f s)) = length (es_heap s)"
  by (simp_all add: update_heap_def)

lemma update_job_status_simps [simp]:
  "es_jobs (update_job_status k st q m s) = es_jobs s" "es_storage (update_job_status k st q m s) = es_storage s"
  "es_crypto (update_job_status k st q m s) = es_crypto s"
  "length (es_heap (update_job_status k st q m s)) = length (es_heap s)"
  by (simp_all add: update_job_status_def split: option.split)

lemma update_job_status_own:
  assumes "map_of (es_jobs s) k = Some i" and "i < length (es_heap s)"
  shows "es_heap (update_job_status k st q m s) ! i = (es_heap s ! i)\<lparr>xj_status := st, xj_progress := q,
    xj_error := (if m \<noteq> [] then m else xj_error (es_heap s ! i))\<rparr>"
  using assms by (simp add: update_job_status_def update_heap_def)

lemma export_err_text_nonempty: "export_err_text et e \<noteq> []"
  by (cases e) simp_all

lemma update_heap_own: "i < length (es_heap s) \<Longrightarrow> es_heap (update_heap i f s) ! i = f (es_heap s ! i)"
  by (simp add: update_heap_def)


subsection \<open>Properties\<close>


definition no_filters :: export_filters where
  "no_filters = \<lparr>xf_start_date = None, xf_end_date = None, xf_experiment_type = [], xf_status = [],
     xf_target = [], xf_user_id = [], xf_tags = []\<rparr>"

definition small_fs :: fs_state where
  "small_fs = new_file_system_storage ''/data'' ''http://c'' [] [] (\<lambda>_. IoOk)"

lemma small_fs_invar: "fs_invar ''/data'' small_fs"
  by (simp add: fs_invar_def small_fs_def new_file_system_storage_def)

lemma small_fs_store: "snd (fs_store small_fs (chunk_path ''j'' 0) d) = None"
proof -
  let ?p = "(True, [''data'', ''exports'', ''j'', ''j_chunk_000.dat''])"
  have "join_path ''/data'' (chunk_path ''j'' 0) = ?p" "?p \<notin> set (ancestors (parent ?p))"
    by code_simp+
  then show ?thesis
    by (simp add: fs_store_def small_fs_def new_file_system_storage_def mkdir_all_def write_file_def
        is_file_def has_key_def list_ex_iff Let_def)
qed


lemma merkle_level_snoc: "odd (length hs) \<Longrightarrow> merkle_level (hs @ [last hs]) = merkle_level hs"
  by (induction hs rule: merkle_level.induct) (auto split: if_splits)

text \<open>The Merkle root does not determine the list of chunks: for an odd number of at least
  three hashes, repeating the last one gives the same root.\<close>

theorem merkle_root_ignores_repeated_tail:
  assumes "odd (length hs)" and "3 \<le> length hs"
  shows "build_merkle_tree (hs @ [last hs]) = build_merkle_tree hs"
proof -
  obtain a b c r where "hs = a # b # c # r" using assms(2) by (cases hs; cases "tl hs"; cases "tl (tl hs)") auto
  then show ?thesis
    using merkle_level_snoc [OF assms(1)] by (subst (1 2) build_merkle_tree.simps) (auto split: list.split)
qed

theorem merkle_root_ignores_repeated_tail_witness:
  "build_merkle_tree [''a'', ''b'', ''c'', ''c''] = build_merkle_tree [''a'', ''b'', ''c'']"
  using merkle_root_ignores_repeated_tail [of "[''a'', ''b'', ''c'']"] by simp

lemma slice_nat: "x \<le> b \<Longrightarrow> b < length d \<Longrightarrow> go_slice d (int x) (int b + 1) = Ret (take (Suc b - x) (drop x d))"
proof -
  assume "x \<le> b" "b < length d"
  moreover from this have "nat (int b + 1 - int x) = Suc b - x" by arith
  ultimately show ?thesis by (simp add: go_slice_def)
qed

text \<open>A range request never reads outside the chunk: the handler does not panic, and answers
  416 or 206 with a non-empty part of the data whose position and length its headers state.\<close>

theorem range_request_in_bounds:
  "\<exists>r. handle_range_request data rng hs = Ret r \<and>
     (rs_status r = 416 \<or> rs_status r = 206 \<and>
       (\<exists>a b. a \<le> b \<and> b < length data \<and> rs_body r = XData (take (Suc b - a) (drop a data)) \<and>
         header_get (rs_headers r) ''Content-Length'' = nat_str (Suc b - a) \<and>
         header_get (rs_headers r) ''Content-Range'' =
           ''bytes '' @ nat_str a @ ''-'' @ nat_str b @ ''/'' @ nat_str (length data)))"
proof (cases "\<exists>x y. split_on (CHR ''-'') (trim_prefix rng ''bytes='') = [x, y]")
  case True
  then obtain x y where xy: "split_on (CHR ''-'') (trim_prefix rng ''bytes='') = [x, y]" by blast
  define start where "start = (case parse_int x of None \<Rightarrow> 0 | Some i \<Rightarrow> if i < 0 then 0 else i)"
  define fin where "fin = (if y = [] then int (length data) - 1 else
     (case parse_int y of None \<Rightarrow> int (length data) - 1
      | Some e \<Rightarrow> if e < int (length data) then e else int (length data) - 1))"
  have start: "0 \<le> start" by (simp add: start_def split: option.split)
  have fin: "fin < int (length data)" by (simp add: fin_def split: option.split)
  show ?thesis
  proof (cases "start > fin \<or> start \<ge> int (length data)")
    case True
    then show ?thesis
      unfolding handle_range_request_def xy by (auto simp: Let_def start_def [symmetric] fin_def [symmetric])
  next
    case False
    obtain a b where ab: "start = int a" "fin = int b"
      using start False by (metis nonneg_int_cases not_less order.trans)
    then have le: "a \<le> b" "b < length data" using False fin by auto
    have len: "nat (int b - int a + 1) = Suc b - a" using le by arith
    have nonneg: "0 \<le> int b - int a + 1" using le by simp
    show ?thesis
      unfolding handle_range_request_def xy
      using False le nonneg
      by (simp add: Let_def start_def [symmetric] fin_def [symmetric] ab slice_nat [OF le] len itoa_def)
        (rule exI [of _ a], rule exI [of _ b], simp)
  qed
next
  case False
  have "handle_range_request data rng hs = Ret (http_error XText ''Invalid range header'' 416 hs)"
    unfolding handle_range_request_def using False by (simp split: list.split)
  then show ?thesis by simp
qed

text \<open>C37: a request for the bytes from a to b gets exactly these; but the suffix form
  bytes=-b, which asks for the last b bytes, gets the first b + 1.\<close>

theorem range_request_exact:
  assumes "a \<le> b" and "b < length data" and "int (length data) \<le> max_i64"
  shows "\<exists>r r'. handle_range_request data (''bytes='' @ nat_str a @ ''-'' @ nat_str b) hs = Ret r \<and>
    rs_body r = XData (take (Suc b - a) (drop a data)) \<and>
    handle_range_request data (''bytes=-'' @ nat_str b) hs = Ret r' \<and>
    rs_body r' = XData (take (Suc b) data)"
proof -
  have nd: "CHR ''-'' \<notin> set (nat_str n)" for n by (rule nat_str_no_char) (simp add: is_digit_def)
  have split: "split_on (CHR ''-'') (nat_str a @ CHR ''-'' # nat_str b) = [nat_str a, nat_str b]"
    "split_on (CHR ''-'') (CHR ''-'' # nat_str b) = [[], nat_str b]"
    using nd by (simp_all add: split_on_append split_on_none)
  have ne: "nat_str b \<noteq> []" using nat_str_digits by blast
  have p: "parse_int (nat_str a) = Some (int a)" "parse_int (nat_str b) = Some (int b)" "parse_int [] = None"
    using assms by (simp_all add: parse_int_nat_str) (simp add: parse_int_def parse_nat_def)
  have sl: "go_slice data (int a) (int b + 1) = Ret (take (Suc b - a) (drop a data))"
    "go_slice data 0 (int b + 1) = Ret (take (Suc b) data)"
    using slice_nat [OF assms(1,2)] slice_nat [OF _ assms(2), of 0] by simp_all
  have t: "trim_prefix (''bytes='' @ nat_str a @ ''-'' @ nat_str b) ''bytes='' = nat_str a @ CHR ''-'' # nat_str b"
    "trim_prefix (''bytes=-'' @ nat_str b) ''bytes='' = CHR ''-'' # nat_str b"
    using trim_prefix_append [of "''bytes=''" "nat_str a @ CHR ''-'' # nat_str b"]
      trim_prefix_append [of "''bytes=''" "CHR ''-'' # nat_str b"] by simp_all
  show ?thesis
    unfolding handle_range_request_def t split
    using assms ne p sl by (cases "data = []") (simp_all add: Let_def)
qed

theorem range_request_exact_witness:
  "\<exists>r r'. handle_range_request ''abcdef'' (''bytes='' @ nat_str 2 @ ''-'' @ nat_str 3) [] = Ret r \<and>
     rs_body r = XData ''cd'' \<and>
     handle_range_request ''abcdef'' (''bytes=-'' @ nat_str 3) [] = Ret r' \<and> rs_body r' = XData ''abcd''"
  using range_request_exact [of 2 3 "''abcdef''" "[]"] by (simp add: max_i64_def)

text \<open>Job identifiers have a resolution of one second: of two jobs created within the same
  second only the later one is reachable, so the first user's identifier names the other's job.\<close>

theorem job_id_collision:
  assumes "unix_seconds now = unix_seconds now'"
    and "create_export_job now user fmt filters s = (s1, i)"
    and "create_export_job now' user' fmt' filters' s1 = (s2, i')"
  shows "generate_job_id now' = generate_job_id now \<and>
    get_export_job (generate_job_id now) s2 = Inr (new_export_job now' user' fmt' filters')"
proof -
  have "generate_job_id now' = generate_job_id now" using assms(1) by (simp add: generate_job_id_def)
  moreover have "i' = length (es_heap s1)" "es_heap s2 = es_heap s1 @ [new_export_job now' user' fmt' filters']"
    "map_of (es_jobs s2) (generate_job_id now') = Some i'"
    using assms(3) by (auto simp: create_export_job_def Let_def new_export_job_def map_of_update)
  ultimately show ?thesis by (simp add: get_export_job_def)
qed

theorem job_id_collision_witness:
  "\<exists>s2. get_export_job (generate_job_id 0) (s2 :: unit export_service) =
     Inr (new_export_job 5 ''bob'' ''csv'' no_filters)"
proof -
  obtain s1 i where 1: "create_export_job 0 ''al'' ''csv'' no_filters (new_export_service ()) = (s1, i)" by fastforce
  obtain s2 i' where 2: "create_export_job 5 ''bob'' ''csv'' no_filters s1 = (s2, i')" by fastforce
  have "unix_seconds 0 = unix_seconds 5" by (simp add: unix_seconds_def second_def)
  from job_id_collision [OF this 1 2] show ?thesis by blast
qed

definition settled :: "export_job \<Rightarrow> bool" where
  "settled j \<longleftrightarrow> (xj_status j = XCompleted \<or> xj_status j = XFailed) \<and> xj_error j \<noteq> []"

lemma fail_job_own:
  assumes "map_of (es_jobs s) k = Some i" and "i < length (es_heap s)"
  shows "settled (es_heap (fail_job env k q e s) ! i)" "xj_status (es_heap (fail_job env k q e s) ! i) = XFailed"
  using update_job_status_own [OF assms] by (simp_all add: fail_job_def export_err_text_nonempty settled_def)

lemma es_storage_frame [simp]:
  "map_of (es_jobs (s\<lparr>es_storage := st\<rparr>)) k = map_of (es_jobs s) k" "es_heap (s\<lparr>es_storage := st\<rparr>) = es_heap s"
  by simp_all

lemma finish_export_settled:
  assumes "map_of (es_jobs s) k = Some i" and "i < length (es_heap s)"
  shows "settled (es_heap (finish_export env now i k files s) ! i)"
proof -
  define t where "t = update_job_status k XProcessing (8 / 10) ''Creating signatures and manifest...'' s"
  have t: "map_of (es_jobs t) k = Some i" "i < length (es_heap t)" using assms by (simp_all add: t_def)
  have err: "xj_error (es_heap t ! i) \<noteq> []" using update_job_status_own [OF assms] by (simp add: t_def)
  obtain sig mroot where p: "generate_crypto_proofs (es_crypto t) files = (sig, mroot)" by fastforce
  obtain st r where m: "store_manifest (xe_store env) (xe_url env) (xe_manifest_text env) k
      (create_manifest (es_heap t ! i) files sig mroot) (es_storage t) = (st, r)" by fastforce
  show ?thesis
  proof (cases r)
    case (Inl e)
    then have "finish_export env now i k files s = fail_job env k (95 / 100) e (t\<lparr>es_storage := st\<rparr>)"
      unfolding finish_export_def t_def [symmetric] Let_def p by (simp add: m)
    then show ?thesis using t by (simp add: fail_job_own)
  next
    case (Inr url)
    then have "\<exists>f. finish_export env now i k files s = update_heap i f (t\<lparr>es_storage := st\<rparr>) \<and>
        (\<forall>j. xj_status (f j) = XCompleted \<and> xj_error (f j) = xj_error j)"
      unfolding finish_export_def t_def [symmetric] Let_def p by (fastforce simp: m)
    then show ?thesis using t err by (auto simp: update_heap_own settled_def)
  qed
qed

text \<open>The background goroutine always ends with the job completed or failed, failed if the
  format is not one of ndjson, parquet and csv (so every zip export fails); and in either case the
  job carries a non-empty Error, because progress messages are stored there.\<close>

theorem export_job_outcome:
  assumes "map_of (es_jobs s) (xj_id (es_heap s ! i)) = Some i" and "i < length (es_heap s)"
    and "job = es_heap (process_export_job env now i s) ! i"
  shows "(xj_status job = XCompleted \<or> xj_status job = XFailed) \<and> xj_error job \<noteq> [] \<and>
    (xj_format (es_heap s ! i) \<notin> {''ndjson'', ''parquet'', ''csv''} \<longrightarrow> xj_status job = XFailed)"
proof -
  define k where "k = xj_id (es_heap s ! i)"
  define s1 where "s1 = update_job_status k XProcessing 0 [] s"
  define s2 where "s2 = update_job_status k XProcessing (2 / 10) ''Data fetched, formatting...'' s1"
  define s3 where "s3 = update_job_status k XProcessing (6 / 10) ''Data formatted, creating chunks...'' s2"
  note defs = s1_def s2_def s3_def
  have i: "map_of (es_jobs s) k = Some i" "i < length (es_heap s)" using assms by (simp_all add: k_def)
  then have tab: "map_of (es_jobs s2) k = Some i" "i < length (es_heap s2)"
    "map_of (es_jobs s3) k = Some i" "i < length (es_heap s3)" by (simp_all add: defs)
  have fmt: "xj_format (es_heap s2 ! i) = xj_format (es_heap s ! i)"
    using i by (simp add: s2_def s1_def update_job_status_own)
  define data where "data = fetch_filtered_data (xe_format_time env) now (xj_filters (es_heap s1 ! i))"
  note run = process_export_job_def [of env now i s, folded k_def, unfolded Let_def, folded s1_def,
      folded s2_def, folded s3_def, folded data_def]
  show ?thesis
  proof (cases "format_data data (xj_format (es_heap s2 ! i)) :: 'b export_err + string")
    case (Inl e)
    then show ?thesis
      using fail_job_own [OF tab(1,2), of env "2 / 10" e] by (simp add: assms(3) run settled_def)
  next
    case (Inr bytes)
    then have ok: "xj_format (es_heap s ! i) \<in> {''ndjson'', ''parquet'', ''csv''}"
      by (auto simp: format_data_def fmt split: if_splits)
    obtain st r where c: "create_chunks (xe_store env) bytes k (es_storage s3) = (st, r)" by fastforce
    have "settled job"
      using Inr tab(3,4) by (cases r) (simp_all add: assms(3) run c fail_job_own finish_export_settled)
    then show ?thesis using ok by (simp add: settled_def)
  qed
qed

definition fs_env :: "(export_manifest \<Rightarrow> string option) \<Rightarrow> (fs_state, storage_err) export_env" where
  "fs_env text = \<lparr>xe_store = fs_store, xe_retrieve = fs_retrieve, xe_url = fs_get_url,
     xe_format_time = (\<lambda>_. []), xe_manifest_text = text, xe_error_text = (\<lambda>_. ''io'')\<rparr>"

theorem export_job_outcome_witness:
  "let s = fst (create_export_job 0 ''u'' ''zip'' no_filters (new_export_service small_fs));
       job = es_heap (process_export_job (fs_env (\<lambda>_. Some [])) 0 0 s) ! 0
   in xj_status job = XFailed \<and> xj_error job \<noteq> []"
proof -
  let ?s = "fst (create_export_job 0 ''u'' ''zip'' no_filters (new_export_service small_fs))"
  have heap: "es_heap ?s = [new_export_job 0 ''u'' ''zip'' no_filters]"
    and tab: "map_of (es_jobs ?s) (xj_id (es_heap ?s ! 0)) = Some 0"
    by (simp_all add: create_export_job_def new_export_service_def Let_def)
  have "0 < length (es_heap ?s)" by (simp add: heap)
  from export_job_outcome [OF tab this refl, of "fs_env (\<lambda>_. Some [])" 0]
  show ?thesis by (simp add: Let_def heap new_export_job_def)
qed

end
