(* ===== verification/Cli.thy ===== *)
theory Cli
  imports Export
begin

text \<open>
  The command-line tool, \<open>cli/main.go\<close>: verification of a manifest, the integrity check of the
  downloaded files, loading and comparing two exports, and the byte counts it prints. Files are a
  function from cleaned paths to contents; the decoded manifest is an argument, \<open>None\<close> when it
  cannot be read or decoded. Progress lines are left out; the reports are.
\<close>

subsection \<open>Data\<close>

record cli_manifest =
  cl_job_id :: string
  cl_created :: gtime
  cl_format :: string
  cl_filters :: "(string \<times> json) list"
  cl_total_records :: int
  cl_total_size :: int
  cl_chunk_count :: int
  cl_signature :: string
  cl_merkle_root :: string
  cl_files :: "export_file list"
  cl_metadata :: "(string \<times> json) list"

record record_difference =
  rd_record :: string
  rd_field :: string
  rd_value1 :: "json option"
  rd_value2 :: "json option"
  rd_change :: string

type_synonym data_record = "(string \<times> json) list"

record diff_summary =
  ds_total1 :: nat
  ds_total2 :: nat
  ds_identical :: nat
  ds_modified :: nat
  ds_only1 :: nat
  ds_only2 :: nat
  ds_score :: rat

record diff_result =
  dr_export1 :: string
  dr_export2 :: string
  dr_summary :: diff_summary
  dr_differences :: "record_difference list"
  dr_only1 :: "data_record list"
  dr_only2 :: "data_record list"

datatype cli_err =
    LoadManifestFailed
  | MerkleMismatch string string
  | NoSignature
  | CannotOpenFile
  | SizeMismatch int int
  | ChecksumMismatch string string
  | FilesFailed "string list"
  | InvalidJsonLine
  | LineTooLong
  | CannotCreateOutput
  | MarshalFailed

type_synonym files = "path \<Rightarrow> string option"

subsection \<open>Verification\<close>

text \<open>The tool's own copy of \<open>buildMerkleTree\<close>.\<close>

fun cli_merkle_level :: "string list \<Rightarrow> string list" where
  "cli_merkle_level (a # b # hs) = sha256_hex (a @ b) # cli_merkle_level hs"
| "cli_merkle_level [a] = [sha256_hex (a @ a)]"
| "cli_merkle_level [] = []"

lemma cli_merkle_level_eq: "cli_merkle_level hs = merkle_level hs"
  by (induction hs rule: cli_merkle_level.induct) simp_all

function cli_build_merkle_tree :: "string list \<Rightarrow> string" where
  "cli_build_merkle_tree hs =
     (case hs of [] \<Rightarrow> [] | [h] \<Rightarrow> h | _ \<Rightarrow> cli_build_merkle_tree (cli_merkle_level hs))"
  by pat_completeness auto
termination
  by (relation "measure length") (auto simp: cli_merkle_level_eq merkle_level_length split: list.splits)

declare cli_build_merkle_tree.simps [simp del]

definition verify_merkle_tree :: "cli_manifest \<Rightarrow> cli_err option" where
  "verify_merkle_tree m = (let computed = cli_build_merkle_tree (map ef_checksum (cl_files m));
      expected = trim_prefix (cl_merkle_root m) ''merkle:'' in
    if computed \<noteq> expected then Some (MerkleMismatch expected computed) else None)"

definition verify_signature :: "cli_manifest \<Rightarrow> string \<Rightarrow> cli_err option" where
  "verify_signature m key = (if cl_signature m = [] then Some NoSignature else None)"

definition verify_export :: "cli_manifest option \<Rightarrow> string \<Rightarrow> cli_err option" where
  "verify_export manifest key = (case manifest of None \<Rightarrow> Some LoadManifestFailed
     | Some m \<Rightarrow> (case verify_merkle_tree m of Some e \<Rightarrow> Some e | None \<Rightarrow> verify_signature m key))"

definition verify_file_checksum :: "files \<Rightarrow> path \<Rightarrow> string \<Rightarrow> int \<Rightarrow> cli_err option" where
  "verify_file_checksum fs p checksum fsize = (case fs p of None \<Rightarrow> Some CannotOpenFile
     | Some d \<Rightarrow> if int (length d) \<noteq> fsize then Some (SizeMismatch fsize (int (length d)))
         else let actual = sha256_hex d in
           if actual \<noteq> checksum then Some (ChecksumMismatch checksum actual) else None)"

definition failed_files :: "files \<Rightarrow> string \<Rightarrow> export_file list \<Rightarrow> string list" where
  "failed_files fs dir es = map ef_name (filter (\<lambda>e.
     verify_file_checksum fs (join_path dir (ef_name e)) (ef_checksum e) (ef_size e) \<noteq> None) es)"

definition check_files :: "files \<Rightarrow> cli_manifest option \<Rightarrow> string \<Rightarrow> cli_err option" where
  "check_files fs manifest dir = (case manifest of None \<Rightarrow> Some LoadManifestFailed
     | Some m \<Rightarrow> let failed = failed_files fs dir (cl_files m) in
         if failed \<noteq> [] then Some (FilesFailed failed) else None)"

subsection \<open>Loading data\<close>

text \<open>The lines of \<open>bufio.Scanner\<close>: at most 65535 bytes, a final carriage return dropped.\<close>

definition max_line :: nat where
  "max_line = 65535"

definition drop_cr :: "string \<Rightarrow> string" where
  "drop_cr l = (if l \<noteq> [] \<and> last l = CHR 0x0D then butlast l else l)"

definition parse_record :: "string \<Rightarrow> data_record option" where
  "parse_record l = (case json_parse l of Some (JObj ms) \<Rightarrow> Some ms | Some JNull \<Rightarrow> Some [] | _ \<Rightarrow> None)"

fun load_lines :: "string list \<Rightarrow> cli_err + data_record list" where
  "load_lines [] = Inr []"
| "load_lines (l # ls) = (if length l > max_line then Inl LineTooLong
     else let t = trim_space (drop_cr l) in
     if t = [] then load_lines ls
     else (case parse_record t of None \<Rightarrow> Inl InvalidJsonLine
       | Some r \<Rightarrow> (case load_lines ls of Inl e \<Rightarrow> Inl e | Inr rs \<Rightarrow> Inr (r # rs))))"

definition load_ndjson_file :: "files \<Rightarrow> path \<Rightarrow> cli_err + data_record list" where
  "load_ndjson_file fs p = (case fs p of None \<Rightarrow> Inl CannotOpenFile | Some d \<Rightarrow> load_lines (scan_lines d))"

fun load_all :: "files \<Rightarrow> string \<Rightarrow> export_file list \<Rightarrow> cli_err + data_record list" where
  "load_all fs dir [] = Inr []"
| "load_all fs dir (e # es) = (case load_ndjson_file fs (join_path dir (ef_name e)) of
     Inl x \<Rightarrow> Inl x
   | Inr rs \<Rightarrow> (case load_all fs dir es of Inl x \<Rightarrow> Inl x | Inr rest \<Rightarrow> Inr (rs @ rest)))"

text \<open>\<open>filepath.Dir\<close> of the manifest's path, as a text.\<close>

definition dir_of :: "string \<Rightarrow> string" where
  "dir_of p = (let (rooted, cs) = clean_path (rev (dropWhile (\<lambda>c. c \<noteq> slash) (rev p))) in
     if rooted then slash # join [slash] cs else if cs = [] then ''.'' else join [slash] cs)"

definition load_data_from_manifest :: "files \<Rightarrow> (string \<Rightarrow> cli_manifest option) \<Rightarrow> string
    \<Rightarrow> cli_err + data_record list" where
  "load_data_from_manifest fs decode p = (case fs (clean_path p) of None \<Rightarrow> Inl LoadManifestFailed
     | Some d \<Rightarrow> (case decode d of None \<Rightarrow> Inl LoadManifestFailed
       | Some m \<Rightarrow> load_all fs (dir_of p) (cl_files m)))"

definition load_export_data :: "files \<Rightarrow> (string \<Rightarrow> cli_manifest option) \<Rightarrow> string
    \<Rightarrow> cli_err + data_record list" where
  "load_export_data fs decode p = (if has_suffix p ''manifest.json'' then load_data_from_manifest fs decode p
     else load_ndjson_file fs (clean_path p))"

subsection \<open>Comparison\<close>

definition generate_record_key :: "data_record \<Rightarrow> string" where
  "generate_record_key r = join ''|'' (concat (map (\<lambda>f. case map_of r f of None \<Rightarrow> [] | Some v \<Rightarrow> [show_v v])
     [''name'', ''experiment_type'', ''target'', ''created_at'']))"

definition record_key :: "data_record \<Rightarrow> string" where
  "record_key r = (case map_of r ''id'' of Some (JStr k) \<Rightarrow> k | _ \<Rightarrow> generate_record_key r)"

definition create_record_index :: "data_record list \<Rightarrow> (string \<times> data_record) list" where
  "create_record_index rs = foldl (\<lambda>m r. AList.update (record_key r) r m) [] rs"

definition deep_equal :: "json \<Rightarrow> json \<Rightarrow> bool" where
  "deep_equal a b \<longleftrightarrow> show_v a = show_v b"

definition compare_field :: "string \<Rightarrow> data_record \<Rightarrow> data_record \<Rightarrow> string \<Rightarrow> record_difference list" where
  "compare_field k r1 r2 f = (case (map_of r1 f, map_of r2 f) of
     (None, Some v) \<Rightarrow> [\<lparr>rd_record = k, rd_field = f, rd_value1 = None, rd_value2 = Some v, rd_change = ''added''\<rparr>]
   | (Some v, None) \<Rightarrow> [\<lparr>rd_record = k, rd_field = f, rd_value1 = Some v, rd_value2 = None, rd_change = ''removed''\<rparr>]
   | (Some v, Some w) \<Rightarrow> if deep_equal v w then [] else
       [\<lparr>rd_record = k, rd_field = f, rd_value1 = Some v, rd_value2 = Some w, rd_change = ''modified''\<rparr>]
   | (None, None) \<Rightarrow> [])"

definition compare_records :: "string \<Rightarrow> data_record \<Rightarrow> data_record \<Rightarrow> string list \<Rightarrow> record_difference list" where
  "compare_records k r1 r2 ignore = concat (map (compare_field k r1 r2)
     (filter (\<lambda>f. f \<notin> set ignore) (remdups (map fst r1 @ map fst r2))))"

definition compare_exports :: "data_record list \<Rightarrow> data_record list \<Rightarrow> string list \<Rightarrow> diff_result" where
  "compare_exports d1 d2 ignore =
     (let m1 = create_record_index d1; m2 = create_record_index d2;
        common = filter (\<lambda>(k, r). has_key k m2) m1;
        diffs = map (\<lambda>(k, r). compare_records k r (the (map_of m2 k)) ignore) common;
        only1 = map snd (filter (\<lambda>(k, r). \<not> has_key k m2) m1);
        only2 = map snd (filter (\<lambda>(k, r). \<not> has_key k m1) m2);
        identical = length (filter (\<lambda>d. d = []) diffs);
        total = length d1 + length d2 in
      \<lparr>dr_export1 = [], dr_export2 = [],
       dr_summary = \<lparr>ds_total1 = length d1, ds_total2 = length d2, ds_identical = identical,
         ds_modified = length (filter (\<lambda>d. d \<noteq> []) diffs), ds_only1 = length only1, ds_only2 = length only2,
         ds_score = (if total > 0 then of_nat (identical * 2) / of_nat total else 0)\<rparr>,
       dr_differences = concat diffs, dr_only1 = only1, dr_only2 = only2\<rparr>)"

definition diff_exports :: "files \<Rightarrow> (string \<Rightarrow> cli_manifest option) \<Rightarrow> string \<Rightarrow> string \<Rightarrow> string list
    \<Rightarrow> cli_err + diff_result" where
  "diff_exports fs decode p1 p2 ignore = (case load_export_data fs decode p1 of Inl e \<Rightarrow> Inl e
     | Inr d1 \<Rightarrow> (case load_export_data fs decode p2 of Inl e \<Rightarrow> Inl e
       | Inr d2 \<Rightarrow> Inr ((compare_exports d1 d2 ignore)\<lparr>dr_export1 := p1, dr_export2 := p2\<rparr>)))"


subsection \<open>Reports\<close>

definition line :: "string \<Rightarrow> string" where
  "line s = s @ [newline]"

definition show_value :: "json option \<Rightarrow> string" where
  "show_value v = (case v of None \<Rightarrow> ''<nil>'' | Some x \<Rightarrow> show_v x)"

definition difference_lines :: "bool \<Rightarrow> record_difference \<Rightarrow> string" where
  "difference_lines verbose d =
     line (''  Record '' @ rd_record d @ '', field '' @ [CHR 0x27] @ rd_field d @ [CHR 0x27] @ '': '' @ rd_change d) @
     (if verbose then line (''    Value 1: '' @ show_value (rd_value1 d)) @
        line (''    Value 2: '' @ show_value (rd_value2 d)) else [])"

text \<open>The UTF-8 bytes of the check mark and the cross.\<close>

definition check_mark :: string where "check_mark = [CHR 0xE2, CHR 0x9C, CHR 0x93]"
definition cross_mark :: string where "cross_mark = [CHR 0xE2, CHR 0x9C, CHR 0x97]"

definition output_text_diff :: "bool \<Rightarrow> diff_result \<Rightarrow> rat \<Rightarrow> string" where
  "output_text_diff verbose r threshold = (let s = dr_summary r; ds = dr_differences r in
     line ''Export Comparison Report'' @ line ''========================'' @ line [] @ line ''Summary:'' @
     line (''  Export 1 records: '' @ nat_str (ds_total1 s)) @
     line (''  Export 2 records: '' @ nat_str (ds_total2 s)) @
     line (''  Identical records: '' @ nat_str (ds_identical s)) @
     line (''  Modified records: '' @ nat_str (ds_modified s)) @
     line (''  Only in first: '' @ nat_str (ds_only1 s)) @
     line (''  Only in second: '' @ nat_str (ds_only2 s)) @
     line (''  Similarity score: '' @ fmt_float 2 (ds_score s * 100) @ ''%'') @
     (if ds_score s \<ge> threshold
      then line (''  Status: '' @ check_mark @ '' SIMILAR (above threshold '' @ fmt_float 2 (threshold * 100) @ ''%)'')
      else line (''  Status: '' @ cross_mark @ '' DIFFERENT (below threshold '' @ fmt_float 2 (threshold * 100) @ ''%)'')) @
     (if ds = [] then [] else line [] @ line ''Field Differences:'' @
        concat (map (difference_lines verbose) (take 50 ds)) @
        (if length ds > 50 then line (''  ... and '' @ nat_str (length ds - 50) @ '' more differences'') else [])))"

text \<open>The loop of \<open>formatBytes\<close>: the divisor and the index of the unit.\<close>

function byte_unit :: "int \<Rightarrow> int \<Rightarrow> nat \<Rightarrow> int \<times> nat" where
  "byte_unit n d e = (if n \<ge> 1024 then byte_unit (go_quot n 1024) (i64 (d * 1024)) (Suc e) else (d, e))"
  by pat_completeness auto
termination
  by (relation "measure (\<lambda>(n, d, e). nat n)") (auto simp: go_quot_nonneg)

declare byte_unit.simps [simp del]

definition format_bytes :: "int \<Rightarrow> string outcome" where
  "format_bytes b = (if b < 1024 then Ret (itoa b @ '' B'')
     else let (d, e) = byte_unit (go_quot b 1024) 1024 0 in
       if e < length ''KMGTPE''
       then Ret (fmt_float 1 (of_int b / of_int d) @ '' '' @ [''KMGTPE'' ! e] @ ''B'')
       else Panics IndexOutOfRange)"

text \<open>\<open>showExportInfo\<close> as text; \<open>fmt\<close> is \<open>Format(time.RFC3339)\<close>.\<close>

definition file_line :: "export_file \<Rightarrow> string outcome" where
  "file_line f = obind (format_bytes (ef_size f)) (\<lambda>b. Ret (line (''  '' @ ef_name f @ '' ('' @ b @
     '', chunk '' @ itoa (ef_chunk_index f) @ '')'')))"

fun file_lines :: "export_file list \<Rightarrow> string outcome" where
  "file_lines [] = Ret []"
| "file_lines (f # fs) = obind (file_line f) (\<lambda>a. obind (file_lines fs) (\<lambda>b. Ret (a @ b)))"

definition show_export_info :: "(gtime \<Rightarrow> string) \<Rightarrow> cli_manifest \<Rightarrow> string outcome" where
  "show_export_info fmt m = obind (format_bytes (cl_total_size m)) (\<lambda>size_text.
     obind (file_lines (cl_files m)) (\<lambda>fl. Ret (
     line ''Export Information'' @ line ''=================='' @
     line (''Job ID:          '' @ cl_job_id m) @
     line (''Created:         '' @ fmt (cl_created m)) @
     line (''Format:          '' @ cl_format m) @
     line (''Total Records:   '' @ itoa (cl_total_records m)) @
     line (''Total Size:      '' @ size_text) @
     line (''Chunks:          '' @ itoa (cl_chunk_count m)) @
     line (''Signature:       '' @ cl_signature m) @
     line (''Merkle Root:     '' @ cl_merkle_root m) @
     (if cl_filters m = [] then [] else line [] @ line ''Filters:'' @
        concat (map (\<lambda>(k, v). line (''  '' @ k @ '': '' @ show_v v)) (cl_filters m))) @
     (if cl_files m = [] then [] else line [] @ line ''Files:'' @ fl))))"

subsection \<open>The two Merkle trees agree\<close>

lemma cli_merkle_eq: "cli_build_merkle_tree hs = build_merkle_tree hs"
proof (induction hs rule: cli_build_merkle_tree.induct)
  case (1 hs)
  then show ?case
    by (subst cli_build_merkle_tree.simps, subst build_merkle_tree.simps)
      (auto simp: cli_merkle_level_eq split: list.split)
qed

subsection \<open>Lines read back\<close>

lemma scan_ndjson: "scan_lines (format_as_ndjson rs) = map json_str rs"
proof -
  have "split_on newline (format_as_ndjson rs) = map json_str rs @ [[]]"
    by (induction rs) (simp_all add: format_as_ndjson_def split_on_append split_on_none newline_json)
  then show ?thesis by (simp add: scan_lines_def Let_def)
qed

lemma obj_text: "\<exists>t. json_str (JObj ms) = CHR ''{'' # t @ ''}''"
  by (simp add: json_str_obj del: json_str.simps)

lemma trim_obj: "trim_space (drop_cr (json_str (JObj ms))) = json_str (JObj ms)"
proof -
  obtain t where t: "json_str (JObj ms) = CHR ''{'' # t @ ''}''" using obj_text by blast
  show ?thesis unfolding t by (simp add: drop_cr_def trim_space_def is_space_def)
qed

lemma parse_record_obj: "json_ok (JObj ms) \<Longrightarrow>
    parse_record (json_str (JObj ms)) = Some (sort_members (map (\<lambda>(k, v). (k, canon v)) ms))"
  by (simp add: parse_record_def json_parse_str del: json_str.simps json_ok.simps)

definition canon_record :: "data_record \<Rightarrow> data_record" where
  "canon_record ms = sort_members (map (\<lambda>(k, v). (k, canon v)) ms)"

lemma load_ndjson_lines:
  "list_all (\<lambda>ms. json_ok (JObj ms) \<and> length (json_str (JObj ms)) \<le> max_line) rs \<Longrightarrow>
    load_lines (map (\<lambda>ms. json_str (JObj ms)) rs) = Inr (map canon_record rs)"
proof (induction rs)
  case (Cons ms rs)
  obtain t where "json_str (JObj ms) = CHR ''{'' # t @ ''}''" using obj_text by blast
  then have "json_str (JObj ms) \<noteq> []" by simp
  with Cons show ?case
    by (simp add: trim_obj parse_record_obj canon_record_def not_less del: json_str.simps json_ok.simps)
qed simp


subsection \<open>Units of byte counts\<close>

lemma byte_unit_scale:
  assumes "d = 1024 ^ Suc e" and "n = b div d" and "d \<le> b" and "b \<le> max_i64"
  shows "\<exists>e'. byte_unit n d e = (1024 ^ Suc e', e') \<and> 1024 ^ Suc e' \<le> b \<and> b < 1024 ^ Suc (Suc e')"
  using assms
proof (induction n d e rule: byte_unit.induct)
  case (1 n d e)
  have d: "0 < d" using 1(2) by simp
  show ?case
  proof (cases "n \<ge> 1024")
    case True
    have "b div d * d \<le> b" by (simp add: d pos_mod_sign minus_mod_eq_div_mult [symmetric])
    moreover have "1024 * d \<le> b div d * d" using True 1(3) d by (intro mult_right_mono) simp_all
    ultimately have "1024 * d \<le> b" by linarith
    then have wrap: "i64 (d * 1024) = d * 1024" using d 1(5) by (intro i64_id) (simp_all add: min_i64_def)
    have "go_quot n 1024 = b div (d * 1024)"
      using True 1(3) d by (simp add: go_quot_nonneg zdiv_zmult2_eq)
    from 1(1) [OF True, unfolded wrap, OF _ this] 1(2,5) \<open>1024 * d \<le> b\<close>
    have "\<exists>e'. byte_unit (go_quot n 1024) (d * 1024) (Suc e) = (1024 ^ Suc e', e') \<and>
        1024 ^ Suc e' \<le> b \<and> b < 1024 ^ Suc (Suc e')" by (simp add: mult.commute)
    moreover have "byte_unit n d e = byte_unit (go_quot n 1024) (d * 1024) (Suc e)"
      using True by (subst byte_unit.simps) (simp add: wrap)
    ultimately show ?thesis by simp
  next
    case False
    have "b div d < 1024" using False 1(3) by simp
    then have "d * (b div d + 1) \<le> d * 1024" using d by (intro mult_left_mono) simp_all
    moreover have "b = d * (b div d) + b mod d" by simp
    moreover have "b mod d < d" using d by simp
    ultimately have "b < 1024 * d" unfolding distrib_left by linarith
    then show ?thesis using False 1(2,4) by (subst byte_unit.simps) auto
  qed
qed

lemma unit_index: "(1024 :: int) ^ Suc e \<le> b \<Longrightarrow> b \<le> max_i64 \<Longrightarrow> e < 6"
proof (rule ccontr)
  assume b: "(1024 :: int) ^ Suc e \<le> b" "b \<le> max_i64" and "\<not> e < 6"
  then have "(1024 :: int) ^ 7 \<le> 1024 ^ Suc e" by (intro power_increasing) auto
  with b show False by (simp add: max_i64_def)
qed

subsection \<open>Indexes and summaries\<close>

lemma index_distinct: "distinct (keys (create_record_index rs))"
proof -
  have "distinct (keys m) \<Longrightarrow> distinct (keys (foldl (\<lambda>m r. AList.update (record_key r) r m) m rs))" for m
    by (induction rs arbitrary: m) simp_all
  then show ?thesis by (simp add: create_record_index_def)
qed

lemma index_length: "length (create_record_index rs) \<le> length rs"
proof -
  have "length (foldl (\<lambda>m r. AList.update (record_key r) r m) m rs) \<le> length m + length rs" for m
  proof (induction rs arbitrary: m)
    case (Cons r rs)
    from Cons.IH [of "AList.update (record_key r) r m"] show ?case by (simp add: length_update split: if_splits)
  qed simp
  from this [of "[]"] show ?thesis by (simp add: create_record_index_def)
qed

lemma length_filter_keys:
  assumes "distinct (keys m)"
  shows "length (filter (\<lambda>(k, r). P k) m) = card {k \<in> set (keys m). P k}"
proof -
  have "distinct (filter P (keys m))" using assms by simp
  from distinct_card [OF this] have "length (filter P (keys m)) = card (set (filter P (keys m)))" by (rule sym)
  moreover have "length (filter P (keys m)) = length (filter (\<lambda>(k, r). P k) m)"
    by (simp add: filter_map comp_def case_prod_unfold)
  moreover have "set (filter P (keys m)) = {k \<in> set (keys m). P k}" by auto
  ultimately show ?thesis by argo
qed

lemma common_sym:
  assumes "distinct (keys m1)" and "distinct (keys m2)"
  shows "length (filter (\<lambda>(k, r). has_key k m2) m1) = length (filter (\<lambda>(k, r). has_key k m1) m2)"
proof -
  have "{k \<in> set (keys m1). has_key k m2} = {k \<in> set (keys m2). has_key k m1}" by (auto simp: has_key_iff)
  then show ?thesis using length_filter_keys [OF assms(1)] length_filter_keys [OF assms(2)] by simp
qed

lemma length_filter_split: "length (filter P xs) + length (filter (\<lambda>x. \<not> P x) xs) = length xs"
  by (rule sum_length_filter_compl)

lemma compare_records_refl: "compare_records k r r ignore = []"
  by (auto simp: compare_records_def compare_field_def deep_equal_def split: option.splits)


subsection \<open>Properties\<close>

text \<open>The tool accepts what the controller exports: for data chunked by the controller, with
  the manifest and proofs it creates, and the chunks downloaded unchanged, verify succeeds and
  check-files reports no file. The manifest that is read keeps files, root and signature.\<close>

lemma controller_export_accepted:
  assumes "create_chunks fs_store data job s = (s', Inr es)" and "fs_invar base s" and "plain job"
    and "generate_crypto_proofs cm es = (sig, mroot)" and "m = create_manifest j es sig mroot"
    and "cl_files c = xm_files m" and "cl_merkle_root c = xm_merkle_root m" and "cl_signature c = xm_signature m"
    and "\<forall>e \<in> set es. \<forall>d. fs_retrieve s' (ef_path e) = Inr d \<longrightarrow> files (join_path dir (ef_name e)) = Some d"
  shows "verify_export (Some c) key = None \<and> check_files files (Some c) dir = None"
proof
  have "cl_merkle_root c = ''merkle:'' @ build_merkle_tree (map ef_checksum es)" "cl_signature c \<noteq> []"
    "cl_files c = es"
    using assms(4-8) by (auto simp: generate_crypto_proofs_def create_manifest_def Let_def)
  then show "verify_export (Some c) key = None"
    by (simp add: verify_export_def verify_merkle_tree_def verify_signature_def cli_merkle_eq Let_def
        trim_prefix_append del: append.simps)
  let ?cs = "chop chunk_size data"
  have es: "es = chunk_infos job 0 0 ?cs" "map (\<lambda>f. fs_retrieve s' (ef_path f)) es = map Inr ?cs"
    using fs_create_chunks [OF assms(1-3)] by blast+
  have "verify_file_checksum files (join_path dir (ef_name e)) (ef_checksum e) (ef_size e) = None"
    if e: "e \<in> set es" for e
  proof -
    obtain i where i: "i < length es" "e = es ! i" using e by (metis in_set_conv_nth)
    then have il: "i < length ?cs" using es(1) by (simp add: chunk_infos_def)
    have info: "ef_size e = int (length (?cs ! i))" "ef_checksum e = sha256_hex (?cs ! i)"
      using il by (simp_all add: i(2) es(1) chunk_infos_def chunk_info_def)
    have "fs_retrieve s' (ef_path e) = Inr (?cs ! i)"
      using arg_cong [where f = "\<lambda>xs. xs ! i", OF es(2)] i il by simp
    with assms(9) e have "files (join_path dir (ef_name e)) = Some (?cs ! i)" by blast
    then show ?thesis by (simp add: verify_file_checksum_def info)
  qed
  then show "check_files files (Some c) dir = None"
    using assms(5,6) by (simp add: check_files_def failed_files_def create_manifest_def filter_empty_conv)
qed

text \<open>C36: check-files succeeds exactly when every listed file can be read with the size and the
  SHA-256 of its entry; verify, by contrast, depends on the signature only through its being
  non-empty, so any other signature is accepted as well.\<close>

theorem check_files_exact:
  "(check_files files (Some m) dir = None \<longleftrightarrow>
      (\<forall>e \<in> set (cl_files m). \<exists>d. files (join_path dir (ef_name e)) = Some d \<and>
         int (length d) = ef_size e \<and> sha256_hex d = ef_checksum e)) \<and>
   (sig \<noteq> [] \<longrightarrow> cl_signature m \<noteq> [] \<longrightarrow>
      verify_export (Some (m\<lparr>cl_signature := sig\<rparr>)) key = verify_export (Some m) key)"
proof
  have "verify_file_checksum files p c n = None \<longleftrightarrow>
      (\<exists>d. files p = Some d \<and> int (length d) = n \<and> sha256_hex d = c)" for p c n
    by (auto simp: verify_file_checksum_def Let_def split: option.split)
  then show "check_files files (Some m) dir = None \<longleftrightarrow>
      (\<forall>e \<in> set (cl_files m). \<exists>d. files (join_path dir (ef_name e)) = Some d \<and>
         int (length d) = ef_size e \<and> sha256_hex d = ef_checksum e)"
    by (simp add: check_files_def failed_files_def Let_def filter_empty_conv) blast
  show "sig \<noteq> [] \<longrightarrow> cl_signature m \<noteq> [] \<longrightarrow>
      verify_export (Some (m\<lparr>cl_signature := sig\<rparr>)) key = verify_export (Some m) key"
    by (simp add: verify_export_def verify_merkle_tree_def verify_signature_def Let_def)
qed

theorem check_files_exact_witness:
  "let m = \<lparr>cl_job_id = [], cl_created = 0, cl_format = [], cl_filters = [], cl_total_records = 0,
     cl_total_size = 0, cl_chunk_count = 1, cl_signature = ''s'', cl_merkle_root = [],
     cl_files = [chunk_info ''j'' 0 0 ''ab''], cl_metadata = []\<rparr> in
   check_files (\<lambda>_. Some ''ab'') (Some m) ''.'' = None \<and> check_files (\<lambda>_. Some ''a'') (Some m) ''.'' \<noteq> None \<and>
   verify_export (Some (m\<lparr>cl_signature := ''forged''\<rparr>)) [] = verify_export (Some m) []"
  unfolding Let_def check_files_exact
  using check_files_exact [where m = "\<lparr>cl_job_id = [], cl_created = 0, cl_format = [], cl_filters = [],
     cl_total_records = 0, cl_total_size = 0, cl_chunk_count = 1, cl_signature = ''s'', cl_merkle_root = [],
     cl_files = [chunk_info ''j'' 0 0 ''ab''], cl_metadata = []\<rparr>" and sig = "''forged''" and key = "[]"]
  by (auto simp: chunk_info_def)

text \<open>The tool reads back the records of an NDJSON export: for records whose JSON texts fit a
  scanner line, it loads from the exported bytes exactly the records, with their keys in order.\<close>

theorem ndjson_roundtrip:
  assumes "list_all (\<lambda>ms. json_ok (JObj ms) \<and> length (json_str (JObj ms)) \<le> max_line) rs"
    and "files p = Some (format_as_ndjson (map JObj rs))"
  shows "load_ndjson_file files p = Inr (map canon_record rs)"
  using load_ndjson_lines [OF assms(1)] assms(2)
  by (simp add: load_ndjson_file_def scan_ndjson comp_def del: json_str.simps json_ok.simps)

theorem ndjson_roundtrip_witness:
  "load_ndjson_file (\<lambda>_. Some (format_as_ndjson [JObj [(''id'', JInt 3), (''a'', JNull)]])) (True, []) =
     Inr [[(''a'', JNull), (''id'', JInt 3)]]"
proof -
  have ok: "json_ok (JObj [(''id'', JInt 3), (''a'', JNull)])" by simp
  have "length (json_str (JObj [(''id'', JInt 3), (''a'', JNull)])) < 100" by code_simp
  then have len: "length (json_str (JObj [(''id'', JInt 3), (''a'', JNull)])) \<le> max_line"
    by (simp only: max_line_def)
  have "canon_record [(''id'', JInt 3), (''a'', JNull)] = [(''a'', JNull), (''id'', JInt 3)]" by code_simp
  with ndjson_roundtrip [of "[[(''id'', JInt 3), (''a'', JNull)]]" _ "(True, [])"] ok len show ?thesis
    by (simp del: json_str.simps json_ok.simps)
qed

text \<open>The comparison is a partition of both indexes: identical, modified and one-sided records
  add up to the distinct records on either side, the score lies between 0 and 1, and an export
  compared with itself has no difference.\<close>

theorem compare_exports_partition:
  "let r = compare_exports d1 d2 ignore; s = dr_summary r in
     ds_identical s + ds_modified s + ds_only1 s = length (create_record_index d1) \<and>
     ds_identical s + ds_modified s + ds_only2 s = length (create_record_index d2) \<and>
     0 \<le> ds_score s \<and> ds_score s \<le> 1 \<and>
     dr_differences (compare_exports d1 d1 ignore) = [] \<and> ds_modified (dr_summary (compare_exports d1 d1 ignore)) = 0 \<and>
     dr_only1 (compare_exports d1 d1 ignore) = [] \<and> dr_only2 (compare_exports d1 d1 ignore) = []"
proof -
  define m1 m2 where "m1 = create_record_index d1" and "m2 = create_record_index d2"
  define both where "both = filter (\<lambda>(k, r). has_key k m2) m1"
  define diffs where "diffs = map (\<lambda>(k, r). compare_records k r (the (map_of m2 k)) ignore) both"
  have dist: "distinct (keys m1)" "distinct (keys m2)" by (simp_all add: m1_def m2_def index_distinct)
  define ident where "ident = length (filter (\<lambda>d. d = []) diffs)"
  have im: "ident + length (filter (\<lambda>d. d \<noteq> []) diffs) = length both"
    unfolding ident_def length_filter_split by (simp add: diffs_def)
  have o1: "length both + length (filter (\<lambda>(k, r). \<not> has_key k m2) m1) = length m1"
    using length_filter_split [of "\<lambda>(k, r). has_key k m2" m1] by (simp add: both_def case_prod_unfold)
  have o2: "length both + length (filter (\<lambda>(k, r). \<not> has_key k m1) m2) = length m2"
    using length_filter_split [of "\<lambda>(k, r). has_key k m1" m2] common_sym [OF dist]
    by (simp add: both_def case_prod_unfold)
  have le: "ident \<le> length d1" "ident \<le> length d2"
    using im o1 o2 index_length [of d1] index_length [of d2] by (simp_all add: m1_def m2_def)
  have score: "(0 :: rat) \<le> (if 0 < length d1 + length d2 then of_nat (ident * 2) / of_nat (length d1 + length d2) else 0)"
    "(if 0 < length d1 + length d2 then of_nat (ident * 2) / of_nat (length d1 + length d2) else (0 :: rat)) \<le> 1"
    using le by (auto simp: divide_le_eq simp flip: of_nat_add of_nat_mult)
  have self: "\<forall>(k, r) \<in> set m1. has_key k m1 \<and> compare_records k r (the (map_of m1 k)) ignore = []"
    using dist(1) by (auto simp: has_key_iff compare_records_refl rev_image_eqI)
  have "dr_differences (compare_exports d1 d1 ignore) = [] \<and> ds_modified (dr_summary (compare_exports d1 d1 ignore)) = 0 \<and>
     dr_only1 (compare_exports d1 d1 ignore) = [] \<and> dr_only2 (compare_exports d1 d1 ignore) = []"
    using self by (auto simp: compare_exports_def Let_def m1_def [symmetric] filter_empty_conv)
  moreover have "dr_summary (compare_exports d1 d2 ignore) = \<lparr>ds_total1 = length d1, ds_total2 = length d2,
      ds_identical = ident, ds_modified = length (filter (\<lambda>d. d \<noteq> []) diffs),
      ds_only1 = length (map snd (filter (\<lambda>(k, r). \<not> has_key k m2) m1)),
      ds_only2 = length (map snd (filter (\<lambda>(k, r). \<not> has_key k m1) m2)),
      ds_score = (if 0 < length d1 + length d2 then of_nat (ident * 2) / of_nat (length d1 + length d2) else 0)\<rparr>"
    by (simp only: compare_exports_def Let_def m1_def m2_def both_def diffs_def ident_def diff_result.simps)
  ultimately show ?thesis using im o1 o2 score by (simp only: Let_def diff_summary.simps length_map) (simp add: m1_def m2_def)
qed

text \<open>FormatBytes never indexes outside its unit letters and never wraps: from 1024 on it
  prints the count divided by the largest unit that does not exceed it, with that unit's letter.\<close>

theorem format_bytes_scale:
  assumes "0 \<le> b" and "b \<le> max_i64"
  shows "if b < 1024 then format_bytes b = Ret (itoa b @ '' B'')
    else \<exists>e < 6. 1024 ^ Suc e \<le> b \<and> b < 1024 ^ Suc (Suc e) \<and>
      format_bytes b = Ret (fmt_float 1 (of_int b / 1024 ^ Suc e) @ '' '' @ [''KMGTPE'' ! e] @ ''B'')"
proof (cases "b < 1024")
  case True
  then show ?thesis by (simp add: format_bytes_def)
next
  case False
  have "byte_unit (go_quot b 1024) 1024 0 = byte_unit (b div 1024) 1024 0"
    using assms(1) by (simp add: go_quot_nonneg)
  moreover obtain e where "byte_unit (b div 1024) 1024 0 = (1024 ^ Suc e, e)" "1024 ^ Suc e \<le> b"
      "b < 1024 ^ Suc (Suc e)"
    using byte_unit_scale [of 1024 0 "b div 1024" b] False assms(2) by auto
  moreover from this have "e < 6" using unit_index assms(2) by blast
  ultimately show ?thesis using False by (auto simp: format_bytes_def intro!: exI [of _ e])
qed

theorem format_bytes_scale_witness:
  "\<exists>e < 6. 1024 ^ Suc e \<le> (5000 :: int) \<and> format_bytes 5000 = Ret (fmt_float 1 (of_int 5000 / 1024 ^ Suc e) @ '' '' @ [''KMGTPE'' ! e] @ ''B'')"
  using format_bytes_scale [of 5000] by (auto simp: max_i64_def)

end
