(* ===== verification/Wire.thy ===== *)
theory Wire
  imports Json Http
begin

text \<open>
  The rest of \<open>encoding/json\<close> and \<open>net/http\<close> that the controller's and the agent's handlers share:
  structs as JSON objects (members in field order, read back field by field, also when the case of
  a name differs), and requests with a body.
\<close>

subsection \<open>Structs\<close>

definition lower_char :: "char \<Rightarrow> char" where
  "lower_char c = (let n = (of_char c :: nat) in if 65 \<le> n \<and> n \<le> 90 then char_of (n + 32) else c)"

definition to_lower :: "string \<Rightarrow> string" where
  "to_lower s = map lower_char s"

definition json_struct :: "(string \<times> json) list \<Rightarrow> string" where
  "json_struct ms = CHR ''{'' # join '','' (map member_str ms) @ ''}''"

lemma json_parse_struct:
  assumes "list_all (\<lambda>(k, v). json_ok v) ms" and "distinct (keys ms)"
  shows "json_parse (json_struct ms) = Some (JObj (map (\<lambda>(k, v). (k, canon v)) ms))"
proof (cases "ms = []")
  case True
  then show ?thesis by (simp add: json_struct_def json_parse_def)
next
  case False
  let ?b = "join '','' (map member_str ms)"
  obtain t where ct: "?b = CHR 0x22 # t"
    using False by (cases ms; cases "tl ms") (auto simp: member_str_def quote_str_def)
  have "parse_members (Suc (Suc (length ?b))) [] (?b @ CHR ''}'' # []) = Some (JObj ([] @ map (\<lambda>(k, v). (k, canon v)) ms), [])"
  proof (rule parse_members_join)
    fix k v i r
    assume "(k, v) \<in> set ms" "length (json_str v) \<le> i" "stops r"
    then show "parse_value i (json_str v @ r) = Some (canon v, r)"
      using assms(1) by (intro parse_value_json) (auto simp: list_all_iff)
  qed (use assms(2) False in simp_all)
  with ct show ?thesis by (simp add: json_struct_def json_parse_def)
qed

text \<open>
  Reading one struct: every member of the object is given to the field of that name, or else to the
  first field whose name differs in case only; other members are skipped. A decoder fails on a
  value of the wrong type and leaves the field alone on \<open>null\<close>.
\<close>

type_synonym 'r field_decoder = "string \<times> (json \<Rightarrow> 'r \<Rightarrow> 'r option)"

definition find_field :: "string \<Rightarrow> 'r field_decoder list \<Rightarrow> 'r field_decoder option" where
  "find_field k fs = (case find (\<lambda>f. fst f = k) fs of Some f \<Rightarrow> Some f
     | None \<Rightarrow> find (\<lambda>f. to_lower (fst f) = to_lower k) fs)"

fun decode_members :: "'r field_decoder list \<Rightarrow> (string \<times> json) list \<Rightarrow> 'r \<Rightarrow> 'r option" where
  "decode_members fs [] r = Some r"
| "decode_members fs ((k, v) # ms) r = (case find_field k fs of
     None \<Rightarrow> decode_members fs ms r
   | Some f \<Rightarrow> (case snd f v r of None \<Rightarrow> None | Some r \<Rightarrow> decode_members fs ms r))"

definition decode_struct :: "'r field_decoder list \<Rightarrow> json \<Rightarrow> 'r \<Rightarrow> 'r option" where
  "decode_struct fs v r = (case v of JObj ms \<Rightarrow> decode_members fs ms r | JNull \<Rightarrow> Some r | _ \<Rightarrow> None)"

definition dec_str :: "(string \<Rightarrow> 'r \<Rightarrow> 'r) \<Rightarrow> json \<Rightarrow> 'r \<Rightarrow> 'r option" where
  "dec_str set_field v r = (case v of JStr s \<Rightarrow> Some (set_field s r) | JNull \<Rightarrow> Some r | _ \<Rightarrow> None)"

definition dec_int :: "(int \<Rightarrow> 'r \<Rightarrow> 'r) \<Rightarrow> json \<Rightarrow> 'r \<Rightarrow> 'r option" where
  "dec_int set_field v r = (case v of
     JInt i \<Rightarrow> if min_i64 \<le> i \<and> i \<le> max_i64 then Some (set_field i r) else None
   | JNull \<Rightarrow> Some r | _ \<Rightarrow> None)"

definition dec_bool :: "(bool \<Rightarrow> 'r \<Rightarrow> 'r) \<Rightarrow> json \<Rightarrow> 'r \<Rightarrow> 'r option" where
  "dec_bool set_field v r = (case v of JBool b \<Rightarrow> Some (set_field b r) | JNull \<Rightarrow> Some r | _ \<Rightarrow> None)"

lemmas dec_defs = dec_str_def dec_int_def dec_bool_def

subsection \<open>Maps\<close>

text \<open>The members of an object are added to the map that the field holds; \<open>null\<close> makes it nil.\<close>

definition add_members :: "(string \<times> json) list \<Rightarrow> (string \<times> json) list \<Rightarrow> (string \<times> json) list" where
  "add_members ms m = foldl (\<lambda>m (k, v). AList.update k v m) m ms"

definition dec_map :: "('r \<Rightarrow> (string \<times> json) list) \<Rightarrow> ((string \<times> json) list \<Rightarrow> 'r \<Rightarrow> 'r)
    \<Rightarrow> json \<Rightarrow> 'r \<Rightarrow> 'r option" where
  "dec_map get_field set_field v r = (case v of
     JObj ms \<Rightarrow> Some (set_field (add_members ms (get_field r)) r)
   | JNull \<Rightarrow> Some (set_field [] r) | _ \<Rightarrow> None)"

definition canon_members :: "(string \<times> json) list \<Rightarrow> (string \<times> json) list" where
  "canon_members ms = sort_members (map (\<lambda>(k, v). (k, canon v)) ms)"

lemma canon_members_Nil [simp]: "canon_members [] = []"
  by (simp add: canon_members_def sort_members_def)

lemma add_members_fresh:
  "distinct (keys (m @ ms)) \<Longrightarrow> add_members ms m = m @ ms"
proof (induction ms arbitrary: m)
  case Nil
  then show ?case by (simp add: add_members_def)
next
  case (Cons p ms)
  obtain k v where p: "p = (k, v)" by force
  from Cons.prems p have "AList.update k v m = m @ [(k, v)]"
    using add_member_fresh [of k m v] by (auto simp: add_member_def)
  moreover have "add_members ms (m @ [(k, v)]) = (m @ [(k, v)]) @ ms"
    by (rule Cons.IH) (use Cons.prems p in auto)
  ultimately show ?case by (simp add: add_members_def p)
qed

lemma add_canon_members: "distinct (keys ms) \<Longrightarrow> add_members (canon_members ms) [] = canon_members ms"
  using add_members_fresh [of "[]" "canon_members ms"]
  by (simp add: canon_members_def distinct_sort_members comp_def case_prod_beta)

lemma decode_members_append:
  "decode_members fs (xs @ ys) r = Option.bind (decode_members fs xs r) (decode_members fs ys)"
  by (induction fs xs r rule: decode_members.induct) (auto split: option.splits)

subsection \<open>Requests with a body\<close>

text \<open>
  A body that cannot be read is \<open>None\<close>; \<open>br_validator\<close> tells whether the request's context
  carries a validator.
\<close>

record body_request = http_request +
  br_body :: "string option"
  br_query_key :: string
  br_validator :: bool

subsection \<open>Indented output\<close>

text \<open>\<open>json.MarshalIndent\<close> with two spaces: a map's members are sorted, a struct's are not.\<close>

definition line_at :: "nat \<Rightarrow> string" where
  "line_at d = newline # replicate (2 * d) (CHR '' '')"

definition indent_list :: "nat \<Rightarrow> char \<Rightarrow> char \<Rightarrow> string list \<Rightarrow> string" where
  "indent_list d op cl xs = (if xs = [] then [op, cl]
     else op # line_at (d + 1) @ join ('','' @ line_at (d + 1)) xs @ line_at d @ [cl])"

fun indent_json :: "nat \<Rightarrow> json \<Rightarrow> string" where
  "indent_json d (JArr vs) = indent_list d (CHR ''['') (CHR '']'') (map (indent_json (d + 1)) vs)"
| "indent_json d (JObj ms) = indent_list d (CHR ''{'') (CHR ''}'')
     (map (\<lambda>(k, s). quote_str k @ '': '' @ s) (sort_members (map (\<lambda>(k, v). (k, indent_json (d + 1) v)) ms)))"
| "indent_json d v = json_str v"

end
