(* ===== verification/Manifest.thy ===== *)
theory Manifest
  imports Cli Wire
begin

text \<open>
  The manifest as a file: the JSON text that the controller's export service stores
  (\<open>storeManifest\<close>, \<open>controller/export_service.go\<close>) and that the command-line tool reads back
  (\<open>loadManifest\<close>, \<open>cli/main.go\<close>), the tool's JSON report, and its commands. The two programs declare the
  type separately; the lemma at the end says that the tool reads what the controller wrote. The format of times and the text of
  floats are parameters.
\<close>

subsection \<open>Indented text reads back\<close>

text \<open>\<open>json.MarshalIndent\<close> of values whose members are in the order in which they are written.\<close>

fun indent_tree :: "nat \<Rightarrow> json \<Rightarrow> string" where
  "indent_tree d (JArr vs) = indent_list d (CHR ''['') (CHR '']'') (map (indent_tree (d + 1)) vs)"
| "indent_tree d (JObj ms) = indent_list d (CHR ''{'') (CHR ''}'')
     (map (\<lambda>(k, v). quote_str k @ '': '' @ indent_tree (d + 1) v) ms)"
| "indent_tree d v = json_str v"

definition blank :: "string \<Rightarrow> bool" where
  "blank w \<longleftrightarrow> list_all (\<lambda>c. c = CHR '' '' \<or> c = CHR 0x0A) w"

lemma blank_simps [simp]:
  "blank []" "blank (c # w) \<longleftrightarrow> (c = CHR '' '' \<or> c = CHR 0x0A) \<and> blank w"
  by (simp_all add: blank_def)

lemma blank_line [simp]: "blank (line_at d)"
  by (simp add: line_at_def newline_def blank_def list_all_iff)

lemma skip_blank: "blank w \<Longrightarrow> skip_ws (w @ s) = skip_ws s"
  by (induction w) auto

lemma parse_blank:
  assumes "blank w"
  shows "parse_value n (w @ s) = parse_value n s" "parse_elems n acc (w @ s) = parse_elems n acc s"
    "parse_members n ms (w @ s) = parse_members n ms s"
proof -
  show v: "parse_value n (w @ s) = parse_value n s" for n
    by (cases n) (simp_all add: skip_blank [OF assms])
  show "parse_elems n acc (w @ s) = parse_elems n acc s" by (cases n) (simp_all add: v)
  show "parse_members n ms (w @ s) = parse_members n ms s" by (cases n) (simp_all add: skip_blank [OF assms])
qed

lemma stops_blank: "blank w \<Longrightarrow> w \<noteq> [] \<Longrightarrow> hd w = CHR 0x0A \<Longrightarrow> stops (w @ s)"
  by (cases w) auto

lemma stops_line [simp]: "stops (line_at d @ s)"
  by (simp add: line_at_def newline_def)

text \<open>Elements and members that are separated by a comma and blanks, and followed by blanks.\<close>

lemma parse_elems_blank:
  assumes "\<And>v m r. v \<in> set vs \<Longrightarrow> length (f v) \<le> m \<Longrightarrow> stops r \<Longrightarrow> parse_value m (f v @ r) = Some (v, r)"
    and "vs \<noteq> []" and "blank w" and "Suc (length (join ('','' @ w) (map f vs))) \<le> n"
  shows "parse_elems n acc (join ('','' @ w) (map f vs) @ line_at d @ CHR '']'' # r) = Some (JArr (acc @ vs), r)"
  using assms(1,2,4)
proof (induction vs arbitrary: n acc)
  case (Cons v vs)
  then obtain m where n: "n = Suc m" by (cases n) auto
  show ?case
  proof (cases "vs = []")
    case True
    have "parse_value m (f v @ line_at d @ CHR '']'' # r) = Some (v, line_at d @ CHR '']'' # r)"
      by (rule Cons.prems(1)) (use Cons.prems(3) True in \<open>simp_all add: n\<close>)
    then show ?thesis using True by (simp add: n skip_blank)
  next
    case False
    let ?rest = "join ('','' @ w) (map f vs) @ line_at d @ CHR '']'' # r"
    have "parse_value m (f v @ CHR '','' # w @ ?rest) = Some (v, CHR '','' # w @ ?rest)"
      by (rule Cons.prems(1)) (use Cons.prems(3) False in \<open>simp_all add: n join_Cons\<close>)
    moreover have "parse_elems m (acc @ [v]) ?rest = Some (JArr ((acc @ [v]) @ vs), r)"
      by (rule Cons.IH) (use Cons.prems False in \<open>auto simp: n join_Cons\<close>)
    ultimately show ?thesis using False by (simp add: n join_Cons parse_blank [OF assms(3)])
  qed
qed simp

lemma parse_members_blank:
  assumes "\<And>k v m r. (k, v) \<in> set ms \<Longrightarrow> length (f v) \<le> m \<Longrightarrow> stops r \<Longrightarrow> parse_value m (f v @ r) = Some (v, r)"
    and "ms \<noteq> []" and "distinct (keys (acc @ ms))" and "blank w"
    and "Suc (length (join ('','' @ w) (map (\<lambda>(k, v). quote_str k @ '': '' @ f v) ms))) \<le> n"
  shows "parse_members n acc (join ('','' @ w) (map (\<lambda>(k, v). quote_str k @ '': '' @ f v) ms) @ line_at d @ CHR ''}'' # r) =
    Some (JObj (acc @ ms), r)"
  using assms(1-3,5)
proof (induction ms arbitrary: n acc)
  case (Cons p ms)
  obtain k v where p: "p = (k, v)" by (cases p)
  obtain m where n: "n = Suc m" using Cons.prems(4) by (cases n) auto
  have fresh: "add_member k v acc = acc @ [(k, v)]"
    using Cons.prems(3) by (intro add_member_fresh) (auto simp: p)
  have q: "quote_str k = CHR 0x22 # concat (map escape_char k) @ [CHR 0x22]" by (simp add: quote_str_def)
  have sp: "parse_value m (CHR '' '' # s) = parse_value m s" for s
    using parse_blank(1) [of "'' ''" m s] by simp
  show ?case
  proof (cases "ms = []")
    case True
    have "parse_value m (f v @ line_at d @ CHR ''}'' # r) = Some (v, line_at d @ CHR ''}'' # r)"
      by (rule Cons.prems(1) [of k v]) (use Cons.prems(4) True in \<open>simp_all add: n p\<close>)
    then show ?thesis using True fresh by (simp add: n p q sp parse_chars_quoted skip_blank)
  next
    case False
    let ?rest = "join ('','' @ w) (map (\<lambda>(k, v). quote_str k @ '': '' @ f v) ms) @ line_at d @ CHR ''}'' # r"
    have "parse_value m (f v @ CHR '','' # w @ ?rest) = Some (v, CHR '','' # w @ ?rest)"
      by (rule Cons.prems(1) [of k v]) (use Cons.prems(4) False in \<open>simp_all add: n p join_Cons\<close>)
    moreover have "parse_members m (acc @ [(k, v)]) ?rest = Some (JObj ((acc @ [(k, v)]) @ ms), r)"
      by (rule Cons.IH) (use Cons.prems False in \<open>auto simp: n p join_Cons\<close>)
    ultimately show ?thesis
      using False fresh by (simp add: n p q sp join_Cons parse_chars_quoted parse_blank [OF assms(4)])
  qed
qed simp

lemma indent_head: "\<exists>c r. indent_tree d v = c # r \<and> c \<notin> {CHR '' '', CHR 0x09, CHR 0x0A, CHR 0x0D, CHR '']''}"
proof (cases v)
  case (JInt i)
  then show ?thesis using json_str_head [of "JInt i"] by simp
qed (auto simp: quote_str_def indent_list_def)

lemma indent_pos: "0 < length (indent_tree d v)"
  using indent_head [of d v] by auto

lemma parse_value_indent:
  "json_ok v \<Longrightarrow> length (indent_tree d v) \<le> n \<Longrightarrow> stops r \<Longrightarrow> parse_value n (indent_tree d v @ r) = Some (v, r)"
proof (induction v arbitrary: d n r)
  case (JArr vs)
  obtain m where n: "n = Suc m" using JArr.prems(2) indent_pos [of d "JArr vs"] by (cases n) simp_all
  show ?case
  proof (cases "vs = []")
    case True
    then show ?thesis by (simp add: n indent_list_def)
  next
    case False
    then obtain v ws where ws: "vs = v # ws" by (cases vs) auto
    let ?j = "join ('','' @ line_at (d + 1)) (map (indent_tree (d + 1)) vs)"
    obtain c t0 where head: "indent_tree (d + 1) v = c # t0"
      and c: "c \<notin> {CHR '' '', CHR 0x09, CHR 0x0A, CHR 0x0D, CHR '']''}"
      using indent_head by blast
    then obtain t where "?j = c # t" by (cases "ws = []") (simp_all add: ws join_Cons)
    note ct = this c
    have "parse_elems m [] (?j @ line_at d @ CHR '']'' # r) = Some (JArr ([] @ vs), r)"
      by (rule parse_elems_blank) (use JArr False in \<open>auto simp: n list_all_iff indent_list_def\<close>)
    then have "parse_elems m [] (line_at (d + 1) @ ?j @ line_at d @ CHR '']'' # r) = Some (JArr vs, r)"
      by (simp add: parse_blank)
    moreover have "skip_ws (line_at (d + 1) @ ?j @ s) = ?j @ s" for s
      using ct by (simp add: skip_blank)
    ultimately show ?thesis
      using False ct by (simp add: n indent_list_def)
  qed
next
  case (JObj ms)
  obtain m where n: "n = Suc m" using JObj.prems(2) indent_pos [of d "JObj ms"] by (cases n) simp_all
  show ?case
  proof (cases "ms = []")
    case True
    then show ?thesis by (simp add: n indent_list_def)
  next
    case False
    let ?j = "join ('','' @ line_at (d + 1)) (map (\<lambda>(k, v). quote_str k @ '': '' @ indent_tree (d + 1) v) ms)"
    obtain t where ct: "?j = CHR 0x22 # t"
    proof -
      obtain k v ns where "ms = (k, v) # ns" using False by (cases ms) auto
      then show ?thesis using that by (cases "ns = []") (simp_all add: join_Cons quote_str_def)
    qed
    have "parse_members m [] (?j @ line_at d @ CHR ''}'' # r) = Some (JObj ([] @ ms), r)"
    proof (rule parse_members_blank)
      fix k v i r'
      assume "(k, v) \<in> set ms" "length (indent_tree (d + 1) v) \<le> i" "stops r'"
      then show "parse_value i (indent_tree (d + 1) v @ r') = Some (v, r')"
        using JObj by (fastforce simp: list_all_iff)
    qed (use JObj False in \<open>auto simp: n indent_list_def\<close>)
    then have "parse_members m [] (line_at (d + 1) @ ?j @ line_at d @ CHR ''}'' # r) = Some (JObj ms, r)"
      by (simp add: parse_blank)
    moreover have "skip_ws (line_at (d + 1) @ ?j @ s) = ?j @ s" for s
      using ct by (simp add: skip_blank)
    ultimately show ?thesis
      using False ct by (simp add: n indent_list_def)
  qed
qed (simp_all only: indent_tree.simps parse_value_json canon.simps)

theorem json_parse_indent: "json_ok v \<Longrightarrow> json_parse (indent_tree d v) = Some v"
  using parse_value_indent [of v d "Suc (length (indent_tree d v))" "[]"] by (simp add: json_parse_def)

subsection \<open>The controller writes it\<close>

text \<open>\<open>rfc\<close> writes a time as \<open>json.Marshal\<close> does, \<open>None\<close> when its year cannot be written.\<close>

type_synonym members = "(string \<times> json) list"

definition str_member :: "string \<Rightarrow> string \<Rightarrow> members" where
  "str_member k s = (if s = [] then [] else [(k, JStr s)])"

definition time_member :: "(gtime \<Rightarrow> string option) \<Rightarrow> string \<Rightarrow> gtime option \<Rightarrow> members option" where
  "time_member rfc k t = (case t of None \<Rightarrow> Some [] | Some t \<Rightarrow> map_option (\<lambda>s. [(k, JStr s)]) (rfc t))"

definition filters_members :: "(gtime \<Rightarrow> string option) \<Rightarrow> export_filters \<Rightarrow> members option" where
  "filters_members rfc f =
     (case (time_member rfc ''start_date'' (xf_start_date f), time_member rfc ''end_date'' (xf_end_date f)) of
        (Some a, Some b) \<Rightarrow> Some (a @ b @ str_member ''experiment_type'' (xf_experiment_type f) @
          str_member ''status'' (xf_status f) @ str_member ''target'' (xf_target f) @
          str_member ''user_id'' (xf_user_id f) @
          (if xf_tags f = [] then [] else [(''tags'', JArr (map JStr (xf_tags f)))]))
      | _ \<Rightarrow> None)"

definition file_json :: "export_file \<Rightarrow> json" where
  "file_json e = JObj [(''name'', JStr (ef_name e)), (''path'', JStr (ef_path e)), (''size'', JInt (ef_size e)),
     (''checksum'', JStr (ef_checksum e)), (''chunk_index'', JInt (ef_chunk_index e)),
     (''start_byte'', JInt (ef_start_byte e)), (''end_byte'', JInt (ef_end_byte e))]"

text \<open>The list of an export without data is nil, which is written as \<open>null\<close>.\<close>

definition manifest_members :: "(gtime \<Rightarrow> string option) \<Rightarrow> export_manifest \<Rightarrow> members option" where
  "manifest_members rfc m = (case (rfc (xm_created m), filters_members rfc (xm_filters m)) of
     (Some t, Some fs) \<Rightarrow> Some [(''job_id'', JStr (xm_job_id m)), (''created_at'', JStr t),
       (''format'', JStr (xm_format m)), (''filters'', JObj fs), (''total_records'', JInt (xm_total_records m)),
       (''total_size'', JInt (xm_total_size m)), (''chunk_count'', JInt (xm_chunk_count m)),
       (''signature'', JStr (xm_signature m)), (''merkle_root'', JStr (xm_merkle_root m)),
       (''files'', if xm_files m = [] then JNull else JArr (map file_json (xm_files m))),
       (''metadata'', JObj (canon_members (xm_metadata m))),
       (''verification_instructions'', JStr (xm_instructions m))]
   | _ \<Rightarrow> None)"

definition manifest_text :: "(gtime \<Rightarrow> string option) \<Rightarrow> export_manifest \<Rightarrow> string option" where
  "manifest_text rfc m = map_option (\<lambda>ms. indent_tree 0 (JObj ms)) (manifest_members rfc m)"

subsection \<open>The tool reads it\<close>

definition dec_structs :: "'a field_decoder list \<Rightarrow> 'a \<Rightarrow> ('a list \<Rightarrow> 'r \<Rightarrow> 'r) \<Rightarrow> json \<Rightarrow> 'r \<Rightarrow> 'r option" where
  "dec_structs fs zero set_field v r = (case v of
     JNull \<Rightarrow> Some (set_field [] r)
   | JArr vs \<Rightarrow> map_option (\<lambda>xs. set_field xs r) (those (map (\<lambda>v. decode_struct fs v zero) vs))
   | _ \<Rightarrow> None)"

definition file_fields :: "export_file field_decoder list" where
  "file_fields = [
     (''name'', dec_str (\<lambda>s e. e\<lparr>ef_name := s\<rparr>)), (''path'', dec_str (\<lambda>s e. e\<lparr>ef_path := s\<rparr>)),
     (''size'', dec_int (\<lambda>i e. e\<lparr>ef_size := i\<rparr>)), (''checksum'', dec_str (\<lambda>s e. e\<lparr>ef_checksum := s\<rparr>)),
     (''chunk_index'', dec_int (\<lambda>i e. e\<lparr>ef_chunk_index := i\<rparr>)),
     (''start_byte'', dec_int (\<lambda>i e. e\<lparr>ef_start_byte := i\<rparr>)),
     (''end_byte'', dec_int (\<lambda>i e. e\<lparr>ef_end_byte := i\<rparr>))]"

definition zero_file :: export_file where
  "zero_file = \<lparr>ef_name = [], ef_path = [], ef_size = 0, ef_checksum = [], ef_chunk_index = 0, ef_start_byte = 0,
     ef_end_byte = 0\<rparr>"

definition manifest_fields :: "(string \<Rightarrow> gtime option) \<Rightarrow> cli_manifest field_decoder list" where
  "manifest_fields parse_time = [
     (''job_id'', dec_str (\<lambda>s m. m\<lparr>cl_job_id := s\<rparr>)),
     (''created_at'', (\<lambda>v m. case v of JNull \<Rightarrow> Some m
        | JStr s \<Rightarrow> map_option (\<lambda>t. m\<lparr>cl_created := t\<rparr>) (parse_time s) | _ \<Rightarrow> None)),
     (''format'', dec_str (\<lambda>s m. m\<lparr>cl_format := s\<rparr>)),
     (''filters'', dec_map cl_filters (\<lambda>x m. m\<lparr>cl_filters := x\<rparr>)),
     (''total_records'', dec_int (\<lambda>i m. m\<lparr>cl_total_records := i\<rparr>)),
     (''total_size'', dec_int (\<lambda>i m. m\<lparr>cl_total_size := i\<rparr>)),
     (''chunk_count'', dec_int (\<lambda>i m. m\<lparr>cl_chunk_count := i\<rparr>)),
     (''signature'', dec_str (\<lambda>s m. m\<lparr>cl_signature := s\<rparr>)),
     (''merkle_root'', dec_str (\<lambda>s m. m\<lparr>cl_merkle_root := s\<rparr>)),
     (''files'', dec_structs file_fields zero_file (\<lambda>fs m. m\<lparr>cl_files := fs\<rparr>)),
     (''metadata'', dec_map cl_metadata (\<lambda>x m. m\<lparr>cl_metadata := x\<rparr>))]"

definition zero_manifest :: cli_manifest where
  "zero_manifest = \<lparr>cl_job_id = [], cl_created = 0, cl_format = [], cl_filters = [], cl_total_records = 0,
     cl_total_size = 0, cl_chunk_count = 0, cl_signature = [], cl_merkle_root = [], cl_files = [], cl_metadata = []\<rparr>"

definition decode_manifest :: "(string \<Rightarrow> gtime option) \<Rightarrow> string \<Rightarrow> cli_manifest option" where
  "decode_manifest parse_time d = (case json_parse d of None \<Rightarrow> None
     | Some v \<Rightarrow> decode_struct (manifest_fields parse_time) v zero_manifest)"

definition load_manifest :: "(string \<Rightarrow> gtime option) \<Rightarrow> files \<Rightarrow> string \<Rightarrow> cli_manifest option" where
  "load_manifest parse_time fs p = (case fs (clean_path p) of None \<Rightarrow> None | Some d \<Rightarrow> decode_manifest parse_time d)"

subsection \<open>The tool's report and commands\<close>

text \<open>
  \<open>json.MarshalIndent\<close> of the report, with a record read from \<open>null\<close> written as an empty object;
  \<open>float_text\<close> writes the score.
\<close>

definition indent_struct :: "nat \<Rightarrow> (string \<times> string) list \<Rightarrow> string" where
  "indent_struct d ms = indent_list d (CHR ''{'') (CHR ''}'') (map (\<lambda>(k, t). quote_str k @ '': '' @ t) ms)"

definition indent_slice :: "nat \<Rightarrow> string list \<Rightarrow> string" where
  "indent_slice d xs = (if xs = [] then ''null'' else indent_list d (CHR ''['') (CHR '']'') xs)"

definition difference_json :: "record_difference \<Rightarrow> string" where
  "difference_json r = (let value = (\<lambda>v. case v of None \<Rightarrow> ''null'' | Some x \<Rightarrow> indent_json 3 x) in
     indent_struct 2 [(''record_id'', quote_str (rd_record r)), (''field'', quote_str (rd_field r)),
       (''value1'', value (rd_value1 r)), (''value2'', value (rd_value2 r)),
       (''change_type'', quote_str (rd_change r))])"

text \<open>
  The manifest of \<open>info\<close> in JSON. A nil map is not told from an empty one (the controller writes the
  latter), and an empty list of files is nil, as the controller writes it.
\<close>

definition info_json :: "(gtime \<Rightarrow> string option) \<Rightarrow> cli_manifest \<Rightarrow> string option" where
  "info_json rfc m = (case rfc (cl_created m) of None \<Rightarrow> None
     | Some t \<Rightarrow> Some (indent_tree 0 (JObj [(''job_id'', JStr (cl_job_id m)), (''created_at'', JStr t),
       (''format'', JStr (cl_format m)), (''filters'', canon (JObj (cl_filters m))),
       (''total_records'', JInt (cl_total_records m)), (''total_size'', JInt (cl_total_size m)),
       (''chunk_count'', JInt (cl_chunk_count m)), (''signature'', JStr (cl_signature m)),
       (''merkle_root'', JStr (cl_merkle_root m)),
       (''files'', if cl_files m = [] then JNull else JArr (map file_json (cl_files m))),
       (''metadata'', canon (JObj (cl_metadata m)))])))"

definition diff_json :: "(rat \<Rightarrow> string) \<Rightarrow> diff_result \<Rightarrow> string" where
  "diff_json float_text r = (let s = dr_summary r in indent_struct 0 [
     (''export1'', quote_str (dr_export1 r)), (''export2'', quote_str (dr_export2 r)),
     (''summary'', indent_struct 1 [
        (''total_records_1'', nat_str (ds_total1 s)), (''total_records_2'', nat_str (ds_total2 s)),
        (''identical_records'', nat_str (ds_identical s)), (''modified_records'', nat_str (ds_modified s)),
        (''only_in_first'', nat_str (ds_only1 s)), (''only_in_second'', nat_str (ds_only2 s)),
        (''similarity_score'', float_text (ds_score s))]),
     (''differences'', indent_slice 1 (map difference_json (dr_differences r))),
     (''only_in_first'', indent_slice 1 (map (\<lambda>m. indent_json 2 (JObj m)) (dr_only1 r))),
     (''only_in_second'', indent_slice 1 (map (\<lambda>m. indent_json 2 (JObj m)) (dr_only2 r)))])"

record cli_flags =
  fl_verbose :: bool
  fl_output :: string
  fl_format :: string

record cli_env =
  cv_files :: files
  cv_parse_time :: "string \<Rightarrow> gtime option"
  cv_time_text :: "gtime \<Rightarrow> string"
  cv_json_time :: "gtime \<Rightarrow> string option"
  cv_float_text :: "rat \<Rightarrow> string"
  cv_can_create :: "string \<Rightarrow> bool"

text \<open>
  A subcommand with the values of its flags; the required ones are present. The lines that \<open>verify\<close>,
  \<open>check-files\<close> and \<open>diff\<close> print as they go are left out: what they decide is the error. The
  parameters of \<open>downloadExport\<close> are declared as \<open>bool\<close> in the source, which does not compile against
  its call; they have the types of the call here.
\<close>

datatype cli_command =
    CmdVerify string string
  | CmdCheckFiles string string
  | CmdDiff string string "string list" rat
  | CmdInfo string
  | CmdDownload string string string bool

text \<open>The error of a command and its report, which goes to the output file or the terminal.\<close>

definition write_report :: "cli_env \<Rightarrow> cli_flags \<Rightarrow> string \<Rightarrow> cli_err option \<times> string" where
  "write_report env fl report =
     (if fl_output fl \<noteq> [] \<and> \<not> cv_can_create env (fl_output fl) then (Some CannotCreateOutput, []) else (None, report))"

definition download_export :: "string \<Rightarrow> string \<Rightarrow> string \<Rightarrow> cli_err option \<times> string" where
  "download_export base job dir = (None, line (''Downloading export '' @ job @ '' from '' @ base @ '' to '' @ dir) @
     line ''Note: Download functionality requires HTTP client implementation'')"

fun run_cli :: "cli_env \<Rightarrow> cli_flags \<Rightarrow> cli_command \<Rightarrow> (cli_err option \<times> string) outcome" where
  "run_cli env fl (CmdVerify p key) =
     Ret (verify_export (load_manifest (cv_parse_time env) (cv_files env) p) key, [])"
| "run_cli env fl (CmdCheckFiles p dir) =
     Ret (check_files (cv_files env) (load_manifest (cv_parse_time env) (cv_files env) p) dir, [])"
| "run_cli env fl (CmdDiff p1 p2 ignore threshold) =
     (case diff_exports (cv_files env) (decode_manifest (cv_parse_time env)) p1 p2 ignore of
        Inl e \<Rightarrow> Ret (Some e, [])
      | Inr r \<Rightarrow> Ret (write_report env fl (if fl_format fl = ''json'' then diff_json (cv_float_text env) r
          else output_text_diff (fl_verbose fl) r threshold)))"
| "run_cli env fl (CmdInfo p) = (case load_manifest (cv_parse_time env) (cv_files env) p of
     None \<Rightarrow> Ret (Some LoadManifestFailed, [])
   | Some m \<Rightarrow> if fl_format fl = ''json'' then Ret (case info_json (cv_json_time env) m of
         None \<Rightarrow> (Some MarshalFailed, []) | Some t \<Rightarrow> (None, t))
       else obind (show_export_info (cv_time_text env) m) (\<lambda>t. Ret (None, t)))"
| "run_cli env fl (CmdDownload base job dir check) = Ret (download_export base job dir)"

text \<open>The exit status: a panic ends the program with status 2.\<close>

definition exit_status :: "(cli_err option \<times> string) outcome \<Rightarrow> nat" where
  "exit_status r = (case r of Ret (None, _) \<Rightarrow> 0 | Ret (Some _, _) \<Rightarrow> 1 | Panics _ \<Rightarrow> 2)"

subsection \<open>The two programs agree\<close>

lemma json_ok_canon: "json_ok v \<Longrightarrow> json_ok (canon v)"
proof (induction v)
  case (JObj ms)
  have "distinct (keys (map (\<lambda>(k, v). (k, canon v)) ms))"
    using JObj.prems by (simp add: comp_def case_prod_beta)
  moreover have "\<And>k v. (k, v) \<in> set ms \<Longrightarrow> json_ok (canon v)"
    using JObj by (fastforce simp: list_all_iff)
  ultimately show ?case by (auto simp: distinct_sort_members list_all_iff)
qed (simp_all add: list_all_iff)

lemma canon_members_ok:
  assumes "json_ok (JObj ms)"
  shows "distinct (keys (canon_members ms))" "list_all (\<lambda>(k, v). json_ok v) (canon_members ms)"
  using json_ok_canon [OF assms] by (simp_all add: canon_members_def)

text \<open>Members that may be left out, each with a key of its own.\<close>

definition optional_members :: "string list \<Rightarrow> members \<Rightarrow> bool" where
  "optional_members ks ms \<longleftrightarrow> distinct (keys ms) \<and> list_all (\<lambda>(k, v). json_ok v) ms \<and> set (keys ms) \<subseteq> set ks"

lemma optional_append:
  "optional_members ks a \<Longrightarrow> optional_members ls b \<Longrightarrow> set ks \<inter> set ls = {} \<Longrightarrow> optional_members (ks @ ls) (a @ b)"
  unfolding optional_members_def by (simp add: list_all_iff) blast

lemma optional_pieces:
  "optional_members [k] (str_member k s)" "time_member rfc k t = Some a \<Longrightarrow> optional_members [k] a"
  "optional_members [k] (if xs = [] then [] else [(k, JArr (map JStr xs))])"
  by (auto simp: optional_members_def str_member_def time_member_def list_all_iff split: option.splits)

lemma filters_members_ok:
  assumes "filters_members rfc f = Some fs"
  shows "distinct (keys fs) \<and> list_all (\<lambda>(k, v). json_ok v) fs"
proof -
  obtain a b where ab: "time_member rfc ''start_date'' (xf_start_date f) = Some a"
    "time_member rfc ''end_date'' (xf_end_date f) = Some b"
    and fs: "fs = a @ b @ str_member ''experiment_type'' (xf_experiment_type f) @
          str_member ''status'' (xf_status f) @ str_member ''target'' (xf_target f) @
          str_member ''user_id'' (xf_user_id f) @
          (if xf_tags f = [] then [] else [(''tags'', JArr (map JStr (xf_tags f)))])"
    using assms by (auto simp only: filters_members_def option.case prod.case option.inject option.distinct
        split: option.split_asm)
  have "optional_members ([''start_date''] @ [''end_date''] @ [''experiment_type''] @ [''status''] @ [''target''] @
      [''user_id''] @ [''tags'']) fs"
    unfolding fs by (intro optional_append optional_pieces optional_pieces(2) [OF ab(1)] optional_pieces(2) [OF ab(2)])
      simp_all
  then show ?thesis by (simp add: optional_members_def)
qed

definition file_in_range :: "export_file \<Rightarrow> bool" where
  "file_in_range e \<longleftrightarrow> min_i64 \<le> ef_size e \<and> ef_size e \<le> max_i64 \<and>
     min_i64 \<le> ef_chunk_index e \<and> ef_chunk_index e \<le> max_i64 \<and>
     min_i64 \<le> ef_start_byte e \<and> ef_start_byte e \<le> max_i64 \<and> min_i64 \<le> ef_end_byte e \<and> ef_end_byte e \<le> max_i64"

text \<open>Every integer field is a 64-bit integer.\<close>

definition manifest_in_range :: "export_manifest \<Rightarrow> bool" where
  "manifest_in_range m \<longleftrightarrow> list_all file_in_range (xm_files m) \<and>
     min_i64 \<le> xm_total_records m \<and> xm_total_records m \<le> max_i64 \<and>
     min_i64 \<le> xm_total_size m \<and> xm_total_size m \<le> max_i64 \<and>
     min_i64 \<le> xm_chunk_count m \<and> xm_chunk_count m \<le> max_i64"

lemma find_file_field:
  "find_field ''name'' file_fields = Some (''name'', dec_str (\<lambda>s e. e\<lparr>ef_name := s\<rparr>))"
  "find_field ''path'' file_fields = Some (''path'', dec_str (\<lambda>s e. e\<lparr>ef_path := s\<rparr>))"
  "find_field ''size'' file_fields = Some (''size'', dec_int (\<lambda>i e. e\<lparr>ef_size := i\<rparr>))"
  "find_field ''checksum'' file_fields = Some (''checksum'', dec_str (\<lambda>s e. e\<lparr>ef_checksum := s\<rparr>))"
  "find_field ''chunk_index'' file_fields = Some (''chunk_index'', dec_int (\<lambda>i e. e\<lparr>ef_chunk_index := i\<rparr>))"
  "find_field ''start_byte'' file_fields = Some (''start_byte'', dec_int (\<lambda>i e. e\<lparr>ef_start_byte := i\<rparr>))"
  "find_field ''end_byte'' file_fields = Some (''end_byte'', dec_int (\<lambda>i e. e\<lparr>ef_end_byte := i\<rparr>))"
  by (simp_all add: find_field_def file_fields_def)

lemma decode_file: "file_in_range e \<Longrightarrow> decode_struct file_fields (file_json e) zero_file = Some e"
  by (simp add: decode_struct_def file_json_def find_file_field dec_defs file_in_range_def zero_file_def)

lemma those_map_Some: "(\<And>x. x \<in> set xs \<Longrightarrow> f x = Some (g x)) \<Longrightarrow> those (map f xs) = Some (map g xs)"
  by (induction xs) auto

lemma find_manifest_field:
  "find_field ''job_id'' (manifest_fields pt) = Some (''job_id'', dec_str (\<lambda>s m. m\<lparr>cl_job_id := s\<rparr>))"
  "find_field ''created_at'' (manifest_fields pt) = Some (''created_at'', (\<lambda>v m. case v of JNull \<Rightarrow> Some m
        | JStr s \<Rightarrow> map_option (\<lambda>t. m\<lparr>cl_created := t\<rparr>) (pt s) | _ \<Rightarrow> None))"
  "find_field ''format'' (manifest_fields pt) = Some (''format'', dec_str (\<lambda>s m. m\<lparr>cl_format := s\<rparr>))"
  "find_field ''filters'' (manifest_fields pt) = Some (''filters'', dec_map cl_filters (\<lambda>x m. m\<lparr>cl_filters := x\<rparr>))"
  "find_field ''total_records'' (manifest_fields pt) = Some (''total_records'', dec_int (\<lambda>i m. m\<lparr>cl_total_records := i\<rparr>))"
  "find_field ''total_size'' (manifest_fields pt) = Some (''total_size'', dec_int (\<lambda>i m. m\<lparr>cl_total_size := i\<rparr>))"
  "find_field ''chunk_count'' (manifest_fields pt) = Some (''chunk_count'', dec_int (\<lambda>i m. m\<lparr>cl_chunk_count := i\<rparr>))"
  "find_field ''signature'' (manifest_fields pt) = Some (''signature'', dec_str (\<lambda>s m. m\<lparr>cl_signature := s\<rparr>))"
  "find_field ''merkle_root'' (manifest_fields pt) = Some (''merkle_root'', dec_str (\<lambda>s m. m\<lparr>cl_merkle_root := s\<rparr>))"
  "find_field ''files'' (manifest_fields pt) = Some (''files'', dec_structs file_fields zero_file (\<lambda>fs m. m\<lparr>cl_files := fs\<rparr>))"
  "find_field ''metadata'' (manifest_fields pt) = Some (''metadata'', dec_map cl_metadata (\<lambda>x m. m\<lparr>cl_metadata := x\<rparr>))"
  "find_field ''verification_instructions'' (manifest_fields pt) = None"
  by (simp_all add: find_field_def manifest_fields_def, code_simp)

text \<open>The manifest as the tool sees it: the filters as a map, the instructions dropped.\<close>

definition cli_view :: "members \<Rightarrow> export_manifest \<Rightarrow> cli_manifest" where
  "cli_view fs m = \<lparr>cl_job_id = xm_job_id m, cl_created = xm_created m, cl_format = xm_format m, cl_filters = fs,
     cl_total_records = xm_total_records m, cl_total_size = xm_total_size m, cl_chunk_count = xm_chunk_count m,
     cl_signature = xm_signature m, cl_merkle_root = xm_merkle_root m, cl_files = xm_files m,
     cl_metadata = canon_members (xm_metadata m)\<rparr>"

lemma decode_manifest_text:
  assumes "manifest_text rfc m = Some d" and meta: "json_ok (JObj (xm_metadata m))" and "manifest_in_range m"
    and time: "\<And>t s. rfc t = Some s \<Longrightarrow> pt s = Some t"
  shows "\<exists>fs. filters_members rfc (xm_filters m) = Some fs \<and> decode_manifest pt d = Some (cli_view fs m)"
proof -
  from assms(1) obtain t fs where t: "rfc (xm_created m) = Some t" and fs: "filters_members rfc (xm_filters m) = Some fs"
    by (auto simp: manifest_text_def manifest_members_def split: option.splits)
  let ?files = "if xm_files m = [] then JNull else JArr (map file_json (xm_files m))"
  define ms where "ms = [(''job_id'', JStr (xm_job_id m)), (''created_at'', JStr t),
       (''format'', JStr (xm_format m)), (''filters'', JObj fs), (''total_records'', JInt (xm_total_records m)),
       (''total_size'', JInt (xm_total_size m)), (''chunk_count'', JInt (xm_chunk_count m)),
       (''signature'', JStr (xm_signature m)), (''merkle_root'', JStr (xm_merkle_root m)),
       (''files'', ?files), (''metadata'', JObj (canon_members (xm_metadata m))),
       (''verification_instructions'', JStr (xm_instructions m))]"
  have d: "d = indent_tree 0 (JObj ms)"
    using assms(1) t fs by (simp add: manifest_text_def manifest_members_def ms_def)
  have files_ok: "json_ok ?files" by (simp add: list_all_iff file_json_def)
  have "json_ok (JObj ms)"
    using filters_members_ok [OF fs] canon_members_ok [OF meta] files_ok by (simp add: ms_def)
  then have parsed: "json_parse d = Some (JObj ms)" unfolding d by (rule json_parse_indent)
  have files: "dec_structs file_fields zero_file (\<lambda>fs m. m\<lparr>cl_files := fs\<rparr>) ?files r = Some (r\<lparr>cl_files := xm_files m\<rparr>)" for r
  proof -
    have "those (map (\<lambda>v. decode_struct file_fields v zero_file) (map file_json (xm_files m))) = Some (xm_files m)"
      using those_map_Some [of "xm_files m" "\<lambda>e. decode_struct file_fields (file_json e) zero_file" id]
        assms(3) decode_file by (simp add: manifest_in_range_def list_all_iff comp_def)
    then show ?thesis by (simp add: dec_structs_def)
  qed
  have maps: "add_members fs [] = fs" "add_members (canon_members (xm_metadata m)) [] = canon_members (xm_metadata m)"
    using filters_members_ok [OF fs] canon_members_ok [OF meta] by (simp_all add: add_members_fresh)
  have ints: "min_i64 \<le> xm_total_records m \<and> xm_total_records m \<le> max_i64"
    "min_i64 \<le> xm_total_size m \<and> xm_total_size m \<le> max_i64"
    "min_i64 \<le> xm_chunk_count m \<and> xm_chunk_count m \<le> max_i64"
    using assms(3) by (simp_all add: manifest_in_range_def)
  have "decode_members (manifest_fields pt) ms zero_manifest = Some (cli_view fs m)"
    unfolding ms_def
    by (simp add: find_manifest_field files dec_defs dec_map_def maps ints time [OF t] zero_manifest_def
        cli_view_def del: if_split)
  then show ?thesis using parsed fs by (simp add: decode_manifest_def decode_struct_def)
qed

end
