(* ===== verification/Verified_Export.thy ===== *)
theory Verified_Export
  imports Manifest
begin

text \<open>
  The way of an export from the job in the controller's service (\<open>controller/export_service.go\<close>) over
  the file system to the command-line tool (\<open>cli/main.go\<close>): what a completed job leaves in the storage
  passes the tool.
\<close>

subsection \<open>A manifest and chunks\<close>

text \<open>The manifest of an export below the size of a 64-bit integer.\<close>

lemma chunk_infos_in_range:
  assumes "0 \<le> start" and "start + int (length (concat cs)) \<le> max_i64" and "int i + int (length cs) \<le> max_i64"
  shows "list_all file_in_range (chunk_infos job i start cs)"
  using assms
  by (induction cs arbitrary: i start) (simp_all add: file_in_range_def chunk_info_def min_i64_def)

lemma chop_length: "0 < n \<Longrightarrow> length (chop n xs) \<le> length xs"
proof (induction n xs rule: chop.induct)
  case (1 n xs)
  show ?case
  proof (cases "xs = []")
    case False
    then have "length (chop n (drop n xs)) \<le> length xs - n" using 1 by simp
    then show ?thesis using False \<open>0 < n\<close> by (subst chop.simps) (cases xs; simp)
  qed simp
qed

lemma created_manifest_in_range:
  assumes "es = chunk_infos job 0 0 (chop chunk_size data)" and "int (length data) \<le> max_i64"
  shows "manifest_in_range (create_manifest j es sig mroot)"
proof -
  have pos: "0 < chunk_size" by (simp add: chunk_size_def)
  have n: "int (length (chop chunk_size data)) \<le> max_i64"
    using chop_length [OF pos, of data] assms(2) by linarith
  have cat: "concat (chop chunk_size data) = data" by (rule concat_chop [OF pos])
  have "list_all file_in_range es" unfolding assms(1)
    by (rule chunk_infos_in_range) (use n cat assms(2) in simp_all)
  moreover have "length es = length (chop chunk_size data)" by (simp add: assms(1) chunk_infos_def)
  moreover have "calculate_total_size es = int (length data)"
    unfolding calculate_total_size_def assms(1) chunk_infos_sizes cat
    using assms(2) by (intro i64_id) (simp_all add: min_i64_def)
  ultimately show ?thesis
    using n assms(2) by (simp add: manifest_in_range_def create_manifest_def min_i64_def)
qed

lemma cli_verifies_stored_export:
  assumes chunks: "create_chunks fs_store data job s = (s', Inr es)" and inv: "fs_invar base s" and "plain job"
    and size: "int (length data) \<le> max_i64" and meta: "json_ok (JObj (xj_metadata j))"
    and proofs: "generate_crypto_proofs cm es = (sig, mroot)" and m: "m = create_manifest j es sig mroot"
    and stored: "manifest_text rfc m = Some d"
    and times: "\<forall>t x. rfc t = Some x \<longrightarrow> cv_parse_time env x = Some t"
    and manifest: "cv_files env (clean_path p) = Some d"
    and downloads: "\<forall>e \<in> set es. \<forall>b. fs_retrieve s' (ef_path e) = Inr b \<longrightarrow>
      cv_files env (join_path dir (ef_name e)) = Some b"
  shows "(\<exists>fs. filters_members rfc (xm_filters m) = Some fs \<and>
      load_manifest (cv_parse_time env) (cv_files env) p = Some (cli_view fs m)) \<and>
    exit_status (run_cli env fl (CmdVerify p key)) = 0 \<and> exit_status (run_cli env fl (CmdCheckFiles p dir)) = 0"
proof -
  have es: "es = chunk_infos job 0 0 (chop chunk_size data)"
    using fs_create_chunks [OF chunks inv \<open>plain job\<close>] by blast
  have "manifest_in_range m" unfolding m by (rule created_manifest_in_range [OF es size])
  moreover have "json_ok (JObj (xm_metadata m))" using meta by (simp add: m create_manifest_def)
  ultimately obtain fs where fs: "filters_members rfc (xm_filters m) = Some fs"
    and dec: "decode_manifest (cv_parse_time env) d = Some (cli_view fs m)"
    using decode_manifest_text [OF stored, of "cv_parse_time env"] times by blast
  have load: "load_manifest (cv_parse_time env) (cv_files env) p = Some (cli_view fs m)"
    by (simp add: load_manifest_def manifest dec)
  have "verify_export (Some (cli_view fs m)) key = None \<and> check_files (cv_files env) (Some (cli_view fs m)) dir = None"
    using controller_export_accepted [OF chunks inv \<open>plain job\<close> proofs m _ _ _ downloads, of "cli_view fs m"]
    by (simp add: cli_view_def)
  then show ?thesis using fs load by (simp add: exit_status_def)
qed

subsection \<open>A job\<close>

lemma manifest_key_other:
  assumes "plain job"
  shows "join_path base (chunk_path job i) \<noteq> join_path base (manifest_key job)"
proof -
  have m: "manifest_key job = join [slash] [''exports'', job, ''manifest.json'']"
    by (simp add: manifest_key_def slash_def)
  have "list_all plain [''exports'', job, ''manifest.json'']" "list_all plain [''exports'', job, chunk_name job i]"
    using assms plain_chunk_name [OF assms, of i] by (simp_all add: plain_def slash_def)
  moreover have "last (chunk_name job i) = CHR ''t''" by (simp add: chunk_name_def)
  then have "chunk_name job i \<noteq> ''manifest.json''" by auto
  ultimately show ?thesis
    by (simp add: m chunk_path_join join_path_plain del: join.simps)
qed

lemma chunk_infos_names:
  "e \<in> set (chunk_infos job i start cs) \<Longrightarrow> \<exists>n. ef_path e = chunk_path job n \<and> ef_name e = chunk_name job n"
  by (auto simp: chunk_infos_def chunk_info_def)

text \<open>What the goroutine of a completed job did.\<close>

definition exported :: "('st, 'e) export_env \<Rightarrow> string \<Rightarrow> crypto_manager \<Rightarrow> 'st \<Rightarrow> export_job \<Rightarrow> string \<Rightarrow>
    export_file list \<Rightarrow> export_manifest \<Rightarrow> string \<Rightarrow> 'st \<Rightarrow> bool" where
  "exported env k cm st j bytes es m d st' \<longleftrightarrow> (\<exists>st1 sig mroot.
     create_chunks (xe_store env) bytes k st = (st1, Inr es) \<and> generate_crypto_proofs cm es = (sig, mroot) \<and>
     m = create_manifest j es sig mroot \<and> xe_manifest_text env m = Some d \<and>
     xe_store env st1 (manifest_key k) d = (st', None))"

lemma finish_export_completed:
  fixes s :: "'st export_service"
  assumes "map_of (es_jobs s) k = Some i" and "i < length (es_heap s)"
    and "xj_status (es_heap (finish_export env now i k es s) ! i) = XCompleted"
  obtains j sig mroot d where "xj_metadata j = xj_metadata (es_heap s ! i)" and "xj_id j = xj_id (es_heap s ! i)"
    and "generate_crypto_proofs (es_crypto s) es = (sig, mroot)"
    and "xe_manifest_text env (create_manifest j es sig mroot) = Some d"
    and "xe_store env (es_storage s) (manifest_key k) d = (es_storage (finish_export env now i k es s), None)"
proof -
  define t where "t = update_job_status k XProcessing (8 / 10) ''Creating signatures and manifest...'' s"
  have t: "map_of (es_jobs t) k = Some i" "i < length (es_heap t)" "es_storage t = es_storage s" "es_crypto t = es_crypto s"
    using assms by (simp_all add: t_def)
  have own: "xj_metadata (es_heap t ! i) = xj_metadata (es_heap s ! i)" "xj_id (es_heap t ! i) = xj_id (es_heap s ! i)"
    using update_job_status_own [OF assms(1,2)] by (simp_all add: t_def)
  obtain sig mroot where p: "generate_crypto_proofs (es_crypto t) es = (sig, mroot)" by fastforce
  define m where "m = create_manifest (es_heap t ! i) es sig mroot"
  obtain st r where sm: "store_manifest (xe_store env) (xe_url env) (xe_manifest_text env) k m (es_storage t) = (st, r)"
    by fastforce
  show ?thesis
  proof (cases r)
    case (Inl e)
    then have "finish_export env now i k es s = fail_job env k (95 / 100) e (t\<lparr>es_storage := st\<rparr>)"
      unfolding finish_export_def t_def [symmetric] Let_def p by (simp add: sm m_def [symmetric])
    then show ?thesis using t assms(3) fail_job_own(2) [of "t\<lparr>es_storage := st\<rparr>" k i env "95 / 100" e] by simp
  next
    case (Inr url)
    then have "es_storage (finish_export env now i k es s) = st"
      unfolding finish_export_def t_def [symmetric] Let_def p by (simp add: sm m_def [symmetric])
    moreover obtain d where "xe_manifest_text env m = Some d" "xe_store env (es_storage t) (manifest_key k) d = (st, None)"
      using sm Inr by (auto simp: store_manifest_def split: option.splits prod.splits)
    ultimately show ?thesis using that [of "es_heap t ! i" sig mroot d] t own p by (simp add: m_def)
  qed
qed

lemma process_completed:
  fixes s :: "'st export_service" and env :: "('st, 'e) export_env"
  assumes tab: "map_of (es_jobs s) k = Some i" "i < length (es_heap s)" and k: "k = xj_id (es_heap s ! i)"
    and ended: "xj_status (es_heap (process_export_job env now i s) ! i) = XCompleted"
  obtains bytes j es m d where "xj_metadata j = xj_metadata (es_heap s ! i)" and "xj_id j = k"
    and "format_data (fetch_filtered_data (xe_format_time env) now (xj_filters (es_heap s ! i)))
      (xj_format (es_heap s ! i)) = (Inr bytes :: 'e export_err + string)"
    and "exported env k (es_crypto s) (es_storage s) j bytes es m d (es_storage (process_export_job env now i s))"
proof -
  define s1 where "s1 = update_job_status k XProcessing 0 [] s"
  define s2 where "s2 = update_job_status k XProcessing (2 / 10) ''Data fetched, formatting...'' s1"
  define s3 where "s3 = update_job_status k XProcessing (6 / 10) ''Data formatted, creating chunks...'' s2"
  note defs = s1_def s2_def s3_def
  have t: "map_of (es_jobs s1) k = Some i" "i < length (es_heap s1)" "map_of (es_jobs s2) k = Some i"
    "i < length (es_heap s2)" "map_of (es_jobs s3) k = Some i" "i < length (es_heap s3)"
    "es_storage s3 = es_storage s" "es_crypto s3 = es_crypto s" using tab by (simp_all add: defs)
  note own = update_job_status_own [OF tab, of XProcessing 0 "[]", folded s1_def]
    update_job_status_own [OF t(1,2), of XProcessing "2 / 10" "''Data fetched, formatting...''", folded s2_def]
    update_job_status_own [OF t(3,4), of XProcessing "6 / 10" "''Data formatted, creating chunks...''", folded s3_def]
  define data where "data = fetch_filtered_data (xe_format_time env) now (xj_filters (es_heap s1 ! i))"
  note run = process_export_job_def [of env now i s, folded k, unfolded Let_def, folded s1_def,
      folded s2_def, folded s3_def, folded data_def]
  show ?thesis
  proof (cases "format_data data (xj_format (es_heap s2 ! i)) :: 'e export_err + string")
    case (Inl e)
    then show ?thesis using ended fail_job_own(2) [OF t(3,4), of env "2 / 10" e] by (simp add: run)
  next
    case (Inr bytes)
    obtain st r where c: "create_chunks (xe_store env) bytes k (es_storage s3) = (st, r)" by fastforce
    show ?thesis
    proof (cases r)
      case err: (Inl e)
      have "process_export_job env now i s = fail_job env k (6 / 10) e (s3\<lparr>es_storage := st\<rparr>)"
        using Inr err by (simp add: run c)
      then show ?thesis
        using ended t(5,6) fail_job_own(2) [of "s3\<lparr>es_storage := st\<rparr>" k i env "6 / 10" e] by simp
    next
      case es: (Inr es)
      let ?t = "s3\<lparr>es_storage := st\<rparr>"
      have eq: "process_export_job env now i s = finish_export env now i k es ?t"
        using Inr es by (simp add: run c)
      have "map_of (es_jobs ?t) k = Some i" "i < length (es_heap ?t)" using t by simp_all
      from finish_export_completed [OF this ended [unfolded eq]]
      obtain j sig mroot d where j: "xj_metadata j = xj_metadata (es_heap ?t ! i)" "xj_id j = xj_id (es_heap ?t ! i)"
        and f: "generate_crypto_proofs (es_crypto ?t) es = (sig, mroot)"
          "xe_manifest_text env (create_manifest j es sig mroot) = Some d"
          "xe_store env (es_storage ?t) (manifest_key k) d = (es_storage (finish_export env now i k es ?t), None)"
        by blast
      have "exported env k (es_crypto s) (es_storage s) j bytes es (create_manifest j es sig mroot) d
          (es_storage (process_export_job env now i s))"
        using f c es t unfolding exported_def eq by auto
      moreover have "xj_metadata j = xj_metadata (es_heap s ! i)" "xj_id j = k"
        using j own k by simp_all
      moreover have "format_data (fetch_filtered_data (xe_format_time env) now (xj_filters (es_heap s ! i)))
          (xj_format (es_heap s ! i)) = (Inr bytes :: 'e export_err + string)"
        using Inr own by (simp add: data_def)
      ultimately show ?thesis using that by blast
    qed
  qed
qed

text \<open>A small job: no record has the target, so that the export is one short chunk.\<close>

definition small_rfc :: "gtime \<Rightarrow> string option" where
  "small_rfc t = (if t = 0 then Some ''0001-01-01T00:00:00Z'' else None)"

definition small_job :: export_job where
  "small_job = (new_export_job 0 ''u'' ''parquet'' (no_filters\<lparr>xf_target := ''x''\<rparr>))\<lparr>xj_id := ''j''\<rparr>"

definition small_service :: "fs_state export_service" where
  "small_service = \<lparr>es_storage = small_fs, es_crypto = new_crypto_manager, es_jobs = [(''j'', 0)], es_heap = [small_job]\<rparr>"

definition small_env :: "(fs_state, storage_err) export_env" where
  "small_env = \<lparr>xe_store = fs_store, xe_retrieve = fs_retrieve, xe_url = fs_get_url,
     xe_format_time = (\<lambda>_. []), xe_manifest_text = manifest_text small_rfc, xe_error_text = (\<lambda>_. ''io'')\<rparr>"

definition empty_parquet :: string where
  "empty_parquet = ''-- Parquet Format Export --'' @ [newline] @ ''null''"

lemma small_format: "format_data (fetch_filtered_data fmt now (no_filters\<lparr>xf_target := ''x''\<rparr>)) ''parquet'' = Inr empty_parquet"
proof -
  have "fetch_filtered_data fmt now (no_filters\<lparr>xf_target := ''x''\<rparr>) = []"
    by (simp add: fetch_filtered_data_def filter_empty_conv matches_filters_def str_field_def sample_record_def
        no_filters_def del: upt.simps)
  then show ?thesis by (simp add: format_data_def format_as_parquet_def empty_parquet_def)
qed

lemma small_fs_both:
  "\<exists>s1. fs_store small_fs (chunk_path ''j'' 0) b = (s1, None) \<and> snd (fs_store s1 (manifest_key ''j'') d) = None"
proof -
  let ?p = "(True, [''data'', ''exports'', ''j'', ''j_chunk_000.dat''])"
  let ?q = "(True, [''data'', ''exports'', ''j'', ''manifest.json''])"
  have p: "join_path ''/data'' (chunk_path ''j'' 0) = ?p" "?p \<notin> set (ancestors (parent ?p))" by code_simp+
  have q: "join_path ''/data'' (manifest_key ''j'') = ?q" "?q \<notin> set (ancestors (parent ?p))"
    "parent ?q = parent ?p" "\<forall>x \<in> set (ancestors (parent ?p)). x \<noteq> ?p" by code_simp+
  show ?thesis
    using p q by (simp add: fs_store_def small_fs_def new_file_system_storage_def mkdir_all_def write_file_def
        is_file_def has_key_def list_ex_iff Let_def)
qed

lemma small_job_simps [simp]: "xj_id small_job = ''j''" "xj_created small_job = 0"
  "xj_filters small_job = no_filters\<lparr>xf_target := ''x''\<rparr>" "xj_format small_job = ''parquet''" "xj_metadata small_job = []"
  by (simp_all add: small_job_def new_export_job_def)

lemma small_service_completes:
  defines "s' \<equiv> process_export_job small_env 0 0 small_service"
  shows "xj_status (es_heap s' ! 0) = XCompleted \<and> fs_base (es_storage s') = ''/data''"
proof -
  let ?es = "[chunk_info ''j'' 0 0 empty_parquet]"
  obtain sig mroot where pr: "generate_crypto_proofs new_crypto_manager ?es = (sig, mroot)" by fastforce
  have written: "\<exists>d. manifest_text small_rfc (create_manifest j ?es sig mroot) = Some d"
    if "xj_created j = 0" "xj_filters j = no_filters\<lparr>xf_target := ''x''\<rparr>" for j
    using that by (simp add: manifest_text_def manifest_members_def create_manifest_def small_rfc_def
        filters_members_def no_filters_def time_member_def)
  obtain s1 where st: "fs_store small_fs (chunk_path ''j'' 0) empty_parquet = (s1, None)"
    and st2: "\<And>d. snd (fs_store s1 (manifest_key ''j'') d) = None"
    using small_fs_both [of empty_parquet] by (metis fst_conv)
  have len: "empty_parquet \<noteq> []" "length empty_parquet \<le> chunk_size" by (simp_all add: empty_parquet_def chunk_size_def)
  then have "chop chunk_size empty_parquet = [empty_parquet]" by (subst chop.simps) (simp add: chunk_size_def)
  then have cc: "create_chunks fs_store empty_parquet ''j'' small_fs = (s1, Inr ?es)"
    by (simp add: create_chunks_def st)
  define t where "t = update_job_status ''j'' XProcessing (6 / 10) ''Data formatted, creating chunks...''
    (update_job_status ''j'' XProcessing (2 / 10) ''Data fetched, formatting...''
      (update_job_status ''j'' XProcessing 0 [] small_service))"
  have t: "es_storage t = small_fs" "es_crypto t = new_crypto_manager" "es_jobs t = [(''j'', 0)]" "length (es_heap t) = 1"
    "xj_created (es_heap t ! 0) = 0" "xj_filters (es_heap t ! 0) = no_filters\<lparr>xf_target := ''x''\<rparr>"
    by (simp_all add: t_def small_service_def update_job_status_def update_heap_def)
  have "s' = finish_export small_env 0 0 ''j'' ?es (t\<lparr>es_storage := s1\<rparr>)"
    unfolding s'_def process_export_job_def Let_def
    by (simp add: small_env_def small_service_def update_job_status_def update_heap_def small_format cc t_def)
  moreover define u where
    "u = update_job_status ''j'' XProcessing (8 / 10) ''Creating signatures and manifest...'' (t\<lparr>es_storage := s1\<rparr>)"
  moreover have u: "es_storage u = s1" "es_crypto u = new_crypto_manager" "length (es_heap u) = 1"
    "xj_created (es_heap u ! 0) = 0" "xj_filters (es_heap u ! 0) = no_filters\<lparr>xf_target := ''x''\<rparr>"
    using t by (simp_all add: u_def update_job_status_def update_heap_def)
  moreover obtain d where "manifest_text small_rfc (create_manifest (es_heap u ! 0) ?es sig mroot) = Some d"
    using written u by blast
  moreover obtain s2 where s2: "fs_store s1 (manifest_key ''j'') d = (s2, None)"
    using st2 [of d] by (cases "fs_store s1 (manifest_key ''j'') d") simp
  moreover have "fs_base s2 = ''/data''"
    using fs_store_frame [OF st refl] fs_store_frame [OF s2 refl] by (simp add: small_fs_def new_file_system_storage_def)
  ultimately show ?thesis
    by (simp add: finish_export_def Let_def pr store_manifest_def small_env_def update_heap_def)
qed

subsection \<open>Properties\<close>

text \<open>C2: every completed export is accepted: whenever a job of the export service ends as completed, over
  the file system with any outcome of the writes, the manifest and the chunks that it left in the storage,
  downloaded unchanged, make the tool read a manifest of this job and exit with status 0 from verify and
  from check-files.\<close>

theorem completed_export_verifies:
  fixes env :: "(fs_state, storage_err) export_env"
  assumes tab: "map_of (es_jobs s) k = Some i" "i < length (es_heap s)" and k: "k = xj_id (es_heap s ! i)" "plain k"
    and meta: "json_ok (JObj (xj_metadata (es_heap s ! i)))" and inv: "fs_invar base (es_storage s)"
    and env: "xe_store env = fs_store" "xe_manifest_text env = manifest_text rfc"
    and size: "\<forall>b. format_data (fetch_filtered_data (xe_format_time env) now (xj_filters (es_heap s ! i)))
      (xj_format (es_heap s ! i)) = (Inr b :: storage_err export_err + string) \<longrightarrow> int (length b) \<le> max_i64"
    and run: "s' = process_export_job env now i s" "xj_status (es_heap s' ! i) = XCompleted"
    and times: "\<forall>t x. rfc t = Some x \<longrightarrow> cv_parse_time tool x = Some t"
    and manifest: "\<forall>d. fs_retrieve (es_storage s') (manifest_key k) = Inr d \<longrightarrow> cv_files tool (clean_path p) = Some d"
    and downloads: "\<forall>n d. fs_retrieve (es_storage s') (''exports/'' @ k @ ''/'' @ n) = Inr d \<longrightarrow>
      cv_files tool (join_path dir n) = Some d"
  shows "(\<exists>v. load_manifest (cv_parse_time tool) (cv_files tool) p = Some v \<and> cl_job_id v = k) \<and>
    exit_status (run_cli tool fl (CmdVerify p key)) = 0 \<and> exit_status (run_cli tool fl (CmdCheckFiles p dir)) = 0"
proof -
  obtain bytes j es m d where j: "xj_metadata j = xj_metadata (es_heap s ! i)" "xj_id j = k"
    and bytes: "format_data (fetch_filtered_data (xe_format_time env) now (xj_filters (es_heap s ! i)))
      (xj_format (es_heap s ! i)) = (Inr bytes :: storage_err export_err + string)"
    and ex: "exported env k (es_crypto s) (es_storage s) j bytes es m d (es_storage s')"
    by (rule process_completed [OF tab k(1) run(2) [unfolded run(1)], folded run(1)])
  from ex obtain st1 sig mroot where c: "create_chunks fs_store bytes k (es_storage s) = (st1, Inr es)"
    and p: "generate_crypto_proofs (es_crypto s) es = (sig, mroot)" and m: "m = create_manifest j es sig mroot"
    and d: "manifest_text rfc m = Some d" and st: "fs_store st1 (manifest_key k) d = (es_storage s', None)"
    unfolding exported_def env by blast
  note chunks = fs_create_chunks [OF c inv k(2)]
  then have inv1: "fs_invar base st1" and es: "es = chunk_infos k 0 0 (chop chunk_size bytes)" by blast+
  have "fs_retrieve (es_storage s') (manifest_key k) = Inr d"
    using fs.retrieve_store [OF inv1, of "manifest_key k" d "manifest_key k"] st by simp
  then have stored: "cv_files tool (clean_path p) = Some d" using manifest by blast
  have kept: "fs_retrieve (es_storage s') (chunk_path k n) = fs_retrieve st1 (chunk_path k n)" for n
    using fs.retrieve_other [OF inv1 manifest_key_other [OF k(2)], of d] st by simp
  have "\<forall>e \<in> set es. \<forall>b. fs_retrieve st1 (ef_path e) = Inr b \<longrightarrow> cv_files tool (join_path dir (ef_name e)) = Some b"
  proof (intro ballI allI impI)
    fix e b assume e: "e \<in> set es" "fs_retrieve st1 (ef_path e) = Inr b"
    obtain n where n: "ef_path e = chunk_path k n" "ef_name e = chunk_name k n"
      using chunk_infos_names [OF e(1) [unfolded es]] by blast
    then have "fs_retrieve (es_storage s') (''exports/'' @ k @ ''/'' @ ef_name e) = Inr b"
      using e(2) kept by (simp add: chunk_path_def)
    then show "cv_files tool (join_path dir (ef_name e)) = Some b" using downloads by blast
  qed
  note downloaded = this
  have len: "int (length bytes) \<le> max_i64" using size bytes by blast
  have "json_ok (JObj (xj_metadata j))" using meta j(1) by simp
  note ok = cli_verifies_stored_export [OF c inv k(2) len this p m d times stored downloaded]
  then obtain fs where "load_manifest (cv_parse_time tool) (cv_files tool) p = Some (cli_view fs m)" by blast
  moreover have "cl_job_id (cli_view fs m) = k" by (simp add: m create_manifest_def cli_view_def j(2))
  ultimately show ?thesis using ok by blast
qed

theorem completed_export_verifies_witness:
  "\<exists>tool. cv_files tool = map_of (fs_files (es_storage (process_export_job small_env 0 0 small_service))) \<and>
     exit_status (run_cli tool \<lparr>fl_verbose = False, fl_output = [], fl_format = ''text''\<rparr>
       (CmdCheckFiles ''/data/exports/j/manifest.json'' ''/data/exports/j'')) = 0"
proof -
  let ?fl = "\<lparr>fl_verbose = False, fl_output = [], fl_format = ''text''\<rparr>"
  define s' where "s' = process_export_job small_env 0 0 small_service"
  define tool where "tool = \<lparr>cv_files = map_of (fs_files (es_storage s')),
     cv_parse_time = (\<lambda>x. if x = ''0001-01-01T00:00:00Z'' then Some 0 else None), cv_time_text = (\<lambda>_. []),
     cv_json_time = small_rfc, cv_float_text = (\<lambda>_. []), cv_can_create = (\<lambda>_. True)\<rparr>"
  have ends: "xj_status (es_heap s' ! 0) = XCompleted" and base: "fs_base (es_storage s') = ''/data''"
    using small_service_completes by (simp_all add: s'_def)
  have get: "cv_files tool (join_path ''/data'' q) = Some d" if "fs_retrieve (es_storage s') q = Inr d" for q d
    using that base by (auto simp: tool_def fs_retrieve_def Let_def split: option.splits)
  have p: "clean_path ''/data/exports/j/manifest.json'' = join_path ''/data'' (manifest_key ''j'')" by code_simp
  have dir: "join_path ''/data/exports/j'' n = join_path ''/data'' (''exports/'' @ ''j'' @ ''/'' @ n)" for n
  proof (cases "n = []")
    case True
    have "join_path ''/data/exports/j'' [] = join_path ''/data'' (''exports/'' @ ''j'' @ ''/'' @ [])" by code_simp
    then show ?thesis unfolding True .
  qed (simp add: join_path_def slash_def)
  have size: "\<forall>b. format_data (fetch_filtered_data (xe_format_time small_env) 0 (xj_filters (es_heap small_service ! 0)))
      (xj_format (es_heap small_service ! 0)) = (Inr b :: storage_err export_err + string) \<longrightarrow> int (length b) \<le> max_i64"
    by (simp add: small_service_def small_format empty_parquet_def max_i64_def)
  have times: "\<forall>t x. small_rfc t = Some x \<longrightarrow> cv_parse_time tool x = Some t" by (simp add: small_rfc_def tool_def)
  have g: "\<forall>d. fs_retrieve (es_storage s') (manifest_key ''j'') = Inr d \<longrightarrow>
      cv_files tool (clean_path ''/data/exports/j/manifest.json'') = Some d"
    "\<forall>n d. fs_retrieve (es_storage s') (''exports/'' @ ''j'' @ ''/'' @ n) = Inr d \<longrightarrow>
      cv_files tool (join_path ''/data/exports/j'' n) = Some d"
    using get unfolding p dir by blast+
  have job: "map_of (es_jobs small_service) ''j'' = Some 0" "0 < length (es_heap small_service)"
    "''j'' = xj_id (es_heap small_service ! 0)" "json_ok (JObj (xj_metadata (es_heap small_service ! 0)))"
    "fs_invar ''/data'' (es_storage small_service)"
    using small_fs_invar by (simp_all add: small_service_def)
  have env: "xe_store small_env = fs_store" "xe_manifest_text small_env = manifest_text small_rfc"
    by (simp_all add: small_env_def)
  have "plain ''j''" by (simp add: plain_def slash_def)
  from completed_export_verifies [OF job(1-3) this job(4,5) env size s'_def ends times g]
  have "exit_status (run_cli tool ?fl (CmdCheckFiles ''/data/exports/j/manifest.json'' ''/data/exports/j'')) = 0" by blast
  then show ?thesis by (intro exI [of _ tool]) (simp add: tool_def s'_def)
qed

end
