(* ===== verification/Replay.thy ===== *)
theory Replay
  imports Json
begin

text \<open>
  The controller's replay service, \<open>controller/replay_service.go\<close>. A job is a pointer shared by
  the job table and the goroutine that replays it: jobs live in a heap, the table maps ids to
  addresses, and each address carries the state of its goroutine (\<open>replay_phase\<close>). The steps of
  goroutines, callers and the message broker interleave (\<open>replay_step\<close>). What the broker answers
  and whether the log collection accepts an insertion are parameters; a delivered message is its
  stream sequence, its length and the event \<open>json.Unmarshal\<close> reads from it.
\<close>

subsection \<open>Data\<close>

record bus_event =
  be_id :: string
  be_type :: string
  be_source :: string
  be_timestamp :: gtime
  be_data :: "(string \<times> json) list"
  be_metadata :: "(string \<times> json) list"
  be_correlation :: string
  be_trace :: string
  be_span :: string

datatype meta_val = MvStr string | MvBool bool | MvTime gtime | MvJson json

record log_event =
  le_id :: string
  le_timestamp :: gtime
  le_agent :: string
  le_level :: string
  le_message :: string
  le_experiment :: string
  le_component :: string
  le_metadata :: "(string \<times> meta_val) list"
  le_review :: string
  le_ttl :: "gtime option"

record replay_msg =
  rm_sequence :: "int option"
  rm_length :: nat
  rm_event :: "bus_event option"

datatype filter_val = FvStr string | FvTime gtime | FvOther

record replay_stats =
  rs_processed :: int
  rs_skipped :: int
  rs_failed :: int
  rs_bytes :: int
  rs_duration :: duration

record replay_job =
  rj_id :: string
  rj_stream :: string
  rj_from :: int
  rj_to :: int
  rj_status :: string
  rj_progress :: rat
  rj_start :: gtime
  rj_end :: gtime
  rj_error :: string
  rj_stats :: replay_stats

record replay_config =
  rc_stream :: string
  rc_from :: int
  rc_to :: int
  rc_batch :: int
  rc_concurrency :: int
  rc_dry_run :: bool
  rc_filters :: "(string \<times> filter_val) list"

text \<open>The local variables of \<open>executeReplay\<close> while it consumes.\<close>

record replay_run =
  rr_start :: gtime
  rr_total :: int
  rr_deadline :: gtime
  rr_processed :: int
  rr_skipped :: int
  rr_failed :: int
  rr_bytes :: int

datatype replay_phase = RpSpawned | RpSetup gtime | RpConsuming replay_run | RpEnded

record replay_cell =
  cell_job :: replay_job
  cell_config :: replay_config
  cell_phase :: replay_phase

record replay_service =
  rp_jobs :: "(string \<times> nat) list"
  rp_heap :: "replay_cell list"
  rp_cancelled :: bool
  rp_logs :: "log_event list"

definition new_replay_service :: replay_service where
  "new_replay_service = \<lparr>rp_jobs = [], rp_heap = [], rp_cancelled = False, rp_logs = []\<rparr>"

definition no_stats :: replay_stats where
  "no_stats = \<lparr>rs_processed = 0, rs_skipped = 0, rs_failed = 0, rs_bytes = 0, rs_duration = 0\<rparr>"

subsection \<open>Starting a job\<close>

definition replay_job_id :: "gtime \<Rightarrow> replay_config \<Rightarrow> string" where
  "replay_job_id now c = ''replay_'' @ rc_stream c @ ''_'' @ itoa (rc_from c) @ ''_'' @ itoa (rc_to c) @
     ''_'' @ itoa (unix_seconds now)"

definition new_replay_job :: "gtime \<Rightarrow> replay_config \<Rightarrow> replay_job" where
  "new_replay_job now c = \<lparr>rj_id = replay_job_id now c, rj_stream = rc_stream c, rj_from = rc_from c,
     rj_to = rc_to c, rj_status = ''pending'', rj_progress = 0, rj_start = now, rj_end = 0,
     rj_error = [], rj_stats = no_stats\<rparr>"

definition start_replay :: "gtime \<Rightarrow> replay_config \<Rightarrow> replay_service \<Rightarrow> replay_service \<times> string" where
  "start_replay now c s =
     (s\<lparr>rp_heap := rp_heap s @ [\<lparr>cell_job = new_replay_job now c, cell_config = c, cell_phase = RpSpawned\<rparr>],
        rp_jobs := AList.update (replay_job_id now c) (length (rp_heap s)) (rp_jobs s)\<rparr>,
      replay_job_id now c)"

subsection \<open>The goroutine\<close>

text \<open>\<open>time.Duration(totalEvents)\<close> and the arithmetic after it wrap at 64 bits.\<close>

definition calculate_replay_timeout :: "int \<Rightarrow> duration" where
  "calculate_replay_timeout n =
     (let timeout = i64 (i64 (i64 n * millisecond) + second) in if timeout > hour then hour else timeout)"

definition replay_total :: "replay_config \<Rightarrow> int" where
  "replay_total c = u64 (u64 (rc_to c - rc_from c) + 1)"

text \<open>The deferred function, on every return.\<close>

definition end_replay :: "gtime \<Rightarrow> replay_cell \<Rightarrow> replay_cell" where
  "end_replay now x = (let j = (cell_job x)\<lparr>rj_end := now\<rparr> in
     x\<lparr>cell_job := j\<lparr>rj_stats := (rj_stats j)\<lparr>rs_duration := time_sub now (rj_start j)\<rparr>\<rparr>, cell_phase := RpEnded\<rparr>)"

definition set_status :: "string \<Rightarrow> string \<Rightarrow> replay_cell \<Rightarrow> replay_cell" where
  "set_status st err x = x\<lparr>cell_job := (cell_job x)\<lparr>rj_status := st, rj_error := err\<rparr>\<rparr>"

definition begin_replay :: "gtime \<Rightarrow> replay_cell \<Rightarrow> replay_cell" where
  "begin_replay now x = x\<lparr>cell_job := (cell_job x)\<lparr>rj_status := ''running''\<rparr>, cell_phase := RpSetup now\<rparr>"

text \<open>From the stream lookup to the start of the consumption, given the errors of the three calls.\<close>

definition setup_replay :: "string option \<Rightarrow> string option \<Rightarrow> string option \<Rightarrow> gtime \<Rightarrow> gtime
    \<Rightarrow> replay_cell \<Rightarrow> replay_cell" where
  "setup_replay info_err create_err consume_err start now x =
     (case info_err of Some e \<Rightarrow> end_replay now (set_status ''failed'' (''failed to get stream info: '' @ e) x)
      | None \<Rightarrow> let n = replay_total (cell_config x) in
        if n \<le> 0 then end_replay now (set_status ''failed'' ''invalid sequence range'' x)
        else (case create_err of
          Some e \<Rightarrow> end_replay now (set_status ''failed'' (''failed to create replay consumer: '' @ e) x)
        | None \<Rightarrow> (case consume_err of
            Some e \<Rightarrow> end_replay now (set_status ''failed'' (''failed to consume messages: '' @ e) x)
          | None \<Rightarrow> x\<lparr>cell_phase := RpConsuming \<lparr>rr_start = start, rr_total = n,
               rr_deadline = now + calculate_replay_timeout n, rr_processed = 0, rr_skipped = 0,
               rr_failed = 0, rr_bytes = 0\<rparr>\<rparr>)))"

subsection \<open>One message\<close>

text \<open>The filters in the order the map is ranged over: all of them must let the event through.\<close>

definition filter_rejects :: "bus_event \<Rightarrow> string \<times> filter_val \<Rightarrow> bool" where
  "filter_rejects e f = (case f of
     (k, FvStr v) \<Rightarrow> k = ''event_type'' \<and> be_type e \<noteq> v \<or> k = ''source'' \<and> be_source e \<noteq> v
   | (k, FvTime t) \<Rightarrow> k = ''after_timestamp'' \<and> be_timestamp e < t \<or> k = ''before_timestamp'' \<and> t < be_timestamp e
   | (k, FvOther) \<Rightarrow> False)"

fun apply_filters :: "bus_event \<Rightarrow> (string \<times> filter_val) list \<Rightarrow> bool" where
  "apply_filters e [] = True"
| "apply_filters e (f # fs) = (if filter_rejects e f then False else apply_filters e fs)"

definition get_string_value :: "(string \<times> json) list \<Rightarrow> string \<Rightarrow> string \<Rightarrow> string" where
  "get_string_value d k def = (case map_of d k of Some (JStr v) \<Rightarrow> v | _ \<Rightarrow> def)"

definition replay_metadata :: "gtime \<Rightarrow> bus_event \<Rightarrow> string \<Rightarrow> (string \<times> meta_val) list" where
  "replay_metadata now e field = [(''event_type'', MvStr (be_type e)), (field, MvJson (JObj (be_data e))),
     (''replayed'', MvBool True), (''replay_time'', MvTime now)]"

definition replay_experiment_event :: "string \<Rightarrow> gtime \<Rightarrow> bus_event \<Rightarrow> log_event" where
  "replay_experiment_event i now e = \<lparr>le_id = i, le_timestamp = be_timestamp e, le_agent = be_source e,
     le_level = ''info'', le_message = ''Replayed experiment '' @ be_type e, le_experiment = be_id e,
     le_component = ''experiment_replay'', le_metadata = replay_metadata now e ''data'',
     le_review = ''pending'', le_ttl = Some (now + 30 * 24 * hour)\<rparr>"

text \<open>The metadata of a replayed log event is the event's own map, with two keys set.\<close>

definition replay_log_event :: "string \<Rightarrow> gtime \<Rightarrow> bus_event \<Rightarrow> log_event" where
  "replay_log_event i now e = \<lparr>le_id = i, le_timestamp = be_timestamp e, le_agent = be_source e,
     le_level = get_string_value (be_data e) ''level'' ''info'',
     le_message = get_string_value (be_data e) ''message'' ''Replayed log event'', le_experiment = [],
     le_component = get_string_value (be_data e) ''component'' ''unknown'',
     le_metadata = AList.update ''replay_time'' (MvTime now) (AList.update ''replayed'' (MvBool True)
       (map (\<lambda>(k, v). (k, MvJson v)) (be_data e))),
     le_review = [], le_ttl = Some (now + 7 * 24 * hour)\<rparr>"

definition replay_metric_event :: "string \<Rightarrow> gtime \<Rightarrow> bus_event \<Rightarrow> log_event" where
  "replay_metric_event i now e = \<lparr>le_id = i, le_timestamp = be_timestamp e, le_agent = be_source e,
     le_level = ''info'', le_message = ''Replayed metric '' @ be_type e, le_experiment = [],
     le_component = ''metrics_replay'', le_metadata = replay_metadata now e ''metrics'',
     le_review = [], le_ttl = Some (now + 24 * hour)\<rparr>"

definition replay_notification_event :: "string \<Rightarrow> gtime \<Rightarrow> bus_event \<Rightarrow> log_event" where
  "replay_notification_event i now e = \<lparr>le_id = i, le_timestamp = be_timestamp e, le_agent = be_source e,
     le_level = ''info'', le_message = ''Replayed notification '' @ be_type e, le_experiment = [],
     le_component = ''notification_replay'', le_metadata = replay_metadata now e ''data'',
     le_review = [], le_ttl = Some (now + 1 * hour)\<rparr>"

text \<open>An insertion into the log collection; \<open>False\<close> is an error.\<close>

definition insert_log_event :: "(log_event list \<Rightarrow> log_event \<Rightarrow> bool) \<Rightarrow> log_event \<Rightarrow> log_event list
    \<Rightarrow> log_event list \<times> bool" where
  "insert_log_event accepts l logs = (if accepts logs l then (logs @ [l], True) else (logs, False))"

definition process_replay_message :: "(log_event list \<Rightarrow> log_event \<Rightarrow> bool) \<Rightarrow> string \<Rightarrow> gtime \<Rightarrow> replay_msg
    \<Rightarrow> replay_config \<Rightarrow> log_event list \<Rightarrow> log_event list \<times> bool" where
  "process_replay_message accepts i now m c logs = (case rm_event m of
     None \<Rightarrow> (logs, False)
   | Some e \<Rightarrow>
     if \<not> apply_filters e (rc_filters c) then (logs, True)
     else if rc_dry_run c then (logs, True)
     else if be_type e = ''experiment'' then insert_log_event accepts (replay_experiment_event i now e) logs
     else if be_type e = ''log'' then insert_log_event accepts (replay_log_event i now e) logs
     else if be_type e = ''metric'' then insert_log_event accepts (replay_metric_event i now e) logs
     else if be_type e = ''notification'' then insert_log_event accepts (replay_notification_event i now e) logs
     else (logs, True))"

definition publish_stats :: "replay_run \<Rightarrow> replay_job \<Rightarrow> replay_job" where
  "publish_stats r j = j\<lparr>rj_stats := (rj_stats j)\<lparr>rs_processed := rr_processed r, rs_skipped := rr_skipped r,
     rs_failed := rr_failed r, rs_bytes := rr_bytes r\<rparr>\<rparr>"

text \<open>The callback of \<open>Consume\<close>.\<close>

definition consume_message :: "(log_event list \<Rightarrow> log_event \<Rightarrow> bool) \<Rightarrow> string \<Rightarrow> gtime \<Rightarrow> replay_msg
    \<Rightarrow> replay_run \<Rightarrow> replay_cell \<times> log_event list \<Rightarrow> replay_cell \<times> log_event list" where
  "consume_message accepts i now m r xl = (case xl of (x, logs) \<Rightarrow>
     case rm_sequence m of None \<Rightarrow> (x, logs)
     | Some q \<Rightarrow>
       if q > rc_to (cell_config x) then (x, logs)
       else (case process_replay_message accepts i now m (cell_config x) logs of (logs, ok) \<Rightarrow>
         let r = (if ok then r\<lparr>rr_processed := rr_processed r + 1, rr_bytes := rr_bytes r + int (rm_length m)\<rparr>
                  else r\<lparr>rr_failed := rr_failed r + 1\<rparr>) in
         (x\<lparr>cell_job := publish_stats r ((cell_job x)\<lparr>rj_progress :=
              of_int (rr_processed r + rr_skipped r) / of_int (rr_total r) * 100\<rparr>),
            cell_phase := RpConsuming r\<rparr>, logs)))"

text \<open>After the \<open>select\<close>: \<open>cancelled\<close> tells which case was taken.\<close>

definition finish_replay :: "bool \<Rightarrow> gtime \<Rightarrow> replay_run \<Rightarrow> replay_cell \<Rightarrow> replay_cell" where
  "finish_replay cancelled now r x =
     (let x = (if cancelled then set_status ''cancelled'' ''replay cancelled'' x
               else set_status ''timeout'' ''replay timeout'' x);
          j = publish_stats r (cell_job x);
          j = j\<lparr>rj_stats := (rj_stats j)\<lparr>rs_duration := time_sub now (rr_start r)\<rparr>\<rparr>;
          j = (if rj_status j = ''running'' then j\<lparr>rj_status := ''completed''\<rparr> else j) in
      end_replay now (x\<lparr>cell_job := j\<rparr>))"

subsection \<open>The other methods\<close>

definition get_replay_job :: "string \<Rightarrow> replay_service \<Rightarrow> replay_job option" where
  "get_replay_job k s = map_option (\<lambda>a. cell_job (rp_heap s ! a)) (map_of (rp_jobs s) k)"

definition list_replay_jobs :: "replay_service \<Rightarrow> replay_job list" where
  "list_replay_jobs s = map (\<lambda>(k, a). cell_job (rp_heap s ! a)) (rp_jobs s)"

datatype replay_err = ReplayJobNotFound string | CannotCancelEndedJob

definition update_cell :: "nat \<Rightarrow> (replay_cell \<Rightarrow> replay_cell) \<Rightarrow> replay_service \<Rightarrow> replay_service" where
  "update_cell a f s = s\<lparr>rp_heap := (rp_heap s)[a := f (rp_heap s ! a)]\<rparr>"

definition cancel_replay :: "gtime \<Rightarrow> string \<Rightarrow> replay_service \<Rightarrow> replay_service \<times> replay_err option" where
  "cancel_replay now k s = (case map_of (rp_jobs s) k of
     None \<Rightarrow> (s, Some (ReplayJobNotFound k))
   | Some a \<Rightarrow> let j = cell_job (rp_heap s ! a) in
       if rj_status j = ''completed'' \<or> rj_status j = ''failed'' then (s, Some CannotCancelEndedJob)
       else (update_cell a (\<lambda>x. x\<lparr>cell_job := j\<lparr>rj_status := ''cancelled'',
               rj_error := ''cancelled by user'', rj_end := now\<rparr>\<rparr>) s, None))"

definition replay_removable :: "gtime \<Rightarrow> duration \<Rightarrow> replay_job \<Rightarrow> bool" where
  "replay_removable now max_age j \<longleftrightarrow>
     (rj_status j = ''completed'' \<or> rj_status j = ''failed'' \<or> rj_status j = ''cancelled'') \<and>
     time_sub now (rj_end j) > max_age"

definition cleanup_replay_jobs :: "gtime \<Rightarrow> duration \<Rightarrow> replay_service \<Rightarrow> replay_service" where
  "cleanup_replay_jobs now max_age s =
     (let gone = map fst (filter (\<lambda>(k, a). replay_removable now max_age (cell_job (rp_heap s ! a))) (rp_jobs s)) in
      s\<lparr>rp_jobs := foldl (\<lambda>m k. AList.delete k m) (rp_jobs s) gone\<rparr>)"

definition replay_status_counts :: "replay_service \<Rightarrow> (string \<times> int) list" where
  "replay_status_counts s = foldl (\<lambda>m j. AList.update (rj_status j)
     ((case map_of m (rj_status j) of Some n \<Rightarrow> n | None \<Rightarrow> 0) + 1) m) [] (list_replay_jobs s)"

definition get_replay_stats :: "replay_service \<Rightarrow> nat \<times> (string \<times> int) list" where
  "get_replay_stats s = (length (rp_jobs s), replay_status_counts s)"

definition stop_replay :: "replay_service \<Rightarrow> replay_service" where
  "stop_replay s = s\<lparr>rp_cancelled := True\<rparr>"

subsection \<open>Interleaved steps\<close>

definition deliver :: "(log_event list \<Rightarrow> log_event \<Rightarrow> bool) \<Rightarrow> nat \<Rightarrow> string \<times> gtime \<times> replay_msg
    \<Rightarrow> replay_service \<Rightarrow> replay_service" where
  "deliver accepts a d s = (case d of (i, now, m) \<Rightarrow> case cell_phase (rp_heap s ! a) of
     RpConsuming r \<Rightarrow> (case consume_message accepts i now m r (rp_heap s ! a, rp_logs s) of
       (x, logs) \<Rightarrow> s\<lparr>rp_heap := (rp_heap s)[a := x], rp_logs := logs\<rparr>)
   | _ \<Rightarrow> s)"

inductive replay_step :: "(log_event list \<Rightarrow> log_event \<Rightarrow> bool) \<Rightarrow> replay_service \<Rightarrow> replay_service \<Rightarrow> bool"
  for accepts where
  rp_start: "replay_step accepts s (fst (start_replay now c s))"
| rp_begin: "a < length (rp_heap s) \<Longrightarrow> cell_phase (rp_heap s ! a) = RpSpawned \<Longrightarrow>
     replay_step accepts s (update_cell a (begin_replay now) s)"
| rp_setup: "a < length (rp_heap s) \<Longrightarrow> cell_phase (rp_heap s ! a) = RpSetup start \<Longrightarrow>
     replay_step accepts s (update_cell a (setup_replay e1 e2 e3 start now) s)"
| rp_message: "a < length (rp_heap s) \<Longrightarrow> replay_step accepts s (deliver accepts a d s)"
| rp_done: "a < length (rp_heap s) \<Longrightarrow> cell_phase (rp_heap s ! a) = RpConsuming r \<Longrightarrow> rp_cancelled s \<Longrightarrow>
     replay_step accepts s (update_cell a (finish_replay True now r) s)"
| rp_timeout: "a < length (rp_heap s) \<Longrightarrow> cell_phase (rp_heap s ! a) = RpConsuming r \<Longrightarrow> rr_deadline r \<le> now \<Longrightarrow>
     replay_step accepts s (update_cell a (finish_replay False now r) s)"
| rp_cancel: "replay_step accepts s (fst (cancel_replay now k s))"
| rp_cleanup: "replay_step accepts s (cleanup_replay_jobs now max_age s)"
| rp_stop: "replay_step accepts s (stop_replay s)"

definition replay_reachable :: "(log_event list \<Rightarrow> log_event \<Rightarrow> bool) \<Rightarrow> replay_service \<Rightarrow> bool" where
  "replay_reachable accepts s \<longleftrightarrow> (replay_step accepts)\<^sup>*\<^sup>* new_replay_service s"

lemma replay_reachable_start [simp]: "replay_reachable accepts new_replay_service"
  by (simp add: replay_reachable_def)

lemma replay_reachable_step: "replay_reachable accepts s \<Longrightarrow> replay_step accepts s s' \<Longrightarrow> replay_reachable accepts s'"
  by (simp add: replay_reachable_def)

subsection \<open>The life of a job\<close>

text \<open>What the status and the published counters of a job are in each phase of its goroutine.\<close>

definition counts_match :: "replay_run \<Rightarrow> replay_stats \<Rightarrow> bool" where
  "counts_match r t \<longleftrightarrow> rs_processed t = rr_processed r \<and> rs_skipped t = rr_skipped r \<and>
     rs_failed t = rr_failed r \<and> rs_bytes t = rr_bytes r \<and> rr_skipped r = 0 \<and> 0 < rr_total r"

fun phase_ok :: "replay_phase \<Rightarrow> replay_job \<Rightarrow> bool" where
  "phase_ok RpSpawned j = (rj_status j = ''pending'' \<or> rj_status j = ''cancelled'')"
| "phase_ok (RpSetup t) j = ((rj_status j = ''running'' \<or> rj_status j = ''cancelled'') \<and> rj_stats j = no_stats)"
| "phase_ok (RpConsuming r) j = ((rj_status j = ''running'' \<or> rj_status j = ''cancelled'') \<and> counts_match r (rj_stats j))"
| "phase_ok RpEnded j = (rj_status j = ''failed'' \<or> rj_status j = ''cancelled'' \<or> rj_status j = ''timeout'')"

definition cell_ok :: "replay_cell \<Rightarrow> bool" where
  "cell_ok x \<longleftrightarrow> phase_ok (cell_phase x) (cell_job x) \<and> (cell_phase x = RpSpawned \<longrightarrow> rj_stats (cell_job x) = no_stats)"

definition replay_inv :: "replay_service \<Rightarrow> bool" where
  "replay_inv s \<longleftrightarrow> list_all cell_ok (rp_heap s) \<and> distinct (keys (rp_jobs s)) \<and>
     (\<forall>(k, a) \<in> set (rp_jobs s). a < length (rp_heap s))"

lemma replay_inv_update:
  "replay_inv s \<Longrightarrow> cell_ok (f (rp_heap s ! a)) \<Longrightarrow> replay_inv (update_cell a f s)"
  by (simp add: replay_inv_def update_cell_def)

lemma replay_inv_cell: "replay_inv s \<Longrightarrow> a < length (rp_heap s) \<Longrightarrow> cell_ok (rp_heap s ! a)"
  by (simp add: replay_inv_def list_all_length)

lemma replay_inv_lookup: "replay_inv s \<Longrightarrow> map_of (rp_jobs s) k = Some a \<Longrightarrow> a < length (rp_heap s)"
  by (auto simp: replay_inv_def dest!: map_of_SomeD)

lemma cell_ok_end:
  "rj_status (cell_job x) \<in> {''failed'', ''cancelled'', ''timeout''} \<Longrightarrow> cell_ok (end_replay now x)"
  by (auto simp: cell_ok_def end_replay_def Let_def)

lemma cell_ok_begin: "cell_ok x \<Longrightarrow> cell_phase x = RpSpawned \<Longrightarrow> cell_ok (begin_replay now x)"
  by (simp add: cell_ok_def begin_replay_def)

lemma cell_ok_setup: "cell_ok x \<Longrightarrow> cell_phase x = RpSetup t \<Longrightarrow> cell_ok (setup_replay e1 e2 e3 t now x)"
  unfolding setup_replay_def Let_def
  by (auto split: option.split intro!: cell_ok_end simp: set_status_def)
    (auto simp: cell_ok_def counts_match_def no_stats_def)

lemma cell_ok_finish: "cell_ok (finish_replay c now r x)"
  unfolding finish_replay_def Let_def by (rule cell_ok_end) (simp add: set_status_def publish_stats_def)

lemma cell_ok_consume:
  assumes "cell_ok x" and "cell_phase x = RpConsuming r"
  shows "cell_ok (fst (consume_message accepts i now m r (x, logs)))"
  using assms
  by (auto simp: consume_message_def cell_ok_def publish_stats_def counts_match_def Let_def
      split: option.split prod.split)

lemma cell_ok_cancel:
  "cell_ok x \<Longrightarrow> rj_status (cell_job x) \<noteq> ''failed'' \<Longrightarrow>
   cell_ok (x\<lparr>cell_job := (cell_job x)\<lparr>rj_status := ''cancelled'', rj_error := e, rj_end := now\<rparr>\<rparr>)"
  by (cases "cell_phase x") (auto simp: cell_ok_def)

lemma foldl_delete: "foldl (\<lambda>m k. AList.delete k m) m ks = filter (\<lambda>(k, _). k \<notin> set ks) m"
  by (induction ks arbitrary: m) (auto simp: AList.delete_eq intro!: filter_cong)

lemma replay_inv_step: "replay_step accepts s s' \<Longrightarrow> replay_inv s \<Longrightarrow> replay_inv s'"
proof (induction rule: replay_step.induct)
  case (rp_start s now c)
  then show ?case
    by (auto simp: replay_inv_def start_replay_def cell_ok_def new_replay_job_def mem_update_iff split: if_splits)
      (metis case_prodD less_SucI)
next
  case (rp_message a s d)
  obtain i now m where d: "d = (i, now, m)" by (cases d)
  show ?case
  proof (cases "cell_phase (rp_heap s ! a)")
    case (RpConsuming r)
    have "cell_ok (fst (consume_message accepts i now m r (rp_heap s ! a, rp_logs s)))"
      by (rule cell_ok_consume [OF replay_inv_cell [OF rp_message(2,1)] RpConsuming])
    then show ?thesis
      using rp_message RpConsuming by (auto simp: d deliver_def replay_inv_def split: prod.split)
  qed (use rp_message d in \<open>simp_all add: deliver_def\<close>)
next
  case (rp_cancel s now k)
  then show ?case
    by (auto simp: cancel_replay_def Let_def split: option.split
        intro!: replay_inv_update cell_ok_cancel replay_inv_cell replay_inv_lookup)
next
  case (rp_cleanup s now max_age)
  then show ?case
    by (auto simp: cleanup_replay_jobs_def Let_def foldl_delete replay_inv_def distinct_map
        intro: inj_on_subset)
qed (auto simp: stop_replay_def intro!: replay_inv_update cell_ok_begin cell_ok_setup cell_ok_finish
      intro: replay_inv_cell simp: replay_inv_def [of "_\<lparr>rp_cancelled := True\<rparr>"], auto simp: replay_inv_def)

lemma replay_reachable_inv: "replay_reachable accepts s \<Longrightarrow> replay_inv s"
  unfolding replay_reachable_def
  by (induction rule: rtranclp_induct) (auto intro: replay_inv_step, simp add: replay_inv_def new_replay_service_def)

subsection \<open>Properties\<close>

text \<open>C10: in every interleaving of callers, goroutines and messages, the status of a job follows the
  phase of its goroutine and its published counters are the goroutine's. No job ever gets the
  status completed: a replay that has delivered everything ends as timeout, and so does one that
  its user cancelled while it was running.\<close>

theorem replay_job_lifecycle:
  assumes "replay_reachable accepts s" and "x \<in> set (rp_heap s)"
  shows "case cell_phase x of
      RpSpawned \<Rightarrow> rj_status (cell_job x) \<in> {''pending'', ''cancelled''}
    | RpSetup t \<Rightarrow> rj_status (cell_job x) \<in> {''running'', ''cancelled''}
    | RpConsuming r \<Rightarrow> rj_status (cell_job x) \<in> {''running'', ''cancelled''} \<and>
        rs_processed (rj_stats (cell_job x)) = rr_processed r \<and> rs_failed (rj_stats (cell_job x)) = rr_failed r \<and>
        rs_bytes (rj_stats (cell_job x)) = rr_bytes r \<and> rs_skipped (rj_stats (cell_job x)) = 0 \<and>
        rj_status (cell_job (finish_replay False now r x)) = ''timeout''
    | RpEnded \<Rightarrow> rj_status (cell_job x) \<in> {''failed'', ''cancelled'', ''timeout''}"
proof -
  have "cell_ok x" using replay_reachable_inv [OF assms(1)] assms(2) by (simp add: replay_inv_def list_all_iff)
  then show ?thesis
    by (cases "cell_phase x")
      (auto simp: cell_ok_def counts_match_def finish_replay_def end_replay_def set_status_def publish_stats_def)
qed

definition small_config :: "int \<Rightarrow> int \<Rightarrow> replay_config" where
  "small_config a b = \<lparr>rc_stream = ''S'', rc_from = a, rc_to = b, rc_batch = 10, rc_concurrency = 1,
     rc_dry_run = False, rc_filters = []\<rparr>"

definition started :: replay_service where
  "started = fst (start_replay 7 (small_config 1 2) new_replay_service)"

definition consuming :: replay_service where
  "consuming = update_cell 0 (setup_replay None None None 8 9) (update_cell 0 (begin_replay 8) started)"

lemma consuming_heap: "\<exists>j r. rp_heap consuming = [\<lparr>cell_job = j, cell_config = small_config 1 2, cell_phase = RpConsuming r\<rparr>]
    \<and> rj_status j = ''running'' \<and> rp_logs consuming = [] \<and> rr_total r = 2 \<and> rj_stats j = no_stats"
  by (simp add: consuming_def started_def start_replay_def new_replay_service_def update_cell_def begin_replay_def
      setup_replay_def replay_total_def small_config_def new_replay_job_def u64_def)

lemma consuming_reachable: "replay_reachable accepts consuming"
proof -
  have 1: "replay_reachable accepts started"
    unfolding started_def by (rule replay_reachable_step [OF replay_reachable_start rp_start])
  have 2: "replay_reachable accepts (update_cell 0 (begin_replay 8) started)"
    by (rule replay_reachable_step [OF 1 rp_begin])
      (simp_all add: started_def start_replay_def new_replay_service_def)
  show ?thesis
    unfolding consuming_def
    by (rule replay_reachable_step [OF 2 rp_setup])
      (simp_all add: started_def start_replay_def new_replay_service_def update_cell_def begin_replay_def)
qed

theorem replay_job_lifecycle_witness:
  "rj_status (cell_job (finish_replay False 100 \<lparr>rr_start = 8, rr_total = 2, rr_deadline = 9,
     rr_processed = 0, rr_skipped = 0, rr_failed = 0, rr_bytes = 0\<rparr> (hd (rp_heap consuming)))) \<noteq> ''completed'' \<and>
   rj_status (cell_job (hd (rp_heap consuming))) \<in> {''running'', ''cancelled''}"
proof -
  obtain j r where h: "rp_heap consuming = [\<lparr>cell_job = j, cell_config = small_config 1 2, cell_phase = RpConsuming r\<rparr>]"
    using consuming_heap by blast
  from replay_job_lifecycle [OF consuming_reachable, where x = "hd (rp_heap consuming)" and now = 100]
  show ?thesis by (simp add: h finish_replay_def end_replay_def set_status_def publish_stats_def)
qed

text \<open>CleanupReplayJobs removes exactly the failed and cancelled jobs whose end is older than the
  given age; a job that ended as timeout, which is how every replay that is not interrupted ends,
  stays in the table for ever.\<close>

theorem replay_cleanup_result:
  assumes "replay_reachable accepts s"
  shows "get_replay_job k (cleanup_replay_jobs now age s) = (case get_replay_job k s of
      None \<Rightarrow> None
    | Some j \<Rightarrow> if rj_status j \<in> {''failed'', ''cancelled''} \<and> age < time_sub now (rj_end j) then None else Some j)"
proof (cases "map_of (rp_jobs s) k")
  case None
  then show ?thesis by (simp add: get_replay_job_def cleanup_replay_jobs_def foldl_delete map_of_filter_keys)
next
  case (Some a)
  note inv = replay_reachable_inv [OF assms]
  have d: "distinct (keys (rp_jobs s))" using inv by (simp add: replay_inv_def)
  let ?j = "cell_job (rp_heap s ! a)"
  have nc: "rj_status ?j \<noteq> ''completed''"
    using replay_inv_cell [OF inv replay_inv_lookup [OF inv Some]]
    by (cases "cell_phase (rp_heap s ! a)") (auto simp: cell_ok_def)
  have "k \<in> fst ` set (filter (\<lambda>(k, a). replay_removable now age (cell_job (rp_heap s ! a))) (rp_jobs s))
      \<longleftrightarrow> replay_removable now age ?j"
  proof -
    have "(k, b) \<in> set (rp_jobs s) \<longleftrightarrow> b = a" for b
      using Some map_of_eq_Some_iff [OF d, of k] by (metis option.inject)
    then show ?thesis by (auto simp: image_iff)
  qed
  then show ?thesis
    using Some nc
    by (simp add: get_replay_job_def cleanup_replay_jobs_def Let_def foldl_delete map_of_filter_keys
        replay_removable_def del: set_filter)
qed

text \<open>The job that ended as timeout, however long ago.\<close>

definition timed_out :: replay_service where
  "timed_out = update_cell 0 (finish_replay False 2000000000 \<lparr>rr_start = 8, rr_total = 2,
     rr_deadline = 1002000009, rr_processed = 0, rr_skipped = 0, rr_failed = 0, rr_bytes = 0\<rparr>) consuming"

lemmas replay_run_defs = consuming_def started_def start_replay_def new_replay_service_def update_cell_def
  begin_replay_def setup_replay_def replay_total_def small_config_def new_replay_job_def
  calculate_replay_timeout_def u64_def i64_def duration_units

lemma timed_out_reachable: "replay_reachable accepts timed_out"
  unfolding timed_out_def
  by (rule replay_reachable_step [OF consuming_reachable rp_timeout]) (simp_all add: replay_run_defs)

theorem replay_cleanup_result_witness:
  "let k = replay_job_id 7 (small_config 1 2) in
   get_replay_job k timed_out \<noteq> None \<and>
   get_replay_job k (cleanup_replay_jobs 1000000000000000000 1 timed_out) = get_replay_job k timed_out"
proof -
  let ?k = "replay_job_id 7 (small_config 1 2)"
  have "get_replay_job ?k timed_out \<noteq> None" "rj_status (the (get_replay_job ?k timed_out)) = ''timeout''"
    by (simp_all add: get_replay_job_def timed_out_def replay_run_defs finish_replay_def end_replay_def
        set_status_def publish_stats_def)
  with replay_cleanup_result [OF timed_out_reachable, of ?k 1000000000000000000 1]
  show ?thesis unfolding Let_def by auto
qed

text \<open>The range check and the time allowed. Sequence numbers are unsigned 64-bit, so the number of
  events of a range that is empty by more than one wraps around instead of being negative and only
  one of the invalid ranges is refused. Up to 9223372035854 events the time allowed is one
  millisecond per event and one second, at most an hour; one event more and it is negative, so that
  the replay times out at once.\<close>

theorem replay_range_and_timeout:
  assumes "0 \<le> rc_from c" and "rc_from c < 2 ^ 64" and "0 \<le> rc_to c" and "rc_to c < 2 ^ 64"
  shows "(replay_total c \<le> 0 \<longleftrightarrow> rc_from c = (rc_to c + 1) mod 2 ^ 64) \<and>
    (rc_from c \<le> rc_to c \<and> rc_to c - rc_from c < 9223372035854 \<longrightarrow>
       replay_total c = rc_to c - rc_from c + 1 \<and>
       calculate_replay_timeout (replay_total c) = min hour ((rc_to c - rc_from c + 1) * millisecond + second)) \<and>
    (rc_to c - rc_from c = 9223372035854 \<longrightarrow> calculate_replay_timeout (replay_total c) < 0) \<and>
    (rc_to c + 1 < rc_from c \<longrightarrow> 0 < replay_total c \<and> replay_total c = 2 ^ 64 - (rc_from c - rc_to c - 1))"
proof (intro conjI impI)
  have total: "replay_total c = (rc_to c - rc_from c + 1) mod 2 ^ 64"
    by (simp add: replay_total_def u64_def mod_simps)
  show "replay_total c \<le> 0 \<longleftrightarrow> rc_from c = (rc_to c + 1) mod 2 ^ 64"
  proof -
    have "replay_total c \<le> 0 \<longleftrightarrow> replay_total c = 0"
      using u64_range [of "u64 (rc_to c - rc_from c) + 1"] by (auto simp: replay_total_def)
    also have "\<dots> \<longleftrightarrow> (2 ^ 64 :: int) dvd (rc_to c + 1) - rc_from c"
      by (simp add: total dvd_eq_mod_eq_0 algebra_simps)
    also have "\<dots> \<longleftrightarrow> (rc_to c + 1) mod 2 ^ 64 = rc_from c mod 2 ^ 64" by (rule mod_eq_dvd_iff [symmetric])
    also have "rc_from c mod 2 ^ 64 = rc_from c" using assms by simp
    finally show ?thesis by auto
  qed
  {
    assume r: "rc_from c \<le> rc_to c \<and> rc_to c - rc_from c < 9223372035854"
    then show t: "replay_total c = rc_to c - rc_from c + 1" by (simp add: total)
    from r show "calculate_replay_timeout (replay_total c) = min hour ((rc_to c - rc_from c + 1) * millisecond + second)"
      unfolding t calculate_replay_timeout_def Let_def
      by (simp add: i64_id min_i64_def max_i64_def duration_units min_def)
  }
  {
    assume "rc_to c - rc_from c = 9223372035854"
    then have "replay_total c = 9223372035855" by (simp add: total)
    then show "calculate_replay_timeout (replay_total c) < 0"
      by (simp add: calculate_replay_timeout_def i64_def duration_units)
  }
  {
    assume r: "rc_to c + 1 < rc_from c"
    have "(rc_to c - rc_from c + 1) mod 2 ^ 64 = (rc_to c - rc_from c + 1 + 2 ^ 64) mod 2 ^ 64"
      by (rule mod_add_self2 [symmetric])
    also have "\<dots> = rc_to c - rc_from c + 1 + 2 ^ 64"
      using assms r by (intro mod_pos_pos_trivial) simp_all
    finally show "replay_total c = 2 ^ 64 - (rc_from c - rc_to c - 1)" by (simp add: total)
    then show "0 < replay_total c" using assms by simp
  }
qed

theorem replay_range_and_timeout_witness:
  "replay_total (small_config 10 5) = 18446744073709551612 \<and>
   calculate_replay_timeout (replay_total (small_config 0 9223372035854)) < 0 \<and>
   calculate_replay_timeout (replay_total (small_config 1 100)) = 1100000000"
  using replay_range_and_timeout [of "small_config 10 5"] replay_range_and_timeout [of "small_config 0 9223372035854"]
    replay_range_and_timeout [of "small_config 1 100"]
  by (auto simp: small_config_def duration_units)

subsection \<open>What a replay stores\<close>

text \<open>The log event, if any, that a configuration makes of a message.\<close>

definition replayed_log :: "replay_config \<Rightarrow> string \<times> gtime \<times> replay_msg \<Rightarrow> log_event option" where
  "replayed_log c d = (case d of (i, now, m) \<Rightarrow> case rm_event m of
     None \<Rightarrow> None
   | Some e \<Rightarrow>
       if rc_dry_run c \<or> (\<exists>f \<in> set (rc_filters c). filter_rejects e f) then None
       else if be_type e = ''experiment'' then Some (replay_experiment_event i now e)
       else if be_type e = ''log'' then Some (replay_log_event i now e)
       else if be_type e = ''metric'' then Some (replay_metric_event i now e)
       else if be_type e = ''notification'' then Some (replay_notification_event i now e)
       else None)"

definition in_range :: "replay_config \<Rightarrow> string \<times> gtime \<times> replay_msg \<Rightarrow> bool" where
  "in_range c d = (case rm_sequence (snd (snd d)) of None \<Rightarrow> False | Some q \<Rightarrow> q \<le> rc_to c)"

definition readable :: "string \<times> gtime \<times> replay_msg \<Rightarrow> bool" where
  "readable d \<longleftrightarrow> rm_event (snd (snd d)) \<noteq> None"

lemma apply_filters_iff: "apply_filters e fs \<longleftrightarrow> (\<forall>f \<in> set fs. \<not> filter_rejects e f)"
  by (induction fs) auto

lemma process_message_spec:
  "process_replay_message (\<lambda>_ _. True) i now m c logs =
     (logs @ (case replayed_log c (i, now, m) of None \<Rightarrow> [] | Some l \<Rightarrow> [l]), readable (i, now, m))"
  by (auto simp: process_replay_message_def replayed_log_def readable_def insert_log_event_def apply_filters_iff
      split: option.split)

text \<open>How a cell and the log collection relate to the messages delivered since \<open>r\<close>.\<close>

definition delivered :: "replay_config \<Rightarrow> (string \<times> gtime \<times> replay_msg) list \<Rightarrow> replay_run \<Rightarrow> replay_run" where
  "delivered c ds r = (let good = filter readable (filter (in_range c) ds) in
     r\<lparr>rr_processed := rr_processed r + int (length good),
       rr_failed := rr_failed r + int (length (filter (\<lambda>d. \<not> readable d) (filter (in_range c) ds))),
       rr_bytes := rr_bytes r + int (sum_list (map (\<lambda>d. rm_length (snd (snd d))) good))\<rparr>)"

lemma delivered_Nil [simp]: "delivered c [] r = r"
  by (simp add: delivered_def)

lemma delivered_none: "filter (in_range c) ds = [] \<Longrightarrow> delivered c ds r = r"
  by (simp add: delivered_def)

lemma delivered_Cons: "delivered c (d # ds) r = delivered c ds (delivered c [d] r)"
  by (simp add: delivered_def Let_def)

lemma deliver_spec:
  assumes "a < length (rp_heap s)" and "cell_phase (rp_heap s ! a) = RpConsuming r"
    and "cell_config (rp_heap s ! a) = c" and "rr_skipped r = 0"
  shows "let s' = deliver (\<lambda>_ _. True) a d s in
    length (rp_heap s') = length (rp_heap s) \<and>
    rp_logs s' = rp_logs s @ List.map_filter (replayed_log c) (filter (in_range c) [d]) \<and>
    cell_config (rp_heap s' ! a) = c \<and>
    cell_phase (rp_heap s' ! a) = RpConsuming (delivered c [d] r) \<and>
    (if in_range c d then
       rj_progress (cell_job (rp_heap s' ! a)) = of_int (rr_processed (delivered c [d] r)) / of_int (rr_total r) * 100
     else rp_heap s' ! a = rp_heap s ! a) \<and>
    rj_status (cell_job (rp_heap s' ! a)) = rj_status (cell_job (rp_heap s ! a))"
proof -
  obtain i now m where d: "d = (i, now, m)" by (cases d)
  show ?thesis
  proof (cases "in_range c d")
    case False
    then show ?thesis
      using assms
      by (auto simp: d deliver_def consume_message_def in_range_def delivered_def map_filter_def split: option.splits)
  next
    case True
    then obtain q where q: "rm_sequence m = Some q" "q \<le> rc_to c" by (auto simp: in_range_def d split: option.splits)
    then show ?thesis
      using assms True
      by (auto simp: d deliver_def consume_message_def process_message_spec delivered_def map_filter_def
          publish_stats_def Let_def readable_def split: option.splits)
  qed
qed


definition sample_event :: "string \<Rightarrow> bus_event" where
  "sample_event ty = \<lparr>be_id = ''e'', be_type = ty, be_source = ''agent'', be_timestamp = 5, be_data = [],
     be_metadata = [], be_correlation = [], be_trace = [], be_span = []\<rparr>"


end
