(* ===== verification/EventBus.thy ===== *)
theory EventBus
  imports Wire Sha256 Replay
begin

text \<open>
  The event bus, \<open>controller/eventbus.go\<close>: what it keeps of streams and consumers, how an event is
  published, and how a delivered message is read, handled and acknowledged. NATS JetStream is the
  parameter: whether it creates a stream or a consumer and what it answers to a message. What the
  bus publishes is collected in \<open>eb_published\<close>. Left out: the connection's options, spans and metrics.
\<close>

subsection \<open>Data\<close>

datatype retention_policy = RetentionLimits | RetentionWorkQueue
datatype deliver_policy = DeliverNew | DeliverByStartSequence
datatype ack_policy = AckExplicit | AckNone
datatype storage_type = StorageFile

record stream_config =
  sk_name :: string
  sk_subjects :: "string list"
  sk_retention :: retention_policy
  sk_max_age :: duration
  sk_max_bytes :: int
  sk_max_msgs :: int
  sk_max_msg_size :: int
  sk_storage :: storage_type
  sk_replicas :: int

record consumer_config =
  ck_name :: string
  ck_stream :: string
  ck_filter_subject :: string
  ck_deliver_policy :: deliver_policy
  ck_start_sequence :: int
  ck_ack_policy :: ack_policy
  ck_ack_wait :: duration
  ck_max_deliver :: int
  ck_max_ack_pending :: int
  ck_backoff :: "duration list"

record bus_message =
  mg_subject :: string
  mg_headers :: "(string \<times> string) list"
  mg_data :: string

record event_bus =
  eb_streams :: "(string \<times> stream_config) list"
  eb_consumers :: "(string \<times> consumer_config) list"
  eb_published :: "bus_message list"
  eb_connected :: bool

record bus_env =
  ev_now :: gtime
  ev_rfc3339 :: "gtime \<Rightarrow> string option"
  ev_parse_time :: "string \<Rightarrow> gtime option"
  ev_time_string :: "gtime \<Rightarrow> string"
  ev_trace :: "string \<times> string"
  ev_create_stream :: "stream_config \<Rightarrow> string option"
  ev_create_consumer :: "string \<Rightarrow> consumer_config \<Rightarrow> string option"
  ev_publish :: "bus_message \<Rightarrow> string + int"

subsection \<open>Streams\<close>

definition create_stream :: "bus_env \<Rightarrow> stream_config \<Rightarrow> event_bus \<Rightarrow> event_bus \<times> string option" where
  "create_stream env c s =
     (if has_key (sk_name c) (eb_streams s) then (s, None)
      else (case ev_create_stream env c of
        Some err \<Rightarrow> (s, Some (''failed to create stream: '' @ err))
      | None \<Rightarrow> (s\<lparr>eb_streams := AList.update (sk_name c) c (eb_streams s)\<rparr>, None)))"

definition make_stream :: "string \<Rightarrow> string \<Rightarrow> retention_policy \<Rightarrow> duration \<Rightarrow> int \<Rightarrow> int \<Rightarrow> stream_config" where
  "make_stream name subject retention max_age max_bytes max_msgs = \<lparr>sk_name = name, sk_subjects = [subject],
     sk_retention = retention, sk_max_age = max_age, sk_max_bytes = max_bytes, sk_max_msgs = max_msgs,
     sk_max_msg_size = 0, sk_storage = StorageFile, sk_replicas = 1\<rparr>"

definition default_streams :: "stream_config list" where
  "default_streams = [
     make_stream ''EXPERIMENTS'' ''experiments.*'' RetentionWorkQueue (24 * hour) (100 * 1024 * 1024) 100000,
     make_stream ''LOGS'' ''logs.*'' RetentionLimits (7 * 24 * hour) (1 * 1024 * 1024 * 1024) 1000000,
     make_stream ''METRICS'' ''metrics.*'' RetentionLimits (1 * 24 * hour) (100 * 1024 * 1024) 100000,
     make_stream ''NOTIFICATIONS'' ''notifications.*'' RetentionWorkQueue (1 * hour) (50 * 1024 * 1024) 10000]"

fun initialize_streams :: "bus_env \<Rightarrow> stream_config list \<Rightarrow> event_bus \<Rightarrow> event_bus \<times> string option" where
  "initialize_streams env [] s = (s, None)"
| "initialize_streams env (c # cs) s = (case create_stream env c s of
     (s, Some err) \<Rightarrow> (s, Some (''failed to create stream '' @ sk_name c @ '': '' @ err))
   | (s, None) \<Rightarrow> initialize_streams env cs s)"

definition empty_bus :: event_bus where
  "empty_bus = \<lparr>eb_streams = [], eb_consumers = [], eb_published = [], eb_connected = True\<rparr>"

text \<open>The errors of connecting to NATS and of its JetStream context are arguments.\<close>

definition new_event_bus :: "string option \<Rightarrow> string option \<Rightarrow> bus_env \<Rightarrow> string + event_bus" where
  "new_event_bus connect jetstream env = (case connect of
     Some err \<Rightarrow> Inl (''failed to connect to NATS: '' @ err)
   | None \<Rightarrow> (case jetstream of
       Some err \<Rightarrow> Inl (''failed to create JetStream context: '' @ err)
     | None \<Rightarrow> (case initialize_streams env default_streams empty_bus of
         (s, Some err) \<Rightarrow> Inl (''failed to initialize streams: '' @ err) | (s, None) \<Rightarrow> Inr s)))"

text \<open>Closing drops the connection and nothing else.\<close>

definition close_event_bus :: "event_bus \<Rightarrow> event_bus" where
  "close_event_bus s = s\<lparr>eb_connected := False\<rparr>"

definition create_dead_letter_queue :: "bus_env \<Rightarrow> string \<Rightarrow> event_bus \<Rightarrow> event_bus \<times> string option" where
  "create_dead_letter_queue env name s = create_stream env
     (make_stream (name @ ''_DLQ'') (name @ ''.dlq'') RetentionLimits (7 * 24 * hour) (100 * 1024 * 1024) 10000) s"

subsection \<open>Events as JSON\<close>

text \<open>A map is never nil here, so it is written as an object.\<close>

definition event_json :: "bus_env \<Rightarrow> bus_event \<Rightarrow> string option" where
  "event_json env e = map_option (\<lambda>t. json_struct (
     [(''id'', JStr (be_id e)), (''type'', JStr (be_type e)), (''source'', JStr (be_source e)),
      (''timestamp'', JStr t), (''data'', JObj (be_data e))] @
     (if be_metadata e = [] then [] else [(''metadata'', JObj (be_metadata e))]) @
     (if be_correlation e = [] then [] else [(''correlation_id'', JStr (be_correlation e))]) @
     (if be_trace e = [] then [] else [(''trace_id'', JStr (be_trace e))]) @
     (if be_span e = [] then [] else [(''span_id'', JStr (be_span e))]))) (ev_rfc3339 env (be_timestamp e))"

definition event_fields :: "bus_env \<Rightarrow> bus_event field_decoder list" where
  "event_fields env = [
     (''id'', dec_str (\<lambda>s r. r\<lparr>be_id := s\<rparr>)), (''type'', dec_str (\<lambda>s r. r\<lparr>be_type := s\<rparr>)),
     (''source'', dec_str (\<lambda>s r. r\<lparr>be_source := s\<rparr>)),
     (''timestamp'', (\<lambda>v r. case v of JNull \<Rightarrow> Some r
        | JStr s \<Rightarrow> map_option (\<lambda>t. r\<lparr>be_timestamp := t\<rparr>) (ev_parse_time env s) | _ \<Rightarrow> None)),
     (''data'', dec_map be_data (\<lambda>m r. r\<lparr>be_data := m\<rparr>)), (''metadata'', dec_map be_metadata (\<lambda>m r. r\<lparr>be_metadata := m\<rparr>)),
     (''correlation_id'', dec_str (\<lambda>s r. r\<lparr>be_correlation := s\<rparr>)),
     (''trace_id'', dec_str (\<lambda>s r. r\<lparr>be_trace := s\<rparr>)), (''span_id'', dec_str (\<lambda>s r. r\<lparr>be_span := s\<rparr>))]"

definition zero_event :: bus_event where
  "zero_event = \<lparr>be_id = [], be_type = [], be_source = [], be_timestamp = 0, be_data = [], be_metadata = [],
     be_correlation = [], be_trace = [], be_span = []\<rparr>"

definition decode_event :: "bus_env \<Rightarrow> string \<Rightarrow> bus_event option" where
  "decode_event env d = (case json_parse d of None \<Rightarrow> None | Some v \<Rightarrow> decode_struct (event_fields env) v zero_event)"

subsection \<open>Publishing\<close>

definition generate_event_id :: "bus_env \<Rightarrow> bus_event \<Rightarrow> string" where
  "generate_event_id env e = take 16 (sha256_hex (be_type e @ ''-'' @ be_source e @ ''-'' @
     ev_time_string env (be_timestamp e) @ ''-'' @ show_v (JObj (be_data e))))"

text \<open>The event is changed through its pointer: the id comes before the time, the trace ids are always set.\<close>

definition stamp_event :: "bus_env \<Rightarrow> bus_event \<Rightarrow> bus_event" where
  "stamp_event env e =
     (let e = (if be_id e = [] then e\<lparr>be_id := generate_event_id env e\<rparr> else e);
          e = (if be_timestamp e = 0 then e\<lparr>be_timestamp := ev_now env\<rparr> else e) in
      e\<lparr>be_trace := fst (ev_trace env), be_span := snd (ev_trace env)\<rparr>)"

definition publish :: "bus_env \<Rightarrow> string \<Rightarrow> bus_event \<Rightarrow> event_bus \<Rightarrow> event_bus \<times> bus_event \<times> string option" where
  "publish env subject e s =
     (let e = stamp_event env e in
      case event_json env e of
        None \<Rightarrow> (s, e, Some ''failed to marshal event'')
      | Some d \<Rightarrow>
        (let m = \<lparr>mg_subject = subject, mg_headers = header_set ''X-Source'' (be_source e)
               (header_set ''X-Event-Type'' (be_type e) (header_set ''X-Event-ID'' (be_id e) [])), mg_data = d\<rparr> in
         case ev_publish env m of
           Inl err \<Rightarrow> (s, e, Some (''failed to publish event: '' @ err))
         | Inr sq \<Rightarrow> (s\<lparr>eb_published := eb_published s @ [m]\<rparr>, e, None)))"

subsection \<open>Consuming\<close>

definition subscribe :: "bus_env \<Rightarrow> consumer_config \<Rightarrow> event_bus \<Rightarrow> event_bus \<times> string option" where
  "subscribe env c s =
     (if has_key (ck_name c) (eb_consumers s) then (s, Some (''consumer '' @ ck_name c @ '' already exists''))
      else (case ev_create_consumer env (ck_stream c) c of
        Some err \<Rightarrow> (s, Some (''failed to create consumer: '' @ err))
      | None \<Rightarrow> (s\<lparr>eb_consumers := AList.update (ck_name c) c (eb_consumers s)\<rparr>, None)))"

text \<open>
  One message given to a handler with its state: the state afterwards, the error of the handler or of
  reading the message, and whether it was acknowledged, which is deferred before anything else.
\<close>

definition deliver_message :: "bus_env \<Rightarrow> (bus_event \<Rightarrow> 's \<Rightarrow> 's \<times> string option) \<Rightarrow> string \<Rightarrow> 's \<Rightarrow> 's \<times> string option \<times> bool" where
  "deliver_message env handler d s = (case decode_event env d of
     None \<Rightarrow> (s, Some ''Failed to unmarshal event'', True)
   | Some e \<Rightarrow> (case handler e s of (s, err) \<Rightarrow> (s, err, True)))"

definition replay_consumer :: "gtime \<Rightarrow> int \<Rightarrow> consumer_config" where
  "replay_consumer now from_seq = \<lparr>ck_name = ''replay_'' @ itoa (unix_seconds now), ck_stream = [], ck_filter_subject = [],
     ck_deliver_policy = DeliverByStartSequence, ck_start_sequence = from_seq, ck_ack_policy = AckNone,
     ck_ack_wait = 0, ck_max_deliver = 0, ck_max_ack_pending = 0, ck_backoff = []\<rparr>"

text \<open>A replay until its context is done: the messages delivered meanwhile, which are not acknowledged.\<close>

fun replay_messages :: "bus_env \<Rightarrow> (bus_event \<Rightarrow> 's \<Rightarrow> 's \<times> string option) \<Rightarrow> string list \<Rightarrow> 's \<Rightarrow> 's" where
  "replay_messages env handler [] s = s"
| "replay_messages env handler (d # ds) s = (case decode_event env d of
     None \<Rightarrow> replay_messages env handler ds s
   | Some e \<Rightarrow> replay_messages env handler ds (fst (handler e s)))"

definition replay_events ::
  "bus_env \<Rightarrow> string \<Rightarrow> int \<Rightarrow> (bus_event \<Rightarrow> 's \<Rightarrow> 's \<times> string option) \<Rightarrow> string list \<Rightarrow> event_bus \<Rightarrow> 's \<Rightarrow> 's \<times> string option" where
  "replay_events env stream from_seq handler ds bus s =
     (if \<not> has_key stream (eb_streams bus) then (s, Some (''stream '' @ stream @ '' not found''))
      else (case ev_create_consumer env stream (replay_consumer (ev_now env) from_seq) of
        Some err \<Rightarrow> (s, Some (''failed to create replay consumer: '' @ err))
      | None \<Rightarrow> (replay_messages env handler ds s, None)))"

definition get_stream_info :: "string \<Rightarrow> event_bus \<Rightarrow> string + stream_config" where
  "get_stream_info name s = (case map_of (eb_streams s) name of
     None \<Rightarrow> Inl (''stream '' @ name @ '' not found'') | Some c \<Rightarrow> Inr c)"

definition get_consumer_info :: "string \<Rightarrow> event_bus \<Rightarrow> string + consumer_config" where
  "get_consumer_info name s = (case map_of (eb_consumers s) name of
     None \<Rightarrow> Inl (''consumer '' @ name @ '' not found'') | Some c \<Rightarrow> Inr c)"

subsection \<open>What is published is what a handler gets\<close>

text \<open>An event with its two maps as reading them from JSON leaves them.\<close>

definition canon_event :: "bus_event \<Rightarrow> bus_event" where
  "canon_event e = e\<lparr>be_data := canon_members (be_data e), be_metadata := canon_members (be_metadata e)\<rparr>"

lemma find_event_field:
  "find_field ''id'' (event_fields env) = Some (''id'', dec_str (\<lambda>s r. r\<lparr>be_id := s\<rparr>))"
  "find_field ''type'' (event_fields env) = Some (''type'', dec_str (\<lambda>s r. r\<lparr>be_type := s\<rparr>))"
  "find_field ''source'' (event_fields env) = Some (''source'', dec_str (\<lambda>s r. r\<lparr>be_source := s\<rparr>))"
  "find_field ''timestamp'' (event_fields env) = Some (''timestamp'', (\<lambda>v r. case v of JNull \<Rightarrow> Some r
        | JStr s \<Rightarrow> map_option (\<lambda>t. r\<lparr>be_timestamp := t\<rparr>) (ev_parse_time env s) | _ \<Rightarrow> None))"
  "find_field ''data'' (event_fields env) = Some (''data'', dec_map be_data (\<lambda>m r. r\<lparr>be_data := m\<rparr>))"
  "find_field ''metadata'' (event_fields env) = Some (''metadata'', dec_map be_metadata (\<lambda>m r. r\<lparr>be_metadata := m\<rparr>))"
  "find_field ''correlation_id'' (event_fields env) = Some (''correlation_id'', dec_str (\<lambda>s r. r\<lparr>be_correlation := s\<rparr>))"
  "find_field ''trace_id'' (event_fields env) = Some (''trace_id'', dec_str (\<lambda>s r. r\<lparr>be_trace := s\<rparr>))"
  "find_field ''span_id'' (event_fields env) = Some (''span_id'', dec_str (\<lambda>s r. r\<lparr>be_span := s\<rparr>))"
  by (simp_all add: find_field_def event_fields_def)

lemma decode_event_json:
  assumes "event_json env e = Some d"
    and ok: "json_ok (JObj (be_data e))" "json_ok (JObj (be_metadata e))"
    and time: "\<And>s. ev_rfc3339 env (be_timestamp e) = Some s \<Longrightarrow> ev_parse_time env s = Some (be_timestamp e)"
  shows "decode_event env d = Some (canon_event e)"
proof -
  obtain t where t: "ev_rfc3339 env (be_timestamp e) = Some t" "ev_parse_time env t = Some (be_timestamp e)"
    using assms(1) time by (auto simp: event_json_def)
  let ?ms = "[(''id'', JStr (be_id e)), (''type'', JStr (be_type e)), (''source'', JStr (be_source e)),
      (''timestamp'', JStr t), (''data'', JObj (be_data e))] @
     (if be_metadata e = [] then [] else [(''metadata'', JObj (be_metadata e))]) @
     (if be_correlation e = [] then [] else [(''correlation_id'', JStr (be_correlation e))]) @
     (if be_trace e = [] then [] else [(''trace_id'', JStr (be_trace e))]) @
     (if be_span e = [] then [] else [(''span_id'', JStr (be_span e))])"
  have "json_parse (json_struct ?ms) = Some (JObj (map (\<lambda>(k, v). (k, canon v)) ?ms))"
    by (rule json_parse_struct) (use ok in auto)
  moreover have "d = json_struct ?ms" using assms(1) t by (simp add: event_json_def)
  moreover have "decode_members (event_fields env) (map (\<lambda>(k, v). (k, canon v)) ?ms) zero_event = Some (canon_event e)"
    using ok t(2) by (simp add: decode_members_append find_event_field dec_str_def dec_map_def zero_event_def
        canon_event_def add_canon_members flip: canon_members_def)
  ultimately show ?thesis by (simp add: decode_event_def decode_struct_def)
qed

subsection \<open>Handlers that count on being called again\<close>

text \<open>
  A message may be delivered again, so a handler remembers the ids of the events it has handled: an event
  that it has seen changes nothing, success marks the event, an error does not. \<open>'a\<close> is what a call
  reads from outside. The laws make deliveries idempotent, in any order of repetitions.
\<close>

locale deduplicating_handler =
  fixes handler :: "'a \<Rightarrow> bus_event \<Rightarrow> 's \<Rightarrow> 's \<times> string option"
    and seen :: "'s \<Rightarrow> string set"
  assumes seen_unchanged: "be_id e \<in> seen s \<Longrightarrow> handler a e s = (s, None)"
    and success_marks: "handler a e s = (s', None) \<Longrightarrow> seen s' = insert (be_id e) (seen s)"
    and failure_keeps: "handler a e s = (s', Some err) \<Longrightarrow> seen s' = seen s"
begin

lemma seen_grows: "seen s \<subseteq> seen (fst (handler a e s))"
  by (cases "handler a e s"; cases "snd (handler a e s)") (auto dest: success_marks failure_keeps)

lemma deliver_seen_grows: "seen s \<subseteq> seen (fst (deliver_message env (handler a) d s))"
  using seen_grows by (auto simp: deliver_message_def split: option.split prod.split) (metis fst_conv subsetD)

lemma deliver_again:
  assumes "deliver_message env (handler a) d s = (s1, None, acked)" and "seen s1 \<subseteq> seen s2"
  shows "deliver_message env (handler b) d s2 = (s2, None, True)"
proof -
  obtain e where e: "decode_event env d = Some e" "handler a e s = (s1, None)"
    using assms(1) by (auto simp: deliver_message_def split: option.splits prod.splits)
  then have "be_id e \<in> seen s2" using success_marks assms(2) by blast
  then show ?thesis using e(1) seen_unchanged by (simp add: deliver_message_def)
qed

lemma replay_seen:
  assumes "\<forall>d \<in> set ds. \<forall>e. decode_event env d = Some e \<longrightarrow> be_id e \<in> seen s"
  shows "replay_messages env (handler a) ds s = s"
  using assms by (induction ds) (auto simp: seen_unchanged split: option.split)

end

end
