(* ===== verification/Writer.thy ===== *)
theory Writer
  imports EventBus
begin

text \<open>
  The writer service, \<open>controller/writer_service.go\<close>: the consumer of the event bus that turns events
  into documents of the log collection. Its state is the set of the event ids it has handled and the
  log events the collection has accepted; \<open>accepts\<close> stands for the insertion into MongoDB. Each call
  of a handler comes with the object id and the time that the code takes while it runs.
\<close>

subsection \<open>State\<close>

record writer_service =
  wr_processed :: "string list"
  wr_logs :: "log_event list"

definition new_writer_service :: writer_service where
  "new_writer_service = \<lparr>wr_processed = [], wr_logs = []\<rparr>"

definition is_processed :: "string \<Rightarrow> writer_service \<Rightarrow> bool" where
  "is_processed i ws \<longleftrightarrow> i \<in> set (wr_processed ws)"

definition mark_processed :: "string \<Rightarrow> writer_service \<Rightarrow> writer_service" where
  "mark_processed i ws = ws\<lparr>wr_processed := List.insert i (wr_processed ws)\<rparr>"

definition cleanup_processed_ids :: "writer_service \<Rightarrow> writer_service" where
  "cleanup_processed_ids ws = (if 10000 < length (wr_processed ws) then ws\<lparr>wr_processed := []\<rparr> else ws)"

definition writer_stats :: "writer_service \<Rightarrow> (string \<times> json) list" where
  "writer_stats ws = [(''processed_events'', JInt (int (length (wr_processed ws)))), (''status'', JStr ''running'')]"

subsection \<open>Start\<close>

definition writer_consumer :: "string \<Rightarrow> string \<Rightarrow> string \<Rightarrow> int \<Rightarrow> consumer_config" where
  "writer_consumer name stream subject pending = \<lparr>ck_name = name, ck_stream = stream, ck_filter_subject = subject,
     ck_deliver_policy = DeliverNew, ck_start_sequence = 0, ck_ack_policy = AckExplicit, ck_ack_wait = 30 * second,
     ck_max_deliver = 3, ck_max_ack_pending = pending, ck_backoff = [1 * second, 5 * second, 15 * second]\<rparr>"

definition experiment_writer :: consumer_config where
  "experiment_writer = writer_consumer ''experiment-writer'' ''EXPERIMENTS'' ''experiments.*'' 100"

definition log_writer :: consumer_config where
  "log_writer = writer_consumer ''log-writer'' ''LOGS'' ''logs.*'' 1000"

definition metric_writer :: consumer_config where
  "metric_writer = writer_consumer ''metric-writer'' ''METRICS'' ''metrics.*'' 1000"

definition writer_start :: "bus_env \<Rightarrow> event_bus \<Rightarrow> event_bus \<times> string option" where
  "writer_start env s = (case subscribe env experiment_writer s of
     (s, Some err) \<Rightarrow> (s, Some (''failed to subscribe to experiment events: '' @ err))
   | (s, None) \<Rightarrow> (case subscribe env log_writer s of
       (s, Some err) \<Rightarrow> (s, Some (''failed to subscribe to log events: '' @ err))
     | (s, None) \<Rightarrow> (case subscribe env metric_writer s of
         (s, Some err) \<Rightarrow> (s, Some (''failed to subscribe to metric events: '' @ err))
       | (s, None) \<Rightarrow> (s, None))))"

subsection \<open>The handlers\<close>

text \<open>\<open>json.Unmarshal\<close>, into a map, of the event's data as \<open>%v\<close> prints it.\<close>

definition unmarshal_data :: "(string \<times> json) list \<Rightarrow> (string \<times> json) list option" where
  "unmarshal_data d = (case json_parse (show_v (JObj d)) of
     Some (JObj m) \<Rightarrow> Some m | Some JNull \<Rightarrow> Some [] | _ \<Rightarrow> None)"

definition experiment_log :: "string \<Rightarrow> gtime \<Rightarrow> bus_event \<Rightarrow> (string \<times> json) list \<Rightarrow> log_event" where
  "experiment_log i now e d = \<lparr>le_id = i, le_timestamp = be_timestamp e, le_agent = be_source e, le_level = ''info'',
     le_message = ''Experiment '' @ be_type e @ '' executed'', le_experiment = be_id e,
     le_component = ''experiment_runner'',
     le_metadata = [(''event_type'', MvStr (be_type e)), (''data'', MvJson (JObj d))],
     le_review = ''pending'', le_ttl = Some (now + 30 * 24 * hour)\<rparr>"

definition data_log :: "string \<Rightarrow> gtime \<Rightarrow> bus_event \<Rightarrow> (string \<times> json) list \<Rightarrow> log_event" where
  "data_log i now e d = \<lparr>le_id = i, le_timestamp = be_timestamp e, le_agent = be_source e,
     le_level = get_string_value d ''level'' ''info'', le_message = get_string_value d ''message'' ''Log event'',
     le_experiment = get_string_value d ''experiment_id'' [],
     le_component = get_string_value d ''component'' ''unknown'',
     le_metadata = map (\<lambda>(k, v). (k, MvJson v)) d,
     le_review = [], le_ttl = Some (now + 7 * 24 * hour)\<rparr>"

definition metric_log :: "string \<Rightarrow> gtime \<Rightarrow> bus_event \<Rightarrow> (string \<times> json) list \<Rightarrow> log_event" where
  "metric_log i now e d = \<lparr>le_id = i, le_timestamp = be_timestamp e, le_agent = be_source e, le_level = ''info'',
     le_message = ''Metric '' @ be_type e @ '' recorded'', le_experiment = [],
     le_component = ''metrics_collector'',
     le_metadata = [(''event_type'', MvStr (be_type e)), (''metrics'', MvJson (JObj d))],
     le_review = [], le_ttl = Some (now + 24 * hour)\<rparr>"

type_synonym log_acceptance = "log_event list \<Rightarrow> log_event \<Rightarrow> bool"

definition handle_experiment_event ::
  "log_acceptance \<Rightarrow> string \<Rightarrow> gtime \<Rightarrow> bus_event \<Rightarrow> writer_service \<Rightarrow> writer_service \<times> string option" where
  "handle_experiment_event accepts i now e ws =
     (if is_processed (be_id e) ws then (ws, None)
      else (case unmarshal_data (be_data e) of
        None \<Rightarrow> (ws, Some ''failed to unmarshal experiment data'')
      | Some d \<Rightarrow> (case insert_log_event accepts (experiment_log i now e d) (wr_logs ws) of
          (logs, False) \<Rightarrow> (ws\<lparr>wr_logs := logs\<rparr>, Some ''failed to insert experiment log'')
        | (logs, True) \<Rightarrow> (mark_processed (be_id e) (ws\<lparr>wr_logs := logs\<rparr>), None))))"

definition handle_log_event ::
  "log_acceptance \<Rightarrow> string \<Rightarrow> gtime \<Rightarrow> bus_event \<Rightarrow> writer_service \<Rightarrow> writer_service \<times> string option" where
  "handle_log_event accepts i now e ws =
     (if is_processed (be_id e) ws then (ws, None)
      else (case unmarshal_data (be_data e) of
        None \<Rightarrow> (ws, Some ''failed to unmarshal log data'')
      | Some d \<Rightarrow> (case insert_log_event accepts (data_log i now e d) (wr_logs ws) of
          (logs, False) \<Rightarrow> (ws\<lparr>wr_logs := logs\<rparr>, Some ''failed to insert log event'')
        | (logs, True) \<Rightarrow> (mark_processed (be_id e) (ws\<lparr>wr_logs := logs\<rparr>), None))))"

definition handle_metric_event ::
  "log_acceptance \<Rightarrow> string \<Rightarrow> gtime \<Rightarrow> bus_event \<Rightarrow> writer_service \<Rightarrow> writer_service \<times> string option" where
  "handle_metric_event accepts i now e ws =
     (if is_processed (be_id e) ws then (ws, None)
      else (case unmarshal_data (be_data e) of
        None \<Rightarrow> (ws, Some ''failed to unmarshal metric data'')
      | Some d \<Rightarrow> (case insert_log_event accepts (metric_log i now e d) (wr_logs ws) of
          (logs, False) \<Rightarrow> (ws\<lparr>wr_logs := logs\<rparr>, Some ''failed to insert metric event'')
        | (logs, True) \<Rightarrow> (mark_processed (be_id e) (ws\<lparr>wr_logs := logs\<rparr>), None))))"

subsection \<open>A run\<close>

text \<open>A message delivered to one of the three consumers, or a round of the clean-up.\<close>

datatype writer_consumer_kind = ExperimentWriter | LogWriter | MetricWriter

datatype writer_op =
    WDeliver writer_consumer_kind string gtime string
  | WCleanup

definition writer_handler ::
  "log_acceptance \<Rightarrow> writer_consumer_kind \<Rightarrow> string \<Rightarrow> gtime \<Rightarrow> bus_event \<Rightarrow> writer_service \<Rightarrow> writer_service \<times> string option" where
  "writer_handler accepts k = (case k of
     ExperimentWriter \<Rightarrow> handle_experiment_event accepts
   | LogWriter \<Rightarrow> handle_log_event accepts
   | MetricWriter \<Rightarrow> handle_metric_event accepts)"

text \<open>The run's final state and, for every delivery, the error and whether it was acknowledged.\<close>

fun writer_run :: "bus_env \<Rightarrow> log_acceptance \<Rightarrow> writer_op list \<Rightarrow> writer_service \<Rightarrow> writer_service \<times> (string option \<times> bool) list" where
  "writer_run env accepts [] ws = (ws, [])"
| "writer_run env accepts (WCleanup # ops) ws = writer_run env accepts ops (cleanup_processed_ids ws)"
| "writer_run env accepts (WDeliver k i now d # ops) ws =
     (case deliver_message env (writer_handler accepts k i now) d ws of
        (ws, r) \<Rightarrow> (case writer_run env accepts ops ws of (ws, rs) \<Rightarrow> (ws, r # rs)))"

subsection \<open>Delivery is idempotent\<close>

text \<open>The context of a call: the consumer, the object id and the time.\<close>

definition seen_ids :: "writer_service \<Rightarrow> string set" where
  "seen_ids ws = set (wr_processed ws)"

interpretation writer: deduplicating_handler "\<lambda>(k, i, now). writer_handler accepts k i now" seen_ids for accepts
proof
  fix a :: "writer_consumer_kind \<times> string \<times> gtime" and e s s' err
  obtain k i now where a: "a = (k, i, now)" by (cases a)
  note defs = a writer_handler_def handle_experiment_event_def handle_log_event_def handle_metric_event_def
    is_processed_def mark_processed_def seen_ids_def
  show "be_id e \<in> seen_ids s \<Longrightarrow> (case a of (k, i, now) \<Rightarrow> writer_handler accepts k i now) e s = (s, None)"
    by (cases k) (simp_all add: defs)
  show "(case a of (k, i, now) \<Rightarrow> writer_handler accepts k i now) e s = (s', None) \<Longrightarrow>
      seen_ids s' = insert (be_id e) (seen_ids s)"
    by (cases k) (auto simp: defs split: if_splits option.splits prod.splits bool.splits)
  show "(case a of (k, i, now) \<Rightarrow> writer_handler accepts k i now) e s = (s', Some err) \<Longrightarrow> seen_ids s' = seen_ids s"
    by (cases k) (auto simp: defs split: if_splits option.splits prod.splits bool.splits)
qed

text \<open>
  A message that a consumer of the writer has handled is not handled twice: a redelivery to any of the
  three consumers, at any later time and whatever was delivered in between, changes nothing.
\<close>

lemma run_seen_grows:
  "list_all (\<lambda>p. p \<noteq> WCleanup) ops \<Longrightarrow> seen_ids ws \<subseteq> seen_ids (fst (writer_run env accepts ops ws))"
proof (induction ops arbitrary: ws)
  case (Cons p ops)
  obtain k i now d where p: "p = WDeliver k i now d" using Cons.prems by (cases p) auto
  obtain ws1 r where d: "deliver_message env (writer_handler accepts k i now) d ws = (ws1, r)" by (metis surj_pair)
  have "seen_ids ws \<subseteq> seen_ids ws1"
    using writer.deliver_seen_grows [of ws env accepts "(k, i, now)" d] by (simp add: d)
  also have "\<dots> \<subseteq> seen_ids (fst (writer_run env accepts ops ws1))" using Cons by simp
  finally show ?case by (simp add: p d case_prod_beta)
qed simp

theorem redelivery_changes_nothing:
  assumes "deliver_message env (writer_handler accepts k i now) d ws = (ws1, None, acked)"
    and "list_all (\<lambda>p. p \<noteq> WCleanup) ops" and "ws2 = fst (writer_run env accepts ops ws1)"
  shows "deliver_message env (writer_handler accepts k' i' now') d ws2 = (ws2, None, True)"
  using writer.deliver_again [of env accepts "(k, i, now)" d ws ws1 acked ws2 "(k', i', now')"]
    assms run_seen_grows [OF assms(2)] by simp

subsection \<open>Nothing is ever stored\<close>

lemma show_map_does_not_parse: "unmarshal_data d = None"
  by (simp add: unmarshal_data_def json_parse_def parse_number_def parse_digits_def keyword_def is_digit_def)

lemma writer_handler_fails:
  assumes "wr_processed ws = []"
  shows "fst (writer_handler accepts k i now e ws) = ws" "snd (writer_handler accepts k i now e ws) \<noteq> None"
  using assms by (cases k; simp add: writer_handler_def handle_experiment_event_def handle_log_event_def
      handle_metric_event_def is_processed_def show_map_does_not_parse)+

lemma consume_writer:
  assumes "wr_processed ws = []"
  shows "\<exists>err. deliver_message env (writer_handler accepts k i now) d ws = (ws, Some err, True)"
proof (cases "decode_event env d")
  case None
  then show ?thesis by (simp add: deliver_message_def)
next
  case (Some e)
  obtain ws' r where h: "writer_handler accepts k i now e ws = (ws', r)" by fastforce
  with writer_handler_fails [OF assms, of accepts k i now e] show ?thesis
    using Some by (auto simp: deliver_message_def)
qed

text \<open>C31: The writer persists nothing. Whatever messages are delivered to its three consumers, in any
  order and mixed with clean-ups, and whatever the database would accept, a writer service that starts
  empty ends empty: no log event is stored, no event id is marked as processed. Every delivery ends in
  an error, and every message is acknowledged all the same, so the broker never delivers it again. The
  reason is that the handlers parse as JSON what the verb %v prints of a map.
\<close>

theorem writer_persists_nothing:
  "case writer_run env accepts ops new_writer_service of (ws, outcomes) \<Rightarrow>
     ws = new_writer_service \<and>
     list_all (\<lambda>(err, acked). err \<noteq> None \<and> acked) outcomes \<and>
     length outcomes = length (filter (\<lambda>p. p \<noteq> WCleanup) ops)"
proof (induction ops)
  case Nil
  show ?case by simp
next
  case (Cons p ops)
  have empty: "wr_processed new_writer_service = []" by (simp add: new_writer_service_def)
  show ?case
  proof (cases p)
    case (WDeliver k i now d)
    obtain err where "deliver_message env (writer_handler accepts k i now) d new_writer_service
        = (new_writer_service, Some err, True)"
      using consume_writer [OF empty] by blast
    with Cons.IH WDeliver show ?thesis by (auto split: prod.splits)
  next
    case WCleanup
    with Cons.IH empty show ?thesis by (simp add: cleanup_processed_ids_def)
  qed
qed


definition sample_bus_env :: bus_env where
  "sample_bus_env = \<lparr>ev_now = 7, ev_rfc3339 = (\<lambda>t. if t = 7 then Some ''1970-01-01T00:00:07Z'' else None),
     ev_parse_time = (\<lambda>s. if s = ''1970-01-01T00:00:07Z'' then Some 7 else None), ev_time_string = (\<lambda>_. []),
     ev_trace = (''00'', ''00''), ev_create_stream = (\<lambda>_. None), ev_create_consumer = (\<lambda>_ _. None),
     ev_publish = (\<lambda>_. Inr 1)\<rparr>"

definition sample_bus_event :: bus_event where
  "sample_bus_event = \<lparr>be_id = ''e1'', be_type = ''cpu'', be_source = ''agent'', be_timestamp = 0,
     be_data = [(''level'', JStr ''warn''), (''n'', JInt 3)], be_metadata = [], be_correlation = [],
     be_trace = [], be_span = []\<rparr>"


end
