(* ===== verification/DiffEmit.thy ===== *)
theory DiffEmit
  imports Json Sha256
begin

text \<open>
  The controller's diff engine, \<open>controller/diff_emit_engine.go\<close>: per key it remembers the last
  state, computes the fields that changed, and tells whether the change is large enough to be
  emitted. The states are decoded JSON values (a Go struct is one after the conversion in
  \<open>toMap\<close>); \<open>reflect.DeepEqual\<close> on them is equality up to the order of the members. A
  \<open>nil\<close> value is \<open>JNull\<close>. \<open>ComputeDiff\<close> is given its two clock readings.
\<close>

subsection \<open>Data\<close>

record state_snapshot =
  sn_data :: json
  sn_hash :: string
  sn_timestamp :: gtime
  sn_version :: int
  sn_metadata :: "(string \<times> json) list"
  sn_size :: int
  sn_computed_at :: gtime

record diff_config =
  dc_max_state_history :: int
  dc_diff_threshold :: rat
  dc_compression_level :: int
  dc_batch_size :: int
  dc_flush_interval :: duration
  dc_include_metadata :: bool
  dc_deep_compare :: bool
  dc_ignore_fields :: "string list"
  dc_compress_threshold :: int

record diff_metrics =
  dm_locked :: bool
  dm_total_comparisons :: int
  dm_skipped :: int
  dm_sent :: int
  dm_avg_compute_time :: rat
  dm_compression_ratio :: rat
  dm_state_store_size :: int
  dm_memory_usage :: int
  dm_cache_hit_rate :: rat

record emit_result =
  dr_has_changes :: bool
  dr_change_percent :: rat
  dr_changed_fields :: "string list"
  dr_added_fields :: "string list"
  dr_removed_fields :: "string list"
  dr_diff :: json
  dr_previous_version :: int
  dr_new_version :: int
  dr_compute_time :: duration
  dr_compressed :: bool
  dr_original_size :: int
  dr_compressed_size :: int

datatype compression_algorithm =
    CompressionNone | CompressionGzip | CompressionLZ4 | CompressionBrotli | CompressionDelta

record diff_engine =
  de_store :: "(string \<times> state_snapshot) list"
  de_config :: diff_config
  de_metrics :: diff_metrics
  de_compression :: compression_algorithm

datatype diff_err = ComputeHashFailed

definition default_diff_config :: diff_config where
  "default_diff_config = \<lparr>dc_max_state_history = 100, dc_diff_threshold = 1 / 100, dc_compression_level = 6,
     dc_batch_size = 50, dc_flush_interval = 5 * second, dc_include_metadata = True, dc_deep_compare = True,
     dc_ignore_fields = [], dc_compress_threshold = 1024\<rparr>"

definition zero_metrics :: diff_metrics where
  "zero_metrics = \<lparr>dm_locked = False, dm_total_comparisons = 0, dm_skipped = 0, dm_sent = 0, dm_avg_compute_time = 0,
     dm_compression_ratio = 0, dm_state_store_size = 0, dm_memory_usage = 0, dm_cache_hit_rate = 0\<rparr>"

definition new_diff_emit_engine :: "diff_config option \<Rightarrow> diff_engine" where
  "new_diff_emit_engine c = \<lparr>de_store = [],
     de_config = (case c of None \<Rightarrow> default_diff_config | Some c \<Rightarrow> c),
     de_metrics = zero_metrics, de_compression = CompressionGzip\<rparr>"

subsection \<open>Comparing two states\<close>

definition deep_equal :: "json \<Rightarrow> json \<Rightarrow> bool" where
  "deep_equal a b \<longleftrightarrow> canon a = canon b"

definition should_ignore_field :: "string list \<Rightarrow> string \<Rightarrow> bool" where
  "should_ignore_field ign f \<longleftrightarrow> list_ex (\<lambda>p. f = p \<or> has_suffix p ''*'' \<and> has_prefix f (trim_suffix p ''*'')) ign"

fun to_map :: "json \<Rightarrow> (string \<times> json) list option" where
  "to_map (JObj m) = Some m"
| "to_map v = None"

fun is_complex_type :: "json \<Rightarrow> bool" where
  "is_complex_type (JObj m) = True"
| "is_complex_type (JArr vs) = True"
| "is_complex_type v = False"

text \<open>The keys of \<open>allFields\<close> and \<open>allKeys\<close>.\<close>

definition all_fields :: "(string \<times> json) list \<Rightarrow> (string \<times> json) list \<Rightarrow> string list" where
  "all_fields p c = keys (foldl (\<lambda>m f. AList.update f True m) [] (keys p @ keys c))"

definition json_added :: "json \<Rightarrow> json" where
  "json_added v = JObj [(''action'', JStr ''added''), (''value'', v)]"

definition json_removed :: "json \<Rightarrow> json" where
  "json_removed v = JObj [(''action'', JStr ''removed''), (''value'', v)]"

definition json_modified :: "json \<Rightarrow> json \<Rightarrow> (string \<times> json) list \<Rightarrow> json" where
  "json_modified p c more_fields = JObj ([(''action'', JStr ''modified''), (''previous'', p), (''current'', c)] @ more_fields)"

definition array_change :: "json list \<Rightarrow> json list \<Rightarrow> nat \<Rightarrow> json option" where
  "array_change p c i =
     (let ix = (''index'', JInt (int i)) in
      if i \<ge> length p then Some (JObj [ix, (''action'', JStr ''added''), (''value'', c ! i)])
      else if i \<ge> length c then Some (JObj [ix, (''action'', JStr ''removed''), (''value'', p ! i)])
      else if \<not> deep_equal (p ! i) (c ! i)
        then Some (JObj [ix, (''action'', JStr ''modified''), (''previous'', p ! i), (''current'', c ! i)])
      else None)"

definition compute_array_diff :: "json list \<Rightarrow> json list \<Rightarrow> json" where
  "compute_array_diff p c = JObj [(''type'', JStr ''array''),
     (''changes'', JArr (List.map_filter (array_change p c) [0..<max (length p) (length c)])),
     (''length_change'', JInt (int (length c) - int (length p)))]"

definition map_change :: "(string \<times> json) list \<Rightarrow> (string \<times> json) list \<Rightarrow> string \<Rightarrow> json option" where
  "map_change p c k = (case (map_of p k, map_of c k) of
     (None, Some v) \<Rightarrow> Some (json_added v)
   | (Some v, None) \<Rightarrow> Some (json_removed v)
   | (Some v, Some w) \<Rightarrow> if \<not> deep_equal v w then Some (json_modified v w []) else None
   | (None, None) \<Rightarrow> None)"

definition compute_map_diff :: "(string \<times> json) list \<Rightarrow> (string \<times> json) list \<Rightarrow> json" where
  "compute_map_diff p c = JObj [(''type'', JStr ''object''),
     (''changes'', JObj (List.map_filter (\<lambda>k. map_option (Pair k) (map_change p c k)) (all_fields p c)))]"

fun compute_nested_diff :: "json \<Rightarrow> json \<Rightarrow> json" where
  "compute_nested_diff (JArr p) (JArr c) = compute_array_diff p c"
| "compute_nested_diff (JObj p) (JObj c) = compute_map_diff p c"
| "compute_nested_diff p c = JObj [(''previous'', p), (''current'', c)]"

datatype change_kind = Added | Removed | Modified

text \<open>What the loop over the fields does with one of them.\<close>

definition field_change :: "string list \<Rightarrow> (string \<times> json) list \<Rightarrow> (string \<times> json) list \<Rightarrow> string
    \<Rightarrow> (change_kind \<times> json) option" where
  "field_change ign p c f = (if should_ignore_field ign f then None else
     (case (map_of p f, map_of c f) of
       (None, Some v) \<Rightarrow> Some (Added, json_added v)
     | (Some v, None) \<Rightarrow> Some (Removed, json_removed v)
     | (Some v, Some w) \<Rightarrow>
         if \<not> deep_equal v w then Some (Modified, json_modified v w
           (if is_complex_type w then [(''diff'', compute_nested_diff v w)] else [])) else None
     | (None, None) \<Rightarrow> None))"

definition changes_of :: "string list \<Rightarrow> (string \<times> json) list \<Rightarrow> (string \<times> json) list
    \<Rightarrow> (string \<times> change_kind \<times> json) list" where
  "changes_of ign p c = List.map_filter (\<lambda>f. map_option (Pair f) (field_change ign p c f)) (all_fields p c)"

definition of_kind :: "change_kind \<Rightarrow> (string \<times> change_kind \<times> json) list \<Rightarrow> string list" where
  "of_kind k cs = map fst (filter (\<lambda>(f, k', e). k' = k) cs)"

definition empty_result :: emit_result where
  "empty_result = \<lparr>dr_has_changes = False, dr_change_percent = 0, dr_changed_fields = [], dr_added_fields = [],
     dr_removed_fields = [], dr_diff = JNull, dr_previous_version = 0, dr_new_version = 0, dr_compute_time = 0,
     dr_compressed = False, dr_original_size = 0, dr_compressed_size = 0\<rparr>"

definition compute_detailed_diff :: "string list \<Rightarrow> json \<Rightarrow> json \<Rightarrow> emit_result" where
  "compute_detailed_diff ign prev cur = (case (to_map prev, to_map cur) of
     (Some p, Some c) \<Rightarrow>
       (let cs = changes_of ign p c; n = length (all_fields p c) in
        empty_result\<lparr>dr_changed_fields := of_kind Modified cs, dr_added_fields := of_kind Added cs,
          dr_removed_fields := of_kind Removed cs,
          dr_change_percent := (if n > 0 then of_nat (length cs) / of_nat n else 0),
          dr_diff := JObj (map (\<lambda>(f, k, e). (f, e)) cs)\<rparr>)
   | _ \<Rightarrow>
       if \<not> deep_equal prev cur then
         empty_result\<lparr>dr_diff := cur, dr_change_percent := 1, dr_changed_fields := [''root'']\<rparr>
       else empty_result)"

subsection \<open>Hash and size\<close>

fun normalize_for_hashing :: "string list \<Rightarrow> json \<Rightarrow> json" where
  "normalize_for_hashing ign (JObj ms) =
     JObj (map (\<lambda>(k, v). (k, normalize_for_hashing ign v)) (filter (\<lambda>(k, v). \<not> should_ignore_field ign k) (sort_members ms)))"
| "normalize_for_hashing ign (JArr vs) = JArr (map (normalize_for_hashing ign) vs)"
| "normalize_for_hashing ign v = v"

definition compute_hash :: "string list \<Rightarrow> json \<Rightarrow> string option" where
  "compute_hash ign v = map_option (\<lambda>n. sha256_hex (json_str (normalize_for_hashing ign n))) (json_parse (json_str v))"

definition estimate_size :: "json \<Rightarrow> int" where
  "estimate_size v = int (length (json_str v))"

definition delta_compress :: "json \<Rightarrow> json \<times> bool" where "delta_compress d = (d, False)"
definition gzip_compress :: "json \<Rightarrow> json \<times> bool" where "gzip_compress d = (d, False)"

definition compress_diff :: "compression_algorithm \<Rightarrow> json \<Rightarrow> json \<times> bool" where
  "compress_diff a d = (case a of
     CompressionDelta \<Rightarrow> delta_compress d | CompressionGzip \<Rightarrow> gzip_compress d | _ \<Rightarrow> (d, False))"

definition update_compression_metrics :: "rat \<Rightarrow> diff_metrics \<Rightarrow> diff_metrics" where
  "update_compression_metrics r m = m\<lparr>dm_compression_ratio := (dm_compression_ratio m + r) / 2\<rparr>"

definition update_avg_compute_time :: "rat \<Rightarrow> diff_metrics \<Rightarrow> diff_metrics" where
  "update_avg_compute_time t m = m\<lparr>dm_avg_compute_time := (dm_avg_compute_time m + t) / 2\<rparr>"

subsection \<open>The operations of the engine\<close>

definition new_snapshot :: "gtime \<Rightarrow> json \<Rightarrow> string \<Rightarrow> int \<Rightarrow> state_snapshot" where
  "new_snapshot now d h version = \<lparr>sn_data = d, sn_hash = h, sn_timestamp = now, sn_version = version,
     sn_metadata = [], sn_size = estimate_size d, sn_computed_at = now\<rparr>"

definition compute_diff :: "gtime \<Rightarrow> gtime \<Rightarrow> string \<Rightarrow> json \<Rightarrow> diff_engine
    \<Rightarrow> diff_engine \<times> (diff_err + emit_result)" where
  "compute_diff start now k d s =
     (let s = s\<lparr>de_metrics := (de_metrics s)\<lparr>dm_total_comparisons := i64 (dm_total_comparisons (de_metrics s) + 1)\<rparr>\<rparr>;
          cfg = de_config s; prev = map_of (de_store s) k in
      case compute_hash (dc_ignore_fields cfg) d of
        None \<Rightarrow> (s, Inl ComputeHashFailed)
      | Some h \<Rightarrow>
        (let size = estimate_size d;
             version = (case prev of None \<Rightarrow> 1 | Some p \<Rightarrow> i64 (sn_version p + 1));
             snapshot = new_snapshot now d h version in
         if (case prev of None \<Rightarrow> False | Some p \<Rightarrow> sn_hash p = h) then
           (s\<lparr>de_metrics := (de_metrics s)\<lparr>dm_skipped := i64 (dm_skipped (de_metrics s) + 1)\<rparr>\<rparr>,
            Inr (empty_result\<lparr>dr_previous_version := (case prev of None \<Rightarrow> 0 | Some p \<Rightarrow> sn_version p),
              dr_new_version := version, dr_compute_time := time_sub now start\<rparr>))
         else
           (let base = (case prev of
                  Some p \<Rightarrow> if dc_deep_compare cfg then compute_detailed_diff (dc_ignore_fields cfg) (sn_data p) d
                    else empty_result\<lparr>dr_diff := d, dr_change_percent := 1\<rparr>
                | None \<Rightarrow> empty_result\<lparr>dr_diff := d, dr_change_percent := 1\<rparr>);
                has = (dr_change_percent base \<ge> dc_diff_threshold cfg);
                r = base\<lparr>dr_has_changes := has,
                  dr_previous_version := (case prev of None \<Rightarrow> 0 | Some p \<Rightarrow> sn_version p),
                  dr_new_version := version, dr_compute_time := time_sub now start, dr_original_size := size\<rparr>;
                (s, r) = (if has \<and> size \<ge> dc_compress_threshold cfg then
                    (case compress_diff (de_compression s) (dr_diff r) of
                      (cd, True) \<Rightarrow>
                        (let csize = estimate_size cd in
                         (if csize > 0 then s\<lparr>de_metrics := update_compression_metrics (of_int csize / of_int size) (de_metrics s)\<rparr> else s,
                          r\<lparr>dr_diff := cd, dr_compressed := True, dr_compressed_size := csize\<rparr>))
                    | (_, False) \<Rightarrow> (s, r))
                  else (s, r));
                s = s\<lparr>de_store := AList.update k snapshot (de_store s)\<rparr>;
                m = (if has then (de_metrics s)\<lparr>dm_sent := i64 (dm_sent (de_metrics s) + 1)\<rparr>
                     else (de_metrics s)\<lparr>dm_skipped := i64 (dm_skipped (de_metrics s) + 1)\<rparr>) in
            (s\<lparr>de_metrics := update_avg_compute_time (of_int (time_sub now start) / 1000000) m\<rparr>, Inr r))))"

text \<open>The loop that deletes the entries from position \<open>i\<close> on, at most \<open>n\<close> of them.\<close>

function delete_from :: "(string \<times> gtime) list \<Rightarrow> int \<Rightarrow> int \<Rightarrow> (string \<times> state_snapshot) list
    \<Rightarrow> (string \<times> state_snapshot) list outcome" where
  "delete_from es i n m = (if i < int (length es) \<and> n > 0 then
       (if i < 0 then Panics IndexOutOfRange
        else delete_from es (i + 1) (n - 1) (AList.delete (fst (es ! nat i)) m))
     else Ret m)"
  by pat_completeness auto
termination by (relation "measure (\<lambda>(es, i, n, m). nat n)") auto

declare delete_from.simps [simp del]

text \<open>\<open>sort.Slice\<close> leaves the order of equal timestamps open; here it is the order of the map.\<close>

definition newest_first :: "(string \<times> state_snapshot) list \<Rightarrow> (string \<times> gtime) list" where
  "newest_first m = sort_key (\<lambda>(k, t). - t) (map (\<lambda>(k, x). (k, sn_timestamp x)) m)"

definition perform_cleanup :: "diff_engine \<Rightarrow> diff_engine outcome" where
  "perform_cleanup s = (let keep = dc_max_state_history (de_config s) in
     if int (length (de_store s)) \<le> keep then Ret s
     else (let es = newest_first (de_store s) in
       obind (delete_from es keep (int (length es) - keep) (de_store s)) (\<lambda>m.
         Ret (s\<lparr>de_store := m, de_metrics := (de_metrics s)\<lparr>dm_state_store_size := int (length m)\<rparr>\<rparr>))))"

definition get_diff_metrics :: "diff_engine \<Rightarrow> diff_metrics" where
  "get_diff_metrics s = de_metrics s"

definition mutex_lock :: "diff_metrics \<Rightarrow> diff_metrics" where
  "mutex_lock m = m\<lparr>dm_locked := True\<rparr>"

definition mutex_unlock :: "diff_metrics \<Rightarrow> diff_metrics outcome" where
  "mutex_unlock m = (if dm_locked m then Ret (m\<lparr>dm_locked := False\<rparr>) else Panics UnlockOfUnlockedMutex)"

text \<open>The mutex that is locked belongs to the old metrics, the one that is unlocked to the new.\<close>

definition reset_engine :: "diff_engine \<Rightarrow> diff_engine outcome" where
  "reset_engine s =
     (let s = s\<lparr>de_store := []\<rparr>;
          s = s\<lparr>de_metrics := mutex_lock (de_metrics s)\<rparr>;
          s = s\<lparr>de_metrics := zero_metrics\<rparr> in
      obind (mutex_unlock (de_metrics s)) (\<lambda>m. Ret (s\<lparr>de_metrics := m\<rparr>)))"

lemma reset_always_panics: "reset_engine s = Panics UnlockOfUnlockedMutex"
  by (simp add: reset_engine_def mutex_unlock_def zero_metrics_def)

subsection \<open>Deep equality\<close>

lemma deep_equal_refl [simp]: "deep_equal a a"
  and deep_equal_sym: "deep_equal a b \<Longrightarrow> deep_equal b a"
  and deep_equal_trans: "deep_equal a b \<Longrightarrow> deep_equal b c \<Longrightarrow> deep_equal a c"
  by (simp_all add: deep_equal_def)

lemma map_of_sort_members: "distinct (keys m) \<Longrightarrow> map_of (sort_members m) = map_of m"
proof -
  assume d: "distinct (keys m)"
  have "mset (keys (sort_members m)) = mset (keys m)" by (simp add: sort_members_def)
  then have "distinct (keys (sort_members m))" using d mset_eq_imp_distinct_iff by blast
  then show ?thesis using d map_of_eqI [of "sort_members m" m]
    by (metis map_of_inject_set set_sort_members)
qed

lemma sort_members_cong:
  assumes "distinct (keys a)" and "distinct (keys b)" and "map_of a = map_of b"
  shows "sort_members a = sort_members b"
proof -
  have "set a = set b" using assms map_of_inject_set by blast
  moreover have "distinct a" "distinct b" using assms(1,2) by (simp_all add: distinct_map)
  ultimately have "mset a = mset b" by (simp add: set_eq_iff_mset_eq_distinct)
  then have "mset a = mset (sort_key fst b)" by simp
  moreover have "inj_on fst (set a)" using assms(1) by (simp add: distinct_map)
  ultimately show ?thesis
    unfolding sort_members_def by (rule sort_key_inj_key_eq) simp
qed

lemma map_of_canon_members: "map_of (map (\<lambda>(k, v). (k, canon v)) m) f = map_option canon (map_of m f)"
  by (induction m) auto

lemma keys_canon_members: "keys (map (\<lambda>(k, v). (k, canon v)) m) = keys m"
  by (induction m) auto

lemma deep_equal_obj:
  assumes "distinct (keys a)" and "distinct (keys b)"
  shows "deep_equal (JObj a) (JObj b) \<longleftrightarrow> (\<forall>f. map_option canon (map_of a f) = map_option canon (map_of b f))"
proof
  assume "deep_equal (JObj a) (JObj b)"
  then have "map_of (sort_members (map (\<lambda>(k, v). (k, canon v)) a)) = map_of (sort_members (map (\<lambda>(k, v). (k, canon v)) b))"
    by (simp add: deep_equal_def)
  then have "map_of (map (\<lambda>(k, v). (k, canon v)) a) = map_of (map (\<lambda>(k, v). (k, canon v)) b)"
    using assms by (simp only: map_of_sort_members keys_canon_members)
  then show "\<forall>f. map_option canon (map_of a f) = map_option canon (map_of b f)"
    by (metis map_of_canon_members)
next
  assume "\<forall>f. map_option canon (map_of a f) = map_option canon (map_of b f)"
  then have "map_of (map (\<lambda>(k, v). (k, canon v)) a) = map_of (map (\<lambda>(k, v). (k, canon v)) b)"
    by (auto simp: map_of_canon_members)
  then show "deep_equal (JObj a) (JObj b)"
    using sort_members_cong [of "map (\<lambda>(k, v). (k, canon v)) a" "map (\<lambda>(k, v). (k, canon v)) b"] assms
    by (simp only: deep_equal_def canon.simps keys_canon_members)
qed

subsection \<open>Applying a diff\<close>

text \<open>
  What a receiver does with the entries of a diff: the reference the diff is checked against.
  \<open>entry_result\<close> is the value an entry gives its field.
\<close>

definition entry_result :: "json \<Rightarrow> json option \<Rightarrow> json option" where
  "entry_result e old = (case e of
     JObj es \<Rightarrow>
       (if map_of es ''action'' = Some (JStr ''added'') then map_of es ''value''
        else if map_of es ''action'' = Some (JStr ''removed'') then None
        else if map_of es ''action'' = Some (JStr ''modified'') then map_of es ''current'' else old)
   | _ \<Rightarrow> old)"

lemma entry_result_simps [simp]:
  "entry_result (json_added v) old = Some v"
  "entry_result (json_removed v) old = None"
  "entry_result (json_modified v w more_fields) old = Some w"
  by (simp_all add: entry_result_def json_added_def json_removed_def json_modified_def)

definition apply_entry :: "string \<times> json \<Rightarrow> (string \<times> json) list \<Rightarrow> (string \<times> json) list" where
  "apply_entry fe m = (case entry_result (snd fe) (map_of m (fst fe)) of
     None \<Rightarrow> AList.delete (fst fe) m | Some v \<Rightarrow> AList.update (fst fe) v m)"

definition apply_diff :: "(string \<times> json) list \<Rightarrow> (string \<times> json) list \<Rightarrow> (string \<times> json) list" where
  "apply_diff dm m = fold apply_entry dm m"

lemma map_of_apply_entry:
  "map_of (apply_entry (g, e) m) f = (if f = g then entry_result e (map_of m g) else map_of m f)"
  by (auto simp: apply_entry_def map_of_update map_of_delete split: option.split)

lemma map_of_apply_diff:
  "distinct (keys dm) \<Longrightarrow> map_of (apply_diff dm m) f =
     (case map_of dm f of None \<Rightarrow> map_of m f | Some e \<Rightarrow> entry_result e (map_of m f))"
proof (induction dm arbitrary: m)
  case (Cons d dm)
  obtain g e where d: "d = (g, e)" by (cases d)
  with Cons.prems have "map_of dm g = None" by (simp add: map_of_eq_None_iff)
  moreover have "apply_diff (d # dm) m = apply_diff dm (apply_entry (g, e) m)" by (simp add: apply_diff_def d)
  ultimately show ?case
    using Cons by (auto simp: d map_of_apply_entry split: option.split)
qed (simp add: apply_diff_def)

lemma distinct_apply_diff: "distinct (keys m) \<Longrightarrow> distinct (keys (apply_diff dm m))"
  unfolding apply_diff_def
  by (induction dm arbitrary: m) (auto simp: apply_entry_def split: option.split)

lemma all_fields_props: "distinct (all_fields p c) \<and> set (all_fields p c) = set (keys p) \<union> set (keys c)"
proof -
  have "distinct (keys (foldl (\<lambda>m f. AList.update f True m) acc fs)) \<and>
      set (keys (foldl (\<lambda>m f. AList.update f True m) acc fs)) = set (keys acc) \<union> set fs"
    if "distinct (keys acc)" for acc fs
    using that by (induction fs arbitrary: acc) (simp_all add: keys_update del: set_map)
  from this [of "[]" "keys p @ keys c"] show ?thesis by (simp add: all_fields_def)
qed

lemma map_of_map_filter:
  "map_of (List.map_filter (\<lambda>f. map_option (Pair f) (g f)) fs) f = (if f \<in> set fs then g f else None)"
  by (induction fs) (auto simp: map_filter_simps split: option.split)

lemma keys_map_filter: "keys (List.map_filter (\<lambda>f. map_option (Pair f) (g f)) fs) = filter (\<lambda>f. g f \<noteq> None) fs"
  by (induction fs) (auto simp: map_filter_simps split: option.split)

lemma field_change_fields: "field_change ign p c f \<noteq> None \<Longrightarrow> f \<in> set (all_fields p c)"
  using all_fields_props [of p c]
  by (auto simp: field_change_def map_of_eq_None_iff split: if_splits option.splits)
    (metis map_of_eq_None_iff option.distinct(1))+

lemma map_of_changes: "map_of (changes_of ign p c) f = field_change ign p c f"
  using field_change_fields [of ign p c f]
  by (cases "field_change ign p c f") (simp_all add: changes_of_def map_of_map_filter)

lemma keys_changes: "keys (changes_of ign p c) = filter (\<lambda>f. field_change ign p c f \<noteq> None) (all_fields p c)"
  by (simp add: changes_of_def keys_map_filter)

lemma keys_diff: "keys (map (\<lambda>(f, k, e). (f, e)) cs) = keys cs"
  by (induction cs) auto

lemma map_of_diff: "map_of (map (\<lambda>(f, k, e). (f, e)) cs) f = map_option snd (map_of cs f)"
  by (induction cs) auto

lemma distinct_diff: "distinct (keys (map (\<lambda>(f, k, e). (f, e)) (changes_of ign p c)))"
  using all_fields_props by (simp only: keys_diff keys_changes) simp

lemma map_of_apply_changes:
  "map_of (apply_diff (map (\<lambda>(f, k, e). (f, e)) (changes_of ign p c)) m) f =
     (case field_change ign p c f of None \<Rightarrow> map_of m f | Some (k, e) \<Rightarrow> entry_result e (map_of m f))"
  by (simp add: map_of_apply_diff [OF distinct_diff] map_of_diff map_of_changes split: option.split)

lemma apply_changes_sound:
  assumes "\<not> should_ignore_field ign f" and "map_option canon (map_of m f) = map_option canon (map_of p f)"
  shows "map_option canon (map_of (apply_diff (map (\<lambda>(f, k, e). (f, e)) (changes_of ign p c)) m) f) =
    map_option canon (map_of c f)"
  using assms
  by (auto simp: map_of_apply_changes field_change_def deep_equal_def split: option.splits if_splits)

subsection \<open>A receiver of the emitted diffs\<close>

text \<open>The first state of a key is sent in full, later ones as a diff.\<close>

definition receive :: "emit_result \<Rightarrow> json option \<Rightarrow> json option" where
  "receive r c = (if \<not> dr_has_changes r then c else
     (case c of Some (JObj m) \<Rightarrow> (case dr_diff r of JObj dm \<Rightarrow> Some (JObj (apply_diff dm m)) | d \<Rightarrow> Some d)
      | _ \<Rightarrow> Some (dr_diff r)))"

text \<open>The sender computes a diff for each new state and sends it; the pair of both ends.\<close>

definition send :: "gtime \<Rightarrow> string \<Rightarrow> json \<Rightarrow> diff_engine \<times> json option \<Rightarrow> diff_engine \<times> json option" where
  "send t k d sc = (case compute_diff t t k d (fst sc) of
     (s, Inl e) \<Rightarrow> (s, snd sc) | (s, Inr r) \<Rightarrow> (s, receive r (snd sc)))"

definition full_config :: "diff_config \<Rightarrow> bool" where
  "full_config c \<longleftrightarrow> dc_diff_threshold c \<le> 0 \<and> dc_deep_compare c \<and> dc_ignore_fields c = []"

lemma canon_ok_hash: "json_ok d \<Longrightarrow> compute_hash ign d \<noteq> None"
  by (simp add: compute_hash_def json_parse_str)

lemma compress_never: "compress_diff a d = (d, False)"
  by (simp add: compress_diff_def delta_compress_def gzip_compress_def split: compression_algorithm.split)

lemma compute_diff_config: "de_config (fst (compute_diff t t' k d s)) = de_config s"
  by (cases "map_of (de_store s) k"; cases "compute_hash (dc_ignore_fields (de_config s)) d")
    (simp_all add: compute_diff_def Let_def compress_never)

text \<open>The two ways \<open>ComputeDiff\<close> ends on a state it can hash.\<close>

lemma compute_diff_same:
  assumes "compute_hash (dc_ignore_fields (de_config s)) d = Some h"
    and "map_of (de_store s) k = Some p" and "sn_hash p = h"
  shows "\<exists>r. snd (compute_diff t t' k d s) = Inr r \<and> \<not> dr_has_changes r \<and>
    de_store (fst (compute_diff t t' k d s)) = de_store s \<and>
    dm_skipped (de_metrics (fst (compute_diff t t' k d s))) = i64 (dm_skipped (de_metrics s) + 1) \<and>
    dm_sent (de_metrics (fst (compute_diff t t' k d s))) = dm_sent (de_metrics s)"
  using assms by (simp add: compute_diff_def Let_def empty_result_def)

lemma compute_diff_new:
  fixes s :: diff_engine
  assumes "compute_hash (dc_ignore_fields (de_config s)) d = Some h"
    and "\<And>p. map_of (de_store s) k = Some p \<Longrightarrow> sn_hash p \<noteq> h"
  defines "base \<equiv> (case map_of (de_store s) k of
      Some p \<Rightarrow> if dc_deep_compare (de_config s)
        then compute_detailed_diff (dc_ignore_fields (de_config s)) (sn_data p) d
        else empty_result\<lparr>dr_diff := d, dr_change_percent := 1\<rparr>
    | None \<Rightarrow> empty_result\<lparr>dr_diff := d, dr_change_percent := 1\<rparr>)"
  shows "\<exists>r. snd (compute_diff t t' k d s) = Inr r \<and>
    dr_has_changes r = (dc_diff_threshold (de_config s) \<le> dr_change_percent base) \<and> dr_diff r = dr_diff base \<and>
    dr_change_percent r = dr_change_percent base \<and>
    de_store (fst (compute_diff t t' k d s)) = AList.update k (new_snapshot t' d h
      (case map_of (de_store s) k of None \<Rightarrow> 1 | Some p \<Rightarrow> i64 (sn_version p + 1))) (de_store s)"
proof -
  show ?thesis
    using assms(2) unfolding base_def compute_diff_def Let_def
    by (cases "map_of (de_store s) k")
      (simp_all add: assms(1) compress_never empty_result_def)
qed

lemma detailed_diff_obj:
  "dr_diff (compute_detailed_diff ign (JObj p) (JObj c)) = JObj (map (\<lambda>(f, k, e). (f, e)) (changes_of ign p c))"
  "dr_change_percent (compute_detailed_diff ign (JObj p) (JObj c)) =
     (if all_fields p c = [] then 0 else of_nat (length (changes_of ign p c)) / of_nat (length (all_fields p c)))"
  by (auto simp: compute_detailed_diff_def Let_def)

lemma length_changes: "length (changes_of ign p c) = length (filter (\<lambda>f. field_change ign p c f \<noteq> None) (all_fields p c))"
  by (metis keys_changes length_map)

lemma field_change_None_iff:
  "field_change ign p c f = None \<longleftrightarrow>
     should_ignore_field ign f \<or> map_option canon (map_of p f) = map_option canon (map_of c f)"
  by (auto simp: field_change_def deep_equal_def split: option.splits)

lemma change_percent_bounds:
  "0 \<le> dr_change_percent (compute_detailed_diff ign (JObj p) (JObj c)) \<and>
   dr_change_percent (compute_detailed_diff ign (JObj p) (JObj c)) \<le> 1"
  using length_filter_le [of "\<lambda>f. field_change ign p c f \<noteq> None" "all_fields p c"]
  by (simp add: detailed_diff_obj length_changes divide_le_eq_1)

lemma change_percent_zero:
  "dr_change_percent (compute_detailed_diff ign (JObj p) (JObj c)) = 0 \<longleftrightarrow> (\<forall>f. field_change ign p c f = None)"
proof -
  have "dr_change_percent (compute_detailed_diff ign (JObj p) (JObj c)) = 0 \<longleftrightarrow> length (changes_of ign p c) = 0"
    by (auto simp: detailed_diff_obj changes_of_def map_filter_def)
  also have "\<dots> \<longleftrightarrow> (\<forall>f. field_change ign p c f = None)"
    unfolding length_changes length_0_conv filter_empty_conv using field_change_fields [of ign p c] by metis
  finally show ?thesis .
qed

subsection \<open>Properties\<close>

text \<open>C4: applying the diff of two states to the first gives the second: every field that is not
  ignored gets a value deeply equal to the new one or disappears with it, and the ignored fields
  keep their old value. The change ratio is between 0 and 1, and 0 exactly when no field that
  matters differs. Neither depends on the order in which Go visits the maps.\<close>

theorem diff_apply_roundtrip:
  "let r = compute_detailed_diff ign (JObj p) (JObj c) in
   (case dr_diff r of JObj dm \<Rightarrow>
      (\<forall>f. map_option canon (map_of (apply_diff dm p) f) =
         map_option canon (if should_ignore_field ign f then map_of p f else map_of c f))
    | _ \<Rightarrow> False) \<and>
   0 \<le> dr_change_percent r \<and> dr_change_percent r \<le> 1 \<and>
   (dr_change_percent r = 0 \<longleftrightarrow>
      (\<forall>f. should_ignore_field ign f \<or> map_option canon (map_of p f) = map_option canon (map_of c f)))"
proof -
  have "map_option canon (map_of (apply_diff (map (\<lambda>(f, k, e). (f, e)) (changes_of ign p c)) p) f) =
      map_option canon (if should_ignore_field ign f then map_of p f else map_of c f)" for f
    using apply_changes_sound [of ign f p p c] field_change_None_iff [of ign p c f]
    by (auto simp: map_of_apply_changes)
  then show ?thesis
    using change_percent_bounds [of ign p c] change_percent_zero [of ign p c]
    by (simp add: Let_def detailed_diff_obj(1) field_change_None_iff)
qed

text \<open>What the receiver knows, against what the engine remembers.\<close>

definition in_sync :: "string \<Rightarrow> json \<Rightarrow> diff_engine \<times> json option \<Rightarrow> bool" where
  "in_sync k d sc \<longleftrightarrow> (\<exists>x c m. map_of (de_store (fst sc)) k = Some x \<and> json_ok (sn_data x) \<and>
     sn_data x = JObj m \<and> canon (sn_data x) = canon d \<and>
     compute_hash [] (sn_data x) = Some (sn_hash x) \<and>
     snd sc = Some (JObj c) \<and> distinct (keys c) \<and> deep_equal (JObj c) (sn_data x))"

lemma receive_step:
  assumes "in_sync k d0 sc" and "full_config (de_config (fst sc))" and "json_ok (JObj m)"
    and "\<And>x. map_of (de_store (fst sc)) k = Some x \<Longrightarrow> compute_hash [] (sn_data x) = compute_hash [] (JObj m)
           \<Longrightarrow> canon (sn_data x) = canon (JObj m)"
  shows "in_sync k (JObj m) (send t k (JObj m) sc)"
proof -
  obtain x c p where x: "map_of (de_store (fst sc)) k = Some x" "json_ok (sn_data x)" "sn_data x = JObj p"
    and h: "compute_hash [] (sn_data x) = Some (sn_hash x)"
    and c: "snd sc = Some (JObj c)" "distinct (keys c)" "deep_equal (JObj c) (sn_data x)"
    using assms(1) by (auto simp: in_sync_def)
  obtain h' where h': "compute_hash [] (JObj m) = Some h'" using canon_ok_hash [OF assms(3)] by blast
  have cfg: "dc_ignore_fields (de_config (fst sc)) = []" "dc_deep_compare (de_config (fst sc))"
    "dc_diff_threshold (de_config (fst sc)) \<le> 0" using assms(2) by (simp_all add: full_config_def)
  let ?r = "compute_diff t t k (JObj m) (fst sc)"
  show ?thesis
  proof (cases "sn_hash x = h'")
    case True
    obtain r where r: "snd ?r = Inr r" "\<not> dr_has_changes r" "de_store (fst ?r) = de_store (fst sc)"
      using compute_diff_same [of "fst sc" "JObj m" h' k x t t] h' x(1) True cfg by auto
    have "canon (sn_data x) = canon (JObj m)" using assms(4) [OF x(1)] h h' True by simp
    then show ?thesis
      using r x h c by (auto simp: send_def in_sync_def receive_def split: prod.split)
  next
    case False
    have has: "dc_diff_threshold (de_config (fst sc)) \<le> dr_change_percent (compute_detailed_diff [] (JObj p) (JObj m))"
      using change_percent_bounds [of "[]" p m] cfg(3) by linarith
    obtain r where r: "snd ?r = Inr r" "dr_has_changes r" "dr_diff r = dr_diff (compute_detailed_diff [] (JObj p) (JObj m))"
      "de_store (fst ?r) = AList.update k (new_snapshot t (JObj m) h' (i64 (sn_version x + 1))) (de_store (fst sc))"
      using compute_diff_new [of "fst sc" "JObj m" h' k t t] h' x(1,3) False cfg has by auto
    let ?c = "apply_diff (map (\<lambda>(f, k, e). (f, e)) (changes_of [] p m)) c"
    have "receive r (snd sc) = Some (JObj ?c)" using r c(1) by (simp add: receive_def detailed_diff_obj(1))
    moreover have dp: "distinct (keys p)" "distinct (keys m)" using x(2,3) assms(3) by auto
    have "\<forall>f. map_option canon (map_of c f) = map_option canon (map_of p f)"
      using c(3) deep_equal_obj [OF c(2) dp(1)] by (simp add: x(3))
    then have "\<forall>f. map_option canon (map_of ?c f) = map_option canon (map_of m f)"
      by (auto intro!: apply_changes_sound simp: should_ignore_field_def)
    then have "deep_equal (JObj ?c) (JObj m)"
      using deep_equal_obj [OF distinct_apply_diff [OF c(2)] dp(2)] by blast
    ultimately show ?thesis
      using r(1,4) assms(3) h' distinct_apply_diff [OF c(2)]
      by (auto simp: send_def in_sync_def map_of_update new_snapshot_def split: prod.split)
  qed
qed

lemma send_store:
  assumes "json_ok d" and "map_of (de_store (fst (send t k d sc))) k = Some x"
  shows "sn_data x = d \<or> map_of (de_store (fst sc)) k = Some x"
proof -
  let ?s = "fst sc"
  obtain h where h: "compute_hash (dc_ignore_fields (de_config ?s)) d = Some h" using canon_ok_hash [OF assms(1)] by blast
  have st: "de_store (fst (send t k d sc)) = de_store (fst (compute_diff t t k d ?s))"
    by (simp add: send_def split: prod.split sum.split)
  show ?thesis
  proof (cases "\<exists>p. map_of (de_store ?s) k = Some p \<and> sn_hash p = h")
    case True
    then show ?thesis using compute_diff_same [OF h, of k _ t t] assms(2) st by auto
  next
    case False
    then show ?thesis
      using compute_diff_new [OF h, of k t t] assms(2) st by (auto simp: map_of_update new_snapshot_def)
  qed
qed

lemma first_send:
  assumes "json_ok (JObj m)" and "full_config cfg"
  shows "in_sync k (JObj m) (send t k (JObj m) (new_diff_emit_engine (Some cfg), None))"
proof -
  let ?s = "new_diff_emit_engine (Some cfg)"
  obtain h where h: "compute_hash [] (JObj m) = Some h" using canon_ok_hash [OF assms(1)] by blast
  have "dc_ignore_fields (de_config ?s) = []" "dc_diff_threshold (de_config ?s) \<le> 1" "map_of (de_store ?s) k = None"
    using assms(2) by (simp_all add: new_diff_emit_engine_def full_config_def)
  then obtain r where "snd (compute_diff t t k (JObj m) ?s) = Inr r" "dr_has_changes r" "dr_diff r = JObj m"
    "de_store (fst (compute_diff t t k (JObj m) ?s)) = AList.update k (new_snapshot t (JObj m) h 1) (de_store ?s)"
    using compute_diff_new [of ?s "JObj m" h k t t] h by (auto simp: empty_result_def)
  then show ?thesis
    using assms(1) h
    by (auto simp: send_def in_sync_def receive_def map_of_update new_snapshot_def split: prod.split)
qed

lemma send_config: "de_config (fst (send t k d sc)) = de_config (fst sc)"
  using compute_diff_config [of t t k d "fst sc"] by (auto simp: send_def split: prod.split sum.split)



text \<open>C40: a change whose ratio is below the threshold is stored but not emitted, and since the
  stored state is the one later states are compared with, sending the same state again emits
  nothing either: a receiver never learns of the change.\<close>

theorem small_change_is_lost:
  assumes "map_of (de_store s) k = Some p" and "dc_deep_compare (de_config s)"
    and "compute_hash (dc_ignore_fields (de_config s)) d = Some h" and "sn_hash p \<noteq> h"
    and "dr_change_percent (compute_detailed_diff (dc_ignore_fields (de_config s)) (sn_data p) d)
      < dc_diff_threshold (de_config s)"
  shows "\<exists>r1 r2. let s1 = fst (compute_diff t t' k d s) in
    snd (compute_diff t t' k d s) = Inr r1 \<and> snd (compute_diff u u' k d s1) = Inr r2 \<and>
    map_option sn_data (map_of (de_store s1) k) = Some d \<and>
    receive r1 c = c \<and> receive r2 c = c"
proof -
  let ?s1 = "fst (compute_diff t t' k d s)"
  obtain r1 where r1: "snd (compute_diff t t' k d s) = Inr r1" "\<not> dr_has_changes r1"
    "de_store ?s1 = AList.update k (new_snapshot t' d h (i64 (sn_version p + 1))) (de_store s)"
    using compute_diff_new [OF assms(3), of k t t'] assms by auto
  obtain r2 where "snd (compute_diff u u' k d ?s1) = Inr r2" "\<not> dr_has_changes r2"
    using compute_diff_same [of ?s1 d h k "new_snapshot t' d h (i64 (sn_version p + 1))" u u'] assms(3) r1(3)
    by (auto simp: compute_diff_config map_of_update new_snapshot_def)
  with r1 show ?thesis by (auto simp: receive_def map_of_update new_snapshot_def)
qed

definition abc :: "int \<Rightarrow> json" where
  "abc n = JObj [(''a'', JInt n), (''b'', JInt 1), (''c'', JInt 1)]"

theorem small_change_is_lost_witness:
  "let s = (new_diff_emit_engine (Some (default_diff_config\<lparr>dc_diff_threshold := 1 / 2\<rparr>)))
         \<lparr>de_store := [(''k'', new_snapshot 1 (abc 1) [] 1)]\<rparr> in
   \<exists>r. snd (compute_diff 2 2 ''k'' (abc 2) s) = Inr r \<and> receive r (Some (abc 1)) = Some (abc 1) \<and> abc 1 \<noteq> abc 2"
proof -
  let ?s = "(new_diff_emit_engine (Some (default_diff_config\<lparr>dc_diff_threshold := 1 / 2\<rparr>)))
         \<lparr>de_store := [(''k'', new_snapshot 1 (abc 1) [] 1)]\<rparr>"
  have "json_ok (abc 2)" by (simp add: abc_def)
  then obtain h where h: "compute_hash [] (abc 2) = Some h" using canon_ok_hash by blast
  then have "length h = 64" by (auto simp: compute_hash_def)
  then have "h \<noteq> []" by auto
  have pct: "dr_change_percent (compute_detailed_diff [] (abc 1) (abc 2)) < 1 / 2"
    by (simp add: abc_def detailed_diff_obj changes_of_def all_fields_def map_filter_simps field_change_def
        should_ignore_field_def deep_equal_def)
  have st: "map_of (de_store ?s) ''k'' = Some (new_snapshot 1 (abc 1) [] 1)" by simp
  from small_change_is_lost [OF st, of "abc 2" h 2 2 3 3 "Some (abc 1)"] h \<open>h \<noteq> []\<close> pct
  show ?thesis
    by (auto simp: new_snapshot_def new_diff_emit_engine_def default_diff_config_def Let_def) (simp add: abc_def)
qed

subsection \<open>What the cleanup keeps\<close>

lemma delete_from_drop:
  "0 \<le> i \<Longrightarrow> 0 \<le> n \<Longrightarrow> i + n = int (length es) \<Longrightarrow>
   delete_from es i n m = Ret (foldl (\<lambda>m e. AList.delete (fst e) m) m (drop (nat i) es))"
proof (induction es i n m rule: delete_from.induct)
  case (1 es i n m)
  show ?case
  proof (cases "n > 0")
    case True
    then have "nat i < length es" using "1.prems" by linarith
    then have "drop (nat i) es = es ! nat i # drop (nat (i + 1)) es"
      using "1.prems"(1) by (simp add: Cons_nth_drop_Suc nat_add_distrib)
    then show ?thesis using 1 True by (subst delete_from.simps) simp
  next
    case False
    then show ?thesis using "1.prems" by (subst delete_from.simps) simp
  qed
qed

lemma foldl_delete_filter:
  "foldl (\<lambda>m e. AList.delete (fst e) m) m es = filter (\<lambda>(k, _). k \<notin> fst ` set es) m"
  by (induction es arbitrary: m) (auto simp: AList.delete_eq intro!: filter_cong)

lemma newest_first_props:
  "mset (newest_first m) = mset (map (\<lambda>(k, x). (k, sn_timestamp x)) m)"
  "sorted (map (\<lambda>(k, t). - t) (newest_first m))"
  "length (newest_first m) = length m"
  by (simp_all add: newest_first_def)

lemma mset_keys_newest: "mset (keys (newest_first m)) = mset (keys m)"
proof -
  have "mset (keys (newest_first m)) = image_mset fst (mset (newest_first m))" by simp
  also have "\<dots> = mset (keys m)" by (simp only: newest_first_props) (simp add: multiset.map_comp comp_def case_prod_beta')
  finally show ?thesis .
qed

lemma newest_first_mem:
  "(k, t) \<in> set (newest_first m) \<longleftrightarrow> (\<exists>x. (k, x) \<in> set m \<and> t = sn_timestamp x)"
proof -
  have "set (newest_first m) = set (map (\<lambda>(k, x). (k, sn_timestamp x)) m)"
    by (rule mset_eq_setD) (rule newest_first_props)
  then show ?thesis by force
qed

lemma kept_keys:
  assumes "distinct (keys m)" and "es = newest_first m"
  shows "mset (keys (filter (\<lambda>(k, _). k \<notin> fst ` set (drop n es)) m)) = mset (keys (take n es))"
proof -
  have ks: "mset (keys es) = mset (keys m)" using assms(2) by (simp add: mset_keys_newest del: mset_map)
  then have d: "distinct (keys es)" using assms(1) mset_eq_imp_distinct_iff by blast
  let ?D = "fst ` set (drop n es)"
  have "filter (\<lambda>k. k \<notin> ?D) (keys es) = filter (\<lambda>k. k \<notin> ?D) (keys (take n es)) @ filter (\<lambda>k. k \<notin> ?D) (keys (drop n es))"
    by (metis append_take_drop_id filter_append map_append)
  also have "filter (\<lambda>k. k \<notin> ?D) (keys (drop n es)) = []" by (simp add: filter_empty_conv)
  also have "filter (\<lambda>k. k \<notin> ?D) (keys (take n es)) = keys (take n es)"
  proof -
    have "distinct (keys (take n es) @ keys (drop n es))" using d by (simp only: map_append [symmetric] append_take_drop_id)
    then show ?thesis by (intro filter_True) (auto simp: image_iff)
  qed
  finally have f: "filter (\<lambda>k. k \<notin> ?D) (keys es) = keys (take n es)" by simp
  have "keys (filter (\<lambda>(k, _). k \<notin> ?D) m) = filter (\<lambda>k. k \<notin> ?D) (keys m)"
    by (simp add: filter_map comp_def case_prod_beta')
  then have "mset (keys (filter (\<lambda>(k, _). k \<notin> ?D) m)) = filter_mset (\<lambda>k. k \<notin> ?D) (mset (keys m))" by simp
  also have "\<dots> = mset (filter (\<lambda>k. k \<notin> ?D) (keys es))" by (simp only: ks [symmetric] mset_filter)
  finally show ?thesis by (simp only: f)
qed

text \<open>Of a store's states, those whose keys are not among the oldest are no older than the rest.\<close>

lemma kept_are_newest:
  assumes "distinct (keys m)"
  shows "\<forall>(k, x) \<in> set (filter (\<lambda>(k, _). k \<notin> fst ` set (drop n (newest_first m))) m).
    \<forall>(k', y) \<in> set m - set (filter (\<lambda>(k, _). k \<notin> fst ` set (drop n (newest_first m))) m).
      sn_timestamp y \<le> sn_timestamp x"
proof -
  let ?es = "newest_first m"
  let ?D = "fst ` set (drop n ?es)"
  let ?kept = "filter (\<lambda>(k, _). k \<notin> ?D) m"
  have "sn_timestamp y \<le> sn_timestamp x" if x: "(k, x) \<in> set ?kept" and y: "(k', y) \<in> set m - set ?kept" for k x k' y
  proof -
    have "k \<in> set (keys (take n ?es))"
      using image_eqI [OF _ x, of k fst] mset_eq_setD [OF kept_keys [OF assms refl, of n]]
      by (simp only: set_map fst_conv)
    then obtain t where t: "(k, t) \<in> set (take n ?es)" by auto
    then have "(k, t) \<in> set ?es" by (meson in_set_takeD)
    then have tx: "t = sn_timestamp x"
      using x assms by (auto simp: newest_first_mem dest: eq_key_imp_eq_value)
    have "k' \<in> ?D" using y by auto
    then obtain t' where t': "(k', t') \<in> set (drop n ?es)" by auto
    then have "(k', t') \<in> set ?es" by (meson in_set_dropD)
    then have ty: "t' = sn_timestamp y"
      using y assms by (auto simp: newest_first_mem dest: eq_key_imp_eq_value)
    have "sorted (map (\<lambda>(k, t). - t) (take n ?es) @ map (\<lambda>(k, t). - t) (drop n ?es))"
      using newest_first_props(2) [of m] by (simp only: map_append [symmetric] append_take_drop_id)
    then have "- t \<le> - t'" using t t' by (force simp: sorted_append)
    then show ?thesis by (simp add: tx ty)
  qed
  then show ?thesis by (intro ballI) (auto simp del: set_filter)
qed

text \<open>C29: a round of the cleanup ends, keeps exactly as many states as the configuration allows,
  changes none of them, and no state it deletes is newer than one it keeps; it panics exactly when
  the configured number is negative.\<close>

theorem diff_cleanup_keeps_newest:
  assumes "distinct (keys (de_store s))"
  shows "case perform_cleanup s of
      Panics e \<Rightarrow> dc_max_state_history (de_config s) < 0 \<and> e = IndexOutOfRange
    | Ret s' \<Rightarrow> 0 \<le> dc_max_state_history (de_config s) \<and>
        int (length (de_store s')) = min (int (length (de_store s))) (dc_max_state_history (de_config s)) \<and>
        set (de_store s') \<subseteq> set (de_store s) \<and>
        (\<forall>(k, x) \<in> set (de_store s'). \<forall>(k', y) \<in> set (de_store s) - set (de_store s'). sn_timestamp y \<le> sn_timestamp x)"
proof -
  let ?n = "dc_max_state_history (de_config s)" and ?m = "de_store s" and ?es = "newest_first (de_store s)"
  consider (few) "0 \<le> ?n" "int (length ?m) \<le> ?n" | (neg) "?n < 0" | (many) "0 \<le> ?n" "?n < int (length ?m)" by linarith
  then show ?thesis
  proof cases
    case few
    then show ?thesis by (simp add: perform_cleanup_def)
  next
    case neg
    then show ?thesis
      by (subst perform_cleanup_def) (subst delete_from.simps, simp add: newest_first_props)
  next
    case many
    let ?D = "fst ` set (drop (nat ?n) ?es)"
    let ?kept = "filter (\<lambda>(k, _). k \<notin> ?D) ?m"
    have r: "\<exists>ms. perform_cleanup s = Ret (s\<lparr>de_store := ?kept, de_metrics := ms\<rparr>)"
      using many by (simp add: perform_cleanup_def Let_def delete_from_drop newest_first_props foldl_delete_filter)
        (rule exI, rule refl)
    have "length ?kept = length (keys (take (nat ?n) ?es))"
      using mset_eq_length [OF kept_keys [OF assms refl, of "nat ?n"]] by (simp only: length_map)
    then have len: "int (length ?kept) = ?n" using many by (simp add: newest_first_props)
    have order: "\<forall>(k, x) \<in> set ?kept. \<forall>(k', y) \<in> set ?m - set ?kept. sn_timestamp y \<le> sn_timestamp x"
      by (rule kept_are_newest [OF assms])
    obtain ms where p: "perform_cleanup s = Ret (s\<lparr>de_store := ?kept, de_metrics := ms\<rparr>)" using r by blast
    show ?thesis
      unfolding p outcome.case using many len order by (simp del: set_filter)
  qed
qed

theorem diff_cleanup_keeps_newest_witness:
  "let s = (new_diff_emit_engine (Some (default_diff_config\<lparr>dc_max_state_history := 1\<rparr>)))
     \<lparr>de_store := [(''a'', new_snapshot 1 JNull [] 1), (''b'', new_snapshot 2 JNull [] 1)]\<rparr> in
   \<exists>s'. perform_cleanup s = Ret s' \<and> length (de_store s') = 1"
proof -
  let ?s = "(new_diff_emit_engine (Some (default_diff_config\<lparr>dc_max_state_history := 1\<rparr>)))
     \<lparr>de_store := [(''a'', new_snapshot 1 JNull [] 1), (''b'', new_snapshot 2 JNull [] 1)]\<rparr>"
  have "distinct (keys (de_store ?s))" by simp
  from diff_cleanup_keeps_newest [OF this] show ?thesis
    by (auto simp: new_diff_emit_engine_def Let_def split: outcome.splits)
qed

end
