(* ===== verification/Experiments.thy ===== *)
theory Experiments
  imports Wire
begin

text \<open>
  The agent's injection endpoint, \<open>agent/experiments.go\<close>: the request it decodes and the commands
  that the experiment runs, in order, with the pauses between them. The output of \<open>ps\<close> and the
  random choice of a process are parameters; the outcome of the other commands is only logged.
\<close>

record injection_request =
  ir_experiment_type :: string
  ir_duration :: int
  ir_delay_ms :: int
  ir_loss_percent :: int
  ir_cpu_workers :: int
  ir_mem_size_mb :: int
  ir_kill_process :: string

definition zero_injection :: injection_request where
  "zero_injection = \<lparr>ir_experiment_type = [], ir_duration = 0, ir_delay_ms = 0, ir_loss_percent = 0,
     ir_cpu_workers = 0, ir_mem_size_mb = 0, ir_kill_process = []\<rparr>"

definition injection_fields :: "injection_request field_decoder list" where
  "injection_fields = [
     (''experiment_type'', dec_str (\<lambda>s r. r\<lparr>ir_experiment_type := s\<rparr>)),
     (''duration'', dec_int (\<lambda>i r. r\<lparr>ir_duration := i\<rparr>)),
     (''delay_ms'', dec_int (\<lambda>i r. r\<lparr>ir_delay_ms := i\<rparr>)),
     (''loss_percent'', dec_int (\<lambda>i r. r\<lparr>ir_loss_percent := i\<rparr>)),
     (''cpu_workers'', dec_int (\<lambda>i r. r\<lparr>ir_cpu_workers := i\<rparr>)),
     (''mem_size_mb'', dec_int (\<lambda>i r. r\<lparr>ir_mem_size_mb := i\<rparr>)),
     (''kill_process'', dec_str (\<lambda>s r. r\<lparr>ir_kill_process := s\<rparr>))]"

definition decode_injection :: "string \<Rightarrow> injection_request option" where
  "decode_injection body = (case json_parse body of None \<Rightarrow> None
     | Some v \<Rightarrow> decode_struct injection_fields v zero_injection)"

datatype agent_action = ARun "string list" | ASleep duration

definition add_network_latency :: "int \<Rightarrow> agent_action list" where
  "add_network_latency ms = (let ms = (if ms \<le> 0 then 100 else ms) in
     [ARun [''tc'', ''qdisc'', ''add'', ''dev'', ''eth0'', ''root'', ''netem'', ''delay'', itoa ms @ ''ms'']])"

definition add_network_loss :: "int \<Rightarrow> agent_action list" where
  "add_network_loss p = (let p = (if p \<le> 0 then 10 else p) in
     [ARun [''tc'', ''qdisc'', ''add'', ''dev'', ''eth0'', ''root'', ''netem'', ''loss'', itoa p @ ''%'']])"

definition remove_network_latency :: "agent_action list" where
  "remove_network_latency = [ARun [''tc'', ''qdisc'', ''del'', ''dev'', ''eth0'', ''root'']]"

definition run_stress_ng_cpu :: "int \<Rightarrow> int \<Rightarrow> agent_action list" where
  "run_stress_ng_cpu workers d = (let workers = (if workers \<le> 0 then 2 else workers); d = (if d \<le> 0 then 30 else d) in
     [ARun [''stress-ng'', ''--cpu'', itoa workers, ''--timeout'', itoa d @ ''s'']])"

definition run_stress_ng_memory :: "int \<Rightarrow> int \<Rightarrow> agent_action list" where
  "run_stress_ng_memory mb d = (let mb = (if mb \<le> 0 then 100 else mb); d = (if d \<le> 0 then 30 else d) in
     [ARun [''stress-ng'', ''--vm'', ''1'', ''--vm-bytes'', itoa mb @ ''m'', ''--timeout'', itoa d @ ''s'']])"

text \<open>The first field of every line that contains the pattern.\<close>

definition kill_candidates :: "string \<Rightarrow> string \<Rightarrow> string list" where
  "kill_candidates pattern out = List.map_filter (\<lambda>line.
     if contains line pattern then (case str_fields line of [] \<Rightarrow> None | pid # _ \<Rightarrow> Some pid) else None)
     (split_on newline out)"

definition kill_random_process :: "string option \<Rightarrow> (nat \<Rightarrow> nat) \<Rightarrow> string \<Rightarrow> agent_action list" where
  "kill_random_process ps pick pattern =
     (let pattern = (if pattern = [] then ''go'' else pattern) in
      ARun [''ps'', ''-eo'', ''pid,cmd''] #
      (case ps of None \<Rightarrow> []
       | Some out \<Rightarrow> (let cs = kill_candidates pattern out in
           if cs = [] then [] else [ARun [''kill'', ''-9'', cs ! pick (length cs)]])))"

definition simulate_injection :: "string option \<Rightarrow> (nat \<Rightarrow> nat) \<Rightarrow> injection_request \<Rightarrow> agent_action list" where
  "simulate_injection ps pick r =
     (let pause = [ASleep (i64 (ir_duration r * second))] in
      if ir_experiment_type r = ''network-latency'' then
        add_network_latency (ir_delay_ms r) @ pause @ remove_network_latency
      else if ir_experiment_type r = ''network-loss'' then
        add_network_loss (ir_loss_percent r) @ pause @ remove_network_latency
      else if ir_experiment_type r = ''cpu-stress'' then run_stress_ng_cpu (ir_cpu_workers r) (ir_duration r)
      else if ir_experiment_type r = ''mem-stress'' then run_stress_ng_memory (ir_mem_size_mb r) (ir_duration r)
      else if ir_experiment_type r = ''process-kill'' then kill_random_process ps pick (ir_kill_process r)
      else [])"

text \<open>The handler: its response, and the experiment it starts in the background.\<close>

definition inject_handler :: "body_request \<Rightarrow> string http_response \<times> injection_request option" where
  "inject_handler r =
     (if hr_method r \<noteq> ''POST'' then (http_error id ''Invalid request method'' 405 [], None)
      else (case br_body r of
        None \<Rightarrow> (http_error id ''Unable to read request'' 400 [], None)
      | Some body \<Rightarrow> (case decode_injection body of
          None \<Rightarrow> (http_error id ''Invalid JSON'' 400 [], None)
        | Some req \<Rightarrow> (\<lparr>rs_status = 200, rs_headers = header_set ''Content-Type'' ''application/json'' [],
            rs_body = json_str (JObj [(''status'', JStr ''injected''), (''message'', JStr ''Fault injection in progress'')])
              @ [newline]\<rparr>, Some req))))"

text \<open>Every command an experiment runs; an unknown type runs none.\<close>

definition known_types :: "string list" where
  "known_types = [''network-latency'', ''network-loss'', ''cpu-stress'', ''mem-stress'', ''process-kill'']"

lemma simulate_unknown: "ir_experiment_type r \<notin> set known_types \<Longrightarrow> simulate_injection ps pick r = []"
  by (auto simp: simulate_injection_def known_types_def Let_def)

lemma simulate_known: "ir_experiment_type r \<in> set known_types \<Longrightarrow> simulate_injection ps pick r \<noteq> []"
  by (auto simp: simulate_injection_def known_types_def Let_def add_network_latency_def add_network_loss_def
      run_stress_ng_cpu_def run_stress_ng_memory_def kill_random_process_def)

end
