(* ===== verification/Controller.thy ===== *)
theory Controller
  imports Wire
begin

text \<open>
  The controller's HTTP front: the middleware chain of \<open>controller/middleware.go\<close> and the handlers
  of \<open>controller/handlers.go\<close>, composed as \<open>controller/main.go\<close> composes them. A handler maps a
  request, the response headers set so far and the state to the new state and the response, or a
  panic. Parameters, collected in \<open>ctl_env\<close>: the clock reading of the request, the random id, the
  environment variable with the agents' addresses, Go's time and float formats, the rate limiter
  (golang.org/x/time/rate), the struct validator (go-playground/validator) and the health
  handlers. The Prometheus series are in \<open>Metrics\<close>; log lines are left out.
\<close>

subsection \<open>Experiment requests\<close>

record experiment_request =
  er_name :: string
  er_description :: string
  er_experiment_type :: string
  er_target :: string
  er_duration :: int
  er_delay_ms :: int
  er_loss_percent :: int
  er_cpu_workers :: int
  er_mem_size_mb :: int
  er_kill_process :: string
  er_start_time :: gtime
  er_parallel :: bool
  er_agent_count :: int

definition zero_experiment :: experiment_request where
  "zero_experiment = \<lparr>er_name = [], er_description = [], er_experiment_type = [], er_target = [], er_duration = 0,
     er_delay_ms = 0, er_loss_percent = 0, er_cpu_workers = 0, er_mem_size_mb = 0, er_kill_process = [],
     er_start_time = 0, er_parallel = False, er_agent_count = 0\<rparr>"

definition experiment_fields :: "(string \<Rightarrow> gtime option) \<Rightarrow> experiment_request field_decoder list" where
  "experiment_fields parse_time = [
     (''name'', dec_str (\<lambda>s r. r\<lparr>er_name := s\<rparr>)),
     (''description'', dec_str (\<lambda>s r. r\<lparr>er_description := s\<rparr>)),
     (''experiment_type'', dec_str (\<lambda>s r. r\<lparr>er_experiment_type := s\<rparr>)),
     (''target'', dec_str (\<lambda>s r. r\<lparr>er_target := s\<rparr>)),
     (''duration'', dec_int (\<lambda>i r. r\<lparr>er_duration := i\<rparr>)),
     (''delay_ms'', dec_int (\<lambda>i r. r\<lparr>er_delay_ms := i\<rparr>)),
     (''loss_percent'', dec_int (\<lambda>i r. r\<lparr>er_loss_percent := i\<rparr>)),
     (''cpu_workers'', dec_int (\<lambda>i r. r\<lparr>er_cpu_workers := i\<rparr>)),
     (''mem_size_mb'', dec_int (\<lambda>i r. r\<lparr>er_mem_size_mb := i\<rparr>)),
     (''kill_process'', dec_str (\<lambda>s r. r\<lparr>er_kill_process := s\<rparr>)),
     (''start_time'', (\<lambda>v r. case v of JNull \<Rightarrow> Some r
        | JStr s \<Rightarrow> map_option (\<lambda>t. r\<lparr>er_start_time := t\<rparr>) (parse_time s) | _ \<Rightarrow> None)),
     (''parallel'', dec_bool (\<lambda>b r. r\<lparr>er_parallel := b\<rparr>)),
     (''agent_count'', dec_int (\<lambda>i r. r\<lparr>er_agent_count := i\<rparr>))]"

definition decode_experiment :: "(string \<Rightarrow> gtime option) \<Rightarrow> string \<Rightarrow> experiment_request option" where
  "decode_experiment parse_time body = (case json_parse body of None \<Rightarrow> None
     | Some v \<Rightarrow> decode_struct (experiment_fields parse_time) v zero_experiment)"

text \<open>\<open>json.Marshal\<close>; it fails when the start time cannot be written.\<close>

definition encode_experiment :: "(gtime \<Rightarrow> string option) \<Rightarrow> experiment_request \<Rightarrow> string option" where
  "encode_experiment time_str e = map_option (\<lambda>t. json_struct [
     (''name'', JStr (er_name e)), (''description'', JStr (er_description e)),
     (''experiment_type'', JStr (er_experiment_type e)), (''target'', JStr (er_target e)),
     (''duration'', JInt (er_duration e)), (''delay_ms'', JInt (er_delay_ms e)),
     (''loss_percent'', JInt (er_loss_percent e)), (''cpu_workers'', JInt (er_cpu_workers e)),
     (''mem_size_mb'', JInt (er_mem_size_mb e)), (''kill_process'', JStr (er_kill_process e)),
     (''start_time'', JStr t), (''parallel'', JBool (er_parallel e)), (''agent_count'', JInt (er_agent_count e))])
     (time_str (er_start_time e))"

subsection \<open>Validation\<close>

datatype field_val = FStr string | FInt int
datatype vtag = VRequired | VMin int | VMax int | VCustom string

text \<open>The validate tags of the struct, in field order; a field without tags is not listed.\<close>

definition experiment_tags :: "experiment_request \<Rightarrow> (string \<times> field_val \<times> vtag list) list" where
  "experiment_tags e = [
     (''Name'', FStr (er_name e), [VRequired, VMin 1, VMax 100]),
     (''Description'', FStr (er_description e), [VMax 500]),
     (''ExperimentType'', FStr (er_experiment_type e), [VRequired, VCustom ''experiment_type'']),
     (''Target'', FStr (er_target e), [VRequired, VMin 1, VMax 100]),
     (''Duration'', FInt (er_duration e), [VRequired, VCustom ''positive_duration'', VMin 1, VMax 3600]),
     (''DelayMs'', FInt (er_delay_ms e), [VMin 0, VMax 10000]),
     (''LossPercent'', FInt (er_loss_percent e), [VMin 0, VMax 100]),
     (''CPUWorkers'', FInt (er_cpu_workers e), [VMin 0, VMax 32]),
     (''MemSizeMB'', FInt (er_mem_size_mb e), [VMin 0, VMax 16384]),
     (''KillProcess'', FStr (er_kill_process e), [VMax 100]),
     (''AgentCount'', FInt (er_agent_count e), [VMin 1, VMax 100])]"

definition valid_experiment_types :: "string list" where
  "valid_experiment_types = [''network_latency'', ''network_loss'', ''cpu_stress'', ''memory_stress'', ''process_kill'']"

definition validate_experiment_type :: "field_val \<Rightarrow> bool" where
  "validate_experiment_type v = (case v of FStr s \<Rightarrow> s \<in> set valid_experiment_types | FInt i \<Rightarrow> False)"

definition validate_positive_duration :: "field_val \<Rightarrow> bool" where
  "validate_positive_duration v = (case v of FInt i \<Rightarrow> i > 0 | FStr s \<Rightarrow> False)"

definition registered_validators :: "string \<Rightarrow> field_val \<Rightarrow> bool" where
  "registered_validators tag v =
     (if tag = ''experiment_type'' then validate_experiment_type v
      else if tag = ''positive_duration'' then validate_positive_duration v else False)"

record validation_error =
  ve_field :: string
  ve_tag :: string
  ve_value :: string
  ve_message :: string

record validation_response =
  vr_error :: string
  vr_message :: string
  vr_details :: "validation_error list"

fun tag_name :: "vtag \<Rightarrow> string" where
  "tag_name VRequired = ''required''"
| "tag_name (VMin n) = ''min''"
| "tag_name (VMax n) = ''max''"
| "tag_name (VCustom c) = c"

fun tag_param :: "vtag \<Rightarrow> string" where
  "tag_param (VMin n) = itoa n"
| "tag_param (VMax n) = itoa n"
| "tag_param _ = []"

fun field_text :: "field_val \<Rightarrow> string" where
  "field_text (FStr s) = s"
| "field_text (FInt i) = itoa i"

definition get_validation_message :: "string \<Rightarrow> vtag \<Rightarrow> string" where
  "get_validation_message f t =
     (if tag_name t = ''required'' then f @ '' is required''
      else if tag_name t = ''min'' then f @ '' must be at least '' @ tag_param t
      else if tag_name t = ''max'' then f @ '' must be at most '' @ tag_param t
      else if tag_name t = ''experiment_type'' then f @ '' must be one of: '' @ join '', '' valid_experiment_types
      else if tag_name t = ''positive_duration'' then f @ '' must be a positive number''
      else f @ '' is invalid'')"

text \<open>The validator: the registered functions and the tagged fields to the failed ones.\<close>

type_synonym struct_check = "(string \<Rightarrow> field_val \<Rightarrow> bool) \<Rightarrow> (string \<times> field_val \<times> vtag list) list
    \<Rightarrow> (string \<times> field_val \<times> vtag) list"

definition validate_request :: "struct_check \<Rightarrow> experiment_request \<Rightarrow> validation_response option" where
  "validate_request check e = (let errs = check registered_validators (experiment_tags e) in
     if errs = [] then None
     else Some \<lparr>vr_error = ''validation_failed'', vr_message = ''Request validation failed'',
       vr_details = map (\<lambda>(f, v, t). \<lparr>ve_field = to_lower f, ve_tag = tag_name t, ve_value = field_text v,
         ve_message = get_validation_message f t\<rparr>) errs\<rparr>)"

subsection \<open>State and environment\<close>

record rate_config =
  rc_global_rps :: int
  rc_default_rps :: int
  rc_burst_size :: int
  rc_role_rps :: "(string \<times> int) list"
  rc_key_rps :: "(string \<times> int) list"
  rc_cleanup_period :: duration

record 'l rate_lib =
  rl_new :: "rat \<Rightarrow> int \<Rightarrow> 'l"
  rl_allow :: "gtime \<Rightarrow> 'l \<Rightarrow> 'l \<times> bool"
  rl_limit :: "'l \<Rightarrow> rat"
  rl_tokens :: "gtime \<Rightarrow> 'l \<Rightarrow> rat"

record 'l rate_limiter =
  lm_limiter :: 'l
  lm_last_seen :: gtime
  lm_api_key :: string
  lm_role :: string

record 'l controller =
  ct_limiters :: "(string \<times> 'l rate_limiter) list"
  ct_rate_config :: rate_config
  ct_experiments :: "experiment_request list"
  ct_scheduled :: "(gtime \<times> experiment_request) list"
  ct_posts :: "(string \<times> string) list"

datatype ctl_body =
    CbEmpty
  | CbText string
  | CbInvalidJson
  | CbValidation validation_response
  | CbStatus string string
  | CbExperiments "experiment_request list"
  | CbHealth string

type_synonym headers = "(string \<times> string) list"

type_synonym 'l handler = "body_request \<Rightarrow> headers \<Rightarrow> 'l controller \<Rightarrow> 'l controller \<times> ctl_body http_response outcome"

record 'l ctl_env =
  ce_now :: gtime
  ce_random_id :: string
  ce_agent_endpoints :: string
  ce_parse_time :: "string \<Rightarrow> gtime option"
  ce_time_str :: "gtime \<Rightarrow> string option"
  ce_float_str :: "rat \<Rightarrow> string"
  ce_rate :: "'l rate_lib"
  ce_check :: struct_check
  ce_health :: "body_request \<Rightarrow> headers \<Rightarrow> ctl_body http_response"

definition default_rate_config :: rate_config where
  "default_rate_config = \<lparr>rc_global_rps = 1000, rc_default_rps = 100, rc_burst_size = 10,
     rc_role_rps = [(''admin'', 1000), (''user'', 100), (''readonly'', 50)], rc_key_rps = [],
     rc_cleanup_period = 10 * minute\<rparr>"

definition new_controller :: "rate_config option \<Rightarrow> 'l controller" where
  "new_controller c = \<lparr>ct_limiters = [], ct_rate_config = (case c of None \<Rightarrow> default_rate_config | Some c \<Rightarrow> c),
     ct_experiments = [], ct_scheduled = [], ct_posts = []\<rparr>"

subsection \<open>Rate limiting\<close>

definition limiter_key :: "string \<Rightarrow> string \<Rightarrow> string" where
  "limiter_key api_key role = api_key @ '':'' @ role"

definition limiter_rps :: "rate_config \<Rightarrow> string \<Rightarrow> string \<Rightarrow> int" where
  "limiter_rps c api_key role = (case map_of (rc_key_rps c) api_key of
     Some r \<Rightarrow> r
   | None \<Rightarrow> (case map_of (rc_role_rps c) role of Some r \<Rightarrow> r | None \<Rightarrow> rc_default_rps c))"

definition get_limiter :: "'l ctl_env \<Rightarrow> string \<Rightarrow> string \<Rightarrow> 'l controller \<Rightarrow> 'l controller \<times> 'l rate_limiter" where
  "get_limiter env api_key role s =
     (let k = limiter_key api_key role;
          l = (case map_of (ct_limiters s) k of
            Some l \<Rightarrow> l\<lparr>lm_last_seen := ce_now env\<rparr>
          | None \<Rightarrow> \<lparr>lm_limiter = rl_new (ce_rate env) (of_int (limiter_rps (ct_rate_config s) api_key role))
                (rc_burst_size (ct_rate_config s)),
              lm_last_seen = ce_now env, lm_api_key = api_key, lm_role = role\<rparr>) in
      (s\<lparr>ct_limiters := AList.update k l (ct_limiters s)\<rparr>, l))"

definition cleanup_limiters :: "gtime \<Rightarrow> 'l controller \<Rightarrow> 'l controller" where
  "cleanup_limiters now s = (let cutoff = now + i64 (- 2 * rc_cleanup_period (ct_rate_config s)) in
     s\<lparr>ct_limiters := filter (\<lambda>(k, l). \<not> lm_last_seen l < cutoff) (ct_limiters s)\<rparr>)"

definition extract_api_key :: "body_request \<Rightarrow> string" where
  "extract_api_key r =
     (let auth = header_get (hr_headers r) ''Authorization''; x = header_get (hr_headers r) ''X-Api-Key'' in
      if has_prefix (to_lower auth) ''bearer '' then trim_space (drop 7 auth)
      else if x \<noteq> [] then x else br_query_key r)"

definition extract_role :: "body_request \<Rightarrow> string \<Rightarrow> string" where
  "extract_role r api_key = (let role = header_get (hr_headers r) ''X-User-Role'' in
     if role = [] then
       (if has_prefix api_key ''admin_'' then ''admin''
        else if has_prefix api_key ''readonly_'' then ''readonly'' else ''user'')
     else role)"

text \<open>A conversion of a float to an integer truncates.\<close>

definition truncate_rat :: "rat \<Rightarrow> int" where
  "truncate_rat q = (if q < 0 then - \<lfloor>- q\<rfloor> else \<lfloor>q\<rfloor>)"

definition rate_limit_middleware :: "'l ctl_env \<Rightarrow> 'l handler \<Rightarrow> 'l handler" where
  "rate_limit_middleware env next_handler r hs s =
     (let key = extract_api_key r;
          key = (if key = [] then ''anonymous'' else key);
          role = extract_role r key;
          (s, l) = get_limiter env key role s;
          (lim, ok) = rl_allow (ce_rate env) (ce_now env) (lm_limiter l);
          s = s\<lparr>ct_limiters := AList.update (limiter_key key role) (l\<lparr>lm_limiter := lim\<rparr>) (ct_limiters s)\<rparr>;
          limit = rl_limit (ce_rate env) lim in
      if \<not> ok then
        (if truncate_rat limit = 0 then (s, Panics IntegerDivideByZero)
         else
           (let retry_after = go_quot second (truncate_rat limit);
                hs = header_set ''Retry-After'' (itoa retry_after) hs;
                hs = header_set ''X-Ratelimit-Limit'' (fmt_float 0 limit) hs;
                hs = header_set ''X-Ratelimit-Remaining'' ''0'' hs;
                hs = header_set ''X-Ratelimit-Reset'' (itoa (unix_seconds (ce_now env + second))) hs in
            (s, Ret (http_error CbText (CHR ''{'' # join '','' [
               quote_str ''error'' @ '':'' @ quote_str ''rate_limit_exceeded'',
               quote_str ''message'' @ '':'' @ quote_str ''Rate limit exceeded. Please retry after the specified time.'',
               quote_str ''retry_after_seconds'' @ '':'' @ itoa retry_after] @ ''}'') 429 hs))))
      else
        (let hs = header_set ''X-Ratelimit-Limit'' (fmt_float 0 limit) hs;
             hs = header_set ''X-Ratelimit-Remaining''
               (''%!d(float64='' @ ce_float_str env (rl_tokens (ce_rate env) (ce_now env) lim) @ '')'') hs in
         next_handler r hs s))"

subsection \<open>The other middleware\<close>

definition validation_middleware :: "'l handler \<Rightarrow> 'l handler" where
  "validation_middleware next_handler r hs s =
     next_handler (if (hr_method r = ''POST'' \<or> hr_method r = ''PUT'') \<and>
         contains (header_get (hr_headers r) ''Content-Type'') ''application/json''
       then r\<lparr>br_validator := True\<rparr> else r) hs s"

definition experiments_etag :: "gtime \<Rightarrow> string" where
  "experiments_etag now = CHR 0x22 # ''experiments-'' @ itoa (go_quot (unix_seconds now) 60) @ [CHR 0x22]"

definition conditional_get_middleware :: "'l ctl_env \<Rightarrow> 'l handler \<Rightarrow> 'l handler" where
  "conditional_get_middleware env next_handler r hs s =
     (if hr_method r \<noteq> ''GET'' then next_handler r hs s
      else if contains (hr_path r) ''/experiments'' then
        (let etag = experiments_etag (ce_now env);
             hs = header_set ''Cache-Control'' ''public, max-age=60'' (header_set ''Etag'' etag hs);
             match = header_get (hr_headers r) ''If-None-Match'' in
         if match \<noteq> [] \<and> match = etag then (s, Ret \<lparr>rs_status = 304, rs_headers = hs, rs_body = CbEmpty\<rparr>)
         else next_handler r hs s)
      else next_handler r hs s)"

definition request_id_middleware :: "'l ctl_env \<Rightarrow> 'l handler \<Rightarrow> 'l handler" where
  "request_id_middleware env next_handler r hs s =
     (let i = trim_space (header_get (hr_headers r) ''X-Request-Id'');
          i = (if i = [] then ce_random_id env else i) in
      next_handler r (header_set ''X-Request-Id'' i hs) s)"

definition cors_middleware :: "'l handler \<Rightarrow> 'l handler" where
  "cors_middleware next_handler r hs s =
     (let hs = header_set ''Access-Control-Allow-Origin'' ''*'' hs;
          hs = header_set ''Access-Control-Allow-Methods'' ''GET, POST, PUT, DELETE, OPTIONS'' hs;
          hs = header_set ''Access-Control-Allow-Headers''
            ''Content-Type, Authorization, X-API-Key, X-User-Role, X-Request-Id'' hs;
          hs = header_set ''Access-Control-Expose-Headers''
            ''X-Request-Id, X-RateLimit-Limit, X-RateLimit-Remaining, X-RateLimit-Reset, Retry-After'' hs in
      if hr_method r = ''OPTIONS'' then (s, Ret \<lparr>rs_status = 200, rs_headers = hs, rs_body = CbEmpty\<rparr>)
      else next_handler r hs s)"

definition security_headers_middleware :: "'l handler \<Rightarrow> 'l handler" where
  "security_headers_middleware next_handler r hs s =
     (let hs = header_set ''X-Content-Type-Options'' ''nosniff'' hs;
          hs = header_set ''X-Frame-Options'' ''DENY'' hs;
          hs = header_set ''X-Xss-Protection'' ''1; mode=block'' hs;
          hs = header_set ''Strict-Transport-Security'' ''max-age=31536000; includeSubDomains'' hs;
          hs = header_set ''Content-Security-Policy'' (''default-src '' @ [CHR 0x27] @ ''self'' @ [CHR 0x27]) hs in
      next_handler r hs s)"

subsection \<open>The handlers\<close>

definition get_agent_endpoints :: "string \<Rightarrow> string list" where
  "get_agent_endpoints v = (if v \<noteq> [] then map trim_space (split_on (CHR '','') v)
     else [''http://localhost:9090/inject''])"

text \<open>The address of each request that is sent to an agent.\<close>

definition dispatch_targets :: "string list \<Rightarrow> experiment_request \<Rightarrow> string list" where
  "dispatch_targets eps e = (if er_parallel e \<and> er_agent_count e > 1
     then map (\<lambda>i. eps ! (i mod length eps)) [0..<nat (er_agent_count e)] else [eps ! 0])"

definition make_agent_request :: "string \<Rightarrow> string \<Rightarrow> 'l controller \<Rightarrow> 'l controller" where
  "make_agent_request url body s = s\<lparr>ct_posts := ct_posts s @ [(url, body)]\<rparr>"

definition dispatch_experiment :: "'l ctl_env \<Rightarrow> experiment_request \<Rightarrow> 'l controller \<Rightarrow> 'l controller" where
  "dispatch_experiment env e s = (case encode_experiment (ce_time_str env) e of
     None \<Rightarrow> s
   | Some d \<Rightarrow> foldl (\<lambda>s u. make_agent_request u d s) s
       (dispatch_targets (get_agent_endpoints (ce_agent_endpoints env)) e))"

definition json_headers :: "headers \<Rightarrow> headers" where
  "json_headers hs = header_set ''Content-Type'' ''application/json'' hs"

definition start_experiment_handler :: "'l ctl_env \<Rightarrow> 'l handler" where
  "start_experiment_handler env r hs s =
     (if hr_method r \<noteq> ''POST'' then (s, Ret (http_error CbText ''Invalid request method'' 405 hs))
      else (case br_body r of
        None \<Rightarrow> (s, Ret (http_error CbText ''Unable to read request'' 400 hs))
      | Some body \<Rightarrow> (case decode_experiment (ce_parse_time env) body of
          None \<Rightarrow> (s, Ret \<lparr>rs_status = 400, rs_headers = json_headers hs, rs_body = CbInvalidJson\<rparr>)
        | Some e \<Rightarrow> (case (if br_validator r then validate_request (ce_check env) e else None) of
            Some v \<Rightarrow> (s, Ret \<lparr>rs_status = 400, rs_headers = json_headers hs, rs_body = CbValidation v\<rparr>)
          | None \<Rightarrow>
             (let s = s\<lparr>ct_experiments := ct_experiments s @ [e]\<rparr>;
                  s = (if er_start_time e \<noteq> 0 \<and> er_start_time e > ce_now env
                    then s\<lparr>ct_scheduled := ct_scheduled s @ [(er_start_time e, e)]\<rparr>
                    else dispatch_experiment env e s) in
              (s, Ret \<lparr>rs_status = 200, rs_headers = json_headers hs,
                 rs_body = CbStatus ''scheduled'' ''Experiment scheduled (or started immediately).''\<rparr>))))))"

definition stop_experiment_handler :: "'l handler" where
  "stop_experiment_handler r hs s =
     (if hr_method r \<noteq> ''POST'' then (s, Ret (http_error CbText ''Invalid request method'' 405 hs))
      else (s, Ret \<lparr>rs_status = 200, rs_headers = json_headers hs,
        rs_body = CbStatus ''stopped'' ''Stop experiment is not implemented yet.''\<rparr>))"

definition experiments_handler :: "'l handler" where
  "experiments_handler r hs s =
     (s, Ret \<lparr>rs_status = 200, rs_headers = json_headers hs, rs_body = CbExperiments (ct_experiments s)\<rparr>)"

text \<open>The multiplexer on clean paths.\<close>

definition register_handlers :: "'l ctl_env \<Rightarrow> 'l handler" where
  "register_handlers env r hs s =
     (if hr_path r = ''/start'' then start_experiment_handler env r hs s
      else if hr_path r = ''/stop'' then stop_experiment_handler r hs s
      else if hr_path r = ''/experiments'' then experiments_handler r hs s
      else if hr_path r = ''/healthz'' \<or> hr_path r = ''/readyz'' \<or> hr_path r = ''/metrics-info''
        then (s, Ret (ce_health env r hs))
      else (s, Ret (http_error CbText ''404 page not found'' 404 hs)))"

definition controller_handler :: "'l ctl_env \<Rightarrow> 'l handler" where
  "controller_handler env =
     request_id_middleware env (cors_middleware (security_headers_middleware (rate_limit_middleware env
       (validation_middleware (conditional_get_middleware env (register_handlers env))))))"

text \<open>The server: \<open>/metrics\<close> is answered by Prometheus' handler (\<open>metrics\<close>), past the chain.\<close>

definition controller_serve ::
  "ctl_body http_response \<Rightarrow> 'l ctl_env \<Rightarrow> body_request \<Rightarrow> 'l controller \<Rightarrow> 'l controller \<times> ctl_body http_response outcome" where
  "controller_serve metrics env r s =
     (if hr_path r = ''/metrics'' then (s, Ret metrics) else controller_handler env r [] s)"

text \<open>A scheduled experiment whose time has come.\<close>

definition fire_scheduled :: "'l ctl_env \<Rightarrow> gtime \<times> experiment_request \<Rightarrow> 'l controller \<Rightarrow> 'l controller" where
  "fire_scheduled env te s =
     dispatch_experiment env (snd te) (s\<lparr>ct_scheduled := remove1 te (ct_scheduled s)\<rparr>)"

end
