(* ===== verification/Pipeline.thy ===== *)
theory Pipeline
  imports Experiments Controller
begin

text \<open>
  The controller and the agent together: what an agent does with the requests that the controller
  sends it. The controller serves requests and fires scheduled experiments in any order
  (\<open>ctl_run\<close>); each request to an agent is decoded and run by the agent's own code.
\<close>

subsection \<open>From one end of the wire to the other\<close>

definition injection_of :: "experiment_request \<Rightarrow> injection_request" where
  "injection_of e = \<lparr>ir_experiment_type = er_experiment_type e, ir_duration = er_duration e,
     ir_delay_ms = er_delay_ms e, ir_loss_percent = er_loss_percent e, ir_cpu_workers = er_cpu_workers e,
     ir_mem_size_mb = er_mem_size_mb e, ir_kill_process = er_kill_process e\<rparr>"

definition int_range :: "int \<Rightarrow> bool" where
  "int_range i \<longleftrightarrow> min_i64 \<le> i \<and> i \<le> max_i64"

text \<open>Every field of type \<open>int\<close> is one.\<close>

definition experiment_ok :: "experiment_request \<Rightarrow> bool" where
  "experiment_ok e \<longleftrightarrow> int_range (er_duration e) \<and> int_range (er_delay_ms e) \<and> int_range (er_loss_percent e) \<and>
     int_range (er_cpu_workers e) \<and> int_range (er_mem_size_mb e) \<and> int_range (er_agent_count e)"

lemma to_lower_names [simp]:
  "to_lower ''name'' = ''name''" "to_lower ''description'' = ''description''" "to_lower ''target'' = ''target''"
  "to_lower ''start_time'' = ''start_time''" "to_lower ''parallel'' = ''parallel''"
  "to_lower ''agent_count'' = ''agent_count''" "to_lower ''experiment_type'' = ''experiment_type''"
  "to_lower ''duration'' = ''duration''" "to_lower ''delay_ms'' = ''delay_ms''"
  "to_lower ''loss_percent'' = ''loss_percent''" "to_lower ''cpu_workers'' = ''cpu_workers''"
  "to_lower ''mem_size_mb'' = ''mem_size_mb''" "to_lower ''kill_process'' = ''kill_process''"
  by code_simp+

lemma find_injection_field:
  "find_field ''name'' injection_fields = None" "find_field ''description'' injection_fields = None"
  "find_field ''target'' injection_fields = None" "find_field ''start_time'' injection_fields = None"
  "find_field ''parallel'' injection_fields = None" "find_field ''agent_count'' injection_fields = None"
  by (simp_all add: find_field_def injection_fields_def)

lemma wire_roundtrip:
  assumes "encode_experiment time_str e = Some d" and "experiment_ok e"
  shows "decode_injection d = Some (injection_of e)"
proof -
  obtain t where d: "d = json_struct [
     (''name'', JStr (er_name e)), (''description'', JStr (er_description e)),
     (''experiment_type'', JStr (er_experiment_type e)), (''target'', JStr (er_target e)),
     (''duration'', JInt (er_duration e)), (''delay_ms'', JInt (er_delay_ms e)),
     (''loss_percent'', JInt (er_loss_percent e)), (''cpu_workers'', JInt (er_cpu_workers e)),
     (''mem_size_mb'', JInt (er_mem_size_mb e)), (''kill_process'', JStr (er_kill_process e)),
     (''start_time'', JStr t), (''parallel'', JBool (er_parallel e)), (''agent_count'', JInt (er_agent_count e))]"
    using assms(1) by (auto simp: encode_experiment_def)
  have "json_parse d = Some (JObj [
     (''name'', JStr (er_name e)), (''description'', JStr (er_description e)),
     (''experiment_type'', JStr (er_experiment_type e)), (''target'', JStr (er_target e)),
     (''duration'', JInt (er_duration e)), (''delay_ms'', JInt (er_delay_ms e)),
     (''loss_percent'', JInt (er_loss_percent e)), (''cpu_workers'', JInt (er_cpu_workers e)),
     (''mem_size_mb'', JInt (er_mem_size_mb e)), (''kill_process'', JStr (er_kill_process e)),
     (''start_time'', JStr t), (''parallel'', JBool (er_parallel e)), (''agent_count'', JInt (er_agent_count e))])"
    unfolding d by (subst json_parse_struct) simp_all
  then show ?thesis
    using assms(2)
    by (simp add: decode_injection_def decode_struct_def find_injection_field)
      (simp add: find_field_def injection_fields_def dec_defs zero_injection_def injection_of_def
        experiment_ok_def int_range_def)
qed

subsection \<open>What decoding guarantees\<close>

lemma find_SomeD: "find P xs = Some x \<Longrightarrow> x \<in> set xs \<and> P x"
  by (induction xs) (auto split: if_splits)

lemma find_field_mem: "find_field k fs = Some f \<Longrightarrow> f \<in> set fs"
  by (auto simp: find_field_def dest: find_SomeD split: option.splits)

lemma decode_members_pres:
  assumes "\<And>f v r r'. f \<in> set fs \<Longrightarrow> P r \<Longrightarrow> snd f v r = Some r' \<Longrightarrow> P r'"
  shows "decode_members fs ms r = Some r' \<Longrightarrow> P r \<Longrightarrow> P r'"
proof (induction ms arbitrary: r)
  case (Cons m ms)
  obtain k v where m: "m = (k, v)" by (cases m)
  show ?case
  proof (cases "find_field k fs")
    case (Some f)
    with Cons.prems m obtain r1 where "snd f v r = Some r1" "decode_members fs ms r1 = Some r'"
      by (auto split: option.splits)
    then show ?thesis using Cons assms [OF find_field_mem [OF Some]] by blast
  qed (use Cons m in simp)
qed simp

definition decoder_keeps :: "('r \<Rightarrow> bool) \<Rightarrow> (json \<Rightarrow> 'r \<Rightarrow> 'r option) \<Rightarrow> bool" where
  "decoder_keeps P f \<longleftrightarrow> (\<forall>v r r'. P r \<longrightarrow> f v r = Some r' \<longrightarrow> P r')"

lemma decoder_keeps_dec:
  "(\<And>s r. P (set_field s r) = P r) \<Longrightarrow> decoder_keeps P (dec_str set_field)"
  "(\<And>b r. P (set_bool b r) = P r) \<Longrightarrow> decoder_keeps P (dec_bool set_bool)"
  "(\<And>i r. int_range i \<Longrightarrow> P r \<Longrightarrow> P (set_int i r)) \<Longrightarrow> decoder_keeps P (dec_int set_int)"
  by (auto simp: decoder_keeps_def dec_defs int_range_def split: json.splits if_splits)

lemma decoded_experiment_ok: "decode_experiment pt body = Some e \<Longrightarrow> experiment_ok e"
proof -
  assume a: "decode_experiment pt body = Some e"
  have time: "decoder_keeps experiment_ok (\<lambda>v r. case v of JNull \<Rightarrow> Some r
        | JStr s \<Rightarrow> map_option (\<lambda>t. r\<lparr>er_start_time := t\<rparr>) (pt s) | _ \<Rightarrow> None)"
    by (auto simp: decoder_keeps_def experiment_ok_def split: json.splits)
  have "list_all (\<lambda>f. decoder_keeps experiment_ok (snd f)) (experiment_fields pt)"
    unfolding experiment_fields_def list.pred_inject snd_conv
    by (intro conjI time decoder_keeps_dec TrueI) (simp_all add: experiment_ok_def)
  then have field: "experiment_ok r'"
    if "f \<in> set (experiment_fields pt)" "experiment_ok r" "snd f v r = Some r'" for f v r r'
    using that by (auto simp: list_all_iff decoder_keeps_def)
  have z: "experiment_ok zero_experiment"
    by (simp add: experiment_ok_def zero_experiment_def int_range_def min_i64_def max_i64_def)
  from a obtain v where "decode_struct (experiment_fields pt) v zero_experiment = Some e"
    by (auto simp: decode_experiment_def split: option.splits)
  then consider "e = zero_experiment" | ms where "decode_members (experiment_fields pt) ms zero_experiment = Some e"
    by (cases v) (simp_all add: decode_struct_def)
  then show ?thesis
  proof cases
    case 2
    show ?thesis by (rule decode_members_pres [where P = experiment_ok, OF field 2 z])
  qed (simp add: z)
qed

subsection \<open>The library's validator\<close>

text \<open>What the tags mean (the validator's documentation); lengths are counted in runes.\<close>

definition rune_count :: "string \<Rightarrow> nat" where
  "rune_count s = length (filter (\<lambda>c. \<not> (128 \<le> (of_char c :: nat) \<and> (of_char c :: nat) < 192)) s)"

fun tag_holds :: "(string \<Rightarrow> field_val \<Rightarrow> bool) \<Rightarrow> vtag \<Rightarrow> field_val \<Rightarrow> bool" where
  "tag_holds custom VRequired (FStr s) = (s \<noteq> [])"
| "tag_holds custom VRequired (FInt i) = (i \<noteq> 0)"
| "tag_holds custom (VMin n) (FStr s) = (n \<le> int (rune_count s))"
| "tag_holds custom (VMin n) (FInt i) = (n \<le> i)"
| "tag_holds custom (VMax n) (FStr s) = (int (rune_count s) \<le> n)"
| "tag_holds custom (VMax n) (FInt i) = (i \<le> n)"
| "tag_holds custom (VCustom c) v = custom c v"

definition validator_documented :: "struct_check \<Rightarrow> bool" where
  "validator_documented check \<longleftrightarrow> (\<forall>custom fs. check custom fs = [] \<longleftrightarrow>
     list_all (\<lambda>(f, v, ts). list_all (\<lambda>t. tag_holds custom t v) ts) fs)"

text \<open>An implementation that reports the first tag that fails of each field.\<close>

definition first_failures :: struct_check where
  "first_failures custom fs = List.map_filter (\<lambda>(f, v, ts).
     map_option (\<lambda>t. (f, v, t)) (find (\<lambda>t. \<not> tag_holds custom t v) ts)) fs"

lemma first_failures_documented: "validator_documented first_failures"
proof -
  have "first_failures custom fs = [] \<longleftrightarrow> list_all (\<lambda>(f, v, ts). list_all (\<lambda>t. tag_holds custom t v) ts) fs" for custom fs
    by (induction fs) (auto simp: first_failures_def find_None_iff list_all_iff split: option.split
        dest: find_SomeD)
  then show ?thesis by (simp add: validator_documented_def)
qed

lemma validated_type:
  "validator_documented check \<Longrightarrow> validate_request check e = None \<Longrightarrow>
   er_experiment_type e \<in> set valid_experiment_types"
  by (auto simp: validate_request_def validator_documented_def Let_def experiment_tags_def registered_validators_def
      validate_experiment_type_def split: if_splits)

subsection \<open>Runs of the controller\<close>

datatype 'l ctl_event =
    CtRequest "ctl_body http_response" "'l ctl_env" body_request
  | CtFire "'l ctl_env" "gtime \<times> experiment_request"
  | CtCleanup gtime

fun ctl_step :: "'l controller \<Rightarrow> 'l ctl_event \<Rightarrow> 'l controller" where
  "ctl_step s (CtRequest m env r) = fst (controller_serve m env r s)"
| "ctl_step s (CtFire env te) =
     (if te \<in> set (ct_scheduled s) \<and> fst te \<le> ce_now env then fire_scheduled env te s else s)"
| "ctl_step s (CtCleanup now) = cleanup_limiters now s"

definition ctl_run :: "rate_config option \<Rightarrow> 'l ctl_event list \<Rightarrow> 'l controller" where
  "ctl_run c evs = foldl ctl_step (new_controller c) evs"

text \<open>The validation middleware looks for this in the content type.\<close>

definition json_content :: "body_request \<Rightarrow> bool" where
  "json_content r \<longleftrightarrow> contains (header_get (hr_headers r) ''Content-Type'') ''application/json''"

text \<open>\<open>keeps Q P h\<close>: the handler keeps \<open>P\<close> of the state on the requests with \<open>Q\<close>.\<close>

definition keeps :: "(body_request \<Rightarrow> bool) \<Rightarrow> ('l controller \<Rightarrow> bool) \<Rightarrow> 'l handler \<Rightarrow> bool" where
  "keeps Q P h \<longleftrightarrow> (\<forall>r hs s. Q r \<longrightarrow> P s \<longrightarrow> P (fst (h r hs s)))"

named_theorems keeps_intros "middleware keeps what the handler below it keeps"

lemma keeps_request_id [keeps_intros]: "keeps Q P h \<Longrightarrow> keeps Q P (request_id_middleware env h)"
  by (simp add: keeps_def request_id_middleware_def Let_def)

lemma keeps_cors [keeps_intros]: "keeps Q P h \<Longrightarrow> keeps Q P (cors_middleware h)"
  by (simp add: keeps_def cors_middleware_def Let_def)

lemma keeps_security [keeps_intros]: "keeps Q P h \<Longrightarrow> keeps Q P (security_headers_middleware h)"
  by (simp add: keeps_def security_headers_middleware_def Let_def)

lemma keeps_conditional [keeps_intros]: "keeps Q P h \<Longrightarrow> keeps Q P (conditional_get_middleware env h)"
  by (simp add: keeps_def conditional_get_middleware_def Let_def)

lemma keeps_rate_limit [keeps_intros]:
  assumes "\<And>s ls. P (s\<lparr>ct_limiters := ls\<rparr>) = P s" and "keeps Q P h"
  shows "keeps Q P (rate_limit_middleware env h)"
  using assms
  by (auto simp: keeps_def rate_limit_middleware_def get_limiter_def Let_def split: prod.split)

lemma keeps_validation:
  assumes "keeps (\<lambda>r. json_content r \<and> (hr_method r = ''POST'' \<longrightarrow> br_validator r)) P h"
  shows "keeps json_content P (validation_middleware h)"
  using assms by (auto simp: keeps_def validation_middleware_def json_content_def)

subsection \<open>Experiments no agent runs\<close>

text \<open>A request body that an agent accepts and answers with no command at all.\<close>

definition inert_post :: "string \<Rightarrow> bool" where
  "inert_post d \<longleftrightarrow> (\<exists>req. decode_injection d = Some req \<and> ir_experiment_type req \<in> set valid_experiment_types)"

definition inert_experiment :: "experiment_request \<Rightarrow> bool" where
  "inert_experiment e \<longleftrightarrow> er_experiment_type e \<in> set valid_experiment_types \<and> experiment_ok e"

definition inert :: "'l controller \<Rightarrow> bool" where
  "inert s \<longleftrightarrow> (\<forall>(t, e) \<in> set (ct_scheduled s). inert_experiment e) \<and> (\<forall>(u, d) \<in> set (ct_posts s). inert_post d)"

lemma inert_limiters [simp]: "inert (s\<lparr>ct_limiters := ls\<rparr>) = inert s"
  and inert_experiments [simp]: "inert (s\<lparr>ct_experiments := es\<rparr>) = inert s"
  by (simp_all add: inert_def)

lemma types_disjoint: "set valid_experiment_types \<inter> set known_types = {}"
  by (simp add: valid_experiment_types_def known_types_def)

lemma inert_post_runs_nothing: "inert_post d \<Longrightarrow> \<exists>req. decode_injection d = Some req \<and> simulate_injection ps pick req = []"
  unfolding inert_post_def using simulate_unknown types_disjoint by blast

lemma posts_dispatch:
  "ct_posts (dispatch_experiment env e s) = ct_posts s @ (case encode_experiment (ce_time_str env) e of None \<Rightarrow> []
     | Some d \<Rightarrow> map (\<lambda>u. (u, d)) (dispatch_targets (get_agent_endpoints (ce_agent_endpoints env)) e))"
  "ct_scheduled (dispatch_experiment env e s) = ct_scheduled s"
proof -
  have "ct_posts (foldl (\<lambda>s u. make_agent_request u d s) s us) = ct_posts s @ map (\<lambda>u. (u, d)) us \<and>
      ct_scheduled (foldl (\<lambda>s u. make_agent_request u d s) s us) = ct_scheduled s" for d us
    by (induction us arbitrary: s) (simp_all add: make_agent_request_def)
  then show "ct_posts (dispatch_experiment env e s) = ct_posts s @ (case encode_experiment (ce_time_str env) e of None \<Rightarrow> []
     | Some d \<Rightarrow> map (\<lambda>u. (u, d)) (dispatch_targets (get_agent_endpoints (ce_agent_endpoints env)) e))"
    "ct_scheduled (dispatch_experiment env e s) = ct_scheduled s"
    by (simp_all add: dispatch_experiment_def split: option.split)
qed

lemma inert_dispatch: "inert s \<Longrightarrow> inert_experiment e \<Longrightarrow> inert (dispatch_experiment env e s)"
  using wire_roundtrip [of "ce_time_str env" e]
  by (auto simp: inert_def posts_dispatch inert_experiment_def inert_post_def injection_of_def split: option.splits)

lemma keeps_start:
  assumes "validator_documented (ce_check env)"
  shows "keeps (\<lambda>r. hr_method r = ''POST'' \<longrightarrow> br_validator r) inert (start_experiment_handler env)"
  unfolding keeps_def
proof (intro allI impI)
  fix r :: body_request and hs :: headers and s :: "'a controller"
  assume q: "hr_method r = ''POST'' \<longrightarrow> br_validator r" and s: "inert s"
  show "inert (fst (start_experiment_handler env r hs s))"
  proof (cases "hr_method r = ''POST'' \<and> (\<exists>body e. br_body r = Some body \<and>
      decode_experiment (ce_parse_time env) body = Some e \<and> validate_request (ce_check env) e = None)")
    case True
    then obtain body e where e: "br_body r = Some body" "decode_experiment (ce_parse_time env) body = Some e"
      "validate_request (ce_check env) e = None" by blast
    then have i: "inert_experiment e"
      using validated_type [OF assms] decoded_experiment_ok by (auto simp: inert_experiment_def)
    have "inert (s\<lparr>ct_experiments := es, ct_scheduled := ct_scheduled s @ [(t, e)]\<rparr>)" for es t
      using s i by (auto simp: inert_def)
    then show ?thesis
      using True q e i s by (auto simp: start_experiment_handler_def Let_def intro: inert_dispatch)
  next
    case False
    then show ?thesis
      using q s by (auto simp: start_experiment_handler_def Let_def split: option.split)
  qed
qed

lemma keeps_mux:
  "validator_documented (ce_check env) \<Longrightarrow>
   keeps (\<lambda>r. hr_method r = ''POST'' \<longrightarrow> br_validator r) inert (register_handlers env)"
  using keeps_start [of env]
  by (auto simp: keeps_def register_handlers_def stop_experiment_handler_def experiments_handler_def)

lemma keeps_controller:
  assumes "validator_documented (ce_check env)"
  shows "keeps json_content inert (controller_handler env)"
  unfolding controller_handler_def
proof (intro keeps_intros keeps_validation)
  show "keeps (\<lambda>r. json_content r \<and> (hr_method r = ''POST'' \<longrightarrow> br_validator r)) inert (register_handlers env)"
    using keeps_mux [OF assms] by (auto simp: keeps_def)
qed simp

fun json_event :: "'l ctl_event \<Rightarrow> bool" where
  "json_event (CtRequest m env r) = (json_content r \<and> validator_documented (ce_check env))"
| "json_event _ = True"

lemma inert_step: "inert s \<Longrightarrow> json_event ev \<Longrightarrow> inert (ctl_step s ev)"
proof (cases ev)
  case (CtRequest m env r)
  assume "inert s" "json_event ev"
  then show ?thesis using keeps_controller [of env] by (simp add: CtRequest controller_serve_def keeps_def)
next
  case (CtFire env te)
  assume s: "inert s" "json_event ev"
  show ?thesis
  proof (cases "te \<in> set (ct_scheduled s)")
    case True
    then have "inert_experiment (snd te)" using s by (auto simp: inert_def)
    moreover have "inert (s\<lparr>ct_scheduled := remove1 te (ct_scheduled s)\<rparr>)"
      using s set_remove1_subset [of te "ct_scheduled s"] by (auto simp: inert_def)
    ultimately show ?thesis using s by (simp add: CtFire fire_scheduled_def inert_dispatch)
  qed (use s CtFire in simp)
qed (simp add: cleanup_limiters_def)

lemma inert_run: "list_all json_event evs \<Longrightarrow> inert (ctl_run c evs)"
proof -
  have "inert (foldl ctl_step s evs)" if "inert s" "list_all json_event evs" for s
    using that by (induction evs arbitrary: s) (auto simp: inert_step)
  moreover have "inert (new_controller c)" by (simp add: inert_def new_controller_def)
  ultimately show "list_all json_event evs \<Longrightarrow> inert (ctl_run c evs)" by (simp add: ctl_run_def)
qed

subsection \<open>Properties\<close>

text \<open>C13: when every request declares JSON content, so that the controller validates it, no agent ever
  runs a command: in any run of requests, scheduled starts and cleanups, each request sent to an
  agent is accepted by it and answered with an empty experiment. The controller only lets types
  spelt with underscores through, and the agent only knows types spelt with hyphens.\<close>

theorem validated_experiments_run_nothing:
  assumes "list_all json_event evs" and "(url, d) \<in> set (ct_posts (ctl_run c evs))"
  shows "\<exists>req. decode_injection d = Some req \<and> simulate_injection ps pick req = []"
  by (rule inert_post_runs_nothing) (use inert_run [OF assms(1), of c] assms(2) in \<open>auto simp: inert_def\<close>)

definition free_rate :: "unit rate_lib" where
  "free_rate = \<lparr>rl_new = (\<lambda>r b. ()), rl_allow = (\<lambda>t l. (l, True)), rl_limit = (\<lambda>l. 100), rl_tokens = (\<lambda>t l. 9)\<rparr>"

definition sample_env :: "unit ctl_env" where
  "sample_env = \<lparr>ce_now = 62135596800000000000, ce_random_id = ''r'', ce_agent_endpoints = ''http://a, http://b'',
     ce_parse_time = (\<lambda>s. None), ce_time_str = (\<lambda>t. Some ''T''), ce_float_str = (\<lambda>q. ''9''), ce_rate = free_rate,
     ce_check = first_failures, ce_health = (\<lambda>r hs. \<lparr>rs_status = 200, rs_headers = hs, rs_body = CbEmpty\<rparr>)\<rparr>"

definition sample_page :: "ctl_body http_response" where
  "sample_page = \<lparr>rs_status = 200, rs_headers = [], rs_body = CbText []\<rparr>"

definition sample_request :: "string \<Rightarrow> string \<Rightarrow> body_request" where
  "sample_request content ty = \<lparr>hr_method = ''POST'', hr_path = ''/start'',
     hr_headers = [(''Content-Type'', content)], hr_remote = [],
     br_body = Some (json_struct [(''name'', JStr ''n''), (''experiment_type'', JStr ty), (''target'', JStr ''t''),
       (''duration'', JInt 5), (''agent_count'', JInt 1)]),
     br_query_key = [], br_validator = False\<rparr>"

definition sample_experiment :: "string \<Rightarrow> experiment_request" where
  "sample_experiment ty = zero_experiment\<lparr>er_name := ''n'', er_experiment_type := ty, er_target := ''t'',
     er_duration := 5, er_agent_count := 1\<rparr>"

lemma sample_decodes:
  "decode_experiment (ce_parse_time sample_env) (the (br_body (sample_request content ty))) = Some (sample_experiment ty)"
proof -
  have "json_parse (the (br_body (sample_request content ty))) = Some (JObj [(''name'', JStr ''n''),
      (''experiment_type'', JStr ty), (''target'', JStr ''t''), (''duration'', JInt 5), (''agent_count'', JInt 1)])"
    by (simp add: sample_request_def json_parse_struct)
  then show ?thesis
    by (simp add: decode_experiment_def decode_struct_def)
      (simp add: find_field_def experiment_fields_def dec_defs sample_experiment_def zero_experiment_def
        min_i64_def max_i64_def)
qed

text \<open>The rate limiter passes a request on, or answers it itself when the limiter denies it.\<close>

lemma rate_limit_cases:
  "(\<exists>hs' ls. rate_limit_middleware env h r hs s = h r hs' (s\<lparr>ct_limiters := ls\<rparr>)) \<or>
   (\<exists>ls out l. rate_limit_middleware env h r hs s = (s\<lparr>ct_limiters := ls\<rparr>, out) \<and>
      (\<forall>resp. out = Ret resp \<longrightarrow> rs_status resp = 429) \<and> \<not> snd (rl_allow (ce_rate env) (ce_now env) l))"
proof -
  define key where "key = (if extract_api_key r = [] then ''anonymous'' else extract_api_key r)"
  define role where "role = extract_role r key"
  obtain ls l where g: "get_limiter env key role s = (s\<lparr>ct_limiters := ls\<rparr>, l)"
    by (simp add: get_limiter_def Let_def)
  obtain lim ok where a: "rl_allow (ce_rate env) (ce_now env) (lm_limiter l) = (lim, ok)" by fastforce
  show ?thesis
  proof (cases ok)
    case True
    have "\<exists>hs' ls. rate_limit_middleware env h r hs s = h r hs' (s\<lparr>ct_limiters := ls\<rparr>)"
      unfolding rate_limit_middleware_def Let_def key_def [symmetric] role_def [symmetric]
      by (simp add: g a True) (intro exI, rule refl)
    then show ?thesis by blast
  next
    case False
    have "\<exists>ls out. rate_limit_middleware env h r hs s = (s\<lparr>ct_limiters := ls\<rparr>, out) \<and>
        (\<forall>resp. out = Ret resp \<longrightarrow> rs_status resp = 429)"
      unfolding rate_limit_middleware_def Let_def key_def [symmetric] role_def [symmetric]
      by (simp add: g a False) (intro exI, rule refl)
    moreover have "\<not> snd (rl_allow (ce_rate env) (ce_now env) (lm_limiter l))" using a False by simp
    ultimately show ?thesis by blast
  qed
qed

lemma controller_reaches_limiter:
  assumes "hr_method r \<noteq> ''OPTIONS''"
  shows "\<exists>hs. controller_handler env r [] s = rate_limit_middleware env
    (validation_middleware (conditional_get_middleware env (register_handlers env))) r hs s"
proof -
  have 1: "\<exists>hs'. request_id_middleware env h r hs s = h r hs' s" for h hs
    unfolding request_id_middleware_def Let_def by (rule exI, rule refl)
  have 2: "\<exists>hs'. cors_middleware h r hs s = h r hs' s" for h hs
    unfolding cors_middleware_def Let_def by (simp add: assms) (rule exI, rule refl)
  have 3: "\<exists>hs'. security_headers_middleware h r hs s = h r hs' s" for h hs
    unfolding security_headers_middleware_def Let_def by (rule exI, rule refl)
  show ?thesis unfolding controller_handler_def using 1 2 3 by metis
qed

text \<open>What the chain does with a POST to a handler: refuse it, or pass it on.\<close>

lemma controller_post:
  assumes "hr_method r = ''POST''"
  shows "(\<exists>hs ls. controller_handler env r [] s = register_handlers env
        (if json_content r then r\<lparr>br_validator := True\<rparr> else r) hs (s\<lparr>ct_limiters := ls\<rparr>)) \<or>
    (\<exists>ls out l. controller_handler env r [] s = (s\<lparr>ct_limiters := ls\<rparr>, out) \<and>
        (\<forall>resp. out = Ret resp \<longrightarrow> rs_status resp = 429) \<and> \<not> snd (rl_allow (ce_rate env) (ce_now env) l))"
proof -
  let ?h = "validation_middleware (conditional_get_middleware env (register_handlers env))"
  have pass: "?h r hs s' = register_handlers env (if json_content r then r\<lparr>br_validator := True\<rparr> else r) hs s'" for hs s'
    using assms by (simp add: validation_middleware_def conditional_get_middleware_def json_content_def)
  obtain hs where c: "controller_handler env r [] s = rate_limit_middleware env ?h r hs s"
    using controller_reaches_limiter [of r env s] assms by auto
  from rate_limit_cases [of env ?h r hs s] show ?thesis unfolding c pass by blast
qed

lemma start_accepted:
  assumes "hr_method r = ''POST''" and "hr_path r = ''/start''" and "br_body r = Some body"
    and "decode_experiment (ce_parse_time env) body = Some e"
    and "\<not> br_validator r \<or> validate_request (ce_check env) e = None"
  shows "\<exists>resp. register_handlers env r hs s =
    ((let s = s\<lparr>ct_experiments := ct_experiments s @ [e]\<rparr> in
      if er_start_time e \<noteq> 0 \<and> er_start_time e > ce_now env
      then s\<lparr>ct_scheduled := ct_scheduled s @ [(er_start_time e, e)]\<rparr> else dispatch_experiment env e s), Ret resp) \<and>
    rs_status resp = 200"
  using assms by (auto simp: register_handlers_def start_experiment_handler_def Let_def)

text \<open>C14: a start request that does not declare JSON content is never validated: when it is accepted
  and not scheduled for later, every agent chosen for it receives the experiment exactly as it was
  requested, with any type and any values, and runs it. So this is how the agent's own types are
  reached at all.\<close>

theorem unvalidated_start_reaches_agents:
  assumes "hr_method r = ''POST''" and "hr_path r = ''/start''" and "\<not> json_content r" and "\<not> br_validator r"
    and "br_body r = Some body" and "decode_experiment (ce_parse_time env) body = Some e"
    and "er_start_time e = 0 \<or> er_start_time e \<le> ce_now env"
    and "encode_experiment (ce_time_str env) e = Some d"
    and "controller_handler env r [] s = (s', Ret resp)" and "rs_status resp = 200"
  shows "ct_posts s' = ct_posts s @ map (\<lambda>u. (u, d)) (dispatch_targets (get_agent_endpoints (ce_agent_endpoints env)) e) \<and>
    dispatch_targets (get_agent_endpoints (ce_agent_endpoints env)) e \<noteq> [] \<and>
    decode_injection d = Some (injection_of e) \<and>
    (simulate_injection ps pick (injection_of e) = [] \<longleftrightarrow> er_experiment_type e \<notin> set known_types)"
proof -
  obtain hs ls where h: "controller_handler env r [] s = register_handlers env r hs (s\<lparr>ct_limiters := ls\<rparr>)"
    using controller_post [OF assms(1), of env s] assms(3,9,10) by auto
  have "s' = dispatch_experiment env e (s\<lparr>ct_limiters := ls, ct_experiments := ct_experiments s @ [e]\<rparr>)"
    using start_accepted [of r body env e hs "s\<lparr>ct_limiters := ls\<rparr>"] h assms(1-7,9) by auto
  then have "ct_posts s' = ct_posts s @ map (\<lambda>u. (u, d)) (dispatch_targets (get_agent_endpoints (ce_agent_endpoints env)) e)"
    by (simp add: posts_dispatch assms(8))
  moreover have "dispatch_targets eps e \<noteq> []" for eps by (simp add: dispatch_targets_def)
  moreover have "decode_injection d = Some (injection_of e)"
    by (rule wire_roundtrip [OF assms(8) decoded_experiment_ok [OF assms(6)]])
  moreover have "simulate_injection ps pick (injection_of e) = [] \<longleftrightarrow> er_experiment_type e \<notin> set known_types"
    using simulate_unknown [of "injection_of e"] simulate_known [of "injection_of e"] by (auto simp: injection_of_def)
  ultimately show ?thesis by blast
qed

lemma sample_passes:
  "\<exists>hs ls. controller_handler sample_env (sample_request content ty) [] s = register_handlers sample_env
     (if json_content (sample_request content ty) then (sample_request content ty)\<lparr>br_validator := True\<rparr>
      else sample_request content ty) hs (s\<lparr>ct_limiters := ls\<rparr>)"
proof -
  have "hr_method (sample_request content ty) = ''POST''" by (simp add: sample_request_def)
  moreover have "snd (rl_allow (ce_rate sample_env) t l)" for t l by (simp add: sample_env_def free_rate_def)
  ultimately show ?thesis using controller_post [of "sample_request content ty" sample_env s] by blast
qed

lemma sample_content:
  "json_content (sample_request ''application/json'' ty)" "\<not> json_content (sample_request ''text/plain'' ty)"
  by (simp_all add: json_content_def sample_request_def header_get_def)

lemma sample_valid: "validate_request first_failures (sample_experiment ''network_latency'') = None"
proof -
  have "first_failures registered_validators (experiment_tags (sample_experiment ''network_latency'')) = []"
    by code_simp
  then show ?thesis by (simp add: validate_request_def)
qed

lemma sample_run:
  assumes "content = ''application/json'' \<and> ty = ''network_latency'' \<or> content = ''text/plain''"
  shows "\<exists>d resp s'. encode_experiment (ce_time_str sample_env) (sample_experiment ty) = Some d \<and>
    controller_handler sample_env (sample_request content ty) [] (new_controller None) = (s', Ret resp) \<and>
    rs_status resp = 200 \<and> ct_posts s' = [(''http://a'', d)]"
proof -
  let ?r = "if json_content (sample_request content ty) then (sample_request content ty)\<lparr>br_validator := True\<rparr>
      else sample_request content ty"
  obtain hs ls where h: "controller_handler sample_env (sample_request content ty) [] (new_controller None) =
      register_handlers sample_env ?r hs ((new_controller None)\<lparr>ct_limiters := ls\<rparr>)"
    using sample_passes by blast
  obtain d where d: "encode_experiment (ce_time_str sample_env) (sample_experiment ty) = Some d"
    by (simp add: encode_experiment_def sample_env_def)
  have v: "\<not> br_validator ?r \<or> validate_request (ce_check sample_env) (sample_experiment ty) = None"
    using assms sample_content sample_valid by (auto simp: sample_request_def sample_env_def)
  have "\<exists>resp. register_handlers sample_env ?r hs ((new_controller None)\<lparr>ct_limiters := ls\<rparr>) =
      ((let s = ((new_controller None)\<lparr>ct_limiters := ls\<rparr>)\<lparr>ct_experiments := [] @ [sample_experiment ty]\<rparr> in
        dispatch_experiment sample_env (sample_experiment ty) s), Ret resp) \<and> rs_status resp = 200"
    using start_accepted [of ?r "the (br_body (sample_request content ty))" sample_env "sample_experiment ty" hs
        "(new_controller None)\<lparr>ct_limiters := ls\<rparr>"] v sample_decodes [of content ty]
    by (simp add: sample_request_def sample_experiment_def zero_experiment_def new_controller_def)
  then show ?thesis
    using h d
    by (auto simp: posts_dispatch new_controller_def dispatch_targets_def sample_experiment_def zero_experiment_def
        get_agent_endpoints_def sample_env_def trim_space_def is_space_def)
qed

theorem validated_experiments_run_nothing_witness:
  "\<exists>d req. ct_posts (ctl_run None [CtRequest sample_page sample_env (sample_request ''application/json'' ''network_latency'')]) =
     [(''http://a'', d)] \<and> decode_injection d = Some req \<and> simulate_injection None id req = []"
proof -
  let ?evs = "[CtRequest sample_page sample_env (sample_request ''application/json'' ''network_latency'')]"
  obtain d where d: "ct_posts (ctl_run None ?evs) = [(''http://a'', d)]"
    using sample_run [of "''application/json''" "''network_latency''"] by (auto simp: ctl_run_def controller_serve_def sample_request_def)
  have "list_all json_event ?evs"
    by (simp add: sample_content) (simp add: sample_env_def first_failures_documented)
  from validated_experiments_run_nothing [OF this, of "''http://a''" d None None id] d show ?thesis by auto
qed

theorem unvalidated_start_reaches_agents_witness:
  "\<exists>d. ct_posts (ctl_run None [CtRequest sample_page sample_env (sample_request ''text/plain'' ''network-latency'')]) =
     [(''http://a'', d)] \<and> decode_injection d = Some (injection_of (sample_experiment ''network-latency'')) \<and>
     simulate_injection None id (injection_of (sample_experiment ''network-latency'')) \<noteq> []"
proof -
  let ?r = "sample_request ''text/plain'' ''network-latency''"
  obtain d resp s' where d: "encode_experiment (ce_time_str sample_env) (sample_experiment ''network-latency'') = Some d"
    and h: "controller_handler sample_env ?r [] (new_controller None) = (s', Ret resp)" "rs_status resp = 200"
    and p: "ct_posts s' = [(''http://a'', d)]"
    using sample_run [of "''text/plain''" "''network-latency''"] by blast
  have r: "hr_method ?r = ''POST''" "hr_path ?r = ''/start''" "\<not> br_validator ?r"
    "br_body ?r = Some (the (br_body ?r))" by (simp_all add: sample_request_def)
  have st: "er_start_time (sample_experiment ''network-latency'') = 0 \<or>
      er_start_time (sample_experiment ''network-latency'') \<le> ce_now sample_env"
    by (simp add: sample_experiment_def zero_experiment_def)
  have "decode_injection d = Some (injection_of (sample_experiment ''network-latency'')) \<and>
      (simulate_injection None id (injection_of (sample_experiment ''network-latency'')) = [] \<longleftrightarrow>
        er_experiment_type (sample_experiment ''network-latency'') \<notin> set known_types)"
    using unvalidated_start_reaches_agents [OF r(1,2) sample_content(2) r(3,4) sample_decodes st d h] by blast
  then show ?thesis
    using p h by (simp add: ctl_run_def controller_serve_def r(2) sample_experiment_def zero_experiment_def known_types_def)
qed

end
