(* ===== verification/Rate_Limit.thy ===== *)
theory Rate_Limit
  imports Pipeline
begin

text \<open>
  What clients of the controller see of its rate limits and its conditional requests, in every run.
\<close>

subsection \<open>The rates in use\<close>

definition rates :: "rate_config \<Rightarrow> int set" where
  "rates c = insert (rc_default_rps c) (snd ` set (rc_role_rps c) \<union> snd ` set (rc_key_rps c))"

text \<open>What the limiter's documentation says of the rate of a limiter.\<close>

definition rate_documented :: "'l rate_lib \<Rightarrow> bool" where
  "rate_documented lib \<longleftrightarrow> (\<forall>r b. rl_limit lib (rl_new lib r b) = r) \<and>
     (\<forall>t l. rl_limit lib (fst (rl_allow lib t l)) = rl_limit lib l)"

definition rates_ok :: "'l rate_lib \<Rightarrow> rate_config \<Rightarrow> 'l controller \<Rightarrow> bool" where
  "rates_ok lib c s \<longleftrightarrow> ct_rate_config s = c \<and>
     (\<forall>(k, l) \<in> set (ct_limiters s). rl_limit lib (lm_limiter l) \<in> of_int ` rates c)"

lemma limiter_rps_rates: "limiter_rps c k role \<in> rates c"
  unfolding limiter_rps_def rates_def by (force split: option.split dest: map_of_SomeD intro: rev_image_eqI)

lemma rates_ok_update:
  "rates_ok lib c s \<Longrightarrow> rl_limit lib (lm_limiter l) \<in> of_int ` rates c \<Longrightarrow>
   rates_ok lib c (s\<lparr>ct_limiters := AList.update k l (ct_limiters s)\<rparr>)"
  using update_subset [of k l "ct_limiters s"] by (auto simp: rates_ok_def)

lemma get_limiter_rates:
  assumes "rates_ok (ce_rate env) c s" and "rate_documented (ce_rate env)"
    and "get_limiter env k role s = (s', l)"
  shows "rates_ok (ce_rate env) c s' \<and> rl_limit (ce_rate env) (lm_limiter l) \<in> of_int ` rates c"
proof -
  have "rl_limit (ce_rate env) (lm_limiter l) \<in> of_int ` rates c"
  proof (cases "map_of (ct_limiters s) (limiter_key k role)")
    case None
    then show ?thesis
      using assms limiter_rps_rates by (auto simp: get_limiter_def Let_def rate_documented_def rates_ok_def)
  next
    case (Some l0)
    then show ?thesis
      using assms by (auto simp: get_limiter_def Let_def rates_ok_def dest!: map_of_SomeD)
  qed
  moreover have "s' = s\<lparr>ct_limiters := AList.update (limiter_key k role) l (ct_limiters s)\<rparr>"
    using assms(3) by (auto simp: get_limiter_def Let_def)
  ultimately show ?thesis using rates_ok_update [OF assms(1)] by simp
qed

text \<open>The rate-limiting middleware in full: it either answers from the rate, or passes on.\<close>

lemma rate_limit_result:
  assumes "rates_ok (ce_rate env) c s" and "rate_documented (ce_rate env)"
  shows "\<exists>s1 n. rates_ok (ce_rate env) c s1 \<and> n \<in> rates c \<and>
    ((\<exists>hs'. rate_limit_middleware env h r hs s = h r hs' s1) \<or>
     (n = 0 \<and> rate_limit_middleware env h r hs s = (s1, Panics IntegerDivideByZero)) \<or>
     (\<exists>resp. n \<noteq> 0 \<and> rate_limit_middleware env h r hs s = (s1, Ret resp) \<and> rs_status resp = 429 \<and>
        header_get (rs_headers resp) ''Retry-After'' = itoa (go_quot second n)))"
proof -
  define key where "key = (if extract_api_key r = [] then ''anonymous'' else extract_api_key r)"
  define role where "role = extract_role r key"
  obtain s' l where g: "get_limiter env key role s = (s', l)" by fastforce
  obtain lim ok where a: "rl_allow (ce_rate env) (ce_now env) (lm_limiter l) = (lim, ok)" by fastforce
  note gl = get_limiter_rates [OF assms g]
  have "rl_limit (ce_rate env) lim = rl_limit (ce_rate env) (lm_limiter l)"
    using assms(2) a unfolding rate_documented_def by (metis fst_conv)
  then obtain n where n: "rl_limit (ce_rate env) lim = of_int n" "n \<in> rates c" using gl by auto
  let ?s1 = "s'\<lparr>ct_limiters := AList.update (limiter_key key role) (l\<lparr>lm_limiter := lim\<rparr>) (ct_limiters s')\<rparr>"
  have s1: "rates_ok (ce_rate env) c ?s1" using gl n by (intro rates_ok_update) auto
  have tr: "truncate_rat (of_int n) = n" by (simp add: truncate_rat_def)
  note mw = rate_limit_middleware_def [of env h r hs s, unfolded Let_def key_def [symmetric] role_def [symmetric]]
  consider (ok) ok | (zero) "\<not> ok" "n = 0" | (deny) "\<not> ok" "n \<noteq> 0" by blast
  then show ?thesis
  proof cases
    case ok
    then have "\<exists>hs'. rate_limit_middleware env h r hs s = h r hs' ?s1"
      unfolding mw by (simp add: g a) (rule exI, rule refl)
    with s1 n(2) show ?thesis by blast
  next
    case zero
    then have "rate_limit_middleware env h r hs s = (?s1, Panics IntegerDivideByZero)"
      unfolding mw by (simp add: g a n(1) truncate_rat_def)
    with s1 n(2) zero show ?thesis by blast
  next
    case deny
    then have "\<exists>resp. rate_limit_middleware env h r hs s = (?s1, Ret resp) \<and> rs_status resp = 429 \<and>
        header_get (rs_headers resp) ''Retry-After'' = itoa (go_quot second n)"
      unfolding mw by (simp add: g a n(1) tr http_error_def header_get_def header_set_def map_of_update map_of_delete)
    with s1 n(2) deny show ?thesis by blast
  qed
qed

subsection \<open>In every run\<close>

text \<open>Every request of the run finds the same rate library.\<close>

fun uses_lib :: "'l rate_lib \<Rightarrow> 'l ctl_event \<Rightarrow> bool" where
  "uses_lib lib (CtRequest m env r) = (ce_rate env = lib)"
| "uses_lib lib _ = True"

definition config_of :: "rate_config option \<Rightarrow> rate_config" where
  "config_of c = (case c of None \<Rightarrow> default_rate_config | Some c \<Rightarrow> c)"

lemma rates_ok_untouched:
  "ct_limiters s' = ct_limiters s \<Longrightarrow> ct_rate_config s' = ct_rate_config s \<Longrightarrow> rates_ok lib c s' = rates_ok lib c s"
  by (simp add: rates_ok_def)

lemma dispatch_keeps_limiters:
  "ct_limiters (dispatch_experiment env e s) = ct_limiters s \<and>
   ct_rate_config (dispatch_experiment env e s) = ct_rate_config s"
proof -
  have "ct_limiters (foldl (\<lambda>s u. make_agent_request u d s) s us) = ct_limiters s \<and>
      ct_rate_config (foldl (\<lambda>s u. make_agent_request u d s) s us) = ct_rate_config s" for d us
    by (induction us arbitrary: s) (simp_all add: make_agent_request_def)
  then show ?thesis by (simp add: dispatch_experiment_def split: option.split)
qed

lemma mux_keeps_limiters:
  "ct_limiters (fst (register_handlers env r hs s)) = ct_limiters s \<and>
   ct_rate_config (fst (register_handlers env r hs s)) = ct_rate_config s"
  by (simp add: dispatch_keeps_limiters register_handlers_def start_experiment_handler_def
      stop_experiment_handler_def experiments_handler_def Let_def split: option.split)

lemma keeps_rates_limit:
  assumes "rate_documented (ce_rate env)" and "keeps Q (rates_ok (ce_rate env) c) h"
  shows "keeps Q (rates_ok (ce_rate env) c) (rate_limit_middleware env h)"
  unfolding keeps_def
proof (intro allI impI)
  fix r hs s
  assume "Q r" and s: "rates_ok (ce_rate env) c s"
  obtain s1 where s1: "rates_ok (ce_rate env) c s1"
    and "(\<exists>hs'. rate_limit_middleware env h r hs s = h r hs' s1) \<or> fst (rate_limit_middleware env h r hs s) = s1"
    using rate_limit_result [OF s assms(1), of h r hs] by fastforce
  then show "rates_ok (ce_rate env) c (fst (rate_limit_middleware env h r hs s))"
    using assms(2) \<open>Q r\<close> by (auto simp: keeps_def)
qed

lemma keeps_validation_all:
  "keeps (\<lambda>r. True) P h \<Longrightarrow> keeps (\<lambda>r. True) P (validation_middleware h)"
  by (simp add: keeps_def validation_middleware_def)

lemma rates_step:
  assumes "rate_documented lib" and "rates_ok lib c s" and "uses_lib lib ev"
  shows "rates_ok lib c (ctl_step s ev)"
proof (cases ev)
  case (CtRequest m env r)
  then have env: "ce_rate env = lib" using assms(3) by simp
  have "keeps (\<lambda>r. True) (rates_ok (ce_rate env) c) (register_handlers env)"
    using mux_keeps_limiters by (fastforce simp: keeps_def rates_ok_def)
  then have "keeps (\<lambda>r. True) (rates_ok (ce_rate env) c) (controller_handler env)"
    unfolding controller_handler_def
    by (intro keeps_request_id keeps_cors keeps_security keeps_rates_limit keeps_validation_all keeps_conditional)
      (simp add: env assms(1))
  then show ?thesis using assms(2) by (simp add: CtRequest controller_serve_def keeps_def env)
next
  case (CtFire env te)
  then show ?thesis
    using assms(2) dispatch_keeps_limiters [of env "snd te"] by (simp add: fire_scheduled_def rates_ok_def)
qed (use assms(2) in \<open>auto simp: cleanup_limiters_def rates_ok_def Let_def\<close>)

lemma rates_run:
  assumes "rate_documented lib" and "list_all (uses_lib lib) evs"
  shows "rates_ok lib (config_of c) (ctl_run c evs)"
proof -
  have "rates_ok lib (config_of c) (foldl ctl_step s evs)" if "rates_ok lib (config_of c) s" for s
    using that assms(2) by (induction evs arbitrary: s) (auto intro: rates_step [OF assms(1)])
  moreover have "rates_ok lib (config_of c) (new_controller c)"
    by (simp add: rates_ok_def new_controller_def config_of_def)
  ultimately show ?thesis by (simp add: ctl_run_def)
qed

text \<open>What lies below the limiter always answers, and never with the status of the limiter.\<close>

lemma below_limiter_answers:
  assumes "\<forall>r hs. rs_status (ce_health env r hs) \<noteq> 429"
  shows "\<exists>resp. snd (validation_middleware (conditional_get_middleware env (register_handlers env)) r hs s) = Ret resp \<and>
    rs_status resp \<noteq> 429"
proof -
  have "\<exists>resp. snd (register_handlers env r hs s) = Ret resp \<and> rs_status resp \<noteq> 429" for r hs s
    using assms
    by (simp add: register_handlers_def start_experiment_handler_def stop_experiment_handler_def
        experiments_handler_def Let_def split: option.split)
  then have "\<exists>resp. snd (conditional_get_middleware env (register_handlers env) r hs s) = Ret resp \<and> rs_status resp \<noteq> 429"
    for r hs s by (simp add: conditional_get_middleware_def Let_def)
  then show ?thesis by (simp add: validation_middleware_def)
qed

lemma controller_options:
  assumes "hr_method r = ''OPTIONS''"
  shows "\<exists>hs. controller_handler env r [] s = (s, Ret \<lparr>rs_status = 200, rs_headers = hs, rs_body = CbEmpty\<rparr>)"
  using assms by (simp add: controller_handler_def request_id_middleware_def cors_middleware_def Let_def)

subsection \<open>Properties\<close>


text \<open>A limiter whose bucket is empty.\<close>

definition full_rate :: "rat rate_lib" where
  "full_rate = \<lparr>rl_new = (\<lambda>r b. r), rl_allow = (\<lambda>t l. (l, False)), rl_limit = (\<lambda>l. l), rl_tokens = (\<lambda>t l. 0)\<rparr>"

definition full_env :: "rat ctl_env" where
  "full_env = \<lparr>ce_now = 62135596800000000000, ce_random_id = ''r'', ce_agent_endpoints = [],
     ce_parse_time = (\<lambda>s. None), ce_time_str = (\<lambda>t. Some ''T''), ce_float_str = (\<lambda>q. ''9''), ce_rate = full_rate,
     ce_check = first_failures, ce_health = (\<lambda>r hs. \<lparr>rs_status = 200, rs_headers = hs, rs_body = CbEmpty\<rparr>)\<rparr>"

lemma full_rate_documented: "rate_documented full_rate"
  by (simp add: rate_documented_def full_rate_def)


subsection \<open>Conditional requests\<close>

lemma itoa_inj: "itoa i = itoa j \<Longrightarrow> i = j"
  using parse_number_itoa [of "[]" i] parse_number_itoa [of "[]" j] by (simp add: stops_def)

lemma get_experiments:
  assumes "hr_method r = ''GET''" and "hr_path r = ''/experiments''"
    and "controller_handler env r [] s = (s', Ret resp)" and "rs_status resp \<noteq> 429"
  shows "header_get (rs_headers resp) ''Etag'' = experiments_etag (ce_now env) \<and>
    (if header_get (hr_headers r) ''If-None-Match'' = experiments_etag (ce_now env)
     then rs_status resp = 304 \<and> rs_body resp = CbEmpty
     else rs_status resp = 200 \<and> rs_body resp = CbExperiments (ct_experiments s))"
proof -
  let ?h = "validation_middleware (conditional_get_middleware env (register_handlers env))"
  have "hr_method r \<noteq> ''OPTIONS''" using assms(1) by simp
  then obtain hs where c: "controller_handler env r [] s = rate_limit_middleware env ?h r hs s"
    using controller_reaches_limiter [of r env s] by blast
  obtain hs' ls where "controller_handler env r [] s = ?h r hs' (s\<lparr>ct_limiters := ls\<rparr>)"
    using rate_limit_cases [of env ?h r hs s] assms(3,4) unfolding c by auto
  then have "(s', Ret resp) = ?h r hs' (s\<lparr>ct_limiters := ls\<rparr>)" using assms(3) by simp
  moreover have "contains ''/experiments'' ''/experiments''" by code_simp
  moreover have "experiments_etag (ce_now env) \<noteq> []" "[] \<noteq> experiments_etag (ce_now env)"
    by (simp_all add: experiments_etag_def)
  ultimately show ?thesis
    using assms(1,2)
    by (auto simp: validation_middleware_def conditional_get_middleware_def register_handlers_def
        experiments_handler_def json_headers_def Let_def split: if_splits)
qed

text \<open>C25: the list of experiments under conditional requests. A client that revalidates the list with the
  entity tag it got before is answered that nothing changed exactly when both requests fall in one
  minute of the clock, whatever was started in between; after that minute it gets the whole list,
  whether or not it changed.\<close>

theorem experiments_revalidated_by_minute:
  assumes "hr_method r1 = ''GET''" and "hr_path r1 = ''/experiments''"
    and "controller_handler env1 r1 [] s1 = (s1', Ret resp1)" and "rs_status resp1 = 200"
    and "hr_method r2 = ''GET''" and "hr_path r2 = ''/experiments''"
    and "header_get (hr_headers r2) ''If-None-Match'' = header_get (rs_headers resp1) ''Etag''"
    and "controller_handler env2 r2 [] s2 = (s2', Ret resp2)" and "rs_status resp2 \<noteq> 429"
  shows "rs_body resp1 = CbExperiments (ct_experiments s1) \<and>
    (if go_quot (unix_seconds (ce_now env1)) 60 = go_quot (unix_seconds (ce_now env2)) 60
     then rs_status resp2 = 304 \<and> rs_body resp2 = CbEmpty
     else rs_status resp2 = 200 \<and> rs_body resp2 = CbExperiments (ct_experiments s2))"
proof -
  have "experiments_etag t = experiments_etag t' \<longleftrightarrow> go_quot (unix_seconds t) 60 = go_quot (unix_seconds t') 60" for t t'
    by (auto simp: experiments_etag_def dest: itoa_inj)
  then show ?thesis
    using get_experiments [OF assms(1-3)] get_experiments [OF assms(5,6,8,9)] assms(4,7)
    by (auto split: if_splits)
qed

definition list_request :: "string \<Rightarrow> body_request" where
  "list_request etag = (sample_request [] [])\<lparr>hr_method := ''GET'', hr_path := ''/experiments'',
     hr_headers := [(''If-None-Match'', etag)]\<rparr>"

lemma list_request_answered:
  "\<exists>s' resp. controller_handler sample_env (list_request etag) [] s = (s', Ret resp) \<and> rs_status resp \<noteq> 429"
proof -
  let ?h = "validation_middleware (conditional_get_middleware sample_env (register_handlers sample_env))"
  have "hr_method (list_request etag) \<noteq> ''OPTIONS''" by (simp add: list_request_def)
  then obtain hs where "controller_handler sample_env (list_request etag) [] s =
      rate_limit_middleware sample_env ?h (list_request etag) hs s"
    using controller_reaches_limiter [of "list_request etag" sample_env s] by blast
  moreover have "snd (rl_allow (ce_rate sample_env) (ce_now sample_env) l)" for l
    by (simp add: sample_env_def free_rate_def)
  ultimately obtain hs' ls where "controller_handler sample_env (list_request etag) [] s =
      ?h (list_request etag) hs' (s\<lparr>ct_limiters := ls\<rparr>)"
    using rate_limit_cases [of sample_env ?h "list_request etag" hs s] by auto
  then show ?thesis
    using below_limiter_answers [of sample_env "list_request etag" hs' "s\<lparr>ct_limiters := ls\<rparr>"]
    by (auto simp: sample_env_def prod_eq_iff)
qed

theorem experiments_revalidated_by_minute_witness:
  "\<exists>s2 s2' resp2. ct_experiments s2 \<noteq> [] \<and>
     controller_handler sample_env (list_request (experiments_etag (ce_now sample_env))) [] s2 = (s2', Ret resp2) \<and>
     rs_status resp2 = 304"
proof -
  let ?s2 = "(new_controller None)\<lparr>ct_experiments := [zero_experiment]\<rparr>"
  obtain s1' resp1 where 1: "controller_handler sample_env (list_request []) [] (new_controller None) = (s1', Ret resp1)"
    "rs_status resp1 \<noteq> 429" using list_request_answered by blast
  let ?r2 = "list_request (experiments_etag (ce_now sample_env))"
  obtain s2' resp2 where 2: "controller_handler sample_env ?r2 [] ?s2 = (s2', Ret resp2)" "rs_status resp2 \<noteq> 429"
    using list_request_answered by blast
  have get: "hr_method (list_request e) = ''GET''" "hr_path (list_request e) = ''/experiments''"
    "header_get (hr_headers (list_request e)) ''If-None-Match'' = e" for e
    by (simp_all add: list_request_def header_get_def)
  have "[] \<noteq> experiments_etag (ce_now sample_env)" by (simp add: experiments_etag_def)
  then have ok: "rs_status resp1 = 200" and "header_get (rs_headers resp1) ''Etag'' = experiments_etag (ce_now sample_env)"
    using get_experiments [OF get(1,2) 1] get(3) [of "[]"] by auto
  then have "header_get (hr_headers ?r2) ''If-None-Match'' = header_get (rs_headers resp1) ''Etag''" by (simp add: get)
  from experiments_revalidated_by_minute [OF get(1,2) 1(1) ok get(1,2) this 2]
  have "rs_status resp2 = 304" by simp
  moreover have "ct_experiments ?s2 \<noteq> []" by (simp add: new_controller_def)
  ultimately show ?thesis using 2 by blast
qed

end
