(* ===== verification/Dispatch.thy ===== *)
theory Dispatch
  imports Pipeline
begin

text \<open>
  How an experiment is shared out among the agents: \<open>dispatchExperiment\<close> of
  \<open>controller/handlers.go\<close> cycles through the endpoints, so that each gets its share of the
  requests, and the same one several when more agents are asked for than there are endpoints.
\<close>

text \<open>Among the first \<open>k\<close> numbers, those with a given remainder.\<close>

lemma count_remainders:
  assumes "j < n"
  shows "length (filter (\<lambda>i. i mod n = j) [0..<k]) = k div n + (if j < k mod n then 1 else 0)"
proof (induction k)
  case (Suc k)
  have n: "0 < n" using assms by simp
  have "Suc k div n + (if j < Suc k mod n then 1 else 0) =
      k div n + (if j < k mod n then 1 else 0) + (if k mod n = j then 1 else 0)"
  proof (cases "Suc (k mod n) = n")
    case True
    then have "Suc k mod n = 0" "Suc k div n = Suc (k div n)" by (simp_all add: mod_Suc div_Suc)
    moreover have "j \<noteq> k mod n \<Longrightarrow> j < k mod n" using True assms by linarith
    ultimately show ?thesis by auto
  next
    case False
    then have "Suc k mod n = Suc (k mod n)" "Suc k div n = k div n" by (simp_all add: mod_Suc div_Suc)
    then show ?thesis by auto
  qed
  then show ?case using Suc.IH by simp
qed simp

definition agents_asked :: "experiment_request \<Rightarrow> nat" where
  "agents_asked e = (if er_parallel e \<and> er_agent_count e > 1 then nat (er_agent_count e) else 1)"

lemma dispatch_targets_eq: "eps \<noteq> [] \<Longrightarrow> dispatch_targets eps e = map (\<lambda>i. eps ! (i mod length eps)) [0..<agents_asked e]"
  by (simp add: dispatch_targets_def agents_asked_def)

lemma endpoints_nonempty: "get_agent_endpoints v \<noteq> []"
  using split_on_neq_Nil by (simp add: get_agent_endpoints_def)

text \<open>C18: an experiment is shared out evenly. One request is sent for each agent that is asked for, and of n
  different endpoints each gets the n-th part of them, the first ones one more when it does not come out even;
  so an agent receives the same experiment twice exactly when more agents are asked for
  than there are endpoints.\<close>

theorem dispatch_shared_out:
  assumes "encode_experiment (ce_time_str env) e = Some d"
    and "distinct (get_agent_endpoints (ce_agent_endpoints env))"
  shows "let eps = get_agent_endpoints (ce_agent_endpoints env); n = length eps; k = agents_asked e in
    \<exists>new. ct_posts (dispatch_experiment env e s) = ct_posts s @ new \<and> length new = k \<and> snd ` set new \<subseteq> {d} \<and>
      (\<forall>j < n. length (filter (\<lambda>p. fst p = eps ! j) new) = k div n + (if j < k mod n then 1 else 0)) \<and>
      ((\<exists>j < n. 1 < length (filter (\<lambda>p. fst p = eps ! j) new)) \<longleftrightarrow> n < k)"
proof -
  define eps where "eps = get_agent_endpoints (ce_agent_endpoints env)"
  define k where "k = agents_asked e"
  define new where "new = map (\<lambda>u. (u, d)) (dispatch_targets eps e)"
  have ne: "eps \<noteq> []" "distinct eps" using endpoints_nonempty assms(2) by (simp_all add: eps_def)
  have targets: "dispatch_targets eps e = map (\<lambda>i. eps ! (i mod length eps)) [0..<k]"
    unfolding k_def by (rule dispatch_targets_eq [OF ne(1)])
  have posts: "ct_posts (dispatch_experiment env e s) = ct_posts s @ new"
    by (simp add: posts_dispatch assms(1) new_def eps_def)
  have share: "length (filter (\<lambda>p. fst p = eps ! j) new) = k div length eps + (if j < k mod length eps then 1 else 0)"
    if "j < length eps" for j
  proof -
    have "eps ! (i mod length eps) = eps ! j \<longleftrightarrow> i mod length eps = j" for i
      using ne that by (simp add: nth_eq_iff_index_eq)
    then show ?thesis using count_remainders [OF that, of k] by (simp add: new_def targets filter_map comp_def)
  qed
  have "(\<exists>j < length eps. 1 < length (filter (\<lambda>p. fst p = eps ! j) new)) \<longleftrightarrow> length eps < k"
  proof -
    have n: "0 < length eps" using ne(1) by simp
    have "1 < k div length eps + (if 0 < k mod length eps then 1 else 0)" if "length eps < k"
    proof (cases "k mod length eps = 0")
      case True
      then obtain q where "k = length eps * q" by auto
      then show ?thesis using that True n by (cases q) auto
    next
      case False
      then show ?thesis using that n by (simp add: div_greater_zero_iff)
    qed
    moreover have "length eps < k" if "j < length eps" "1 < k div length eps + (if j < k mod length eps then 1 else 0)" for j
      using that n by (cases "k < length eps"; cases "k = length eps") (auto split: if_splits)
    ultimately show ?thesis using share n by auto
  qed
  then show ?thesis
    unfolding Let_def eps_def [symmetric] k_def [symmetric]
    by (intro exI [of _ new] conjI) (use posts share in \<open>auto simp: new_def targets\<close>)
qed

text \<open>Three agents and two endpoints: one of them receives the experiment twice.\<close>

theorem dispatch_shared_out_witness:
  "\<exists>new. ct_posts (dispatch_experiment sample_env
      ((sample_experiment ''network-latency'')\<lparr>er_parallel := True, er_agent_count := 3\<rparr>) (new_controller None)) = new \<and>
     length (filter (\<lambda>p. fst p = ''http://a'') new) = 2 \<and> length (filter (\<lambda>p. fst p = ''http://b'') new) = 1"
proof -
  let ?e = "(sample_experiment ''network-latency'')\<lparr>er_parallel := True, er_agent_count := 3\<rparr>"
  obtain d where d: "encode_experiment (ce_time_str sample_env) ?e = Some d"
    by (simp add: encode_experiment_def sample_env_def)
  have eps: "get_agent_endpoints (ce_agent_endpoints sample_env) = [''http://a'', ''http://b'']"
    by (simp add: get_agent_endpoints_def sample_env_def trim_space_def is_space_def)
  have "distinct (get_agent_endpoints (ce_agent_endpoints sample_env))" by (simp add: eps)
  from dispatch_shared_out [OF d this, of "new_controller None", unfolded Let_def] obtain new where
    new: "ct_posts (dispatch_experiment sample_env ?e (new_controller None)) = new"
    and share: "\<forall>j < 2. length (filter (\<lambda>p. fst p = [''http://a'', ''http://b''] ! j) new) = 3 div 2 + (if j < 3 mod 2 then 1 else 0)"
    by (auto simp: eps agents_asked_def new_controller_def numeral_2_eq_2)
  show ?thesis using new share [rule_format, of 0] share [rule_format, of 1] by simp
qed

end
