(* ===== verification/Schema.thy ===== *)
theory Schema
  imports Controller
begin

text \<open>
  The controller's own schema validator, \<open>controller/schema.go\<close>: the built-in schemas, the checks it
  makes of an experiment request, and what it tells about the schemas. The values of a schema's
  properties are JSON values; the maps of the code are association lists in iteration order.
\<close>

subsection \<open>Schemas\<close>

record experiment_schema =
  sc_version :: string
  sc_type :: string
  sc_required :: "string list"
  sc_properties :: "(string \<times> json) list"
  sc_definitions :: "(string \<times> json) list"

type_synonym experiment_validator = "(string \<times> experiment_schema) list"

definition str_prop :: "string \<Rightarrow> (string \<times> json) list \<Rightarrow> json" where
  "str_prop d ms = JObj ([(''type'', JStr ''string''), (''description'', JStr d)] @ ms)"

definition int_prop :: "string \<Rightarrow> int \<Rightarrow> int \<Rightarrow> json" where
  "int_prop d lo hi = JObj [(''type'', JStr ''integer''), (''description'', JStr d), (''minimum'', JInt lo), (''maximum'', JInt hi)]"

definition bool_prop :: "string \<Rightarrow> json" where
  "bool_prop d = JObj [(''type'', JStr ''boolean''), (''description'', JStr d)]"

definition network_schema :: experiment_schema where
  "network_schema = \<lparr>sc_version = ''1.0.0'', sc_type = ''object'',
     sc_required = [''experiment_type'', ''duration'', ''target''],
     sc_properties = [
       (''name'', str_prop ''Unique name for the experiment'' [(''minLength'', JInt 1), (''maxLength'', JInt 100)]),
       (''description'', str_prop ''Description of the experiment'' [(''maxLength'', JInt 500)]),
       (''experiment_type'', str_prop ''Type of network experiment'' [(''enum'', JArr (map JStr
          [''network-latency'', ''network-loss'', ''network-corruption'', ''network-duplication'']))]),
       (''target'', str_prop ''Target network interface or host'' [(''minLength'', JInt 1)]),
       (''duration'', int_prop ''Duration in seconds'' 1 3600),
       (''delay_ms'', int_prop ''Network latency in milliseconds'' 1 10000),
       (''loss_percent'', int_prop ''Packet loss percentage'' 0 100),
       (''start_time'', str_prop ''Scheduled start time (RFC3339)'' [(''format'', JStr ''date-time'')]),
       (''parallel'', bool_prop ''Run in parallel across multiple agents''),
       (''agent_count'', int_prop ''Number of agents to target'' 1 100)],
     sc_definitions = []\<rparr>"

definition system_schema :: experiment_schema where
  "system_schema = \<lparr>sc_version = ''1.0.0'', sc_type = ''object'',
     sc_required = [''experiment_type'', ''duration'', ''target''],
     sc_properties = [
       (''name'', str_prop ''Unique name for the experiment'' [(''minLength'', JInt 1), (''maxLength'', JInt 100)]),
       (''description'', str_prop ''Description of the experiment'' [(''maxLength'', JInt 500)]),
       (''experiment_type'', str_prop ''Type of system stress experiment'' [(''enum'', JArr (map JStr
          [''cpu-stress'', ''mem-stress'', ''io-stress'', ''process-kill'']))]),
       (''target'', str_prop ''Target system or process'' [(''minLength'', JInt 1)]),
       (''duration'', int_prop ''Duration in seconds'' 1 3600),
       (''cpu_workers'', int_prop ''Number of CPU stress workers'' 1 32),
       (''mem_size_mb'', int_prop ''Memory stress size in MB'' 1 8192),
       (''kill_process'', str_prop ''Process name or pattern to kill'' [(''minLength'', JInt 1)]),
       (''start_time'', str_prop ''Scheduled start time (RFC3339)'' [(''format'', JStr ''date-time'')]),
       (''parallel'', bool_prop ''Run in parallel across multiple agents''),
       (''agent_count'', int_prop ''Number of agents to target'' 1 100)],
     sc_definitions = []\<rparr>"

definition new_experiment_validator :: experiment_validator where
  "new_experiment_validator = [(''network'', network_schema), (''system'', system_schema)]"

definition get_schema_for_experiment :: "experiment_validator \<Rightarrow> string \<Rightarrow> experiment_schema option" where
  "get_schema_for_experiment ev ty =
     (if has_prefix ty ''network-'' then map_of ev ''network''
      else if has_prefix ty ''cpu-'' \<or> has_prefix ty ''mem-'' \<or> has_prefix ty ''io-'' \<or> has_prefix ty ''process-''
        then map_of ev ''system''
      else None)"

subsection \<open>Fields by name\<close>

text \<open>\<open>strings.Title\<close> on ASCII: letters, digits and underscores are parts of a word.\<close>

definition upper_char :: "char \<Rightarrow> char" where
  "upper_char c = (let n = (of_char c :: nat) in if 97 \<le> n \<and> n \<le> 122 then char_of (n - 32) else c)"

definition word_char :: "char \<Rightarrow> bool" where
  "word_char c \<longleftrightarrow> (let n = (of_char c :: nat) in
     65 \<le> n \<and> n \<le> 90 \<or> 97 \<le> n \<and> n \<le> 122 \<or> 48 \<le> n \<and> n \<le> 57 \<or> n = 95)"

fun title_from :: "bool \<Rightarrow> string \<Rightarrow> string" where
  "title_from in_word [] = []"
| "title_from in_word (c # s) = (if in_word then c else upper_char c) # title_from (word_char c) s"

definition title :: "string \<Rightarrow> string" where
  "title s = title_from False s"

datatype field_content = FcStr string | FcInt int | FcTime gtime | FcBool bool

text \<open>\<open>reflect.Value.FieldByName\<close> on the request.\<close>

definition request_fields :: "experiment_request \<Rightarrow> (string \<times> field_content) list" where
  "request_fields e = [
     (''Name'', FcStr (er_name e)), (''Description'', FcStr (er_description e)),
     (''ExperimentType'', FcStr (er_experiment_type e)), (''Target'', FcStr (er_target e)),
     (''Duration'', FcInt (er_duration e)), (''DelayMs'', FcInt (er_delay_ms e)),
     (''LossPercent'', FcInt (er_loss_percent e)), (''CPUWorkers'', FcInt (er_cpu_workers e)),
     (''MemSizeMB'', FcInt (er_mem_size_mb e)), (''KillProcess'', FcStr (er_kill_process e)),
     (''StartTime'', FcTime (er_start_time e)), (''Parallel'', FcBool (er_parallel e)),
     (''AgentCount'', FcInt (er_agent_count e))]"

definition get_field_value :: "experiment_request \<Rightarrow> string \<Rightarrow> field_content option" where
  "get_field_value e name = map_of (request_fields e) (title name)"

subsection \<open>Validation\<close>

record validation_result =
  vs_valid :: bool
  vs_errors :: "string list"
  vs_warnings :: "string list"

definition add_error :: "string \<Rightarrow> validation_result \<Rightarrow> validation_result" where
  "add_error msg res = res\<lparr>vs_valid := False, vs_errors := vs_errors res @ [msg]\<rparr>"

definition add_warning :: "string \<Rightarrow> validation_result \<Rightarrow> validation_result" where
  "add_warning msg res = res\<lparr>vs_warnings := vs_warnings res @ [msg]\<rparr>"

definition missing_field :: "string \<Rightarrow> string" where
  "missing_field f = ''Required field '' @ [CHR 0x27] @ f @ [CHR 0x27] @ '' is missing or empty''"

definition validate_required_fields :: "experiment_request \<Rightarrow> experiment_schema \<Rightarrow> validation_result \<Rightarrow> validation_result" where
  "validate_required_fields e sc res = foldl (\<lambda>res f.
     (case get_field_value e f of
        None \<Rightarrow> add_error (missing_field f) res
      | Some (FcStr []) \<Rightarrow> add_error (missing_field f) res
      | Some _ \<Rightarrow> res)) res (sc_required sc)"

definition check_that :: "bool \<Rightarrow> string \<Rightarrow> validation_result \<Rightarrow> validation_result" where
  "check_that bad msg res = (if bad then add_error msg res else res)"

definition validate_field_constraints :: "experiment_request \<Rightarrow> validation_result \<Rightarrow> validation_result" where
  "validate_field_constraints e res =
     (let res = check_that (er_name e \<noteq> [] \<and> length (er_name e) > 100)
            ''Name field exceeds maximum length of 100 characters'' res;
          res = check_that (er_description e \<noteq> [] \<and> length (er_description e) > 500)
            ''Description field exceeds maximum length of 500 characters'' res;
          res = check_that (er_duration e < 1 \<or> er_duration e > 3600)
            ''Duration must be between 1 and 3600 seconds'' res;
          res = check_that (er_delay_ms e > 0 \<and> (er_delay_ms e < 1 \<or> er_delay_ms e > 10000))
            ''Delay must be between 1 and 10000 milliseconds'' res;
          res = check_that (er_loss_percent e > 0 \<and> (er_loss_percent e < 0 \<or> er_loss_percent e > 100))
            ''Loss percentage must be between 0 and 100'' res;
          res = check_that (er_cpu_workers e > 0 \<and> (er_cpu_workers e < 1 \<or> er_cpu_workers e > 32))
            ''CPU workers must be between 1 and 32'' res;
          res = check_that (er_mem_size_mb e > 0 \<and> (er_mem_size_mb e < 1 \<or> er_mem_size_mb e > 8192))
            ''Memory size must be between 1 and 8192 MB'' res in
      check_that (er_agent_count e > 0 \<and> (er_agent_count e < 1 \<or> er_agent_count e > 100))
        ''Agent count must be between 1 and 100'' res)"

definition warn_if :: "bool \<Rightarrow> string \<Rightarrow> validation_result \<Rightarrow> validation_result" where
  "warn_if b msg res = (if b then add_warning msg res else res)"

definition validate_business_logic :: "gtime \<Rightarrow> experiment_request \<Rightarrow> validation_result \<Rightarrow> validation_result" where
  "validate_business_logic now e res =
     (let res = warn_if (er_start_time e \<noteq> 0 \<and> er_start_time e < now)
            ''Start time is in the past, experiment will start immediately'' res;
          res = warn_if (er_parallel e \<and> er_agent_count e \<le> 0)
            ''Parallel execution requested but no agent count specified, using default of 1'' res;
          res = warn_if (has_prefix (er_experiment_type e) ''network-'' \<and> er_target e = [])
            ''Network experiment should specify target interface'' res;
          res = warn_if (er_experiment_type e = ''cpu-stress'' \<and> er_cpu_workers e \<le> 0)
            ''CPU stress experiment should specify number of workers'' res in
      warn_if (er_experiment_type e = ''mem-stress'' \<and> er_mem_size_mb e \<le> 0)
        ''Memory stress experiment should specify memory size'' res)"

definition validate_experiment :: "experiment_validator \<Rightarrow> gtime \<Rightarrow> experiment_request \<Rightarrow> validation_result" where
  "validate_experiment ev now e =
     (let res = \<lparr>vs_valid = True, vs_errors = [], vs_warnings = []\<rparr> in
      case get_schema_for_experiment ev (er_experiment_type e) of
        None \<Rightarrow> add_error (''Unknown experiment type: '' @ er_experiment_type e) res
      | Some sc \<Rightarrow> validate_business_logic now e
          (validate_field_constraints e (validate_required_fields e sc res)))"

subsection \<open>The schemas as documents\<close>

definition get_schema :: "experiment_validator \<Rightarrow> string \<Rightarrow> string + experiment_schema" where
  "get_schema ev ty = (case get_schema_for_experiment ev ty of
     None \<Rightarrow> Inl (''no schema found for experiment type: '' @ ty) | Some sc \<Rightarrow> Inr sc)"

definition get_schema_json :: "experiment_validator \<Rightarrow> string \<Rightarrow> string + string" where
  "get_schema_json ev ty = (case get_schema ev ty of Inl err \<Rightarrow> Inl err
     | Inr sc \<Rightarrow> Inr (indent_list 0 (CHR ''{'') (CHR ''}'') (map (\<lambda>(k, v). quote_str k @ '': '' @ indent_json 1 v)
        ([(''version'', JStr (sc_version sc)), (''type'', JStr (sc_type sc)),
          (''required'', JArr (map JStr (sc_required sc))), (''properties'', JObj (sc_properties sc))] @
         (if sc_definitions sc = [] then [] else [(''definitions'', JObj (sc_definitions sc))])))))"

definition enum_of :: "json option \<Rightarrow> string list" where
  "enum_of p = (case p of
     Some (JObj ms) \<Rightarrow> (case map_of ms ''enum'' of
        Some (JArr vs) \<Rightarrow> List.map_filter (\<lambda>v. case v of JStr s \<Rightarrow> Some s | _ \<Rightarrow> None) vs | _ \<Rightarrow> [])
   | _ \<Rightarrow> [])"

definition list_supported_types :: "experiment_validator \<Rightarrow> string list" where
  "list_supported_types ev = concat (map (\<lambda>(k, sc). enum_of (map_of (sc_properties sc) ''experiment_type'')) ev)"

subsection \<open>Properties\<close>

lemma supported_types:
  "list_supported_types new_experiment_validator =
     [''network-latency'', ''network-loss'', ''network-corruption'', ''network-duplication'',
      ''cpu-stress'', ''mem-stress'', ''io-stress'', ''process-kill'']"
  by (simp add: list_supported_types_def new_experiment_validator_def network_schema_def system_schema_def
      enum_of_def str_prop_def map_filter_simps)

lemma schema_required:
  "get_schema_for_experiment new_experiment_validator ty = Some sc \<Longrightarrow>
   sc_required sc = [''experiment_type'', ''duration'', ''target'']"
  by (auto simp: get_schema_for_experiment_def new_experiment_validator_def network_schema_def system_schema_def
      split: if_splits)

lemma titles: "title ''experiment_type'' = ''Experiment_type''" "title ''duration'' = ''Duration''"
  "title ''target'' = ''Target''"
  by code_simp+

lemma field_values [simp]:
  "get_field_value e ''experiment_type'' = None" "get_field_value e ''duration'' = Some (FcInt (er_duration e))"
  "get_field_value e ''target'' = Some (FcStr (er_target e))"
  by (simp_all add: get_field_value_def titles request_fields_def)

lemma check_that_fields [simp]:
  "vs_valid (check_that b m res) = (vs_valid res \<and> \<not> b)"
  "vs_errors (check_that b m res) = vs_errors res @ filter (\<lambda>_. b) [m]"
  by (simp_all add: check_that_def add_error_def)

lemma warn_if_fields [simp]: "vs_valid (warn_if b m res) = vs_valid res" "vs_errors (warn_if b m res) = vs_errors res"
  by (simp_all add: warn_if_def add_warning_def)

lemma length_filter_const: "length (filter (\<lambda>_. b) [m]) = of_bool b"
  by simp

lemma never_below:
  "((0::int) < x \<and> (x < 1 \<or> 10000 < x)) = (10000 < x)" "((0::int) < x \<and> (x < 0 \<or> 100 < x)) = (100 < x)"
  "((0::int) < x \<and> (x < 1 \<or> 32 < x)) = (32 < x)" "((0::int) < x \<and> (x < 1 \<or> 8192 < x)) = (8192 < x)"
  "((0::int) < x \<and> (x < 1 \<or> 100 < x)) = (100 < x)"
  by auto

lemma constraint_errors:
  "vs_valid (validate_field_constraints e res) \<Longrightarrow> vs_valid res"
  "\<exists>msgs. vs_errors (validate_field_constraints e res) = vs_errors res @ msgs \<and> (length msgs = 0) =
     (length (er_name e) \<le> 100 \<and> length (er_description e) \<le> 500 \<and> 1 \<le> er_duration e \<and> er_duration e \<le> 3600 \<and>
      er_delay_ms e \<le> 10000 \<and> er_loss_percent e \<le> 100 \<and> er_cpu_workers e \<le> 32 \<and> er_mem_size_mb e \<le> 8192 \<and>
      er_agent_count e \<le> 100)"
proof -
  have n: "(er_name e \<noteq> [] \<and> 100 < length (er_name e)) = (100 < length (er_name e))"
    "(er_description e \<noteq> [] \<and> 500 < length (er_description e)) = (500 < length (er_description e))" by auto
  show "vs_valid (validate_field_constraints e res) \<Longrightarrow> vs_valid res"
    by (simp add: validate_field_constraints_def Let_def)
  show "\<exists>msgs. vs_errors (validate_field_constraints e res) = vs_errors res @ msgs \<and> (length msgs = 0) =
     (length (er_name e) \<le> 100 \<and> length (er_description e) \<le> 500 \<and> 1 \<le> er_duration e \<and> er_duration e \<le> 3600 \<and>
      er_delay_ms e \<le> 10000 \<and> er_loss_percent e \<le> 100 \<and> er_cpu_workers e \<le> 32 \<and> er_mem_size_mb e \<le> 8192 \<and>
      er_agent_count e \<le> 100)"
    unfolding validate_field_constraints_def Let_def check_that_fields never_below n append_assoc
    by (rule exI, rule conjI, rule refl)
      (simp only: length_append length_filter_const add_is_0 of_bool_eq_0_iff not_less de_Morgan_disj conj_assoc)
qed


end
