(* ===== verification/Notifier.thy ===== *)
theory Notifier
  imports Wire
begin

text \<open>
  The notifier service with namespaces, rooms and backpressure,
  \<open>controller/enhanced_notifier_service.go\<close>. Clients are objects that a namespace and its rooms share,
  so they live in a heap and the maps hold references. The channel of a client is a list of at most
  its capacity. The functions the code has as stubs are modelled as the stubs they are. Each
  operation runs under the code's locks and is one step; a broadcast has one clock reading when it
  builds its message and one when it sends it. Left out: Redis, the log, the fields of a client
  that no operation reads (its connection, capabilities, node, agent and address).
\<close>

subsection \<open>Data\<close>

datatype drop_strategy = DropOldest | DropNewest | DropLowest | DropRandom | DropNone
datatype merge_strategy = MergeByType | MergeByKey | MergeNone | MergeAggregateMetrics

definition priority_low :: int where "priority_low = 1"
definition priority_normal :: int where "priority_normal = 2"
definition priority_high :: int where "priority_high = 3"
definition priority_critical :: int where "priority_critical = 4"

record namespace_config =
  nc_max_rooms :: int
  nc_max_clients_total :: int
  nc_default_qps :: int
  nc_max_qps :: int
  nc_drop_strategy :: drop_strategy
  nc_merge_strategy :: merge_strategy
  nc_enable_diff_emit :: bool
  nc_compression_level :: int
  nc_middlewares :: "string list"

record room_config =
  rg_max_clients :: int
  rg_qps_limit :: int
  rg_burst_limit :: int
  rg_drop_strategy :: drop_strategy
  rg_merge_strategy :: merge_strategy
  rg_enable_diff_emit :: bool
  rg_message_ttl :: duration
  rg_priority_enabled :: bool
  rg_compression_type :: string

record priority_message =
  pm_type :: string
  pm_data :: json
  pm_priority :: int
  pm_timestamp :: gtime
  pm_room :: string
  pm_message_id :: string
  pm_metadata :: "(string \<times> json) list"
  pm_expires_at :: "gtime option"
  pm_compressed :: bool
  pm_is_diff :: bool

record client_filter =
  cf_id :: string
  cf_type :: string
  cf_conditions :: "(string \<times> json) list"
  cf_action :: string
  cf_priority :: int
  cf_enabled :: bool

record client_stats =
  cst_messages_received :: int
  cst_messages_filtered :: int
  cst_diff_messages_received :: int
  cst_average_latency :: duration
  cst_connection_uptime :: duration
  cst_compression_savings :: int
  cst_filter_hit_rate :: rat

record enhanced_client =
  ec_id :: string
  ec_namespace :: string
  ec_rooms :: "(string \<times> bool) list"
  ec_send :: "priority_message list"
  ec_capacity :: nat
  ec_filters :: "client_filter list"
  ec_compression_level :: int
  ec_priority :: int
  ec_limited :: bool
  ec_stats :: client_stats

record diff_emitter =
  de_last_states :: "(string \<times> json) list"
  de_enabled :: bool
  de_max_state_size :: int

record message_queue =
  mq_messages :: "priority_message list"
  mq_max_size :: int
  mq_strategy :: drop_strategy

record thresholds =
  th_warning_load :: rat
  th_critical_load :: rat
  th_emergency_load :: rat
  th_drop_threshold :: rat
  th_merge_threshold :: rat

record backpressure_ctl =
  bp_current_load :: rat
  bp_enabled :: bool
  bp_thresholds :: thresholds

record namespace_stats =
  nt_total_clients :: int
  nt_total_rooms :: int
  nt_messages_sent :: int
  nt_messages_dropped :: int
  nt_messages_merged :: int
  nt_average_latency :: duration
  nt_peak_concurrency :: int
  nt_last_reset :: gtime

record room_stats =
  rt_messages_sent :: int
  rt_messages_dropped :: int
  rt_messages_merged :: int
  rt_diff_messages_sent :: int
  rt_avg_latency :: duration
  rt_peak_clients :: int
  rt_current_load :: rat
  rt_backpressure_events :: int
  rt_last_reset :: gtime
  rt_compression_ratio :: rat

record enhanced_room =
  rm_name :: string
  rm_namespace :: string
  rm_clients :: "(string \<times> nat) list"
  rm_config :: room_config
  rm_stats :: room_stats
  rm_message_queue :: message_queue
  rm_diff_emitter :: diff_emitter
  rm_backpressure :: backpressure_ctl
  rm_created_at :: gtime
  rm_last_activity :: gtime
  rm_is_high_fanout :: bool

record name_space =
  sp_name :: string
  sp_rooms :: "(string \<times> enhanced_room) list"
  sp_clients :: "(string \<times> nat) list"
  sp_config :: namespace_config
  sp_stats :: namespace_stats

record notifier =
  nv_namespaces :: "(string \<times> name_space) list"
  nv_heap :: "nat \<Rightarrow> enhanced_client"
  nv_next :: nat

record broadcast_options =
  bo_priority :: int
  bo_ttl :: duration
  bo_metadata :: "(string \<times> json) list"
  bo_allow_compression :: bool
  bo_require_delivery :: bool
  bo_filter_clients :: "client_filter list"

subsection \<open>The stubs\<close>

definition update_load :: "backpressure_ctl \<Rightarrow> backpressure_ctl" where
  "update_load b = b\<lparr>bp_current_load := 1 / 2\<rparr>"

definition ns_limiter_allow :: bool where "ns_limiter_allow = True"
definition client_limiter_allow :: bool where "client_limiter_allow = True"

definition try_merge_message :: "enhanced_room \<Rightarrow> priority_message \<Rightarrow> bool" where
  "try_merge_message room msg = False"

definition queue_full :: "message_queue \<Rightarrow> bool" where
  "queue_full q \<longleftrightarrow> int (length (mq_messages q)) \<ge> mq_max_size q"

definition emit_diff :: "diff_emitter \<Rightarrow> string \<Rightarrow> json \<Rightarrow> json \<times> bool" where
  "emit_diff de ty v = (v, False)"

definition compress_message :: "priority_message \<Rightarrow> int \<Rightarrow> priority_message" where
  "compress_message msg level = msg"

text \<open>The rounds of the cleanup, statistics and diff state routines.\<close>

definition cleanup_round :: "notifier \<Rightarrow> notifier" where
  "cleanup_round s = s"

subsection \<open>Construction\<close>

definition new_namespace_stats :: "gtime \<Rightarrow> namespace_stats" where
  "new_namespace_stats now = \<lparr>nt_total_clients = 0, nt_total_rooms = 0, nt_messages_sent = 0,
     nt_messages_dropped = 0, nt_messages_merged = 0, nt_average_latency = 0, nt_peak_concurrency = 0,
     nt_last_reset = now\<rparr>"

definition new_room_stats :: "gtime \<Rightarrow> room_stats" where
  "new_room_stats now = \<lparr>rt_messages_sent = 0, rt_messages_dropped = 0, rt_messages_merged = 0,
     rt_diff_messages_sent = 0, rt_avg_latency = 0, rt_peak_clients = 0, rt_current_load = 0,
     rt_backpressure_events = 0, rt_last_reset = now, rt_compression_ratio = 0\<rparr>"

definition default_namespace_config :: namespace_config where
  "default_namespace_config = \<lparr>nc_max_rooms = 1000, nc_max_clients_total = 10000, nc_default_qps = 100,
     nc_max_qps = 1000, nc_drop_strategy = DropOldest, nc_merge_strategy = MergeByType,
     nc_enable_diff_emit = True, nc_compression_level = 1, nc_middlewares = []\<rparr>"

definition new_namespace :: "gtime \<Rightarrow> string \<Rightarrow> name_space" where
  "new_namespace now name = \<lparr>sp_name = name, sp_rooms = [], sp_clients = [], sp_config = default_namespace_config,
     sp_stats = new_namespace_stats now\<rparr>"

definition new_notifier :: "gtime \<Rightarrow> (nat \<Rightarrow> enhanced_client) \<Rightarrow> notifier" where
  "new_notifier now unused = \<lparr>nv_namespaces = map (\<lambda>n. (n, new_namespace now n))
     [''experiments'', ''metrics'', ''logs'', ''alerts'', ''admin''], nv_heap = unused, nv_next = 0\<rparr>"

definition new_message_queue :: "int \<Rightarrow> drop_strategy \<Rightarrow> message_queue" where
  "new_message_queue n strategy = \<lparr>mq_messages = [], mq_max_size = n, mq_strategy = strategy\<rparr>"

definition new_diff_emitter :: "bool \<Rightarrow> diff_emitter" where
  "new_diff_emitter enabled = \<lparr>de_last_states = [], de_enabled = enabled, de_max_state_size = 1000\<rparr>"

definition new_backpressure_ctl :: backpressure_ctl where
  "new_backpressure_ctl = \<lparr>bp_current_load = 0, bp_enabled = True, bp_thresholds = \<lparr>th_warning_load = 7 / 10,
     th_critical_load = 85 / 100, th_emergency_load = 95 / 100, th_drop_threshold = 8 / 10,
     th_merge_threshold = 75 / 100\<rparr>\<rparr>"

definition is_high_fanout :: "string \<Rightarrow> bool" where
  "is_high_fanout name \<longleftrightarrow> list_ex (\<lambda>p. contains (to_lower name) p) [''metrics'', ''logs'', ''broadcast'', ''global'']"

definition create_enhanced_room :: "gtime \<Rightarrow> string \<Rightarrow> string \<Rightarrow> namespace_config \<Rightarrow> enhanced_room" where
  "create_enhanced_room now name namespace c =
     (let room = \<lparr>rm_name = name, rm_namespace = namespace, rm_clients = [],
        rm_config = \<lparr>rg_max_clients = 1000, rg_qps_limit = nc_default_qps c, rg_burst_limit = i64 (nc_default_qps c * 2),
          rg_drop_strategy = nc_drop_strategy c, rg_merge_strategy = nc_merge_strategy c,
          rg_enable_diff_emit = nc_enable_diff_emit c, rg_message_ttl = 5 * minute, rg_priority_enabled = True,
          rg_compression_type = ''gzip''\<rparr>,
        rm_stats = new_room_stats now,
        rm_message_queue = new_message_queue 1000 (nc_drop_strategy c),
        rm_diff_emitter = new_diff_emitter (nc_enable_diff_emit c),
        rm_backpressure = new_backpressure_ctl,
        rm_created_at = now, rm_last_activity = now, rm_is_high_fanout = False\<rparr> in
      if is_high_fanout name
      then room\<lparr>rm_is_high_fanout := True,
        rm_config := (rm_config room)\<lparr>rg_max_clients := 10000, rg_enable_diff_emit := True\<rparr>\<rparr>
      else room)"

subsection \<open>Joining a room\<close>

definition put_room :: "string \<Rightarrow> string \<Rightarrow> enhanced_room \<Rightarrow> notifier \<Rightarrow> notifier" where
  "put_room n rn room s = s\<lparr>nv_namespaces := adjust n (\<lambda>sp. sp\<lparr>sp_rooms := AList.update rn room (sp_rooms sp)\<rparr>)
     (nv_namespaces s)\<rparr>"

definition join_namespace_room ::
  "gtime \<Rightarrow> string \<Rightarrow> string \<Rightarrow> string \<Rightarrow> client_filter list \<Rightarrow> notifier \<Rightarrow> notifier \<times> string option" where
  "join_namespace_room now cid n rn filters s = (case map_of (nv_namespaces s) n of
     None \<Rightarrow> (s, Some (''namespace '' @ n @ '' not found''))
   | Some sp \<Rightarrow>
     if int (length (sp_clients sp)) \<ge> nc_max_clients_total (sp_config sp)
     then (s, Some (''namespace '' @ n @ '' at client capacity''))
     else (case map_of (sp_clients sp) cid of
       None \<Rightarrow> (s, Some (''client '' @ cid @ '' not found in namespace '' @ n))
     | Some r \<Rightarrow>
       if map_of (sp_rooms sp) rn = None \<and> int (length (sp_rooms sp)) \<ge> nc_max_rooms (sp_config sp)
       then (s, Some (''namespace '' @ n @ '' at room capacity''))
       else
         (let room = (case map_of (sp_rooms sp) rn of Some room \<Rightarrow> room
                | None \<Rightarrow> create_enhanced_room now rn n (sp_config sp));
              s = put_room n rn room s;
              b = rm_backpressure room in
          if int (length (rm_clients room)) \<ge> rg_max_clients (rm_config room)
          then (s, Some (''room '' @ rn @ '' at capacity''))
          else if bp_enabled b \<and> bp_current_load b > th_critical_load (bp_thresholds b)
          then (s, Some (''room '' @ rn @ '' under high load, rejecting new clients''))
          else
            (let members = AList.update cid r (rm_clients room);
                 st = rm_stats room;
                 room = room\<lparr>rm_clients := members, rm_last_activity := now,
                   rm_stats := st\<lparr>rt_peak_clients := max (rt_peak_clients st) (int (length members))\<rparr>\<rparr>;
                 s = put_room n rn room s;
                 c = nv_heap s r in
             (s\<lparr>nv_heap := (nv_heap s)(r := c\<lparr>ec_rooms := AList.update rn True (ec_rooms c),
                ec_filters := ec_filters c @ filters\<rparr>)\<rparr>, None)))))"

subsection \<open>Filters\<close>

text \<open>Comparing two interface values of one uncomparable type panics.\<close>

fun iface_equal :: "json \<Rightarrow> json \<Rightarrow> bool outcome" where
  "iface_equal (JArr a) (JArr b) = Panics UncomparableType"
| "iface_equal (JObj a) (JObj b) = Panics UncomparableType"
| "iface_equal v w = Ret (v = w)"

fun evaluate_custom_filter :: "(string \<times> json) list \<Rightarrow> priority_message \<Rightarrow> bool outcome" where
  "evaluate_custom_filter [] msg = Ret True"
| "evaluate_custom_filter ((k, expected) # conds) msg = (case map_of (pm_metadata msg) k of
     None \<Rightarrow> evaluate_custom_filter conds msg
   | Some actual \<Rightarrow> obind (iface_equal actual expected)
       (\<lambda>eq. if eq then evaluate_custom_filter conds msg else Ret False))"

definition apply_filter :: "client_filter \<Rightarrow> priority_message \<Rightarrow> bool outcome" where
  "apply_filter f msg =
     (if cf_type f = ''message_type'' then
        (case map_of (cf_conditions f) ''type'' of Some (JStr t) \<Rightarrow> Ret (pm_type msg = t) | _ \<Rightarrow> Ret True)
      else if cf_type f = ''priority'' then
        (case map_of (cf_conditions f) ''min_priority'' of Some (JInt p) \<Rightarrow> Ret (pm_priority msg \<ge> p) | _ \<Rightarrow> Ret True)
      else if cf_type f = ''room'' then
        (case map_of (cf_conditions f) ''room'' of Some (JStr rn) \<Rightarrow> Ret (pm_room msg = rn) | _ \<Rightarrow> Ret True)
      else if cf_type f = ''custom'' then evaluate_custom_filter (cf_conditions f) msg
      else Ret True)"

fun passes_filters :: "client_filter list \<Rightarrow> priority_message \<Rightarrow> bool outcome" where
  "passes_filters [] msg = Ret True"
| "passes_filters (f # fs) msg =
     (if \<not> cf_enabled f then passes_filters fs msg
      else obind (apply_filter f msg) (\<lambda>b. if b then passes_filters fs msg else Ret False))"

definition should_send_to_client :: "gtime \<Rightarrow> enhanced_client \<Rightarrow> priority_message \<Rightarrow> bool outcome" where
  "should_send_to_client later c msg =
     (if (case pm_expires_at msg of None \<Rightarrow> False | Some t \<Rightarrow> later > t) then Ret False
      else obind (passes_filters (ec_filters c) msg)
        (\<lambda>b. if \<not> b then Ret False else Ret (\<not> ec_limited c \<or> client_limiter_allow)))"

subsection \<open>Broadcasting\<close>

definition generate_message_id :: "gtime \<Rightarrow> string" where
  "generate_message_id now = ''msg_'' @ itoa (i64 (now - unix_epoch))"

definition new_message :: "gtime \<Rightarrow> string \<Rightarrow> string \<Rightarrow> json \<Rightarrow> broadcast_options \<Rightarrow> priority_message" where
  "new_message now rn ty v opts = \<lparr>pm_type = ty, pm_data = v, pm_priority = bo_priority opts, pm_timestamp = now,
     pm_room = rn, pm_message_id = generate_message_id now, pm_metadata = bo_metadata opts,
     pm_expires_at = (if bo_ttl opts > 0 then Some (now + bo_ttl opts) else None),
     pm_compressed = False, pm_is_diff = False\<rparr>"

text \<open>One client: the client afterwards, and whether the message was sent.\<close>

definition send_to_client :: "gtime \<Rightarrow> bool \<Rightarrow> priority_message \<Rightarrow> enhanced_client \<Rightarrow> enhanced_client \<times> bool outcome" where
  "send_to_client later allow_compression msg c = (case should_send_to_client later c msg of
     Panics p \<Rightarrow> (c, Panics p)
   | Ret False \<Rightarrow> (c\<lparr>ec_stats := (ec_stats c)\<lparr>cst_messages_filtered := i64 (cst_messages_filtered (ec_stats c) + 1)\<rparr>\<rparr>, Ret False)
   | Ret True \<Rightarrow>
     (let final = (if ec_compression_level c > 0 \<and> allow_compression
            then compress_message msg (ec_compression_level c) else msg) in
      if length (ec_send c) < ec_capacity c
      then (c\<lparr>ec_send := ec_send c @ [final],
          ec_stats := (ec_stats c)\<lparr>cst_messages_received := i64 (cst_messages_received (ec_stats c) + 1)\<rparr>\<rparr>, Ret True)
      else if ec_priority c \<ge> priority_high \<and> ec_send c \<noteq> []
      then (c\<lparr>ec_send := tl (ec_send c) @ [final]\<rparr>, Ret True)
      else (c, Ret False)))"

fun send_all :: "gtime \<Rightarrow> bool \<Rightarrow> priority_message \<Rightarrow> nat list \<Rightarrow> (nat \<Rightarrow> enhanced_client) \<Rightarrow> nat
    \<Rightarrow> (nat \<Rightarrow> enhanced_client) \<times> nat outcome" where
  "send_all later ac msg [] h sent = (h, Ret sent)"
| "send_all later ac msg (r # rs) h sent = (case send_to_client later ac msg (h r) of
     (c, Panics p) \<Rightarrow> (h(r := c), Panics p)
   | (c, Ret ok) \<Rightarrow> send_all later ac msg rs (h(r := c)) (if ok then sent + 1 else sent))"

definition count_dropped :: "enhanced_room \<Rightarrow> enhanced_room" where
  "count_dropped room = room\<lparr>rm_stats := (rm_stats room)\<lparr>rt_messages_dropped := i64 (rt_messages_dropped (rm_stats room) + 1)\<rparr>\<rparr>"

definition count_merged :: "enhanced_room \<Rightarrow> enhanced_room" where
  "count_merged room = room\<lparr>rm_stats := (rm_stats room)\<lparr>rt_messages_merged := i64 (rt_messages_merged (rm_stats room) + 1)\<rparr>\<rparr>"

definition count_sent :: "gtime \<Rightarrow> enhanced_room \<Rightarrow> enhanced_room" where
  "count_sent later room = room\<lparr>rm_last_activity := later,
     rm_stats := (rm_stats room)\<lparr>rt_messages_sent := i64 (rt_messages_sent (rm_stats room) + 1)\<rparr>\<rparr>"

definition count_diff :: "enhanced_room \<Rightarrow> enhanced_room" where
  "count_diff room = room\<lparr>rm_stats := (rm_stats room)\<lparr>rt_diff_messages_sent := i64 (rt_diff_messages_sent (rm_stats room) + 1)\<rparr>\<rparr>"

definition count_ns_sent :: "name_space \<Rightarrow> name_space" where
  "count_ns_sent sp = sp\<lparr>sp_stats := (sp_stats sp)\<lparr>nt_messages_sent := i64 (nt_messages_sent (sp_stats sp) + 1)\<rparr>\<rparr>"

definition count_ns_dropped :: "name_space \<Rightarrow> name_space" where
  "count_ns_dropped sp = sp\<lparr>sp_stats := (sp_stats sp)\<lparr>nt_messages_dropped := i64 (nt_messages_dropped (sp_stats sp) + 1)\<rparr>\<rparr>"

definition adjust_namespace :: "string \<Rightarrow> (name_space \<Rightarrow> name_space) \<Rightarrow> notifier \<Rightarrow> notifier" where
  "adjust_namespace n f s = s\<lparr>nv_namespaces := adjust n f (nv_namespaces s)\<rparr>"

definition broadcast_to_namespace_room ::
  "gtime \<Rightarrow> gtime \<Rightarrow> string \<Rightarrow> string \<Rightarrow> string \<Rightarrow> json \<Rightarrow> broadcast_options option \<Rightarrow> notifier
   \<Rightarrow> notifier \<times> string option outcome" where
  "broadcast_to_namespace_room now later n rn ty v options s = (case map_of (nv_namespaces s) n of
     None \<Rightarrow> (s, Ret (Some (''namespace '' @ n @ '' not found'')))
   | Some sp \<Rightarrow> (case map_of (sp_rooms sp) rn of
     None \<Rightarrow> (s, Ret (Some (''room '' @ rn @ '' not found in namespace '' @ n)))
   | Some room \<Rightarrow>
     (let b = rm_backpressure room; load = bp_current_load b; th = bp_thresholds b in
      if \<not> ns_limiter_allow
      then (adjust_namespace n count_ns_dropped s, Ret (Some (''namespace '' @ n @ '' rate limit exceeded'')))
      else if bp_enabled b \<and> load > th_emergency_load th
      then (put_room n rn (count_dropped room) s, Ret (Some (''room '' @ rn @ '' under emergency load'')))
      else (case options of None \<Rightarrow> (s, Panics NilDereference)
      | Some opts \<Rightarrow>
        (let msg = new_message now rn ty v opts;
             (msg, room) =
               (if rg_enable_diff_emit (rm_config room) \<and> de_enabled (rm_diff_emitter room) then
                  (let (d, is_diff) = emit_diff (rm_diff_emitter room) ty v in
                   if is_diff then (msg\<lparr>pm_data := d, pm_is_diff := True\<rparr>, count_diff room) else (msg, room))
                else (msg, room));
             s = put_room n rn room s in
         if bp_enabled b \<and> load > th_merge_threshold th \<and> rg_merge_strategy (rm_config room) \<noteq> MergeNone \<and>
            try_merge_message room msg
         then (put_room n rn (count_merged room) s, Ret None)
         else if bp_enabled b \<and> load > th_drop_threshold th \<and> rg_drop_strategy (rm_config room) \<noteq> DropNone \<and>
            queue_full (rm_message_queue room)
         then (put_room n rn (count_dropped room) s, Ret None)
         else
           (case send_all later (bo_allow_compression opts) msg (map snd (rm_clients room)) (nv_heap s) 0 of
             (h, Panics p) \<Rightarrow> (s\<lparr>nv_heap := h\<rparr>, Panics p)
           | (h, Ret sent) \<Rightarrow>
             (adjust_namespace n count_ns_sent (put_room n rn (count_sent later room) (s\<lparr>nv_heap := h\<rparr>)), Ret None)))))))"

subsection \<open>Statistics and monitoring\<close>

definition get_namespace_stats :: "string \<Rightarrow> notifier \<Rightarrow> string + namespace_stats" where
  "get_namespace_stats n s = (case map_of (nv_namespaces s) n of
     None \<Rightarrow> Inl (''namespace '' @ n @ '' not found'')
   | Some sp \<Rightarrow> Inr ((sp_stats sp)\<lparr>nt_total_clients := int (length (sp_clients sp)),
       nt_total_rooms := int (length (sp_rooms sp))\<rparr>))"

definition get_room_stats :: "string \<Rightarrow> string \<Rightarrow> notifier \<Rightarrow> string + room_stats" where
  "get_room_stats n rn s = (case map_of (nv_namespaces s) n of
     None \<Rightarrow> Inl (''namespace '' @ n @ '' not found'')
   | Some sp \<Rightarrow> (case map_of (sp_rooms sp) rn of
     None \<Rightarrow> Inl (''room '' @ rn @ '' not found in namespace '' @ n)
   | Some room \<Rightarrow> Inr ((rm_stats room)\<lparr>rt_current_load := bp_current_load (rm_backpressure room)\<rparr>)))"

definition update_backpressure_metrics :: "notifier \<Rightarrow> notifier" where
  "update_backpressure_metrics s = s\<lparr>nv_namespaces := map (\<lambda>(n, sp). (n, sp\<lparr>sp_rooms := map (\<lambda>(rn, room).
     (rn, room\<lparr>rm_backpressure := update_load (rm_backpressure room)\<rparr>)) (sp_rooms sp)\<rparr>)) (nv_namespaces s)\<rparr>"

end
