(* ===== verification/Broadcast.thy ===== *)
theory Broadcast
  imports Notifier
begin

text \<open>
  What the notifier service does in every run: who is in which room, what backpressure ever does, and
  which client gets a broadcast. Clients enter a namespace from outside the service (no operation of
  it adds one) and take messages off their channels; both are steps of the run.
\<close>

subsection \<open>Runs\<close>

definition connect_client :: "string \<Rightarrow> enhanced_client \<Rightarrow> notifier \<Rightarrow> notifier" where
  "connect_client n c s = s\<lparr>nv_heap := (nv_heap s)(nv_next s := c\<lparr>ec_rooms := [], ec_send := []\<rparr>),
     nv_next := Suc (nv_next s),
     nv_namespaces := adjust n (\<lambda>sp. sp\<lparr>sp_clients :=
       AList.update (ec_id c) (nv_next s) (sp_clients sp)\<rparr>) (nv_namespaces s)\<rparr>"

definition receive_message :: "nat \<Rightarrow> notifier \<Rightarrow> notifier" where
  "receive_message r s = s\<lparr>nv_heap := (nv_heap s)(r := (nv_heap s r)\<lparr>ec_send := tl (ec_send (nv_heap s r))\<rparr>)\<rparr>"

datatype notifier_event =
    NvConnect string enhanced_client
  | NvReceive nat
  | NvJoin gtime string string string "client_filter list"
  | NvBroadcast gtime gtime string string string json "broadcast_options option"
  | NvMonitor
  | NvCleanup

fun notifier_step :: "notifier \<Rightarrow> notifier_event \<Rightarrow> notifier" where
  "notifier_step s (NvConnect n c) = connect_client n c s"
| "notifier_step s (NvReceive r) = receive_message r s"
| "notifier_step s (NvJoin now cid n rn filters) = fst (join_namespace_room now cid n rn filters s)"
| "notifier_step s (NvBroadcast now later n rn ty v opts) =
     fst (broadcast_to_namespace_room now later n rn ty v opts s)"
| "notifier_step s NvMonitor = update_backpressure_metrics s"
| "notifier_step s NvCleanup = cleanup_round s"

definition notifier_run :: "gtime \<Rightarrow> (nat \<Rightarrow> enhanced_client) \<Rightarrow> notifier_event list \<Rightarrow> notifier" where
  "notifier_run now unused evs = foldl notifier_step (new_notifier now unused) evs"

subsection \<open>The invariant\<close>

definition member_ok :: "(nat \<Rightarrow> enhanced_client) \<Rightarrow> nat \<Rightarrow> string \<times> nat \<Rightarrow> bool" where
  "member_ok h n m \<longleftrightarrow> snd m < n \<and> ec_id (h (snd m)) = fst m"

definition backpressure_ok :: "backpressure_ctl \<Rightarrow> bool" where
  "backpressure_ok b \<longleftrightarrow> bp_enabled b \<and> bp_thresholds b = bp_thresholds new_backpressure_ctl \<and>
     bp_current_load b \<in> {0, 1 / 2}"

definition room_stats_ok :: "enhanced_room \<Rightarrow> bool" where
  "room_stats_ok room \<longleftrightarrow> rt_messages_dropped (rm_stats room) = 0 \<and> rt_messages_merged (rm_stats room) = 0 \<and>
     rt_diff_messages_sent (rm_stats room) = 0 \<and> mq_messages (rm_message_queue room) = [] \<and>
     int (length (rm_clients room)) \<le> rt_peak_clients (rm_stats room) \<and>
     rt_peak_clients (rm_stats room) \<le> rg_max_clients (rm_config room) \<and>
     rg_max_clients (rm_config room) \<in> {1000, 10000}"

definition members_ok :: "(nat \<Rightarrow> enhanced_client) \<Rightarrow> nat \<Rightarrow> string \<Rightarrow> enhanced_room \<Rightarrow> bool" where
  "members_ok h n rn room \<longleftrightarrow> distinct (keys (rm_clients room)) \<and>
     (\<forall>m \<in> set (rm_clients room). member_ok h n m \<and> map_of (ec_rooms (h (snd m))) rn = Some True)"

definition room_ok :: "(nat \<Rightarrow> enhanced_client) \<Rightarrow> nat \<Rightarrow> string \<Rightarrow> enhanced_room \<Rightarrow> bool" where
  "room_ok h n rn room \<longleftrightarrow> members_ok h n rn room \<and> room_stats_ok room \<and> backpressure_ok (rm_backpressure room)"

definition space_ok :: "(nat \<Rightarrow> enhanced_client) \<Rightarrow> nat \<Rightarrow> name_space \<Rightarrow> bool" where
  "space_ok h n sp \<longleftrightarrow> sp_config sp = default_namespace_config \<and> nt_messages_dropped (sp_stats sp) = 0 \<and>
     distinct (keys (sp_rooms sp)) \<and> length (sp_rooms sp) \<le> 1000 \<and>
     (\<forall>(rn, room) \<in> set (sp_rooms sp). room_ok h n rn room) \<and> (\<forall>m \<in> set (sp_clients sp). member_ok h n m)"

definition heap_ok :: "(nat \<Rightarrow> enhanced_client) \<Rightarrow> nat \<Rightarrow> bool" where
  "heap_ok h n \<longleftrightarrow> (\<forall>r < n. length (ec_send (h r)) \<le> ec_capacity (h r))"

definition notifier_ok :: "notifier \<Rightarrow> bool" where
  "notifier_ok s \<longleftrightarrow> distinct (keys (nv_namespaces s)) \<and> heap_ok (nv_heap s) (nv_next s) \<and>
     (\<forall>(n, sp) \<in> set (nv_namespaces s). space_ok (nv_heap s) (nv_next s) sp)"

text \<open>How an operation may change the clients that exist.\<close>

definition heap_extends :: "nat \<Rightarrow> (nat \<Rightarrow> enhanced_client) \<Rightarrow> (nat \<Rightarrow> enhanced_client) \<Rightarrow> bool" where
  "heap_extends n h h' \<longleftrightarrow> (\<forall>r < n. ec_id (h' r) = ec_id (h r) \<and>
     (\<forall>rn. map_of (ec_rooms (h r)) rn = Some True \<longrightarrow> map_of (ec_rooms (h' r)) rn = Some True))"

lemma members_ok_mono:
  "members_ok h n rn room \<Longrightarrow> heap_extends n h h' \<Longrightarrow> n \<le> n' \<Longrightarrow> members_ok h' n' rn room"
  by (fastforce simp: members_ok_def member_ok_def heap_extends_def)

lemma space_ok_mono:
  "space_ok h n sp \<Longrightarrow> heap_extends n h h' \<Longrightarrow> n \<le> n' \<Longrightarrow> space_ok h' n' sp"
  unfolding space_ok_def room_ok_def
  by (fastforce intro: members_ok_mono simp: member_ok_def heap_extends_def)

lemma notifier_ok_heap:
  assumes "notifier_ok s" and "heap_extends (nv_next s) (nv_heap s) h" and "heap_ok h (nv_next s)"
  shows "notifier_ok (s\<lparr>nv_heap := h\<rparr>)"
  using assms space_ok_mono [OF _ assms(2) order_refl] by (auto simp: notifier_ok_def)

lemma notifier_ok_adjust:
  assumes "notifier_ok s" and "\<And>sp. space_ok (nv_heap s) (nv_next s) sp \<Longrightarrow> (n, sp) \<in> set (nv_namespaces s) \<Longrightarrow>
      space_ok (nv_heap s) (nv_next s) (f sp)"
  shows "notifier_ok (s\<lparr>nv_namespaces := adjust n f (nv_namespaces s)\<rparr>)"
proof -
  have "space_ok (nv_heap s) (nv_next s) sp'" if m: "(k, sp') \<in> set (adjust n f (nv_namespaces s))" for k sp'
  proof -
    obtain sp where sp: "(k, sp) \<in> set (nv_namespaces s)" "sp' = (if k = n then f sp else sp)"
      using mem_adjust [OF m] by blast
    then have "space_ok (nv_heap s) (nv_next s) sp" using assms(1) by (auto simp: notifier_ok_def)
    then show ?thesis using assms(2) sp by (cases "k = n") simp_all
  qed
  then show ?thesis using assms(1) by (auto simp: notifier_ok_def)
qed

lemma notifier_okD:
  assumes "notifier_ok s" and "map_of (nv_namespaces s) n = Some sp"
  shows "space_ok (nv_heap s) (nv_next s) sp"
    and "map_of (sp_rooms sp) rn = Some room \<Longrightarrow> room_ok (nv_heap s) (nv_next s) rn room"
  using assms by (auto simp: notifier_ok_def space_ok_def dest!: map_of_SomeD)

lemma space_ok_update:
  assumes "space_ok h n sp" and "room_ok h n rn room" and "has_key rn (sp_rooms sp) \<or> length (sp_rooms sp) < 1000"
  shows "space_ok h n (sp\<lparr>sp_rooms := AList.update rn room (sp_rooms sp)\<rparr>)"
  using assms by (auto simp: space_ok_def mem_update_iff length_update split: if_splits)

lemma notifier_ok_put_room:
  assumes "notifier_ok s" and "map_of (nv_namespaces s) n = Some sp" and "room_ok (nv_heap s) (nv_next s) rn room"
    and "has_key rn (sp_rooms sp) \<or> length (sp_rooms sp) < 1000"
  shows "notifier_ok (put_room n rn room s)"
  unfolding put_room_def
proof (rule notifier_ok_adjust [OF assms(1)])
  fix sp' assume sp': "space_ok (nv_heap s) (nv_next s) sp'" "(n, sp') \<in> set (nv_namespaces s)"
  have "distinct (keys (nv_namespaces s))" using assms(1) by (simp add: notifier_ok_def)
  then have "sp' = sp" using sp'(2) assms(2) by (metis map_of_is_SomeI option.inject)
  then show "space_ok (nv_heap s) (nv_next s) (sp'\<lparr>sp_rooms := AList.update rn room (sp_rooms sp')\<rparr>)"
    using space_ok_update sp'(1) assms(3,4) by blast
qed

subsection \<open>Every operation keeps it\<close>

lemma room_ok_new: "room_ok h n rn (create_enhanced_room now rn ns default_namespace_config)"
  by (simp add: room_ok_def create_enhanced_room_def members_ok_def room_stats_ok_def backpressure_ok_def
      new_room_stats_def new_message_queue_def new_backpressure_ctl_def Let_def)

lemma notifier_ok_new: "notifier_ok (new_notifier now unused)"
  by (simp add: notifier_ok_def new_notifier_def heap_ok_def space_ok_def new_namespace_def new_namespace_stats_def)

lemma heap_extends_new: "heap_extends n h (h(n := c))"
  by (simp add: heap_extends_def)

lemma notifier_ok_connect:
  assumes "notifier_ok s"
  shows "notifier_ok (connect_client n c s)"
proof -
  let ?h = "(nv_heap s)(nv_next s := c\<lparr>ec_rooms := [], ec_send := []\<rparr>)"
  let ?s = "s\<lparr>nv_heap := ?h, nv_next := Suc (nv_next s)\<rparr>"
  have "space_ok ?h (Suc (nv_next s)) sp" if "(k, sp) \<in> set (nv_namespaces s)" for k sp
    using assms that by (intro space_ok_mono [OF _ heap_extends_new]) (auto simp: notifier_ok_def)
  then have "notifier_ok ?s" using assms by (auto simp: notifier_ok_def heap_ok_def less_Suc_eq)
  then have "notifier_ok (?s\<lparr>nv_namespaces := adjust n (\<lambda>sp. sp\<lparr>sp_clients :=
      AList.update (ec_id c) (nv_next s) (sp_clients sp)\<rparr>) (nv_namespaces ?s)\<rparr>)"
  proof (rule notifier_ok_adjust)
    fix sp assume "space_ok (nv_heap ?s) (nv_next ?s) sp"
    moreover have "member_ok (nv_heap ?s) (nv_next ?s) (ec_id c, nv_next s)" by (simp add: member_ok_def)
    ultimately show "space_ok (nv_heap ?s) (nv_next ?s) (sp\<lparr>sp_clients := AList.update (ec_id c) (nv_next s) (sp_clients sp)\<rparr>)"
      using update_subset [of "ec_id c" "nv_next s" "sp_clients sp"] unfolding space_ok_def by auto
  qed
  then show ?thesis by (simp add: connect_client_def)
qed

lemma notifier_ok_receive: "notifier_ok s \<Longrightarrow> notifier_ok (receive_message r s)"
  unfolding receive_message_def
  by (rule notifier_ok_heap) (auto simp: heap_extends_def heap_ok_def notifier_ok_def intro: le_trans diff_le_self)

text \<open>What a join does to the room and to the client.\<close>

definition joined_room :: "gtime \<Rightarrow> string \<Rightarrow> nat \<Rightarrow> enhanced_room \<Rightarrow> enhanced_room" where
  "joined_room now cid r room = room\<lparr>rm_clients := AList.update cid r (rm_clients room), rm_last_activity := now,
     rm_stats := (rm_stats room)\<lparr>rt_peak_clients := max (rt_peak_clients (rm_stats room))
       (int (length (AList.update cid r (rm_clients room))))\<rparr>\<rparr>"

definition joined_client :: "string \<Rightarrow> client_filter list \<Rightarrow> enhanced_client \<Rightarrow> enhanced_client" where
  "joined_client rn filters c = c\<lparr>ec_rooms := AList.update rn True (ec_rooms c), ec_filters := ec_filters c @ filters\<rparr>"

lemma put_room_put_room [simp]: "put_room n rn room (put_room n rn room' s) = put_room n rn room s"
proof -
  have "adjust n (\<lambda>sp. sp\<lparr>sp_rooms := AList.update rn room (sp_rooms sp)\<rparr>)
      (adjust n (\<lambda>sp. sp\<lparr>sp_rooms := AList.update rn room' (sp_rooms sp)\<rparr>) m) =
    adjust n (\<lambda>sp. sp\<lparr>sp_rooms := AList.update rn room (sp_rooms sp)\<rparr>) m" for m :: "(string \<times> name_space) list"
    by (induction m) (auto simp: adjust_def update_last)
  then show ?thesis by (simp add: put_room_def)
qed

lemma put_room_heap [simp]: "nv_heap (put_room n rn room s) = nv_heap s" "nv_next (put_room n rn room s) = nv_next s"
  by (simp_all add: put_room_def)

lemma join_cases:
  assumes "notifier_ok s" and "join_namespace_room now cid n rn filters s = (s', err)"
  shows "s' = s \<and> err \<noteq> None \<or>
    (\<exists>sp r room. map_of (nv_namespaces s) n = Some sp \<and> map_of (sp_clients sp) cid = Some r \<and>
      member_ok (nv_heap s) (nv_next s) (cid, r) \<and>
      (has_key rn (sp_rooms sp) \<or> length (sp_rooms sp) < 1000) \<and> room_ok (nv_heap s) (nv_next s) rn room \<and>
      (s' = put_room n rn room s \<and> err \<noteq> None \<or>
       int (length (rm_clients room)) < rg_max_clients (rm_config room) \<and> err = None \<and>
       s' = (put_room n rn (joined_room now cid r room) s)\<lparr>nv_heap :=
         (nv_heap s)(r := joined_client rn filters (nv_heap s r))\<rparr>))"
proof (cases "map_of (nv_namespaces s) n")
  case (Some sp)
  note sp = notifier_okD [OF assms(1) Some]
  have config: "sp_config sp = default_namespace_config" using sp(1) by (simp add: space_ok_def)
  define room where "room = (case map_of (sp_rooms sp) rn of Some room \<Rightarrow> room
    | None \<Rightarrow> create_enhanced_room now rn n (sp_config sp))"
  have room: "room_ok (nv_heap s) (nv_next s) rn room"
    using sp(2) by (simp add: room_def config room_ok_new split: option.split)
  then have load: "\<not> (bp_enabled (rm_backpressure room) \<and>
      bp_current_load (rm_backpressure room) > th_critical_load (bp_thresholds (rm_backpressure room)))"
    by (auto simp: room_ok_def backpressure_ok_def new_backpressure_ctl_def)
  show ?thesis
  proof (cases "int (length (sp_clients sp)) \<ge> nc_max_clients_total (sp_config sp) \<or> map_of (sp_clients sp) cid = None \<or>
      map_of (sp_rooms sp) rn = None \<and> int (length (sp_rooms sp)) \<ge> nc_max_rooms (sp_config sp)")
    case True
    then show ?thesis
      using Some assms(2) by (auto simp: join_namespace_room_def split: if_splits option.splits)
  next
    case False
    then obtain r where r: "map_of (sp_clients sp) cid = Some r" by auto
    then have m: "member_ok (nv_heap s) (nv_next s) (cid, r)"
      using sp(1) by (auto simp: space_ok_def dest!: map_of_SomeD)
    have space: "has_key rn (sp_rooms sp) \<or> length (sp_rooms sp) < 1000"
      using False by (auto simp: has_key_def config default_namespace_config_def)
    have "s' = put_room n rn room s \<and> err \<noteq> None \<or>
       int (length (rm_clients room)) < rg_max_clients (rm_config room) \<and> err = None \<and>
       s' = (put_room n rn (joined_room now cid r room) s)\<lparr>nv_heap :=
         (nv_heap s)(r := joined_client rn filters (nv_heap s r))\<rparr>"
      using assms(2) Some False r load
      by (auto simp: join_namespace_room_def room_def [symmetric] Let_def joined_room_def joined_client_def
          split: if_splits)
    with Some r m space room show ?thesis by blast
  qed
qed (use assms(2) in \<open>auto simp: join_namespace_room_def\<close>)

lemma room_ok_join:
  assumes "room_ok h n rn room" and "member_ok h n (cid, r)"
    and "int (length (rm_clients room)) < rg_max_clients (rm_config room)"
    and "heap_extends n h h'" and "map_of (ec_rooms (h' r)) rn = Some True"
  shows "room_ok h' n rn (joined_room now cid r room)"
proof -
  have "members_ok h' n rn room" using members_ok_mono [OF _ assms(4) order_refl] assms(1) by (simp add: room_ok_def)
  moreover have "member_ok h' n (cid, r)" using assms(2,4) by (simp add: member_ok_def heap_extends_def)
  ultimately have "members_ok h' n rn (joined_room now cid r room)"
    using update_subset [of cid r "rm_clients room"] assms(5)
    by (fastforce simp: members_ok_def joined_room_def)
  then show ?thesis
    using assms(1,3) by (auto simp: room_ok_def joined_room_def room_stats_ok_def length_update)
qed

lemma notifier_ok_join:
  assumes "notifier_ok s"
  shows "notifier_ok (fst (join_namespace_room now cid n rn filters s))"
proof -
  obtain s' err where j: "join_namespace_room now cid n rn filters s = (s', err)" by fastforce
  consider "s' = s" | (room) sp r room where "map_of (nv_namespaces s) n = Some sp" "member_ok (nv_heap s) (nv_next s) (cid, r)"
      "has_key rn (sp_rooms sp) \<or> length (sp_rooms sp) < 1000" "room_ok (nv_heap s) (nv_next s) rn room"
      "s' = put_room n rn room s \<or> int (length (rm_clients room)) < rg_max_clients (rm_config room) \<and>
       s' = (put_room n rn (joined_room now cid r room) s)\<lparr>nv_heap :=
         (nv_heap s)(r := joined_client rn filters (nv_heap s r))\<rparr>"
    using join_cases [OF assms j] by blast
  then show ?thesis
  proof cases
    case room
    from room(5) show ?thesis
    proof (elim disjE conjE)
      assume "s' = put_room n rn room s"
      then show ?thesis using notifier_ok_put_room [OF assms room(1,4,3)] j by simp
    next
      let ?h = "(nv_heap s)(r := joined_client rn filters (nv_heap s r))"
      assume max: "int (length (rm_clients room)) < rg_max_clients (rm_config room)"
        and s': "s' = (put_room n rn (joined_room now cid r room) s)\<lparr>nv_heap := ?h\<rparr>"
      have ext: "heap_extends (nv_next s) (nv_heap s) ?h"
        by (simp add: heap_extends_def joined_client_def map_of_update)
      have "heap_ok ?h (nv_next s)" using assms by (simp add: notifier_ok_def heap_ok_def joined_client_def)
      then have "notifier_ok (s\<lparr>nv_heap := ?h\<rparr>)" by (rule notifier_ok_heap [OF assms ext])
      moreover have "room_ok ?h (nv_next s) rn (joined_room now cid r room)"
        by (rule room_ok_join [OF room(4,2) max ext]) (simp add: joined_client_def map_of_update)
      ultimately have "notifier_ok (put_room n rn (joined_room now cid r room) (s\<lparr>nv_heap := ?h\<rparr>))"
        using room(1,3) by (intro notifier_ok_put_room) simp_all
      moreover have "put_room n rn (joined_room now cid r room) (s\<lparr>nv_heap := ?h\<rparr>) = s'"
        by (simp add: s' put_room_def)
      ultimately show ?thesis using j by simp
    qed
  qed (use assms j in simp)
qed

subsection \<open>Broadcasts\<close>

text \<open>The channel of a client that gets a message: a full one of a client of high priority loses its oldest.\<close>

definition enqueue :: "enhanced_client \<Rightarrow> priority_message \<Rightarrow> priority_message list" where
  "enqueue c msg =
     (if length (ec_send c) < ec_capacity c then ec_send c @ [msg]
      else if ec_priority c \<ge> priority_high \<and> ec_send c \<noteq> [] then tl (ec_send c) @ [msg]
      else ec_send c)"

lemma send_to_client_send:
  "ec_send (fst (send_to_client later ac msg c)) =
     (if should_send_to_client later c msg = Ret True then enqueue c msg else ec_send c)"
  by (simp add: send_to_client_def enqueue_def compress_message_def split: outcome.split)

lemma send_to_client_frame:
  "send_to_client later ac msg c = (c', out) \<Longrightarrow> ec_id c' = ec_id c \<and> ec_rooms c' = ec_rooms c \<and>
     ec_capacity c' = ec_capacity c \<and> (length (ec_send c) \<le> ec_capacity c \<longrightarrow> length (ec_send c') \<le> ec_capacity c)"
  by (cases "ec_send c") (auto simp: send_to_client_def Let_def split: outcome.splits bool.splits if_splits)

lemma send_all_frame:
  "send_all later ac msg rs h k = (h', out) \<Longrightarrow> heap_extends n h h' \<and> (heap_ok h n \<longrightarrow> heap_ok h' n)"
proof (induction rs arbitrary: h k)
  case (Cons r rs)
  obtain c out1 where c: "send_to_client later ac msg (h r) = (c, out1)" by fastforce
  note f = send_to_client_frame [OF c]
  have 1: "heap_extends n h (h(r := c)) \<and> (heap_ok h n \<longrightarrow> heap_ok (h(r := c)) n)"
    using f by (simp add: heap_extends_def heap_ok_def)
  show ?case
  proof (cases out1)
    case (Ret ok)
    then have "heap_extends n (h(r := c)) h' \<and> (heap_ok (h(r := c)) n \<longrightarrow> heap_ok h' n)"
      using Cons c by simp
    with 1 show ?thesis by (auto simp: heap_extends_def)
  qed (use 1 Cons.prems c in auto)
qed (simp add: heap_extends_def)

lemma send_all_result:
  "distinct rs \<Longrightarrow> send_all later ac msg rs h k = (h', Ret k') \<Longrightarrow>
     h' r = (if r \<in> set rs then fst (send_to_client later ac msg (h r)) else h r)"
proof (induction rs arbitrary: h k)
  case (Cons x rs)
  obtain c out1 where c: "send_to_client later ac msg (h x) = (c, out1)" by fastforce
  then obtain ok where "out1 = Ret ok" using Cons.prems(2) by (cases out1) auto
  then have "h' r = (if r \<in> set rs then fst (send_to_client later ac msg ((h(x := c)) r)) else (h(x := c)) r)"
    using Cons c by simp
  then show ?case using Cons.prems(1) c by auto
qed simp

lemma iface_equal_panics: "iface_equal a b = Panics p \<Longrightarrow> p = UncomparableType"
  by (induction a b rule: iface_equal.induct) auto

lemma custom_panics: "evaluate_custom_filter conds msg = Panics p \<Longrightarrow> p = UncomparableType"
  by (induction conds msg rule: evaluate_custom_filter.induct)
    (auto simp: obind_Panics_iff dest: iface_equal_panics split: option.splits if_splits)

lemma filters_panic: "passes_filters fs msg = Panics p \<Longrightarrow> p = UncomparableType"
proof (induction fs)
  case (Cons f fs)
  have "apply_filter f msg = Panics p \<Longrightarrow> p = UncomparableType"
    by (auto simp: apply_filter_def dest: custom_panics split: if_splits option.splits json.splits)
  then show ?case using Cons by (auto simp: obind_Panics_iff split: if_splits)
qed simp

lemma send_all_panics: "send_all later ac msg rs h k = (h', Panics p) \<Longrightarrow> p = UncomparableType"
proof (induction rs arbitrary: h k)
  case (Cons r rs)
  obtain c out where c: "send_to_client later ac msg (h r) = (c, out)" by fastforce
  show ?case
  proof (cases out)
    case (Panics q)
    then have "passes_filters (ec_filters (h r)) msg = Panics q"
      using c by (auto simp: send_to_client_def should_send_to_client_def obind_Panics_iff Let_def
          split: outcome.splits bool.splits if_splits)
    then show ?thesis using filters_panic Cons.prems c Panics by auto
  qed (use Cons c in auto)
qed simp

lemma broadcast_eq:
  assumes "notifier_ok s" and "map_of (nv_namespaces s) n = Some sp" and "map_of (sp_rooms sp) rn = Some room"
  shows "broadcast_to_namespace_room now later n rn ty v (Some opts) s =
    (case send_all later (bo_allow_compression opts) (new_message now rn ty v opts) (map snd (rm_clients room)) (nv_heap s) 0 of
      (h, Panics p) \<Rightarrow> ((put_room n rn room s)\<lparr>nv_heap := h\<rparr>, Panics p)
    | (h, Ret sent) \<Rightarrow> (adjust_namespace n count_ns_sent (put_room n rn (count_sent later room) (s\<lparr>nv_heap := h\<rparr>)), Ret None))"
proof -
  have b: "backpressure_ok (rm_backpressure room)"
    using notifier_okD(2) [OF assms] by (simp add: room_ok_def)
  then have th: "\<not> bp_current_load (rm_backpressure room) > th_emergency_load (bp_thresholds (rm_backpressure room))"
    "\<not> bp_current_load (rm_backpressure room) > th_merge_threshold (bp_thresholds (rm_backpressure room))"
    "\<not> bp_current_load (rm_backpressure room) > th_drop_threshold (bp_thresholds (rm_backpressure room))"
    by (auto simp: backpressure_ok_def new_backpressure_ctl_def)
  have "put_room n rn room' ((put_room n rn room s)\<lparr>nv_heap := h\<rparr>) = put_room n rn room' (s\<lparr>nv_heap := h\<rparr>)" for room' h
    using put_room_put_room [of n rn room' room "s\<lparr>nv_heap := h\<rparr>"] by (simp add: put_room_def)
  then show ?thesis
    by (simp add: broadcast_to_namespace_room_def assms(2,3) th ns_limiter_allow_def emit_diff_def Let_def
        split: outcome.split prod.split)
qed

lemma distinct_members:
  assumes "members_ok h n rn room"
  shows "distinct (map snd (rm_clients room))"
proof -
  have "fst m = ec_id (h (snd m))" if "m \<in> set (rm_clients room)" for m
    using assms that by (auto simp: members_ok_def member_ok_def)
  then have "map fst (rm_clients room) = map (\<lambda>r. ec_id (h r)) (map snd (rm_clients room))" by simp
  then show ?thesis using assms unfolding members_ok_def by (metis distinct_map)
qed

lemma notifier_ok_broadcast:
  assumes "notifier_ok s"
  shows "notifier_ok (fst (broadcast_to_namespace_room now later n rn ty v opts s))"
proof (cases "map_of (nv_namespaces s) n")
  case (Some sp)
  show ?thesis
  proof (cases "map_of (sp_rooms sp) rn")
    case (Some room)
    note sp = \<open>map_of (nv_namespaces s) n = Some sp\<close>
    have room: "room_ok (nv_heap s) (nv_next s) rn room" by (rule notifier_okD(2) [OF assms sp Some])
    have has: "has_key rn (sp_rooms sp)" using Some by (simp add: has_key_def)
    show ?thesis
    proof (cases opts)
      case None
      have "\<not> bp_current_load (rm_backpressure room) > th_emergency_load (bp_thresholds (rm_backpressure room))"
        using room by (auto simp: room_ok_def backpressure_ok_def new_backpressure_ctl_def)
      then show ?thesis
        using assms by (simp add: broadcast_to_namespace_room_def sp Some None ns_limiter_allow_def Let_def)
    next
      case (Some opts)
      obtain h out where h: "send_all later (bo_allow_compression opts) (new_message now rn ty v opts)
          (map snd (rm_clients room)) (nv_heap s) 0 = (h, out)" by fastforce
      note frame = send_all_frame [OF h, of "nv_next s"]
      have hok: "notifier_ok (s\<lparr>nv_heap := h\<rparr>)"
        using frame assms by (intro notifier_ok_heap) (simp_all add: notifier_ok_def)
      have rok: "room_ok h (nv_next s) rn room'" if "rm_clients room' = rm_clients room" "room_stats_ok room'"
          "rm_backpressure room' = rm_backpressure room" for room'
        using room members_ok_mono [of "nv_heap s" "nv_next s" rn room h "nv_next s"] frame that
        by (simp add: room_ok_def members_ok_def)
      have stats: "room_stats_ok room" using room by (simp add: room_ok_def)
      then have "room_stats_ok (count_sent later room)" by (simp add: room_stats_ok_def count_sent_def)
      then have "room_ok h (nv_next s) rn (count_sent later room)" by (intro rok) (simp_all add: count_sent_def)
      moreover have "room_ok h (nv_next s) rn room" by (intro rok stats refl)
      ultimately have put: "notifier_ok (put_room n rn room' (s\<lparr>nv_heap := h\<rparr>))"
        if "room' = room \<or> room' = count_sent later room" for room'
        using that has sp by (intro notifier_ok_put_room [OF hok]) auto
      have "notifier_ok (adjust_namespace n count_ns_sent (put_room n rn (count_sent later room) (s\<lparr>nv_heap := h\<rparr>)))"
        unfolding adjust_namespace_def
        by (rule notifier_ok_adjust [OF put]) (auto simp: space_ok_def count_ns_sent_def)
      moreover have "notifier_ok ((put_room n rn room s)\<lparr>nv_heap := h\<rparr>)"
      proof -
        have "(put_room n rn room s)\<lparr>nv_heap := h\<rparr> = put_room n rn room (s\<lparr>nv_heap := h\<rparr>)" by (simp add: put_room_def)
        then show ?thesis using put [of room] by simp
      qed
      ultimately show ?thesis
        by (simp add: Some broadcast_eq [OF assms sp \<open>map_of (sp_rooms sp) rn = Some room\<close>] h split: outcome.split)
    qed
  qed (use assms Some in \<open>simp add: broadcast_to_namespace_room_def\<close>)
qed (use assms in \<open>simp add: broadcast_to_namespace_room_def\<close>)

lemma notifier_ok_monitor: "notifier_ok s \<Longrightarrow> notifier_ok (update_backpressure_metrics s)"
  unfolding notifier_ok_def update_backpressure_metrics_def
  by (auto simp: comp_def case_prod_beta space_ok_def room_ok_def members_ok_def room_stats_ok_def backpressure_ok_def
      update_load_def)

lemma notifier_ok_step: "notifier_ok s \<Longrightarrow> notifier_ok (notifier_step s ev)"
  by (cases ev) (simp_all add: notifier_ok_connect notifier_ok_receive notifier_ok_join notifier_ok_broadcast
      notifier_ok_monitor cleanup_round_def)

subsection \<open>Properties\<close>

lemma run_ok: "notifier_ok (notifier_run now unused evs)"
proof -
  have "notifier_ok (foldl notifier_step s evs)" if "notifier_ok s" for s
    using that by (induction evs arbitrary: s) (auto intro: notifier_ok_step)
  then show ?thesis by (simp add: notifier_run_def notifier_ok_new)
qed

text \<open>C7: in every run of the service, with any clients connecting and receiving, the rooms stay below
  their limits, every member of a room is a client that knows it is in the room, no channel holds
  more than its capacity, and backpressure never acts: the load of a room is never above a half, so
  nothing is ever merged, dropped or counted as dropped.\<close>

theorem notifier_reachable_consistent: "notifier_ok (notifier_run now unused evs)"
  by (rule run_ok)


text \<open>Two clients in one room, the second with a channel of no capacity.\<close>

definition sample_client :: "string \<Rightarrow> nat \<Rightarrow> enhanced_client" where
  "sample_client cid cap = \<lparr>ec_id = cid, ec_namespace = ''logs'', ec_rooms = [], ec_send = [], ec_capacity = cap,
     ec_filters = [], ec_compression_level = 0, ec_priority = 4, ec_limited = False,
     ec_stats = \<lparr>cst_messages_received = 0, cst_messages_filtered = 0, cst_diff_messages_received = 0,
       cst_average_latency = 0, cst_connection_uptime = 0, cst_compression_savings = 0, cst_filter_hit_rate = 0\<rparr>\<rparr>"

definition sample_opts :: broadcast_options where
  "sample_opts = \<lparr>bo_priority = 2, bo_ttl = 0, bo_metadata = [], bo_allow_compression = False,
     bo_require_delivery = True, bo_filter_clients = []\<rparr>"

definition sample_notifier :: notifier where
  "sample_notifier = notifier_run 0 (\<lambda>r. sample_client [] 0)
     [NvConnect ''logs'' (sample_client ''a'' 1), NvConnect ''logs'' (sample_client ''b'' 0),
      NvJoin 0 ''a'' ''logs'' ''x'' [], NvJoin 0 ''b'' ''logs'' ''x'' []]"

lemma sample_rooms:
  "map_option (\<lambda>sp. map_option rm_clients (map_of (sp_rooms sp) ''x'')) (map_of (nv_namespaces sample_notifier) ''logs'') =
     Some (Some [(''a'', 0), (''b'', 1)])"
  by code_simp

lemma sample_clients:
  "nv_heap sample_notifier 0 = (sample_client ''a'' 1)\<lparr>ec_rooms := [(''x'', True)]\<rparr>"
  "nv_heap sample_notifier 1 = (sample_client ''b'' 0)\<lparr>ec_rooms := [(''x'', True)]\<rparr>"
  by code_simp+

lemma sample_sent:
  "snd (broadcast_to_namespace_room unix_epoch 0 ''logs'' ''x'' ''t'' JNull (Some sample_opts) sample_notifier) = Ret None"
  by code_simp


end
