(* ===== verification/Health.thy ===== *)
theory Health
  imports Controller
begin

text \<open>
  The controller's health and readiness checks: \<open>controller/health.go\<close>, with its periodic checks as
  steps, and the enhanced health endpoints of \<open>controller/health_enhanced.go\<close>. Parameters: HTTP GET
  requests, environment variables and what the runtime reports of the process. A duration in a
  response stands for its text. The Prometheus series are in \<open>Metrics\<close> and \<open>Agent_Health\<close>.
\<close>

subsection \<open>The checks\<close>

record health_env =
  he_bad_url :: "string \<Rightarrow> string option"
  he_get :: "string \<Rightarrow> string + int"
  he_agent_endpoints :: string
  he_otel_url :: string

record health_dependency =
  hd_name :: string
  hd_status :: string
  hd_last_check :: gtime
  hd_latency :: duration
  hd_error :: string
  hd_check :: "health_env \<Rightarrow> string option"
  hd_timeout :: duration
  hd_interval :: duration
  hd_critical :: bool

definition check_database :: "health_env \<Rightarrow> string option" where
  "check_database env = None"

fun any_agent :: "health_env \<Rightarrow> string list \<Rightarrow> bool" where
  "any_agent env [] = False"
| "any_agent env (e # es) =
     (if he_bad_url env (e @ ''/health'') \<noteq> None then any_agent env es
      else if he_get env (e @ ''/health'') = Inr 200 then True
      else any_agent env es)"

definition check_agents :: "health_env \<Rightarrow> string option" where
  "check_agents env = (let es = get_agent_endpoints (he_agent_endpoints env) in
     if es = [] then Some ''no agent endpoints configured''
     else if any_agent env es then None
     else Some ''no healthy agents found'')"

definition check_tracing_backend :: "health_env \<Rightarrow> string option" where
  "check_tracing_backend env = (let u = trim_space (he_otel_url env) in
     if u = [] then None
     else (case he_bad_url env u of Some err \<Rightarrow> Some err
     | None \<Rightarrow> (case he_get env u of Inl err \<Rightarrow> Some err
     | Inr code \<Rightarrow> if code \<noteq> 200 then Some (''tracing health endpoint returned status '' @ itoa code) else None)))"

subsection \<open>The checker\<close>

text \<open>\<open>hk_running\<close> holds the checks under way: the dependency's name, the start and the copy that is checked.\<close>

record health_checker =
  hk_dependencies :: "(string \<times> health_dependency) list"
  hk_start_time :: gtime
  hk_version :: string
  hk_running :: "(string \<times> gtime \<times> health_dependency) list"

definition zero_dependency :: health_dependency where
  "zero_dependency = \<lparr>hd_name = [], hd_status = [], hd_last_check = 0, hd_latency = 0, hd_error = [],
     hd_check = (\<lambda>env. None), hd_timeout = 0, hd_interval = 0, hd_critical = False\<rparr>"

definition register_dependency :: "gtime \<Rightarrow> string \<Rightarrow> health_dependency \<Rightarrow> health_checker \<Rightarrow> health_checker" where
  "register_dependency now name dep s = s\<lparr>hk_dependencies := AList.update name
     (dep\<lparr>hd_name := name, hd_status := ''unknown'', hd_last_check := now\<rparr>) (hk_dependencies s)\<rparr>"

definition new_health_checker :: "string \<Rightarrow> gtime \<Rightarrow> health_checker" where
  "new_health_checker version now =
     (let s = \<lparr>hk_dependencies = [], hk_start_time = now, hk_version = version, hk_running = []\<rparr>;
          s = register_dependency now ''database'' (zero_dependency\<lparr>hd_name := ''database'', hd_check := check_database,
            hd_timeout := 5 * second, hd_interval := 30 * second, hd_critical := True\<rparr>) s;
          s = register_dependency now ''agents'' (zero_dependency\<lparr>hd_name := ''agents'', hd_check := check_agents,
            hd_timeout := 3 * second, hd_interval := 15 * second, hd_critical := False\<rparr>) s in
      register_dependency now ''tracing'' (zero_dependency\<lparr>hd_name := ''tracing'', hd_check := check_tracing_backend,
        hd_timeout := 3 * second, hd_interval := 60 * second, hd_critical := False\<rparr>) s)"

text \<open>A tick of the ticker: it starts a check of each dependency whose last one is too old.\<close>

definition periodic_checks :: "gtime \<Rightarrow> health_checker \<Rightarrow> health_checker" where
  "periodic_checks now s = s\<lparr>hk_running := hk_running s @
     map (\<lambda>(name, dep). (name, now, dep))
       (filter (\<lambda>(name, dep). time_sub now (hd_last_check dep) \<ge> hd_interval dep) (hk_dependencies s))\<rparr>"

text \<open>What a check may end with: the result of the check, or the deadline once it has passed.\<close>

definition check_results :: "health_env \<Rightarrow> gtime \<Rightarrow> string \<times> gtime \<times> health_dependency \<Rightarrow> string option set" where
  "check_results env now c = (case c of (name, start, dep) \<Rightarrow>
     insert (hd_check dep env) (if now - start \<ge> hd_timeout dep then {Some ''context deadline exceeded''} else {}))"

definition finish_check :: "gtime \<Rightarrow> string \<times> gtime \<times> health_dependency \<Rightarrow> string option \<Rightarrow> health_checker \<Rightarrow> health_checker" where
  "finish_check now c err s = (case c of (name, start, dep) \<Rightarrow>
     (let d = (case map_of (hk_dependencies s) name of Some d \<Rightarrow> d | None \<Rightarrow> zero_dependency);
          d = d\<lparr>hd_status := (if err = None then ''healthy'' else ''unhealthy''), hd_last_check := now,
            hd_latency := time_sub now start, hd_error := (case err of None \<Rightarrow> [] | Some e \<Rightarrow> e)\<rparr> in
      s\<lparr>hk_dependencies := AList.update name d (hk_dependencies s), hk_running := remove1 c (hk_running s)\<rparr>))"

subsection \<open>Status\<close>

record memory_info =
  mi_allocated :: int
  mi_total_alloc :: int
  mi_system :: int
  mi_gc_runs :: int

record system_info =
  si_hostname :: string
  si_platform :: string
  si_architecture :: string
  si_go_version :: string
  si_goroutines :: int
  si_memory :: memory_info

record health_metrics =
  hm_requests_total :: int
  hm_requests_per_second :: rat
  hm_average_response_time :: rat
  hm_error_rate :: rat

record health_status =
  hs_status :: string
  hs_timestamp :: gtime
  hs_version :: string
  hs_uptime :: duration
  hs_dependencies :: "(string \<times> health_dependency) list"
  hs_system :: system_info
  hs_metrics :: health_metrics

record readiness_status =
  rd_ready :: bool
  rd_timestamp :: gtime
  rd_dependencies :: "(string \<times> health_dependency) list"
  rd_reason :: string

definition failing :: "health_dependency \<Rightarrow> bool" where
  "failing d \<longleftrightarrow> hd_critical d \<and> hd_status d \<noteq> ''healthy''"

text \<open>The response shares the map of dependencies, so it is encoded as it is then (\<open>enc\<close>).\<close>

definition get_health_status :: "gtime \<Rightarrow> system_info \<Rightarrow> health_checker \<Rightarrow> health_checker \<Rightarrow> health_status" where
  "get_health_status now info s enc = \<lparr>hs_status = (if list_ex (\<lambda>(n, d). failing d) (hk_dependencies s) then ''unhealthy'' else ''healthy''),
     hs_timestamp = now, hs_version = hk_version s, hs_uptime = time_sub now (hk_start_time s),
     hs_dependencies = hk_dependencies enc, hs_system = info,
     hs_metrics = \<lparr>hm_requests_total = 0, hm_requests_per_second = 0, hm_average_response_time = 0, hm_error_rate = 0\<rparr>\<rparr>"

definition critical_reason :: "health_dependency \<Rightarrow> string" where
  "critical_reason d = ''Critical dependency '' @ [CHR 0x27] @ hd_name d @ [CHR 0x27] @ '' is '' @ hd_status d"

definition get_readiness_status :: "gtime \<Rightarrow> health_checker \<Rightarrow> health_checker \<Rightarrow> readiness_status" where
  "get_readiness_status now s enc =
     (let (ready, reason) = foldl (\<lambda>(ready, reason) (n, d).
        if failing d then (False, if reason = [] then critical_reason d else reason) else (ready, reason))
        (True, []) (hk_dependencies s) in
      \<lparr>rd_ready = ready, rd_timestamp = now, rd_dependencies = hk_dependencies enc, rd_reason = reason\<rparr>)"

datatype health_body =
    HbHealth health_status
  | HbReadiness readiness_status
  | HbMetrics duration string

definition no_cache_headers :: headers where
  "no_cache_headers = header_set ''Cache-Control'' ''no-cache, no-store, must-revalidate'' (json_headers [])"

definition healthz_handler :: "gtime \<Rightarrow> system_info \<Rightarrow> health_checker \<Rightarrow> health_checker \<Rightarrow> health_body http_response" where
  "healthz_handler now info s enc = (let status = get_health_status now info s enc in
     \<lparr>rs_status = (if hs_status status = ''healthy'' then 200 else 503), rs_headers = no_cache_headers, rs_body = HbHealth status\<rparr>)"

definition readyz_handler :: "gtime \<Rightarrow> health_checker \<Rightarrow> health_checker \<Rightarrow> health_body http_response" where
  "readyz_handler now s enc = (let status = get_readiness_status now s enc in
     \<lparr>rs_status = (if rd_ready status then 200 else 503), rs_headers = no_cache_headers, rs_body = HbReadiness status\<rparr>)"

definition metrics_handler :: "gtime \<Rightarrow> health_checker \<Rightarrow> health_body http_response" where
  "metrics_handler now s = \<lparr>rs_status = 200, rs_headers = json_headers [],
     rs_body = HbMetrics (time_sub now (hk_start_time s)) (hk_version s)\<rparr>"

subsection \<open>Runs\<close>

text \<open>The states of a checker made at \<open>t0\<close>, and the time of the last step.\<close>

inductive health_reachable :: "string \<Rightarrow> gtime \<Rightarrow> health_checker \<Rightarrow> gtime \<Rightarrow> bool" for version t0 where
  start: "health_reachable version t0 (new_health_checker version t0) t0"
| tick: "health_reachable version t0 s t \<Longrightarrow> t \<le> now \<Longrightarrow> health_reachable version t0 (periodic_checks now s) now"
| finish: "health_reachable version t0 s t \<Longrightarrow> t \<le> now \<Longrightarrow> c \<in> set (hk_running s) \<Longrightarrow> err \<in> check_results env now c \<Longrightarrow>
    health_reachable version t0 (finish_check now c err s) now"

text \<open>Only the database is critical, and nothing is checked before its interval is over.\<close>

definition dep_ok :: "gtime \<Rightarrow> gtime \<Rightarrow> string \<Rightarrow> health_dependency \<Rightarrow> bool" where
  "dep_ok t0 t n d \<longleftrightarrow> hd_name d = n \<and> (hd_critical d \<longleftrightarrow> n = ''database'') \<and> t0 \<le> hd_last_check d \<and>
     (n = ''database'' \<longrightarrow> hd_check d = check_database \<and> hd_interval d = 30 * second \<and>
        (hd_status d = ''unknown'' \<or> t0 + 30 * second \<le> t))"

definition check_ok :: "gtime \<Rightarrow> gtime \<Rightarrow> string \<times> gtime \<times> health_dependency \<Rightarrow> bool" where
  "check_ok t0 t c \<longleftrightarrow> fst c \<in> {''database'', ''agents'', ''tracing''} \<and> (fst c = ''database'' \<longrightarrow> t0 + 30 * second \<le> t)"

definition health_inv :: "gtime \<Rightarrow> health_checker \<Rightarrow> gtime \<Rightarrow> bool" where
  "health_inv t0 s t \<longleftrightarrow> t0 \<le> t \<and> keys (hk_dependencies s) = [''database'', ''agents'', ''tracing''] \<and>
     (\<forall>(n, d) \<in> set (hk_dependencies s). dep_ok t0 t n d) \<and> (\<forall>c \<in> set (hk_running s). check_ok t0 t c)"

lemma dep_ok_mono: "dep_ok t0 t n d \<Longrightarrow> t \<le> now \<Longrightarrow> dep_ok t0 now n d"
  by (auto simp: dep_ok_def)

lemma check_ok_mono: "check_ok t0 t c \<Longrightarrow> t \<le> now \<Longrightarrow> check_ok t0 now c"
  by (auto simp: check_ok_def)

lemma health_inv_new: "health_inv t0 (new_health_checker version t0) t0"
  by (auto simp: health_inv_def dep_ok_def new_health_checker_def register_dependency_def zero_dependency_def Let_def)

lemma late_check: "time_sub now lc \<ge> 30 * second \<Longrightarrow> t0 \<le> lc \<Longrightarrow> t0 + 30 * second \<le> now"
  by (auto simp: time_sub_def second_def min_i64_def max_i64_def max_def min_def split: if_splits)

lemma health_inv_tick:
  assumes "health_inv t0 s t" and "t \<le> now"
  shows "health_inv t0 (periodic_checks now s) now"
proof -
  have dep: "dep_ok t0 t n d" "n \<in> {''database'', ''agents'', ''tracing''}" if "(n, d) \<in> set (hk_dependencies s)" for n d
  proof -
    show "dep_ok t0 t n d" using assms(1) that by (auto simp: health_inv_def)
    have "n \<in> set (keys (hk_dependencies s))" using that by force
    moreover have "keys (hk_dependencies s) = [''database'', ''agents'', ''tracing'']"
      using assms(1) by (simp add: health_inv_def)
    ultimately show "n \<in> {''database'', ''agents'', ''tracing''}" by (simp del: set_map)
  qed
  have "check_ok t0 now (n, now, d)"
    if "(n, d) \<in> set (hk_dependencies s)" "time_sub now (hd_last_check d) \<ge> hd_interval d" for n d
    using dep [OF that(1)] that(2) late_check by (auto simp: check_ok_def dep_ok_def)
  then show ?thesis
    using assms by (auto simp: health_inv_def periodic_checks_def intro: dep_ok_mono check_ok_mono)
qed

lemma health_inv_finish:
  assumes "health_inv t0 s t" and "t \<le> now" and "c \<in> set (hk_running s)"
  shows "health_inv t0 (finish_check now c err s) now"
proof -
  obtain n start dep where c: "c = (n, start, dep)" by (cases c)
  have "check_ok t0 t c" using assms(1,3) by (simp add: health_inv_def)
  then have n: "n \<in> set (keys (hk_dependencies s))" "n = ''database'' \<Longrightarrow> t0 + 30 * second \<le> now"
    using assms(1,2) by (auto simp: health_inv_def check_ok_def c)
  then obtain d where d: "map_of (hk_dependencies s) n = Some d" by (metis map_of_eq_None_iff option.exhaust set_map)
  let ?d = "d\<lparr>hd_status := (if err = None then ''healthy'' else ''unhealthy''), hd_last_check := now,
      hd_latency := time_sub now start, hd_error := (case err of None \<Rightarrow> [] | Some e \<Rightarrow> e)\<rparr>"
  have f: "finish_check now c err s = s\<lparr>hk_dependencies := AList.update n ?d (hk_dependencies s),
      hk_running := remove1 c (hk_running s)\<rparr>"
    by (simp add: finish_check_def c d)
  have keys: "keys (AList.update n ?d (hk_dependencies s)) = keys (hk_dependencies s)"
    using n(1) by (simp add: update_keys)
  have "dep_ok t0 t n d" using map_of_SomeD [OF d] assms(1) by (auto simp: health_inv_def)
  then have "dep_ok t0 now n ?d" using n(2) assms(1,2) by (auto simp: dep_ok_def health_inv_def)
  then have "\<forall>(n, d) \<in> set (AList.update n ?d (hk_dependencies s)). dep_ok t0 now n d"
    using assms(1,2) update_subset [of n ?d "hk_dependencies s"] dep_ok_mono unfolding health_inv_def by fast
  moreover have "\<forall>c' \<in> set (remove1 c (hk_running s)). check_ok t0 now c'"
    using assms(1,2) set_remove1_subset [of c "hk_running s"] check_ok_mono unfolding health_inv_def by fast
  ultimately show ?thesis using assms(1,2) unfolding f health_inv_def by (simp add: keys)
qed

lemma reachable_inv: "health_reachable version t0 s t \<Longrightarrow> health_inv t0 s t"
  by (induction rule: health_reachable.induct) (auto intro: health_inv_new health_inv_tick health_inv_finish)

lemma three_dependencies:
  assumes "health_inv t0 s t"
  obtains d d2 d3 where "hk_dependencies s = [(''database'', d), (''agents'', d2), (''tracing'', d3)]"
    and "failing d2 = False" and "failing d3 = False" and "failing d = (hd_status d \<noteq> ''healthy'')" and "hd_name d = ''database''"
proof -
  have "keys (hk_dependencies s) = [''database'', ''agents'', ''tracing'']" using assms by (simp add: health_inv_def)
  then obtain d d2 d3 where d: "hk_dependencies s = [(''database'', d), (''agents'', d2), (''tracing'', d3)]"
    by (auto simp: map_eq_Cons_conv)
  then show ?thesis using that assms by (simp add: health_inv_def dep_ok_def failing_def)
qed

subsection \<open>Properties\<close>

text \<open>C21: the controller is healthy exactly when it is ready, and both depend on nothing but the last
  database check: it answers 503 with the database's status as the reason until a check of the
  database succeeds, which is at least thirty seconds after the start.\<close>

theorem ready_after_first_check:
  assumes "health_reachable version t0 s t"
  shows "\<exists>d. map_of (hk_dependencies s) ''database'' = Some d \<and>
    rs_status (healthz_handler now info s enc) = rs_status (readyz_handler now s enc) \<and>
    (if hd_status d = ''healthy'' then rs_status (readyz_handler now s enc) = 200 \<and> t0 + 30 * second \<le> t
     else rs_status (readyz_handler now s enc) = 503 \<and>
       rs_body (readyz_handler now s enc) = HbReadiness \<lparr>rd_ready = False, rd_timestamp = now,
         rd_dependencies = hk_dependencies enc, rd_reason = critical_reason d\<rparr>)"
proof -
  have inv: "health_inv t0 s t" by (rule reachable_inv [OF assms])
  then obtain d d2 d3 where d: "hk_dependencies s = [(''database'', d), (''agents'', d2), (''tracing'', d3)]"
    "failing d2 = False" "failing d3 = False" "failing d = (hd_status d \<noteq> ''healthy'')"
    by (rule three_dependencies)
  have "hd_status d = ''healthy'' \<Longrightarrow> t0 + 30 * second \<le> t" using inv d(1) by (auto simp: health_inv_def dep_ok_def)
  then show ?thesis
    by (simp add: d healthz_handler_def get_health_status_def readyz_handler_def get_readiness_status_def Let_def)
qed

text \<open>The controller becomes ready: whatever happened before, a tick thirty seconds or more after the
  last database check starts one, and when that check returns, at any time, the controller is ready.\<close>

theorem database_check_makes_ready:
  assumes "health_reachable version t0 s t" and "map_of (hk_dependencies s) ''database'' = Some d"
    and "time_sub now (hd_last_check d) \<ge> 30 * second"
  shows "\<exists>dep. (''database'', now, dep) \<in> set (hk_running (periodic_checks now s)) \<and>
    hd_check dep env = None \<and> hd_check dep env \<in> check_results env later (''database'', now, dep) \<and>
    rs_status (readyz_handler after (finish_check later (''database'', now, dep) (hd_check dep env)
      (periodic_checks now s)) enc) = 200"
proof -
  have inv: "health_inv t0 s t" by (rule reachable_inv [OF assms(1)])
  then obtain d' d2 d3 where d: "hk_dependencies s = [(''database'', d'), (''agents'', d2), (''tracing'', d3)]"
    "failing d2 = False" "failing d3 = False" by (rule three_dependencies)
  have dd: "d' = d" using assms(2) d(1) by simp
  have int: "hd_interval d = 30 * second" "hd_check d = check_database" using inv d(1) by (simp_all add: health_inv_def dep_ok_def dd)
  have "(''database'', now, d) \<in> set (hk_running (periodic_checks now s))"
    using assms(3) int by (simp add: periodic_checks_def d(1) dd)
  moreover have "hd_check d env = None" by (simp add: int check_database_def)
  moreover have "None \<in> check_results env later (''database'', now, d)"
    by (simp add: check_results_def int check_database_def)
  moreover have "rs_status (readyz_handler after (finish_check later (''database'', now, d) None (periodic_checks now s)) enc) = 200"
    by (simp add: finish_check_def periodic_checks_def d dd readyz_handler_def get_readiness_status_def failing_def)
      (use d in \<open>auto simp: failing_def\<close>)
  ultimately show ?thesis by (metis (no_types, lifting))
qed

text \<open>A run to the first database check.\<close>

definition sample_health :: health_checker where
  "sample_health = new_health_checker ''1'' 0"

theorem ready_after_first_check_witness:
  "rs_status (readyz_handler 5 sample_health sample_health) = 503"
proof -
  have r: "health_reachable ''1'' 0 sample_health 0" unfolding sample_health_def by (rule health_reachable.start)
  have "map_of (hk_dependencies sample_health) ''database'' =
      Some (zero_dependency\<lparr>hd_name := ''database'', hd_check := check_database, hd_timeout := 5 * second,
        hd_interval := 30 * second, hd_critical := True, hd_status := ''unknown'', hd_last_check := 0\<rparr>)"
    by (simp add: sample_health_def new_health_checker_def register_dependency_def zero_dependency_def Let_def)
  with ready_after_first_check [OF r, of 5 undefined sample_health] show ?thesis by auto
qed

theorem database_check_makes_ready_witness:
  "\<exists>dep. rs_status (readyz_handler 32 (finish_check (31 * second) (''database'', 30 * second, dep) None
     (periodic_checks (30 * second) sample_health)) sample_health) = 200"
proof -
  have r: "health_reachable ''1'' 0 sample_health 0" unfolding sample_health_def by (rule health_reachable.start)
  obtain d where d: "map_of (hk_dependencies sample_health) ''database'' = Some d" "hd_last_check d = 0"
    by (simp add: sample_health_def new_health_checker_def register_dependency_def zero_dependency_def Let_def)
  have "time_sub (30 * second) (hd_last_check d) \<ge> 30 * second"
    by (simp add: d time_sub_def second_def min_i64_def max_i64_def)
  from database_check_makes_ready [OF r d(1) this, of undefined "31 * second" 32 sample_health]
  show ?thesis by auto
qed

end
