(* ===== verification/Health_Enhanced.thy ===== *)
theory Health_Enhanced
  imports Health
begin

text \<open>
  The enhanced health endpoints, \<open>controller/health_enhanced.go\<close>. The numbers are the simulated ones
  of the code; only the memory of the process is read, and is a parameter. Floats are rationals and
  texts of durations stand as durations.
\<close>

record preflight_health =
  ph_status :: string
  ph_last_check :: gtime
  ph_total_checks :: int
  ph_passed_checks :: int
  ph_failed_checks :: int
  ph_warning_checks :: int
  ph_success_rate :: rat
  ph_last_failure :: string
  ph_recommendations :: "string list"

record resource_health =
  rh_status :: string
  rh_usage :: rat
  rh_available :: rat
  rh_threshold :: rat
  rh_last_updated :: gtime

record system_health =
  sy_cpu :: "resource_health option"
  sy_memory :: "resource_health option"
  sy_disk :: "resource_health option"
  sy_network :: "resource_health option"
  sy_processes :: "resource_health option"
  sy_containers :: "resource_health option"

record experiment_health =
  eh_active_experiments :: int
  eh_total_started :: int
  eh_total_completed :: int
  eh_total_failed :: int
  eh_success_rate :: rat
  eh_average_duration :: rat
  eh_last_experiment :: string

record enhanced_health_status =
  en_status :: string
  en_timestamp :: gtime
  en_version :: string
  en_uptime :: duration
  en_start_time :: gtime
  en_components :: "(string \<times> json) list"
  en_preflight :: "preflight_health option"
  en_system :: "system_health option"
  en_experiments :: "experiment_health option"

definition get_start_time :: "gtime \<Rightarrow> gtime" where
  "get_start_time now = now - hour"

definition get_preflight_health :: "gtime \<Rightarrow> preflight_health option" where
  "get_preflight_health now = Some \<lparr>ph_status = ''healthy'', ph_last_check = now - 5 * minute, ph_total_checks = 25,
     ph_passed_checks = 23, ph_failed_checks = 1, ph_warning_checks = 1, ph_success_rate = 92,
     ph_last_failure = ''CAP_SYS_ADMIN capability missing'',
     ph_recommendations = [''Run container with --privileged flag'', ''Add CAP_SYS_ADMIN capability'',
       ''Ensure tc command is available'']\<rparr>"

text \<open>The bytes allocated and obtained from the system; the latter is never 0 in a process that runs.\<close>

definition memory_usage :: "nat \<Rightarrow> nat \<Rightarrow> rat" where
  "memory_usage alloc sys = of_nat alloc / of_nat sys * 100"

definition get_system_health :: "gtime \<Rightarrow> nat \<Rightarrow> nat \<Rightarrow> system_health option" where
  "get_system_health now alloc sys =
     (let mem_usage = memory_usage alloc sys;
          res = (\<lambda>usage available threshold. Some \<lparr>rh_status = ''healthy'', rh_usage = usage, rh_available = available,
            rh_threshold = threshold, rh_last_updated = now\<rparr>) in
      Some \<lparr>sy_cpu = res (452 / 10) (548 / 10) 80,
        sy_memory = res mem_usage (100 - mem_usage) 85,
        sy_disk = res (621 / 10) (379 / 10) 90,
        sy_network = res (234 / 10) (766 / 10) 80,
        sy_processes = res (128 / 10) (872 / 10) 90,
        sy_containers = res (85 / 10) (915 / 10) 95\<rparr>)"

definition get_experiment_health :: "experiment_health option" where
  "get_experiment_health = Some \<lparr>eh_active_experiments = 3, eh_total_started = 15, eh_total_completed = 12,
     eh_total_failed = 2, eh_success_rate = 857 / 10, eh_average_duration = 452 / 10,
     eh_last_experiment = ''network-latency-test''\<rparr>"

definition over_threshold :: "resource_health option \<Rightarrow> bool" where
  "over_threshold r \<longleftrightarrow> (case r of None \<Rightarrow> False | Some r \<Rightarrow> rh_usage r > rh_threshold r)"

definition overall_status :: "enhanced_health_status \<Rightarrow> enhanced_health_status" where
  "overall_status h =
     (if (case en_preflight h of None \<Rightarrow> False | Some p \<Rightarrow> ph_status p = ''unhealthy'') then h\<lparr>en_status := ''unhealthy''\<rparr>
      else
       (let h = (case en_system h of None \<Rightarrow> h
              | Some y \<Rightarrow>
                (let h = (if over_threshold (sy_cpu y) then h\<lparr>en_status := ''degraded''\<rparr> else h);
                     h = (if over_threshold (sy_memory y) then h\<lparr>en_status := ''degraded''\<rparr> else h) in
                 if over_threshold (sy_disk y) then h\<lparr>en_status := ''degraded''\<rparr> else h)) in
        if (case en_experiments h of None \<Rightarrow> False | Some e \<Rightarrow> eh_success_rate e < 80)
        then h\<lparr>en_status := ''degraded''\<rparr> else h))"

datatype enhanced_body =
    EbHealth enhanced_health_status
  | EbPreflight preflight_health
  | EbSystem system_health
  | EbExperiments experiment_health
  | EbSummary gtime gtime duration
  | EbText string

definition new_enhanced_health :: "gtime \<Rightarrow> enhanced_health_status" where
  "new_enhanced_health now = \<lparr>en_status = ''healthy'', en_timestamp = now, en_version = ''1.0.0'', en_uptime = 0,
     en_start_time = get_start_time now,
     en_components = [
       (''controller'', JObj [(''status'', JStr ''healthy''), (''port'', JInt 8080)]),
       (''http'', JObj [(''status'', JStr ''healthy''), (''endpoints'', JArr (map JStr [''/start'', ''/stop'', ''/experiments'',
          ''/health'', ''/health/enhanced'', ''/health/socketio'', ''/ready'', ''/metrics'']))])],
     en_preflight = None, en_system = None, en_experiments = None\<rparr>"

definition enhanced_health_handler :: "gtime \<Rightarrow> nat \<Rightarrow> nat \<Rightarrow> enhanced_body http_response" where
  "enhanced_health_handler now alloc sys =
     (let h = new_enhanced_health now;
          h = (if en_start_time h \<noteq> 0 then h\<lparr>en_uptime := time_sub now (en_start_time h)\<rparr> else h);
          h = (case get_preflight_health now of None \<Rightarrow> h | Some p \<Rightarrow> h\<lparr>en_preflight := Some p\<rparr>);
          h = h\<lparr>en_system := get_system_health now alloc sys\<rparr>;
          h = overall_status h in
      \<lparr>rs_status = (if en_status h = ''healthy'' then 200 else if en_status h = ''degraded'' then 200 else 503),
       rs_headers = json_headers [], rs_body = EbHealth h\<rparr>)"

definition preflight_health_handler :: "gtime \<Rightarrow> enhanced_body http_response" where
  "preflight_health_handler now = (case get_preflight_health now of
     None \<Rightarrow> http_error EbText ''Preflight health information not available'' 503 (json_headers [])
   | Some p \<Rightarrow> \<lparr>rs_status = (if ph_status p = ''healthy'' then 200 else if ph_status p = ''degraded'' then 200 else 503),
       rs_headers = json_headers [], rs_body = EbPreflight p\<rparr>)"

definition system_health_handler :: "gtime \<Rightarrow> nat \<Rightarrow> nat \<Rightarrow> enhanced_body http_response" where
  "system_health_handler now alloc sys = (case get_system_health now alloc sys of
     None \<Rightarrow> http_error EbText ''System health information not available'' 503 (json_headers [])
   | Some y \<Rightarrow> \<lparr>rs_status = 200, rs_headers = json_headers [], rs_body = EbSystem y\<rparr>)"

definition experiment_health_handler :: "enhanced_body http_response" where
  "experiment_health_handler = (case get_experiment_health of
     None \<Rightarrow> http_error EbText ''Experiment health information not available'' 503 (json_headers [])
   | Some e \<Rightarrow> \<lparr>rs_status = 200, rs_headers = json_headers [], rs_body = EbExperiments e\<rparr>)"

text \<open>The summary is constant but for its times: everything is healthy.\<close>

definition health_summary_handler :: "gtime \<Rightarrow> enhanced_body http_response" where
  "health_summary_handler now = \<lparr>rs_status = 200, rs_headers = json_headers [],
     rs_body = EbSummary now (now - minute) (time_sub now (get_start_time now))\<rparr>"

text \<open>
  The endpoint never answers 503, and is degraded exactly when the process uses more than 85 percent
  of the memory it obtained; the experiments are left out.
\<close>

lemma overall_simulated:
  "overall_status ((new_enhanced_health now)\<lparr>en_uptime := d, en_preflight := get_preflight_health now,
      en_system := get_system_health now alloc sys\<rparr>) =
    (new_enhanced_health now)\<lparr>en_uptime := d, en_preflight := get_preflight_health now,
      en_system := get_system_health now alloc sys,
      en_status := (if memory_usage alloc sys > 85 then ''degraded'' else ''healthy'')\<rparr>"
  by (simp add: overall_status_def get_preflight_health_def get_system_health_def over_threshold_def
      new_enhanced_health_def Let_def)

lemma enhanced_health_result:
  "rs_status (enhanced_health_handler now alloc sys) = 200 \<and>
   (\<exists>h. rs_body (enhanced_health_handler now alloc sys) = EbHealth h \<and> en_experiments h = None \<and>
     en_status h = (if memory_usage alloc sys > 85 then ''degraded'' else ''healthy''))"
proof -
  define h where "h d = (new_enhanced_health now)\<lparr>en_uptime := d, en_preflight := get_preflight_health now,
    en_system := get_system_health now alloc sys\<rparr>" for d
  have "\<exists>d. enhanced_health_handler now alloc sys = (let h = overall_status (h d) in
      \<lparr>rs_status = (if en_status h = ''healthy'' then 200 else if en_status h = ''degraded'' then 200 else 503),
       rs_headers = json_headers [], rs_body = EbHealth h\<rparr>)"
    by (cases "get_start_time now = 0"; rule exI [where x = "if get_start_time now = 0 then 0 else time_sub now (get_start_time now)"])
      (simp_all add: enhanced_health_handler_def h_def get_preflight_health_def new_enhanced_health_def Let_def)
  moreover have "en_status (overall_status (h d)) = (if memory_usage alloc sys > 85 then ''degraded'' else ''healthy'') \<and>
      en_experiments (overall_status (h d)) = None" for d
    by (simp only: h_def overall_simulated) (simp add: new_enhanced_health_def)
  ultimately show ?thesis by (auto simp: Let_def)
qed

end
