(* ===== verification/Observability.thy ===== *)
theory Observability
  imports Prelude
begin

text \<open>
  The metrics and spans of the agent and the controller, \<open>agent/observability.go\<close> and
  \<open>controller/observability.go\<close>, and the tracer's configuration, \<open>tracing_otlp.go\<close>. OpenTelemetry is the
  library outside: creating an exporter or an instrument may fail, which is a parameter. What an
  operation does is the list of the measurements that it hands to the library, in order; what the
  library makes of them is its documentation: a counter keeps one sum for each set of attributes.
  Floats are rationals.
\<close>

subsection \<open>Instruments\<close>

datatype metric_kind =
    Int64Counter
  | Int64UpDownCounter
  | Float64Histogram "rat list"
  | Float64Gauge
  | Int64Gauge

record instrument =
  in_name :: string
  in_kind :: metric_kind
  in_description :: string
  in_unit :: string

definition counter :: "string \<Rightarrow> string \<Rightarrow> instrument" where
  "counter name desc = \<lparr>in_name = name, in_kind = Int64Counter, in_description = desc, in_unit = ''1''\<rparr>"

definition up_down_counter :: "string \<Rightarrow> string \<Rightarrow> instrument" where
  "up_down_counter name desc = \<lparr>in_name = name, in_kind = Int64UpDownCounter, in_description = desc, in_unit = ''1''\<rparr>"

definition histogram :: "string \<Rightarrow> string \<Rightarrow> rat list \<Rightarrow> instrument" where
  "histogram name desc bounds =
     \<lparr>in_name = name, in_kind = Float64Histogram bounds, in_description = desc, in_unit = ''s''\<rparr>"

definition gauge :: "string \<Rightarrow> metric_kind \<Rightarrow> string \<Rightarrow> string \<Rightarrow> instrument" where
  "gauge name kind desc u = \<lparr>in_name = name, in_kind = kind, in_description = desc, in_unit = u\<rparr>"

text \<open>The agent's instruments, in the order in which \<open>initMetrics\<close> creates them.\<close>

definition agent_experiment_instruments :: "instrument list" where
  "agent_experiment_instruments = [
     counter ''experiments_received_total'' ''Total number of experiments received from controller'',
     counter ''experiments_executed_total'' ''Total number of experiments executed successfully'',
     counter ''experiments_failed_total'' ''Total number of experiments that failed'',
     up_down_counter ''experiments_active'' ''Current number of active experiments'',
     histogram ''experiment_duration_seconds'' ''Duration of experiments in seconds''
       [1/10, 1/2, 1, 5, 10, 30, 60, 300]]"

definition agent_network_instruments :: "instrument list" where
  "agent_network_instruments = [
     counter ''network_faults_applied_total'' ''Total number of network faults applied'',
     counter ''network_faults_reverted_total'' ''Total number of network faults reverted'',
     histogram ''network_fault_duration_seconds'' ''Duration of network faults in seconds''
       [1/10, 1/2, 1, 5, 10, 30, 60],
     counter ''network_fault_failures_total'' ''Total number of network fault failures'']"

definition agent_stress_instruments :: "instrument list" where
  "agent_stress_instruments = [
     counter ''system_stress_applied_total'' ''Total number of system stress tests applied'',
     counter ''system_stress_reverted_total'' ''Total number of system stress tests reverted'',
     histogram ''system_stress_duration_seconds'' ''Duration of system stress tests in seconds''
       [1/10, 1/2, 1, 5, 10, 30, 60],
     counter ''system_stress_failures_total'' ''Total number of system stress test failures'']"

definition agent_resource_instruments :: "instrument list" where
  "agent_resource_instruments = [
     gauge ''cpu_usage_percentage'' Float64Gauge ''Current CPU usage percentage'' ''1'',
     gauge ''memory_usage_bytes'' Float64Gauge ''Current memory usage in bytes'' ''By'',
     gauge ''network_interface_count'' Int64Gauge ''Number of network interfaces managed'' ''1'',
     gauge ''active_qdiscs'' Int64Gauge ''Number of active qdiscs'' ''1'']"

definition agent_communication_instruments :: "instrument list" where
  "agent_communication_instruments = [
     counter ''controller_requests_total'' ''Total number of requests from controller'',
     histogram ''controller_latency_seconds'' ''Latency of controller requests in seconds''
       [1/100, 1/20, 1/10, 1/2, 1, 5],
     counter ''controller_failures_total'' ''Total number of controller communication failures'']"

definition agent_instruments :: "instrument list" where
  "agent_instruments = agent_experiment_instruments @ agent_network_instruments @ agent_stress_instruments @
     agent_resource_instruments @ agent_communication_instruments"

text \<open>The controller's.\<close>

definition ctl_experiment_instruments :: "instrument list" where
  "ctl_experiment_instruments = [
     counter ''experiments_started_total'' ''Total number of experiments started'',
     counter ''experiments_completed_total'' ''Total number of experiments completed successfully'',
     counter ''experiments_failed_total'' ''Total number of experiments that failed'',
     up_down_counter ''experiments_active'' ''Current number of active experiments'',
     histogram ''experiment_duration_seconds'' ''Duration of experiments in seconds''
       [1/10, 1/2, 1, 5, 10, 30, 60, 300]]"

definition ctl_http_instruments :: "instrument list" where
  "ctl_http_instruments = [
     counter ''http_requests_total'' ''Total number of HTTP requests'',
     histogram ''http_request_duration_seconds'' ''HTTP request duration in seconds''
       [1/100, 1/20, 1/10, 1/2, 1, 5, 10],
     up_down_counter ''http_requests_in_flight'' ''Current number of HTTP requests being processed'']"

definition ctl_agent_instruments :: "instrument list" where
  "ctl_agent_instruments = [
     counter ''agent_requests_total'' ''Total number of requests to agents'',
     histogram ''agent_request_duration_seconds'' ''Duration of agent requests in seconds''
       [1/100, 1/20, 1/10, 1/2, 1, 5],
     counter ''agent_request_failures_total'' ''Total number of failed agent requests'']"

definition ctl_system_instruments :: "instrument list" where
  "ctl_system_instruments = [
     up_down_counter ''active_connections'' ''Current number of active connections'',
     gauge ''worker_pool_utilization'' Float64Gauge ''Current worker pool utilization percentage'' ''1'',
     gauge ''memory_usage_bytes'' Float64Gauge ''Current memory usage in bytes'' ''By'',
     gauge ''cpu_usage_percentage'' Float64Gauge ''Current CPU usage percentage'' ''1'']"

definition ctl_event_instruments :: "instrument list" where
  "ctl_event_instruments = [
     histogram ''event_publish_duration_seconds'' ''Duration of event publishing in seconds''
       [1/1000, 1/200, 1/100, 1/20, 1/10, 1/2],
     histogram ''event_processing_duration_seconds'' ''Duration of event processing in seconds''
       [1/1000, 1/200, 1/100, 1/20, 1/10, 1/2],
     counter ''event_processing_failures_total'' ''Total number of event processing failures'']"

definition ctl_instruments :: "instrument list" where
  "ctl_instruments = ctl_experiment_instruments @ ctl_http_instruments @ ctl_agent_instruments @
     ctl_system_instruments @ ctl_event_instruments"

text \<open>The instruments that are created, up to the first one that the library refuses, and its error.\<close>

fun init_metrics :: "(instrument \<Rightarrow> string option) \<Rightarrow> instrument list \<Rightarrow> instrument list \<times> string option" where
  "init_metrics refuses [] = ([], None)"
| "init_metrics refuses (i # is) = (case refuses i of
     Some err \<Rightarrow> ([], Some (''failed to create '' @ in_name i @ '' metric: '' @ err))
   | None \<Rightarrow> (case init_metrics refuses is of (created, err) \<Rightarrow> (i # created, err)))"

subsection \<open>The tracer\<close>

record tracer_config =
  tc_endpoint :: string
  tc_insecure :: bool
  tc_service :: string
  tc_version :: string
  tc_host :: string

text \<open>
  \<open>parse_url\<close> gives the scheme and the host of an address or an error; \<open>exporter\<close> and \<open>resource\<close> tell
  whether the library refuses to build the exporter and the resource.
\<close>

record otlp_lib =
  ol_parse_url :: "string \<Rightarrow> string + string \<times> string"
  ol_exporter :: "string \<Rightarrow> bool \<Rightarrow> string option"
  ol_resource :: "string \<Rightarrow> string option"

definition otlp_endpoint :: "(string \<Rightarrow> string) \<Rightarrow> string" where
  "otlp_endpoint env =
     (let raw = trim_space (env ''OTEL_EXPORTER_OTLP_TRACES_ENDPOINT'');
          raw = (if raw = [] then trim_space (env ''OTEL_EXPORTER_OTLP_ENDPOINT'') else raw) in
      if raw = [] then ''http://localhost:4318'' else raw)"

definition new_otlp_tracer_provider ::
  "otlp_lib \<Rightarrow> (string \<Rightarrow> string) \<Rightarrow> string \<Rightarrow> string \<Rightarrow> string + tracer_config" where
  "new_otlp_tracer_provider lib env service version =
     (let raw = otlp_endpoint env in
      case ol_parse_url lib raw of
        Inl err \<Rightarrow> Inl (''parse OTLP endpoint: '' @ err)
      | Inr (scheme, host) \<Rightarrow>
        (let endpoint = (if host = [] then raw else host);
             insecure = (scheme = ''http'' \<or> env ''OTEL_EXPORTER_OTLP_INSECURE'' = ''true'') in
         case ol_exporter lib endpoint insecure of
           Some err \<Rightarrow> Inl (''otlp http exporter: '' @ err)
         | None \<Rightarrow>
           (let name = trim_space (env ''HOSTNAME''); name = (if name = [] then ''unknown'' else name) in
            case ol_resource lib service of
              Some err \<Rightarrow> Inl (''resource: '' @ err)
            | None \<Rightarrow> Inr \<lparr>tc_endpoint = endpoint, tc_insecure = insecure, tc_service = service,
                tc_version = version, tc_host = name\<rparr>)))"

text \<open>The controller's copy does not read the name of the host.\<close>

definition ctl_otlp_tracer_provider ::
  "otlp_lib \<Rightarrow> (string \<Rightarrow> string) \<Rightarrow> string \<Rightarrow> string \<Rightarrow> string + tracer_config" where
  "ctl_otlp_tracer_provider lib env service version =
     (let raw = otlp_endpoint env in
      case ol_parse_url lib raw of
        Inl err \<Rightarrow> Inl (''parse OTLP endpoint: '' @ err)
      | Inr (scheme, host) \<Rightarrow>
        (let endpoint = (if host = [] then raw else host);
             insecure = (scheme = ''http'' \<or> env ''OTEL_EXPORTER_OTLP_INSECURE'' = ''true'') in
         case ol_exporter lib endpoint insecure of
           Some err \<Rightarrow> Inl (''otlp http exporter: '' @ err)
         | None \<Rightarrow>
           (case ol_resource lib service of
              Some err \<Rightarrow> Inl (''resource: '' @ err)
            | None \<Rightarrow> Inr \<lparr>tc_endpoint = endpoint, tc_insecure = insecure, tc_service = service,
                tc_version = version, tc_host = []\<rparr>)))"

record observability_manager =
  om_tracer :: tracer_config
  om_meter :: string
  om_metrics :: "instrument list"

definition new_observability ::
  "string + tracer_config \<Rightarrow> string option \<Rightarrow> (instrument \<Rightarrow> string option) \<Rightarrow> string \<Rightarrow> instrument list
    \<Rightarrow> string + observability_manager" where
  "new_observability tracer exporter refuses name instruments = (case tracer of
     Inl err \<Rightarrow> Inl (''otlp tracer: '' @ err)
   | Inr tp \<Rightarrow> (case exporter of
       Some err \<Rightarrow> Inl (''failed to create Prometheus exporter: '' @ err)
     | None \<Rightarrow> (case init_metrics refuses instruments of
         (_, Some err) \<Rightarrow> Inl (''failed to initialize metrics: '' @ err)
       | (created, None) \<Rightarrow> Inr \<lparr>om_tracer = tp, om_meter = name, om_metrics = created\<rparr>)))"

definition new_agent_observability ::
  "otlp_lib \<Rightarrow> (string \<Rightarrow> string) \<Rightarrow> string option \<Rightarrow> (instrument \<Rightarrow> string option) \<Rightarrow> string + observability_manager" where
  "new_agent_observability lib env exporter refuses = new_observability
     (new_otlp_tracer_provider lib env ''chaoslabs-agent'' ''1.0.0'') exporter refuses ''chaoslabs-agent'' agent_instruments"

definition new_ctl_observability ::
  "otlp_lib \<Rightarrow> (string \<Rightarrow> string) \<Rightarrow> string option \<Rightarrow> (instrument \<Rightarrow> string option) \<Rightarrow> string + observability_manager" where
  "new_ctl_observability lib env exporter refuses = new_observability
     (ctl_otlp_tracer_provider lib env ''chaoslabs-controller'' ''1.0.0'') exporter refuses ''chaoslabs-controller''
     ctl_instruments"

subsection \<open>Spans\<close>

datatype attr_val = AvStr string | AvBool bool | AvInt int

type_synonym attributes = "(string \<times> attr_val) list"

record span =
  sp_name :: string
  sp_attributes :: attributes

definition experiment_span :: "string \<Rightarrow> string \<Rightarrow> span" where
  "experiment_span i ty = \<lparr>sp_name = ''execute_experiment'', sp_attributes = [(''experiment.id'', AvStr i),
     (''experiment.type'', AvStr ty), (''component'', AvStr ''experiment_execution'')]\<rparr>"

definition network_fault_span :: "string \<Rightarrow> string \<Rightarrow> span" where
  "network_fault_span operation iface = \<lparr>sp_name = ''network_fault'', sp_attributes = [(''operation'', AvStr operation),
     (''interface'', AvStr iface), (''component'', AvStr ''network_fault'')]\<rparr>"

definition system_stress_span :: "string \<Rightarrow> string \<Rightarrow> span" where
  "system_stress_span operation ty = \<lparr>sp_name = ''system_stress'', sp_attributes = [(''operation'', AvStr operation),
     (''stress_type'', AvStr ty), (''component'', AvStr ''system_stress'')]\<rparr>"

definition start_experiment_span :: "string \<Rightarrow> string \<Rightarrow> string \<Rightarrow> span" where
  "start_experiment_span i ty target = \<lparr>sp_name = ''start_experiment'', sp_attributes = [(''experiment.id'', AvStr i),
     (''experiment.type'', AvStr ty), (''experiment.target'', AvStr target),
     (''operation'', AvStr ''start_experiment'')]\<rparr>"

definition stop_experiment_span :: "string \<Rightarrow> span" where
  "stop_experiment_span i = \<lparr>sp_name = ''stop_experiment'', sp_attributes = [(''experiment.id'', AvStr i),
     (''operation'', AvStr ''stop_experiment'')]\<rparr>"

definition agent_request_span :: "string \<Rightarrow> string \<Rightarrow> span" where
  "agent_request_span i operation = \<lparr>sp_name = ''agent_request'', sp_attributes = [(''agent.id'', AvStr i),
     (''operation'', AvStr operation), (''component'', AvStr ''agent_communication'')]\<rparr>"

definition event_processing_span :: "string \<Rightarrow> string \<Rightarrow> span" where
  "event_processing_span ty i = \<lparr>sp_name = ''process_event'', sp_attributes = [(''event.type'', AvStr ty),
     (''event.id'', AvStr i), (''component'', AvStr ''event_processing'')]\<rparr>"

subsection \<open>The agent's measurements\<close>

record measurement =
  ms_instrument :: string
  ms_value :: rat
  ms_attributes :: attributes

definition measured :: "string \<Rightarrow> rat \<Rightarrow> attributes \<Rightarrow> measurement" where
  "measured name v attrs = \<lparr>ms_instrument = name, ms_value = v, ms_attributes = attrs\<rparr>"

text \<open>\<open>Duration.Seconds\<close>.\<close>

definition seconds :: "duration \<Rightarrow> rat" where
  "seconds d = of_int d / of_int second"

definition record_experiment_received :: "string \<Rightarrow> measurement list" where
  "record_experiment_received ty = (let attrs = [(''experiment_type'', AvStr ty)] in
     [measured ''experiments_received_total'' 1 attrs, measured ''experiments_active'' 1 attrs])"

definition record_experiment_executed :: "string \<Rightarrow> duration \<Rightarrow> measurement list" where
  "record_experiment_executed ty d = (let attrs = [(''experiment_type'', AvStr ty)] in
     [measured ''experiments_executed_total'' 1 attrs, measured ''experiments_active'' (- 1) attrs,
      measured ''experiment_duration_seconds'' (seconds d) attrs])"

definition agent_experiment_failed :: "string \<Rightarrow> string \<Rightarrow> measurement list" where
  "agent_experiment_failed ty err = (let attrs = [(''experiment_type'', AvStr ty), (''error_type'', AvStr err)] in
     [measured ''experiments_failed_total'' 1 attrs, measured ''experiments_active'' (- 1) attrs])"

definition record_network_fault_applied :: "string \<Rightarrow> string \<Rightarrow> measurement list" where
  "record_network_fault_applied ty iface = (let attrs = [(''fault_type'', AvStr ty), (''interface'', AvStr iface)] in
     [measured ''network_faults_applied_total'' 1 attrs])"

definition record_network_fault_reverted :: "string \<Rightarrow> string \<Rightarrow> duration \<Rightarrow> measurement list" where
  "record_network_fault_reverted ty iface d = (let attrs = [(''fault_type'', AvStr ty), (''interface'', AvStr iface)] in
     [measured ''network_faults_reverted_total'' 1 attrs, measured ''network_fault_duration_seconds'' (seconds d) attrs])"

definition record_network_fault_failure :: "string \<Rightarrow> string \<Rightarrow> string \<Rightarrow> measurement list" where
  "record_network_fault_failure ty iface err =
     (let attrs = [(''fault_type'', AvStr ty), (''interface'', AvStr iface), (''error_type'', AvStr err)] in
     [measured ''network_fault_failures_total'' 1 attrs])"

definition record_system_stress_applied :: "string \<Rightarrow> measurement list" where
  "record_system_stress_applied ty = (let attrs = [(''stress_type'', AvStr ty)] in
     [measured ''system_stress_applied_total'' 1 attrs])"

definition record_system_stress_reverted :: "string \<Rightarrow> duration \<Rightarrow> measurement list" where
  "record_system_stress_reverted ty d = (let attrs = [(''stress_type'', AvStr ty)] in
     [measured ''system_stress_reverted_total'' 1 attrs, measured ''system_stress_duration_seconds'' (seconds d) attrs])"

definition record_system_stress_failure :: "string \<Rightarrow> string \<Rightarrow> measurement list" where
  "record_system_stress_failure ty err = (let attrs = [(''stress_type'', AvStr ty), (''error_type'', AvStr err)] in
     [measured ''system_stress_failures_total'' 1 attrs])"

definition record_controller_request :: "string \<Rightarrow> duration \<Rightarrow> bool \<Rightarrow> measurement list" where
  "record_controller_request operation d success =
     (let attrs = [(''operation'', AvStr operation), (''success'', AvBool success)] in
     [measured ''controller_requests_total'' 1 attrs, measured ''controller_latency_seconds'' (seconds d) attrs] @
     (if \<not> success then [measured ''controller_failures_total'' 1 attrs] else []))"

definition update_resource_metrics :: "rat \<Rightarrow> rat \<Rightarrow> int \<Rightarrow> int \<Rightarrow> measurement list" where
  "update_resource_metrics cpu mem interfaces qdiscs =
     [measured ''cpu_usage_percentage'' cpu [], measured ''memory_usage_bytes'' mem [],
      measured ''network_interface_count'' (of_int interfaces) [], measured ''active_qdiscs'' (of_int qdiscs) []]"

subsection \<open>The controller's measurements\<close>

definition record_experiment_started :: "string \<Rightarrow> string \<Rightarrow> measurement list" where
  "record_experiment_started ty target = (let attrs = [(''experiment_type'', AvStr ty), (''target'', AvStr target)] in
     [measured ''experiments_started_total'' 1 attrs, measured ''experiments_active'' 1 attrs])"

definition record_experiment_completed :: "string \<Rightarrow> string \<Rightarrow> duration \<Rightarrow> measurement list" where
  "record_experiment_completed ty target d =
     (let attrs = [(''experiment_type'', AvStr ty), (''target'', AvStr target)] in
     [measured ''experiments_completed_total'' 1 attrs, measured ''experiments_active'' (- 1) attrs,
      measured ''experiment_duration_seconds'' (seconds d) attrs])"

definition ctl_experiment_failed :: "string \<Rightarrow> string \<Rightarrow> string \<Rightarrow> measurement list" where
  "ctl_experiment_failed ty target err =
     (let attrs = [(''experiment_type'', AvStr ty), (''target'', AvStr target), (''error_type'', AvStr err)] in
     [measured ''experiments_failed_total'' 1 attrs, measured ''experiments_active'' (- 1) attrs])"

definition record_http_request :: "string \<Rightarrow> string \<Rightarrow> int \<Rightarrow> duration \<Rightarrow> measurement list" where
  "record_http_request meth path code d =
     (let attrs = [(''method'', AvStr meth), (''path'', AvStr path), (''status_code'', AvInt code)] in
     [measured ''http_requests_total'' 1 attrs, measured ''http_request_duration_seconds'' (seconds d) attrs])"

definition record_agent_request :: "string \<Rightarrow> string \<Rightarrow> duration \<Rightarrow> bool \<Rightarrow> measurement list" where
  "record_agent_request i operation d success =
     (let attrs = [(''agent_id'', AvStr i), (''operation'', AvStr operation), (''success'', AvBool success)] in
     [measured ''agent_requests_total'' 1 attrs, measured ''agent_request_duration_seconds'' (seconds d) attrs] @
     (if \<not> success then [measured ''agent_request_failures_total'' 1 attrs] else []))"

definition update_system_metrics :: "int \<Rightarrow> rat \<Rightarrow> rat \<Rightarrow> rat \<Rightarrow> measurement list" where
  "update_system_metrics connections workers mem cpu =
     [measured ''active_connections'' (of_int connections) [], measured ''worker_pool_utilization'' workers [],
      measured ''memory_usage_bytes'' mem [], measured ''cpu_usage_percentage'' cpu []]"

definition record_event_published :: "string \<Rightarrow> duration \<Rightarrow> measurement list" where
  "record_event_published subject d =
     [measured ''event_publish_duration_seconds'' (seconds d) [(''subject'', AvStr subject)]]"

definition record_event_processed :: "string \<Rightarrow> duration \<Rightarrow> measurement list" where
  "record_event_processed ty d =
     [measured ''event_processing_duration_seconds'' (seconds d) [(''event_type'', AvStr ty)]]"

definition record_event_processing_failed :: "string \<Rightarrow> string \<Rightarrow> measurement list" where
  "record_event_processing_failed ty err =
     [measured ''event_processing_failures_total'' 1 [(''event_type'', AvStr ty), (''error_type'', AvStr err)]]"

subsection \<open>Runs\<close>

datatype agent_recording =
    ArReceived string
  | ArExecuted string duration
  | ArFailed string string
  | ArFaultApplied string string
  | ArFaultReverted string string duration
  | ArFaultFailure string string string
  | ArStressApplied string
  | ArStressReverted string duration
  | ArStressFailure string string
  | ArRequest string duration bool
  | ArResources rat rat int int

fun agent_measures :: "agent_recording \<Rightarrow> measurement list" where
  "agent_measures (ArReceived ty) = record_experiment_received ty"
| "agent_measures (ArExecuted ty d) = record_experiment_executed ty d"
| "agent_measures (ArFailed ty err) = agent_experiment_failed ty err"
| "agent_measures (ArFaultApplied ty i) = record_network_fault_applied ty i"
| "agent_measures (ArFaultReverted ty i d) = record_network_fault_reverted ty i d"
| "agent_measures (ArFaultFailure ty i err) = record_network_fault_failure ty i err"
| "agent_measures (ArStressApplied ty) = record_system_stress_applied ty"
| "agent_measures (ArStressReverted ty d) = record_system_stress_reverted ty d"
| "agent_measures (ArStressFailure ty err) = record_system_stress_failure ty err"
| "agent_measures (ArRequest op d ok) = record_controller_request op d ok"
| "agent_measures (ArResources c m i q) = update_resource_metrics c m i q"

datatype ctl_recording =
    CrStarted string string
  | CrCompleted string string duration
  | CrFailed string string string
  | CrHttp string string int duration
  | CrAgent string string duration bool
  | CrSystem int rat rat rat
  | CrPublished string duration
  | CrProcessed string duration
  | CrProcessingFailed string string

fun ctl_measures :: "ctl_recording \<Rightarrow> measurement list" where
  "ctl_measures (CrStarted ty t) = record_experiment_started ty t"
| "ctl_measures (CrCompleted ty t d) = record_experiment_completed ty t d"
| "ctl_measures (CrFailed ty t err) = ctl_experiment_failed ty t err"
| "ctl_measures (CrHttp m p c d) = record_http_request m p c d"
| "ctl_measures (CrAgent i op d ok) = record_agent_request i op d ok"
| "ctl_measures (CrSystem n w m c) = update_system_metrics n w m c"
| "ctl_measures (CrPublished s d) = record_event_published s d"
| "ctl_measures (CrProcessed ty d) = record_event_processed ty d"
| "ctl_measures (CrProcessingFailed ty err) = record_event_processing_failed ty err"

definition measurements :: "('r \<Rightarrow> measurement list) \<Rightarrow> 'r list \<Rightarrow> measurement list" where
  "measurements recorder rs = concat (map recorder rs)"

text \<open>
  What a counter shows: the sum for one set of attributes, and over all sets.
\<close>

definition series_sum :: "string \<Rightarrow> attributes \<Rightarrow> measurement list \<Rightarrow> rat" where
  "series_sum name attrs ms = sum_list (map ms_value
     (filter (\<lambda>m. ms_instrument m = name \<and> set (ms_attributes m) = set attrs) ms))"

definition instrument_sum :: "string \<Rightarrow> measurement list \<Rightarrow> rat" where
  "instrument_sum name ms = sum_list (map ms_value (filter (\<lambda>m. ms_instrument m = name) ms))"

lemmas agent_recorders = record_experiment_received_def record_experiment_executed_def agent_experiment_failed_def
  record_network_fault_applied_def record_network_fault_reverted_def record_network_fault_failure_def
  record_system_stress_applied_def record_system_stress_reverted_def record_system_stress_failure_def
  record_controller_request_def update_resource_metrics_def

lemmas ctl_recorders = record_experiment_started_def record_experiment_completed_def ctl_experiment_failed_def
  record_http_request_def record_agent_request_def update_system_metrics_def record_event_published_def
  record_event_processed_def record_event_processing_failed_def

lemma measurements_simps [simp]:
  "measurements f [] = []" "measurements f (r # rs) = f r @ measurements f rs"
  by (simp_all add: measurements_def)

lemma sums_append [simp]:
  "series_sum n a (xs @ ys) = series_sum n a xs + series_sum n a ys"
  "instrument_sum n (xs @ ys) = instrument_sum n xs + instrument_sum n ys"
  by (simp_all add: series_sum_def instrument_sum_def)

lemma sums_Nil [simp]: "series_sum n a [] = 0" "instrument_sum n [] = 0"
  by (simp_all add: series_sum_def instrument_sum_def)

lemma sums_measure [simp]:
  "series_sum n a (measured n' v b # ms) = (if n' = n \<and> set b = set a then v else 0) + series_sum n a ms"
  "instrument_sum n (measured n' v b # ms) = (if n' = n then v else 0) + instrument_sum n ms"
  by (simp_all add: series_sum_def instrument_sum_def measured_def)

subsection \<open>Properties\<close>

fun is_executed :: "string \<Rightarrow> agent_recording \<Rightarrow> bool" where
  "is_executed ty (ArExecuted ty' d) = (ty' = ty)"
| "is_executed ty _ = False"

text \<open>How many records of a run satisfy \<open>P\<close>.\<close>

definition occurrences :: "('r \<Rightarrow> bool) \<Rightarrow> 'r list \<Rightarrow> rat" where
  "occurrences P rs = of_nat (length (filter P rs))"

lemma occurrences_simps [simp]:
  "occurrences P [] = 0" "occurrences P (r # rs) = (if P r then 1 else 0) + occurrences P rs"
  by (simp_all add: occurrences_def)

text \<open>The gauge of active experiments drifts. In any run of the agent's recorders, the sum of
  experiments_active over all its series is the number of experiments received less those executed
  and those failed; but the series of one experiment type never comes down when an experiment
  fails: it is the number received less the number executed. The failures are counted in series of
  their own, one for each type and error, that only go below zero.\<close>

theorem agent_active_series_drift:
  "let ms = measurements agent_measures rs in
     instrument_sum ''experiments_active'' ms =
       instrument_sum ''experiments_received_total'' ms - instrument_sum ''experiments_executed_total'' ms -
       instrument_sum ''experiments_failed_total'' ms \<and>
     series_sum ''experiments_active'' [(''experiment_type'', AvStr ty)] ms =
       occurrences (\<lambda>r. r = ArReceived ty) rs - occurrences (is_executed ty) rs \<and>
     series_sum ''experiments_active'' [(''experiment_type'', AvStr ty), (''error_type'', AvStr err)] ms =
       - occurrences (\<lambda>r. r = ArFailed ty err) rs"
proof -
  have "instrument_sum ''experiments_active'' (measurements agent_measures rs) =
       instrument_sum ''experiments_received_total'' (measurements agent_measures rs) -
       instrument_sum ''experiments_executed_total'' (measurements agent_measures rs) -
       instrument_sum ''experiments_failed_total'' (measurements agent_measures rs)"
  proof (induction rs)
    case (Cons r rs)
    then show ?case by (cases r) (simp_all add: agent_recorders Let_def)
  qed simp
  moreover have "series_sum ''experiments_active'' [(''experiment_type'', AvStr ty)] (measurements agent_measures rs) =
       occurrences (\<lambda>r. r = ArReceived ty) rs - occurrences (is_executed ty) rs"
  proof (induction rs)
    case (Cons r rs)
    then show ?case by (cases r) (auto simp: agent_recorders Let_def)
  qed simp
  moreover have "series_sum ''experiments_active'' [(''experiment_type'', AvStr ty), (''error_type'', AvStr err)]
       (measurements agent_measures rs) = - occurrences (\<lambda>r. r = ArFailed ty err) rs"
  proof (induction rs)
    case (Cons r rs)
    then show ?case by (cases r) (auto simp: agent_recorders Let_def doubleton_eq_iff)
  qed simp
  ultimately show ?thesis by (simp add: Let_def)
qed

fun is_completed :: "string \<Rightarrow> string \<Rightarrow> ctl_recording \<Rightarrow> bool" where
  "is_completed ty target (CrCompleted ty' t d) = (ty' = ty \<and> t = target)"
| "is_completed ty target _ = False"

fun connections_of :: "ctl_recording \<Rightarrow> int" where
  "connections_of (CrSystem n w m c) = n"
| "connections_of _ = 0"

lemma failed_series:
  "{(''experiment_type'', AvStr a), (''target'', AvStr b), (''error_type'', AvStr c)} \<noteq>
   {(''experiment_type'', AvStr d), (''target'', AvStr e)}"
  by (rule notI, drule equalityD1) simp

text \<open>The controller's up-down counters. The series of active experiments drift as the agent's do.
  The number of active connections is reported as a reading but added to a counter, so after
  any run the metric shows the sum of all readings so far and not the last one.\<close>

theorem ctl_active_series_drift:
  "let ms = measurements ctl_measures rs in
     instrument_sum ''experiments_active'' ms =
       instrument_sum ''experiments_started_total'' ms - instrument_sum ''experiments_completed_total'' ms -
       instrument_sum ''experiments_failed_total'' ms \<and>
     series_sum ''experiments_active'' [(''experiment_type'', AvStr ty), (''target'', AvStr target)] ms =
       occurrences (\<lambda>r. r = CrStarted ty target) rs - occurrences (is_completed ty target) rs \<and>
     series_sum ''active_connections'' [] ms = of_int (sum_list (map connections_of rs))"
proof -
  have "instrument_sum ''experiments_active'' (measurements ctl_measures rs) =
       instrument_sum ''experiments_started_total'' (measurements ctl_measures rs) -
       instrument_sum ''experiments_completed_total'' (measurements ctl_measures rs) -
       instrument_sum ''experiments_failed_total'' (measurements ctl_measures rs)"
  proof (induction rs)
    case (Cons r rs)
    then show ?case by (cases r) (simp_all add: ctl_recorders Let_def)
  qed simp
  moreover have "series_sum ''experiments_active'' [(''experiment_type'', AvStr ty), (''target'', AvStr target)]
       (measurements ctl_measures rs) =
       occurrences (\<lambda>r. r = CrStarted ty target) rs - occurrences (is_completed ty target) rs"
  proof (induction rs)
    case (Cons r rs)
    then show ?case by (cases r) (auto simp: ctl_recorders Let_def doubleton_eq_iff failed_series)
  qed simp
  moreover have "series_sum ''active_connections'' [] (measurements ctl_measures rs) = of_int (sum_list (map connections_of rs))"
  proof (induction rs)
    case (Cons r rs)
    then show ?case by (cases r) (simp_all add: ctl_recorders Let_def)
  qed simp
  ultimately show ?thesis by (simp add: Let_def)
qed

text \<open>What the library expects: a declared instrument, a value of its type, and one value for each key.\<close>

fun kind_accepts :: "metric_kind \<Rightarrow> rat \<Rightarrow> bool" where
  "kind_accepts Int64Counter v = (0 \<le> v \<and> of_int \<lfloor>v\<rfloor> = v)"
| "kind_accepts Int64UpDownCounter v = (of_int \<lfloor>v\<rfloor> = v)"
| "kind_accepts Int64Gauge v = (of_int \<lfloor>v\<rfloor> = v)"
| "kind_accepts Float64Gauge v = True"
| "kind_accepts (Float64Histogram bounds) v = True"

definition fits :: "instrument list \<Rightarrow> measurement \<Rightarrow> bool" where
  "fits is m \<longleftrightarrow> list_ex (\<lambda>i. in_name i = ms_instrument m \<and> kind_accepts (in_kind i) (ms_value m)) is \<and>
     distinct (map fst (ms_attributes m))"

lemmas instrument_defs = agent_instruments_def agent_experiment_instruments_def agent_network_instruments_def
  agent_stress_instruments_def agent_resource_instruments_def agent_communication_instruments_def
  ctl_instruments_def ctl_experiment_instruments_def ctl_http_instruments_def ctl_agent_instruments_def
  ctl_system_instruments_def ctl_event_instruments_def counter_def up_down_counter_def histogram_def gauge_def

lemma init_metrics_result:
  "init_metrics refuses is = (takeWhile (\<lambda>i. refuses i = None) is,
     case find (\<lambda>i. refuses i \<noteq> None) is of None \<Rightarrow> None
     | Some i \<Rightarrow> Some (''failed to create '' @ in_name i @ '' metric: '' @ the (refuses i)))"
  by (induction "is") (auto split: option.splits)

lemma created_all: "init_metrics refuses is = (created, None) \<Longrightarrow> created = is"
  by (auto simp: init_metrics_result find_None_iff takeWhile_eq_all_conv split: option.splits)

text \<open>
  The two programs state the same contract: a list of instruments with names of their own, and recorders
  whose measurements fit them.
\<close>

locale instrumented =
  fixes instruments :: "instrument list"
    and measures :: "'r \<Rightarrow> measurement list"
  assumes distinct_names: "distinct (map in_name instruments)"
    and measures_fit: "list_all (fits instruments) (measures r)"
begin

lemma run_fits: "list_all (fits instruments) (measurements measures rs)"
  by (induction rs) (simp_all add: measures_fit)

text \<open>Starting fails with the step that failed, or hands out a manager for which every run fits.\<close>

lemma started:
  "case new_observability tracer exporter refuses name instruments of
     Inl err \<Rightarrow> (\<exists>e. err = ''otlp tracer: '' @ e \<or> err = ''failed to create Prometheus exporter: '' @ e) \<or>
       list_ex (\<lambda>i. \<exists>e. refuses i = Some e \<and>
         err = ''failed to initialize metrics: failed to create '' @ in_name i @ '' metric: '' @ e) instruments
   | Inr om \<Rightarrow> om_metrics om = instruments \<and> list_all (fits (om_metrics om)) (measurements measures rs)"
proof (cases "init_metrics refuses instruments")
  case (Pair created e)
  then show ?thesis
  proof (cases e)
    case None
    then show ?thesis
      using Pair created_all [of refuses instruments created] run_fits
      by (auto simp: new_observability_def split: sum.split option.split)
  next
    case (Some err)
    then obtain i where i: "find (\<lambda>i. refuses i \<noteq> None) instruments = Some i"
      and err: "err = ''failed to create '' @ in_name i @ '' metric: '' @ the (refuses i)"
      using Pair by (auto simp: init_metrics_result split: option.splits)
    from i obtain f where "i \<in> set instruments" "refuses i = Some f" by (auto simp: find_Some_iff)
    then show ?thesis
      using Pair Some err by (auto simp: new_observability_def list_ex_iff split: sum.split option.split)
  qed
qed

end

interpretation agent: instrumented agent_instruments agent_measures
proof
  show "distinct (map in_name agent_instruments)" by (simp add: instrument_defs)
  show "list_all (fits agent_instruments) (agent_measures r)" for r
    by (cases r) (simp_all add: agent_recorders Let_def fits_def measured_def instrument_defs)
qed

interpretation ctl: instrumented ctl_instruments ctl_measures
proof
  show "distinct (map in_name ctl_instruments)" by (simp add: instrument_defs)
  show "list_all (fits ctl_instruments) (ctl_measures r)" for r
    by (cases r) (simp_all add: ctl_recorders Let_def fits_def measured_def instrument_defs)
qed


end
