(* ===== verification/Agent_Main.thy ===== *)
theory Agent_Main
  imports Experiments Netem Observability
begin

text \<open>
  The agent as a program: its routes and its start, \<open>agent/main.go\<close>, and the injections that its
  handler starts, which run side by side, one goroutine each. The commands and their outcomes form a
  trace as in the network manager's theory, which also gives the effect of \<open>tc\<close>; what \<open>tc\<close> answers is its documented
  behaviour: the qdisc at the root is deleted exactly when one was added, and a second one is refused.
\<close>

subsection \<open>The program\<close>

text \<open>Prometheus' handler is the library's: \<open>metrics\<close> is its answer. The multiplexer is on clean paths.\<close>

definition agent_mux :: "string http_response \<Rightarrow> body_request \<Rightarrow> string http_response \<times> injection_request option" where
  "agent_mux metrics r =
     (if hr_path r = ''/inject'' then inject_handler r
      else if hr_path r = ''/metrics'' then (metrics, None)
      else (http_error id ''404 page not found'' 404 [], None))"

text \<open>The start: the code with which the program exits, or the tracer with which it serves for ever.\<close>

datatype agent_start = AgentExits string int | AgentServes tracer_config

definition agent_main :: "otlp_lib \<Rightarrow> (string \<Rightarrow> string) \<Rightarrow> string option \<Rightarrow> agent_start" where
  "agent_main lib env listen = (case new_otlp_tracer_provider lib env ''chaoslabs-agent'' ''1.0.0'' of
     Inl err \<Rightarrow> AgentExits ''failed to initialize tracer'' 1
   | Inr tp \<Rightarrow> (case listen of
       Some err \<Rightarrow> AgentExits ''agent failed'' 1
     | None \<Rightarrow> AgentServes tp))"

subsection \<open>Injections side by side\<close>

text \<open>A goroutine: what it has left to do, and the time until which it sleeps.\<close>

record injection =
  ij_actions :: "agent_action list"
  ij_wake :: gtime

record agent =
  ag_now :: gtime
  ag_running :: "injection list"
  ag_trace :: "(cmd \<times> bool) list"

definition idle_agent :: "gtime \<Rightarrow> agent" where
  "idle_agent now = \<lparr>ag_now = now, ag_running = [], ag_trace = []\<rparr>"

definition start_injection :: "string option \<Rightarrow> (nat \<Rightarrow> nat) \<Rightarrow> injection_request \<Rightarrow> agent \<Rightarrow> agent" where
  "start_injection ps pick req s = s\<lparr>ag_running := ag_running s @
     [\<lparr>ij_actions = simulate_injection ps pick req, ij_wake = ag_now s\<rparr>]\<rparr>"

text \<open>A request to the agent.\<close>

definition agent_request ::
  "string http_response \<Rightarrow> string option \<Rightarrow> (nat \<Rightarrow> nat) \<Rightarrow> body_request \<Rightarrow> agent \<Rightarrow> agent \<times> string http_response" where
  "agent_request metrics ps pick r s = (case agent_mux metrics r of
     (resp, None) \<Rightarrow> (s, resp)
   | (resp, Some req) \<Rightarrow> (start_injection ps pick req s, resp))"

text \<open>The next action of a goroutine; \<open>ok\<close> is the outcome of a command.\<close>

definition injection_step :: "nat \<Rightarrow> bool \<Rightarrow> agent \<Rightarrow> agent" where
  "injection_step i ok s = (case ij_actions (ag_running s ! i) of
     [] \<Rightarrow> s
   | ARun c # rest \<Rightarrow> s\<lparr>ag_running := (ag_running s)[i := \<lparr>ij_actions = rest, ij_wake = ag_now s\<rparr>],
       ag_trace := ag_trace s @ [(c, ok)]\<rparr>
   | ASleep d # rest \<Rightarrow> s\<lparr>ag_running := (ag_running s)[i := \<lparr>ij_actions = rest, ij_wake = ag_now s + d\<rparr>]\<rparr>)"

definition add_netem :: "string \<Rightarrow> cmd \<Rightarrow> bool" where
  "add_netem n c \<longleftrightarrow> take 7 c = [''tc'', ''qdisc'', ''add'', ''dev'', n, ''root'', ''netem'']"

text \<open>What \<open>tc\<close> documents of the two commands, with a netem qdisc at the root or not (\<open>on\<close>).\<close>

definition tc_documented :: "string \<Rightarrow> cmd \<Rightarrow> bool \<Rightarrow> bool \<Rightarrow> bool" where
  "tc_documented n c on ok \<longleftrightarrow> (add_netem n c \<longrightarrow> ok \<longrightarrow> \<not> on) \<and> (c = del_root_qdisc n \<longrightarrow> ok = on)"

definition faulty :: "agent \<Rightarrow> bool" where
  "faulty s \<longleftrightarrow> netem_on ''eth0'' (ag_trace s)"

definition outcome_possible :: "nat \<Rightarrow> bool \<Rightarrow> agent \<Rightarrow> bool" where
  "outcome_possible i ok s = (case ij_actions (ag_running s ! i) of
     ARun c # rest \<Rightarrow> tc_documented ''eth0'' c (faulty s) ok | _ \<Rightarrow> True)"

inductive agent_reachable :: "agent \<Rightarrow> bool" where
  start: "agent_reachable (idle_agent now)"
| request: "agent_reachable s \<Longrightarrow> agent_reachable (fst (agent_request metrics ps pick r s))"
| time: "agent_reachable s \<Longrightarrow> ag_now s \<le> now \<Longrightarrow> agent_reachable (s\<lparr>ag_now := now\<rparr>)"
| run: "agent_reachable s \<Longrightarrow> i < length (ag_running s) \<Longrightarrow> ij_wake (ag_running s ! i) \<le> ag_now s \<Longrightarrow>
    outcome_possible i ok s \<Longrightarrow> agent_reachable (injection_step i ok s)"

subsection \<open>Every fault has an injection that removes it\<close>

text \<open>Whatever adds a qdisc deletes it later.\<close>

fun cleans_up :: "agent_action list \<Rightarrow> bool" where
  "cleans_up [] = True"
| "cleans_up (ARun c # r) = ((add_netem ''eth0'' c \<longrightarrow> ARun (del_root_qdisc ''eth0'') \<in> set r) \<and> cleans_up r)"
| "cleans_up (ASleep d # r) = cleans_up r"

lemma cleans_up_simulated: "cleans_up (simulate_injection ps pick req)"
  by (simp add: simulate_injection_def Let_def add_network_latency_def add_network_loss_def remove_network_latency_def
      run_stress_ng_cpu_def run_stress_ng_memory_def kill_random_process_def del_root_qdisc_def add_netem_def
      split: option.split)

lemma cleans_up_ConsD: "cleans_up (a # r) \<Longrightarrow> cleans_up r"
  by (cases a) simp_all

definition removes :: "injection \<Rightarrow> bool" where
  "removes j \<longleftrightarrow> ARun (del_root_qdisc ''eth0'') \<in> set (ij_actions j)"

definition agent_inv :: "agent \<Rightarrow> bool" where
  "agent_inv s \<longleftrightarrow> (\<forall>j \<in> set (ag_running s). cleans_up (ij_actions j)) \<and>
     (faulty s \<longrightarrow> (\<exists>j \<in> set (ag_running s). removes j))"

lemma faulty_simps [simp]:
  "\<not> faulty (idle_agent now)" "faulty (s\<lparr>ag_now := now\<rparr>) = faulty s"
  "faulty (s\<lparr>ag_running := js\<rparr>) = faulty s"
  by (simp_all add: faulty_def idle_agent_def)

lemma agent_inv_request: "agent_inv s \<Longrightarrow> agent_inv (fst (agent_request metrics ps pick r s))"
  by (auto simp: agent_inv_def agent_request_def start_injection_def cleans_up_simulated split: prod.split option.split)

lemma removes_other:
  "j \<in> set js \<Longrightarrow> removes j \<Longrightarrow> i < length js \<Longrightarrow> \<not> removes (js ! i) \<Longrightarrow> \<exists>k \<in> set (js[i := x]). removes k"
  by (metis in_set_conv_nth length_list_update nth_list_update_neq)

lemma removes_update:
  "i < length js \<Longrightarrow> removes x \<Longrightarrow> \<exists>k \<in> set (js[i := x]). removes k"
  by (metis set_update_memI)

lemma agent_inv_run:
  assumes inv: "agent_inv s" and i: "i < length (ag_running s)" and ok: "outcome_possible i ok s"
  shows "agent_inv (injection_step i ok s)"
proof (cases "ij_actions (ag_running s ! i)")
  case Nil
  then show ?thesis using inv by (simp add: injection_step_def)
next
  case (Cons a rest)
  have c: "cleans_up (a # rest)" using inv i Cons by (metis agent_inv_def nth_mem)
  have all: "\<forall>j \<in> set ((ag_running s)[i := \<lparr>ij_actions = rest, ij_wake = w\<rparr>]). cleans_up (ij_actions j)" for w
    using inv cleans_up_ConsD [OF c] set_update_subset_insert by (force simp: agent_inv_def)
  have keep: "\<exists>j \<in> set ((ag_running s)[i := \<lparr>ij_actions = rest, ij_wake = w\<rparr>]). removes j"
    if "faulty s" "a \<noteq> ARun (del_root_qdisc ''eth0'')" for w
  proof (cases "removes (ag_running s ! i)")
    case True
    then have "removes \<lparr>ij_actions = rest, ij_wake = w\<rparr>" using that(2) Cons by (auto simp: removes_def)
    then show ?thesis by (rule removes_update [OF i])
  next
    case False
    then show ?thesis using removes_other [OF _ _ i False] inv that(1) by (auto simp: agent_inv_def)
  qed
  show ?thesis
  proof (cases a)
    case (ASleep d)
    then show ?thesis using all keep Cons by (auto simp: injection_step_def agent_inv_def)
  next
    case (ARun cmd)
    let ?s = "injection_step i ok s"
    have s: "?s = s\<lparr>ag_running := (ag_running s)[i := \<lparr>ij_actions = rest, ij_wake = ag_now s\<rparr>],
        ag_trace := ag_trace s @ [(cmd, ok)]\<rparr>"
      using Cons ARun by (simp add: injection_step_def)
    have f: "faulty ?s = (if ok then netem_effect ''eth0'' cmd (faulty s) else faulty s)"
      by (simp add: s faulty_def)
    have "\<exists>j \<in> set (ag_running ?s). removes j" if "faulty ?s"
    proof (cases "ok \<and> add_netem ''eth0'' cmd")
      case True
      then have "removes \<lparr>ij_actions = rest, ij_wake = ag_now s\<rparr>" using c ARun by (simp add: removes_def)
      then show ?thesis using removes_update [OF i] by (simp add: s)
    next
      case False
      have "tc_documented ''eth0'' cmd (faulty s) ok" using ok Cons ARun by (simp add: outcome_possible_def)
      then have "faulty s \<and> cmd \<noteq> del_root_qdisc ''eth0''"
        using that f False by (auto simp: tc_documented_def netem_effect_def add_netem_def split: if_splits)
      then show ?thesis using keep ARun by (simp add: s)
    qed
    then show ?thesis using all by (simp add: agent_inv_def s)
  qed
qed

lemma agent_reachable_inv: "agent_reachable s \<Longrightarrow> agent_inv s"
proof (induction rule: agent_reachable.induct)
  case (start now)
  then show ?case by (simp add: agent_inv_def) (simp add: idle_agent_def)
next
  case (time s now)
  then show ?case by (simp add: agent_inv_def)
qed (simp_all add: agent_inv_request agent_inv_run)

subsection \<open>Every injection can end\<close>

definition left_to_do :: "agent \<Rightarrow> nat" where
  "left_to_do s = (\<Sum>j \<leftarrow> ag_running s. length (ij_actions j))"

lemma some_outcome: "\<exists>ok. outcome_possible i ok s"
proof -
  have "add_netem n c \<Longrightarrow> c \<noteq> del_root_qdisc n" for n c by (auto simp: add_netem_def del_root_qdisc_def)
  then have "\<exists>ok. tc_documented n c on ok" for n c on by (auto simp: tc_documented_def)
  then show ?thesis
    by (cases "ij_actions (ag_running s ! i)"; cases "hd (ij_actions (ag_running s ! i))") (simp_all add: outcome_possible_def)
qed

lemma one_action:
  assumes r: "agent_reachable s" and j: "j \<in> set (ag_running s)" "ij_actions j \<noteq> []"
  shows "\<exists>s' tr. agent_reachable s' \<and> left_to_do s' < left_to_do s \<and> ag_trace s' = ag_trace s @ tr"
proof -
  obtain i where i: "i < length (ag_running s)" "ag_running s ! i = j" using j(1) by (meson in_set_conv_nth)
  obtain a rest where a: "ij_actions j = a # rest" using j(2) by (cases "ij_actions j") auto
  define s1 where "s1 = s\<lparr>ag_now := max (ag_now s) (ij_wake j)\<rparr>"
  have r1: "agent_reachable s1" unfolding s1_def by (rule agent_reachable.time [OF r]) simp
  obtain ok where ok: "outcome_possible i ok s1" using some_outcome by blast
  have r2: "agent_reachable (injection_step i ok s1)"
    by (rule agent_reachable.run [OF r1 _ _ ok]) (simp_all add: s1_def i)
  have less: "(\<Sum>j \<leftarrow> (ag_running s)[i := \<lparr>ij_actions = rest, ij_wake = w\<rparr>]. length (ij_actions j)) < left_to_do s" for w
  proof -
    have "ag_running s = take i (ag_running s) @ j # drop (Suc i) (ag_running s)"
      using id_take_nth_drop [OF i(1)] i(2) by simp
    then have "left_to_do s = (\<Sum>j \<leftarrow> take i (ag_running s). length (ij_actions j)) + Suc (length rest) +
        (\<Sum>j \<leftarrow> drop (Suc i) (ag_running s). length (ij_actions j))"
      unfolding left_to_do_def using a by (metis (no_types, lifting) add.assoc length_Cons list.simps(9) map_append sum_list.Cons sum_list_append)
    then show ?thesis using i(1) by (simp add: upd_conv_take_nth_drop)
  qed
  have "\<exists>tr. ag_trace (injection_step i ok s1) = ag_trace s @ tr" "left_to_do (injection_step i ok s1) < left_to_do s"
    using a i less by (auto simp: injection_step_def s1_def left_to_do_def split: agent_action.split)
  with r2 show ?thesis by blast
qed

lemma all_actions:
  "agent_reachable s \<Longrightarrow> \<exists>s' tr. agent_reachable s' \<and> (\<forall>j \<in> set (ag_running s'). ij_actions j = []) \<and> ag_trace s' = ag_trace s @ tr"
proof (induction "left_to_do s" arbitrary: s rule: less_induct)
  case less
  show ?case
  proof (cases "\<forall>j \<in> set (ag_running s). ij_actions j = []")
    case True
    then show ?thesis using less.prems by (metis append_Nil2)
  next
    case False
    then obtain s1 tr where 1: "agent_reachable s1" "left_to_do s1 < left_to_do s" "ag_trace s1 = ag_trace s @ tr"
      using one_action [OF less.prems] by blast
    from less.hyps [OF 1(2) 1(1)] 1(3) show ?thesis by (metis append.assoc)
  qed
qed

subsection \<open>Properties\<close>

text \<open>A request for latency, and the agent that received it.\<close>

definition latency_request :: "int \<Rightarrow> body_request" where
  "latency_request d = \<lparr>hr_method = ''POST'', hr_path = ''/inject'', hr_headers = [], hr_remote = [],
     br_body = Some (json_struct [(''experiment_type'', JStr ''network-latency''), (''duration'', JInt d)]),
     br_query_key = [], br_validator = False\<rparr>"

lemma decode_latency:
  assumes "0 \<le> d" and "d \<le> 3600"
  shows "decode_injection (json_struct [(''experiment_type'', JStr ''network-latency''), (''duration'', JInt d)]) =
    Some (zero_injection\<lparr>ir_experiment_type := ''network-latency'', ir_duration := d\<rparr>)"
proof -
  have "json_parse (json_struct [(''experiment_type'', JStr ''network-latency''), (''duration'', JInt d)]) =
      Some (JObj [(''experiment_type'', JStr ''network-latency''), (''duration'', JInt d)])"
    by (subst json_parse_struct) simp_all
  then show ?thesis
    using assms by (simp add: decode_injection_def decode_struct_def find_field_def injection_fields_def dec_defs min_i64_def max_i64_def)
qed

definition latency_actions :: "int \<Rightarrow> agent_action list" where
  "latency_actions d = [ARun [''tc'', ''qdisc'', ''add'', ''dev'', ''eth0'', ''root'', ''netem'', ''delay'', ''100ms''],
     ASleep (i64 (d * second)), ARun (del_root_qdisc ''eth0'')]"

lemma latency_requested:
  assumes "0 \<le> d" and "d \<le> 3600"
  shows "fst (agent_request metrics ps pick (latency_request d) s) =
    s\<lparr>ag_running := ag_running s @ [\<lparr>ij_actions = latency_actions d, ij_wake = ag_now s\<rparr>]\<rparr>"
proof -
  have "itoa 100 = ''100''" by code_simp
  then show ?thesis
    by (simp add: agent_request_def agent_mux_def latency_request_def inject_handler_def decode_latency [OF assms]
        start_injection_def simulate_injection_def zero_injection_def add_network_latency_def
        remove_network_latency_def latency_actions_def del_root_qdisc_def)
qed

text \<open>C15: whatever requests the agent receives and however its injections interleave, a fault on the interface
  has an injection under way that will remove it; and the injections can always be run to
  their ends, after which no fault is left.\<close>

theorem injections_clean_up:
  assumes "agent_reachable s"
  shows "(faulty s \<longrightarrow> (\<exists>j \<in> set (ag_running s). ARun (del_root_qdisc ''eth0'') \<in> set (ij_actions j))) \<and>
    (\<exists>s' tr. agent_reachable s' \<and> ag_trace s' = ag_trace s @ tr \<and>
      (\<forall>j \<in> set (ag_running s'). ij_actions j = []) \<and> \<not> faulty s')"
proof -
  have removed: "agent_reachable s \<Longrightarrow> faulty s \<Longrightarrow> \<exists>j \<in> set (ag_running s). ARun (del_root_qdisc ''eth0'') \<in> set (ij_actions j)" for s
    using agent_reachable_inv by (auto simp: agent_inv_def removes_def)
  obtain s' tr where s': "agent_reachable s'" "\<forall>j \<in> set (ag_running s'). ij_actions j = []" "ag_trace s' = ag_trace s @ tr"
    using all_actions [OF assms] by blast
  then have "\<not> faulty s'" using removed [of s'] by auto
  with s' removed [OF assms] show ?thesis by blast
qed

text \<open>Two such requests, a second apart: the second command finds the qdisc of the first.\<close>

lemma overlap_reachable:
  "agent_reachable \<lparr>ag_now = 11 * second,
     ag_running = [\<lparr>ij_actions = [], ij_wake = 11 * second\<rparr>, \<lparr>ij_actions = [ARun (del_root_qdisc ''eth0'')], ij_wake = 61 * second\<rparr>],
     ag_trace = [([''tc'', ''qdisc'', ''add'', ''dev'', ''eth0'', ''root'', ''netem'', ''delay'', ''100ms''], True),
       ([''tc'', ''qdisc'', ''add'', ''dev'', ''eth0'', ''root'', ''netem'', ''delay'', ''100ms''], False),
       (del_root_qdisc ''eth0'', True)]\<rparr>"
proof -
  let ?add = "[''tc'', ''qdisc'', ''add'', ''dev'', ''eth0'', ''root'', ''netem'', ''delay'', ''100ms'']"
  let ?del = "del_root_qdisc ''eth0''"
  let ?s = "\<lambda>now js tr. \<lparr>ag_now = now, ag_running = js, ag_trace = tr\<rparr>"
  let ?j = "\<lambda>acts w. \<lparr>ij_actions = acts, ij_wake = w\<rparr>"
  let ?r = "\<lambda>d s. fst (agent_request undefined None id (latency_request d) s)"
  have r: "?r 10 (?s t js tr) = ?s t (js @ [?j [ARun ?add, ASleep (10 * second), ARun ?del] t]) tr"
    "?r 60 (?s t js tr) = ?s t (js @ [?j [ARun ?add, ASleep (60 * second), ARun ?del] t]) tr" for t js tr
    by (simp_all add: latency_requested latency_actions_def second_def i64_def)
  have run: "agent_reachable (?s t js tr) \<Longrightarrow> i < length js \<Longrightarrow> ij_wake (js ! i) \<le> t \<Longrightarrow>
      outcome_possible i ok (?s t js tr) \<Longrightarrow> agent_reachable (injection_step i ok (?s t js tr))" for t js tr i ok
    using agent_reachable.run [of "?s t js tr" i ok] by simp
  note d = injection_step_def outcome_possible_def tc_documented_def add_netem_def faulty_def netem_on_def
    netem_effect_def del_root_qdisc_def second_def
  have 1: "agent_reachable (?s 0 [?j [ARun ?add, ASleep (10 * second), ARun ?del] 0] [])"
    using agent_reachable.request [OF agent_reachable.start [of 0], of undefined None id "latency_request 10"]
    by (simp add: r idle_agent_def)
  have 2: "agent_reachable (?s 0 [?j [ASleep (10 * second), ARun ?del] 0] [(?add, True)])"
    using run [OF 1, of 0 True] by (simp add: d)
  have 3: "agent_reachable (?s 0 [?j [ARun ?del] (10 * second)] [(?add, True)])"
    using run [OF 2, of 0 True] by (simp add: d)
  have 4: "agent_reachable (?s second [?j [ARun ?del] (10 * second)] [(?add, True)])"
    using agent_reachable.time [OF 3, of second] by (simp add: second_def)
  have 5: "agent_reachable (?s second [?j [ARun ?del] (10 * second), ?j [ARun ?add, ASleep (60 * second), ARun ?del] second]
      [(?add, True)])"
    using agent_reachable.request [OF 4, of undefined None id "latency_request 60"] by (simp add: r)
  have 6: "agent_reachable (?s second [?j [ARun ?del] (10 * second), ?j [ASleep (60 * second), ARun ?del] second]
      [(?add, True), (?add, False)])"
    using run [OF 5, of 1 False] by (simp add: d)
  have 7: "agent_reachable (?s second [?j [ARun ?del] (10 * second), ?j [ARun ?del] (61 * second)]
      [(?add, True), (?add, False)])"
    using run [OF 6, of 1 True] by (simp add: d)
  have 8: "agent_reachable (?s (11 * second) [?j [ARun ?del] (10 * second), ?j [ARun ?del] (61 * second)]
      [(?add, True), (?add, False)])"
    using agent_reachable.time [OF 7, of "11 * second"] by (simp add: second_def)
  show ?thesis using run [OF 8, of 0 True] by (simp add: d)
qed


theorem injections_clean_up_witness:
  "\<exists>s. agent_reachable s \<and> faulty s \<and>
     (\<exists>j \<in> set (ag_running s). ARun (del_root_qdisc ''eth0'') \<in> set (ij_actions j))"
proof -
  let ?s1 = "fst (agent_request undefined None id (latency_request 10) (idle_agent 0))"
  let ?s2 = "injection_step 0 True ?s1"
  note d = latency_requested latency_actions_def idle_agent_def injection_step_def outcome_possible_def
    tc_documented_def add_netem_def faulty_def netem_on_def netem_effect_def del_root_qdisc_def
  have r1: "agent_reachable ?s1" by (intro agent_reachable.request agent_reachable.start)
  have r2: "agent_reachable ?s2" by (rule agent_reachable.run [OF r1]) (simp_all add: d)
  have f: "faulty ?s2" by (simp add: d)
  from injections_clean_up [OF r2] r2 f show ?thesis by blast
qed

end
