(* ===== verification/Metrics.thy ===== *)
theory Metrics
  imports Rate_Limit Export Health
begin

text \<open>
  The Prometheus series of the two programs: the vectors that \<open>export_service.go\<close>, \<open>handlers.go\<close>,
  \<open>health.go\<close>, \<open>middleware.go\<close> and the agent's \<open>experiments.go\<close> declare and register, and the
  operations on them of the functions that use them, in order. Prometheus is the library outside: it panics when a name is
  registered twice, and when the label values of an operation are not as many as the labels of its
  vector. Floats are rationals.
\<close>

subsection \<open>Vectors\<close>

datatype prom_kind = PcCounter | PcGauge | PcHistogram "rat list"

record prom_vec =
  pv_name :: string
  pv_help :: string
  pv_kind :: prom_kind
  pv_labels :: "string list"

definition prom_vec :: "string \<Rightarrow> string \<Rightarrow> prom_kind \<Rightarrow> string list \<Rightarrow> prom_vec" where
  "prom_vec name help kind labels = \<lparr>pv_name = name, pv_help = help, pv_kind = kind, pv_labels = labels\<rparr>"

text \<open>The library's bucket lists.\<close>

definition linear_buckets :: "rat \<Rightarrow> rat \<Rightarrow> nat \<Rightarrow> rat list" where
  "linear_buckets start width n = map (\<lambda>i. start + of_nat i * width) [0..<n]"

definition exponential_buckets :: "rat \<Rightarrow> rat \<Rightarrow> nat \<Rightarrow> rat list" where
  "exponential_buckets start factor n = map (\<lambda>i. start * factor ^ i) [0..<n]"

definition default_buckets :: "rat list" where
  "default_buckets = [5/1000, 1/100, 25/1000, 5/100, 1/10, 25/100, 5/10, 1, 25/10, 5, 10]"

definition export_vecs :: "prom_vec list" where
  "export_vecs = [
     prom_vec ''export_jobs_total'' ''Total number of export jobs'' PcCounter [''format'', ''status'', ''user_id''],
     prom_vec ''export_job_duration_seconds'' ''Export job duration in seconds''
       (PcHistogram [1, 5, 10, 30, 60, 300, 600, 1800, 3600]) [''format'', ''status''],
     prom_vec ''export_data_volume_bytes'' ''Export data volume in bytes''
       (PcHistogram (exponential_buckets 1024 2 20)) [''format'']]"

definition handlers_vecs :: "prom_vec list" where
  "handlers_vecs = [
     prom_vec ''controller_experiment_total'' ''Total number of experiments started by the controller'' PcCounter [],
     prom_vec ''controller_experiment_duration_seconds'' ''Histogram of experiment durations''
       (PcHistogram (linear_buckets 5 5 10)) []]"

definition health_vecs :: "prom_vec list" where
  "health_vecs = [
     prom_vec ''health_check_duration_seconds'' ''Health check duration in seconds'' (PcHistogram default_buckets)
       [''dependency'', ''status''],
     prom_vec ''health_check_status'' ''Health check status (1 for healthy, 0 for unhealthy)'' PcGauge [''dependency''],
     prom_vec ''application_uptime_seconds'' ''Application uptime in seconds'' PcGauge []]"

definition api_vecs :: "prom_vec list" where
  "api_vecs = [
     prom_vec ''api_requests_total'' ''Total number of API requests'' PcCounter
       [''method'', ''endpoint'', ''status'', ''api_key'', ''role''],
     prom_vec ''api_request_duration_seconds'' ''API request duration in seconds'' (PcHistogram default_buckets)
       [''method'', ''endpoint'', ''api_key'', ''role''],
     prom_vec ''rate_limit_hits_total'' ''Total number of rate limit hits'' PcCounter [''api_key'', ''role'', ''limit_type''],
     prom_vec ''validation_errors_total'' ''Total number of validation errors'' PcCounter [''field'', ''error_type'']]"

definition agent_vecs :: "prom_vec list" where
  "agent_vecs = [
     prom_vec ''agent_injection_total'' ''Total number of injection requests handled by the agent'' PcCounter [],
     prom_vec ''agent_injection_duration_seconds'' ''Histogram of fault injection durations''
       (PcHistogram (linear_buckets 5 5 10)) []]"

text \<open>The files' \<open>init\<close> functions run in the order of the files' names.\<close>

definition controller_vecs :: "prom_vec list" where
  "controller_vecs = export_vecs @ handlers_vecs @ health_vecs @ api_vecs"

fun must_register :: "prom_vec list \<Rightarrow> prom_vec list \<Rightarrow> prom_vec list option" where
  "must_register reg [] = Some reg"
| "must_register reg (v # vs) = (if pv_name v \<in> pv_name ` set reg then None else must_register (reg @ [v]) vs)"

subsection \<open>Operations\<close>

datatype prom_op =
    PInc string "string list"
  | PObserve string "string list" rat
  | PSet string "string list" rat

fun op_fits :: "prom_op \<Rightarrow> prom_vec \<Rightarrow> bool" where
  "op_fits (PInc n ls) v \<longleftrightarrow> pv_name v = n \<and> length ls = length (pv_labels v) \<and> pv_kind v = PcCounter"
| "op_fits (PObserve n ls x) v \<longleftrightarrow> pv_name v = n \<and> length ls = length (pv_labels v) \<and> (\<exists>bs. pv_kind v = PcHistogram bs)"
| "op_fits (PSet n ls x) v \<longleftrightarrow> pv_name v = n \<and> length ls = length (pv_labels v) \<and> pv_kind v = PcGauge"

definition declared :: "prom_op \<Rightarrow> bool" where
  "declared op \<longleftrightarrow> (\<exists>v \<in> set controller_vecs. op_fits op v)"

definition seconds :: "duration \<Rightarrow> rat" where
  "seconds d = of_int d / of_int second"

text \<open>Exports: the counter when a job is made, and what the goroutine of a job does when it ends; a job is pending when its goroutine starts.\<close>

definition export_status_text :: "export_status \<Rightarrow> string" where
  "export_status_text st = (case st of XPending \<Rightarrow> ''pending'' | XProcessing \<Rightarrow> ''processing''
     | XCompleted \<Rightarrow> ''completed'' | XFailed \<Rightarrow> ''failed'' | XExpired \<Rightarrow> ''expired'')"

definition created_series :: "string \<Rightarrow> string \<Rightarrow> prom_op list" where
  "created_series user fmt = [PInc ''export_jobs_total'' [fmt, export_status_text XPending, user]]"

definition volume_series :: "export_job \<Rightarrow> prom_op list" where
  "volume_series j = (if xj_status j = XCompleted
     then [PObserve ''export_data_volume_bytes'' [xj_format j] (of_int (xj_total_size j))] else [])"

definition ended_series :: "duration \<Rightarrow> export_job \<Rightarrow> prom_op list" where
  "ended_series elapsed j =
     [PObserve ''export_job_duration_seconds'' [xj_format j, export_status_text (xj_status j)] (seconds elapsed),
      PInc ''export_jobs_total'' [xj_format j, export_status_text (xj_status j), xj_user j]]"

definition measured_export :: "('st, 'e) export_env \<Rightarrow> gtime \<Rightarrow> duration \<Rightarrow> nat \<Rightarrow> 'st export_service
    \<Rightarrow> 'st export_service \<times> prom_op list" where
  "measured_export env now elapsed i s =
     (let s' = process_export_job env now i s; j = es_heap s' ! i in (s', volume_series j @ ended_series elapsed j))"

text \<open>Requests: the errors of a validation, and what the rate limiter counts.\<close>

definition validation_series :: "validation_response option \<Rightarrow> prom_op list" where
  "validation_series v = (case v of None \<Rightarrow> []
     | Some v \<Rightarrow> map (\<lambda>e. PInc ''validation_errors_total'' [ve_field e, ve_tag e]) (vr_details v))"

definition request_series :: "body_request \<Rightarrow> int \<Rightarrow> string \<Rightarrow> string \<Rightarrow> prom_op" where
  "request_series r status key role = PInc ''api_requests_total'' [hr_method r, hr_path r, itoa status, key, role]"

definition measured_rate_limit :: "'l ctl_env \<Rightarrow> duration \<Rightarrow> 'l handler \<Rightarrow> body_request \<Rightarrow> headers \<Rightarrow> 'l controller
    \<Rightarrow> ('l controller \<times> ctl_body http_response outcome) \<times> prom_op list" where
  "measured_rate_limit env elapsed next_handler r hs s =
     (let key = extract_api_key r;
          key = (if key = [] then ''anonymous'' else key);
          role = extract_role r key;
          (s1, l) = get_limiter env key role s;
          (lim, ok) = rl_allow (ce_rate env) (ce_now env) (lm_limiter l);
          res = rate_limit_middleware env next_handler r hs s in
      (res, if \<not> ok then
          PInc ''rate_limit_hits_total'' [key, role, ''per_key''] #
          (case snd res of Panics _ \<Rightarrow> [] | Ret _ \<Rightarrow> [request_series r 429 key role])
        else (case snd res of Panics _ \<Rightarrow> []
          | Ret resp \<Rightarrow> [request_series r (rs_status resp) key role,
              PObserve ''api_request_duration_seconds'' [hr_method r, hr_path r, key, role] (seconds elapsed)])))"

text \<open>Health: what a check does once it has updated the table, and the uptime.\<close>

definition health_series :: "string \<Rightarrow> string \<Rightarrow> duration \<Rightarrow> prom_op list" where
  "health_series name status d =
     [PObserve ''health_check_duration_seconds'' [name, status] (seconds d),
      PSet ''health_check_status'' [name] (if status = ''healthy'' then 1 else 0)]"

definition uptime_series :: "gtime \<Rightarrow> health_checker \<Rightarrow> prom_op list" where
  "uptime_series now s = [PSet ''application_uptime_seconds'' [] (seconds (time_sub now (hk_start_time s)))]"

subsection \<open>No panic, and every answer is counted\<close>

lemma must_register_distinct:
  "distinct (map pv_name (reg @ vs)) \<Longrightarrow> must_register reg vs = Some (reg @ vs)"
  by (induction vs arbitrary: reg) auto

lemma controller_names: "distinct (map pv_name controller_vecs)" "distinct (map pv_name agent_vecs)"
  by (simp_all add: controller_vecs_def export_vecs_def handlers_vecs_def health_vecs_def api_vecs_def agent_vecs_def prom_vec_def)

lemma declared_op: "op_fits op v \<Longrightarrow> v \<in> set controller_vecs \<Longrightarrow> declared op"
  by (auto simp: declared_def)

lemma declared_simps [simp]:
  "declared (PInc ''export_jobs_total'' [a, b, c])"
  "declared (PObserve ''export_job_duration_seconds'' [a, b] x)"
  "declared (PObserve ''export_data_volume_bytes'' [a] x)"
  "declared (PInc ''validation_errors_total'' [a, b])"
  "declared (PInc ''rate_limit_hits_total'' [a, b, c])"
  "declared (PInc ''api_requests_total'' [a, b, c, d, e])"
  "declared (PObserve ''api_request_duration_seconds'' [a, b, c, d] x)"
  "declared (PObserve ''health_check_duration_seconds'' [a, b] x)"
  "declared (PSet ''health_check_status'' [a] x)"
  "declared (PSet ''application_uptime_seconds'' [] x)"
  by (simp_all add: declared_def controller_vecs_def export_vecs_def handlers_vecs_def health_vecs_def api_vecs_def prom_vec_def)

lemmas series_defs = created_series_def volume_series_def ended_series_def validation_series_def request_series_def
  health_series_def uptime_series_def

text \<open>Neither program panics for its Prometheus series: the names that each registers are distinct, and
  every operation of the controller names a registered vector of its kind and gives as many label
  values as the vector has labels.\<close>

theorem series_never_panic:
  "must_register [] controller_vecs = Some controller_vecs \<and> must_register [] agent_vecs = Some agent_vecs \<and>
   list_all declared (created_series user fmt @ snd (measured_export env now elapsed i es) @ validation_series v @
     snd (measured_rate_limit cenv elapsed h r hs s) @ health_series name status d @ uptime_series now k)"
proof -
  have "must_register [] vs = Some vs" if "distinct (map pv_name vs)" for vs
    using must_register_distinct [of "[]" vs] that by simp
  then have reg: "must_register [] controller_vecs = Some controller_vecs" "must_register [] agent_vecs = Some agent_vecs"
    using controller_names by blast+
  have "list_all declared (snd (measured_export env now elapsed i es))"
    by (simp add: measured_export_def series_defs Let_def)
  moreover have "list_all declared (validation_series v)"
    by (auto simp: series_defs list_all_iff split: option.split)
  moreover have "list_all declared (snd (measured_rate_limit cenv elapsed h r hs s))"
    by (auto simp: measured_rate_limit_def series_defs Let_def split: prod.split outcome.split)
  moreover have "list_all declared (created_series user fmt)" "list_all declared (health_series name status d)"
    "list_all declared (uptime_series now k)"
    by (simp_all add: series_defs)
  ultimately show ?thesis using reg by simp
qed

definition counts_request :: "prom_op \<Rightarrow> bool" where
  "counts_request op = (case op of PInc n ls \<Rightarrow> n = ''api_requests_total'' | _ \<Rightarrow> False)"

text \<open>Each request that the rate limiter sees and that is answered is counted exactly once, under its method, path and the
  status of the answer; a request that ends with a panic is not counted.\<close>

theorem answered_requests_counted:
  "case measured_rate_limit env elapsed h r hs s of ((s', out), ops) \<Rightarrow>
    (case out of
      Panics _ \<Rightarrow> filter counts_request ops = []
    | Ret resp \<Rightarrow> \<exists>key role. filter counts_request ops = [PInc ''api_requests_total''
        [hr_method r, hr_path r, itoa (rs_status resp), key, role]])"
proof -
  obtain s' out ops where m: "measured_rate_limit env elapsed h r hs s = ((s', out), ops)" by (metis surj_pair)
  define key where "key = (if extract_api_key r = [] then ''anonymous'' else extract_api_key r)"
  define role where "role = extract_role r key"
  obtain s1 l where g: "get_limiter env key role s = (s1, l)" by fastforce
  obtain lim ok where a: "rl_allow (ce_rate env) (ce_now env) (lm_limiter l) = (lim, ok)" by fastforce
  note run = m [unfolded measured_rate_limit_def Let_def, folded key_def, folded role_def, unfolded g prod.case a]
  note mw = rate_limit_middleware_def [of env h r hs s, unfolded Let_def, folded key_def, folded role_def, unfolded g prod.case a]
  have res: "rate_limit_middleware env h r hs s = (s', out)" using run by simp
  have refused: "\<not> ok \<Longrightarrow> out = Ret resp \<Longrightarrow> rs_status resp = 429" for resp
    using mw [unfolded res] by (simp split: if_splits)
  note run' = run [unfolded res snd_conv]
  have "case out of
      Panics _ \<Rightarrow> filter counts_request ops = []
    | Ret resp \<Rightarrow> \<exists>key role. filter counts_request ops = [PInc ''api_requests_total''
        [hr_method r, hr_path r, itoa (rs_status resp), key, role]]"
  proof (cases ok)
    case True
    then show ?thesis using run' by (cases out) (auto simp: counts_request_def request_series_def)
  next
    case False
    then show ?thesis using run' refused by (cases out) (auto simp: counts_request_def request_series_def)
  qed
  then show ?thesis by (simp only: m prod.case)
qed

text \<open>An export job counts once as pending and once under the status with which it ends.\<close>

theorem export_counted:
  assumes "map_of (es_jobs s) (xj_id (es_heap s ! i)) = Some i" and "i < length (es_heap s)"
    and "measured_export env now elapsed i s = (s', ops)"
  shows "\<exists>st fmt user x. st \<in> {''completed'', ''failed''} \<and>
    ops = (if st = ''completed'' then [PObserve ''export_data_volume_bytes'' [fmt] (of_int (xj_total_size (es_heap s' ! i)))] else []) @
      [PObserve ''export_job_duration_seconds'' [fmt, st] x, PInc ''export_jobs_total'' [fmt, st, user]]"
proof -
  let ?j = "es_heap s' ! i"
  have ops: "s' = process_export_job env now i s" "ops = volume_series ?j @ ended_series elapsed ?j"
    using assms(3) by (auto simp: measured_export_def Let_def)
  have "xj_status ?j = XCompleted \<or> xj_status ?j = XFailed" using export_job_outcome [OF assms(1,2)] ops(1) by blast
  then show ?thesis
    unfolding ops(2) by (auto simp: volume_series_def ended_series_def export_status_text_def)
qed

end
