(* ===== verification/Agent_Health.thy ===== *)
theory Agent_Health
  imports Agent_Main Metrics
begin

text \<open>
  The controller's health checks with the agents that answer them, and with the series that they
  write. A check updates the table under the lock and the series after it, one operation at a time, so
  other steps may come between. The runs here are runs of the health checker's theory whose
  checks see the environments that \<open>answers\<close> admits.
\<close>

subsection \<open>The controller's start\<close>

text \<open>Without a tracer or without its port the program exits; otherwise it serves, with a new health checker and rate
  limits by default. \<open>os.Exit\<close> runs no deferred call, so the tracer is never shut down.\<close>

datatype 'l controller_start = ControllerExits string int | ControllerServes tracer_config health_checker "'l controller"

definition controller_main :: "otlp_lib \<Rightarrow> (string \<Rightarrow> string) \<Rightarrow> gtime \<Rightarrow> string option \<Rightarrow> 'l controller_start" where
  "controller_main lib env now listen = (case ctl_otlp_tracer_provider lib env ''chaoslabs-controller'' ''1.0.0'' of
     Inl err \<Rightarrow> ControllerExits ''failed to initialize tracer'' 1
   | Inr tp \<Rightarrow> (case listen of
       Some err \<Rightarrow> ControllerExits ''controller failed'' 1
     | None \<Rightarrow> ControllerServes tp (new_health_checker ''1.0.0'' now) (new_controller None)))"

subsection \<open>Runs with their series\<close>

record observed =
  ob_checker :: health_checker
  ob_pending :: "prom_op list list"
  ob_series :: "prom_op list"

definition new_observed :: "string \<Rightarrow> gtime \<Rightarrow> observed" where
  "new_observed version now = \<lparr>ob_checker = new_health_checker version now, ob_pending = [], ob_series = []\<rparr>"

definition observe_finish :: "gtime \<Rightarrow> string \<times> gtime \<times> health_dependency \<Rightarrow> string option \<Rightarrow> observed \<Rightarrow> observed" where
  "observe_finish now c err s = (case c of (name, begun, dep) \<Rightarrow>
     s\<lparr>ob_checker := finish_check now c err (ob_checker s),
       ob_pending := ob_pending s @ [health_series name (if err = None then ''healthy'' else ''unhealthy'') (time_sub now begun)]\<rparr>)"

definition publish_series :: "nat \<Rightarrow> observed \<Rightarrow> observed" where
  "publish_series i s = (case ob_pending s ! i of
     [] \<Rightarrow> s
   | op # ops \<Rightarrow> s\<lparr>ob_pending := (ob_pending s)[i := ops], ob_series := ob_series s @ [op]\<rparr>)"

definition update_uptime :: "gtime \<Rightarrow> observed \<Rightarrow> observed" where
  "update_uptime now s = s\<lparr>ob_series := ob_series s @ uptime_series now (ob_checker s)\<rparr>"

inductive observed_reachable :: "(health_env \<Rightarrow> bool) \<Rightarrow> string \<Rightarrow> gtime \<Rightarrow> observed \<Rightarrow> gtime \<Rightarrow> bool"
  for answers version t0 where
  start: "observed_reachable answers version t0 (new_observed version t0) t0"
| tick: "observed_reachable answers version t0 s t \<Longrightarrow> t \<le> now \<Longrightarrow>
    observed_reachable answers version t0 (s\<lparr>ob_checker := periodic_checks now (ob_checker s)\<rparr>) now"
| finish: "observed_reachable answers version t0 s t \<Longrightarrow> t \<le> now \<Longrightarrow> c \<in> set (hk_running (ob_checker s)) \<Longrightarrow>
    answers env \<Longrightarrow> err \<in> check_results env now c \<Longrightarrow>
    observed_reachable answers version t0 (observe_finish now c err s) now"
| publish: "observed_reachable answers version t0 s t \<Longrightarrow> t \<le> now \<Longrightarrow> i < length (ob_pending s) \<Longrightarrow>
    observed_reachable answers version t0 (publish_series i s) now"
| uptime: "observed_reachable answers version t0 s t \<Longrightarrow> t \<le> now \<Longrightarrow>
    observed_reachable answers version t0 (update_uptime now s) now"

text \<open>Forgetting the series gives a run of the checker, in which time may pass without a step.\<close>

lemma observed_checker:
  "observed_reachable answers version t0 s t \<Longrightarrow> \<exists>t' \<le> t. health_reachable version t0 (ob_checker s) t'"
proof (induction rule: observed_reachable.induct)
  case start
  then show ?case using health_reachable.start by (auto simp: new_observed_def)
next
  case (tick s t now)
  then show ?case using health_reachable.tick by (metis (no_types, lifting) observed.select_convs(1) observed.surjective
        observed.update_convs(1) order.trans order_refl)
next
  case (finish s t now c env err)
  then obtain t' where "t' \<le> t" "health_reachable version t0 (ob_checker s) t'" by blast
  then have "health_reachable version t0 (finish_check now c err (ob_checker s)) now"
    using finish health_reachable.finish order.trans by blast
  then show ?case by (auto simp: observe_finish_def split: prod.split)
next
  case (publish s t now i)
  then show ?case by (auto simp: publish_series_def split: list.split intro: order.trans)
next
  case (uptime s t now)
  then show ?case by (auto simp: update_uptime_def intro: order.trans)
qed

subsection \<open>Agents behind the endpoints\<close>

definition get_request :: "string \<Rightarrow> body_request" where
  "get_request path = \<lparr>hr_method = ''GET'', hr_path = path, hr_headers = [], hr_remote = [], br_body = Some [],
     br_query_key = [], br_validator = False\<rparr>"

text \<open>
  Whatever precedes \<open>/health\<close> in the URL, the request fails or an agent answers it; the path that
  the agent sees ends in \<open>/health\<close>, as it does for endpoints without a query or a fragment.
\<close>

definition agents_answer :: "health_env \<Rightarrow> bool" where
  "agents_answer env \<longleftrightarrow> (\<forall>e. (\<exists>err. he_get env (e @ ''/health'') = Inl err) \<or>
     (\<exists>base metrics. he_get env (e @ ''/health'') = Inr (rs_status (fst (agent_mux metrics (get_request (base @ ''/health'')))))))"

lemma agent_has_no_health: "rs_status (fst (agent_mux metrics (get_request (base @ ''/health'')))) = 404"
proof -
  have l: "last (base @ ''/health'') = CHR ''h''" by simp
  have "base @ ''/health'' \<noteq> ''/inject''" using l by (intro notI) simp
  moreover have "base @ ''/health'' \<noteq> ''/metrics''" using l by (intro notI) simp
  ultimately show ?thesis by (simp add: agent_mux_def get_request_def)
qed

lemma no_agent_healthy: "agents_answer env \<Longrightarrow> \<not> any_agent env es"
proof (induction es)
  case (Cons e es)
  have "he_get env (e @ ''/health'') \<noteq> Inr 200"
    using Cons.prems unfolding agents_answer_def agent_has_no_health by (auto dest: spec [of _ e])
  then show ?case using Cons by simp
qed simp

lemma agents_check_fails: "agents_answer env \<Longrightarrow> check_agents env \<noteq> None"
  by (simp add: check_agents_def no_agent_healthy Let_def)

definition quiet_agents :: "prom_op list \<Rightarrow> bool" where
  "quiet_agents ops \<longleftrightarrow> PSet ''health_check_status'' [''agents''] 1 \<notin> set ops"

lemma quiet_agents_simps [simp]:
  "quiet_agents []" "quiet_agents (a @ b) \<longleftrightarrow> quiet_agents a \<and> quiet_agents b"
  "quiet_agents (op # ops) \<longleftrightarrow> op \<noteq> PSet ''health_check_status'' [''agents''] 1 \<and> quiet_agents ops"
  by (auto simp: quiet_agents_def)

definition agents_inv :: "observed \<Rightarrow> bool" where
  "agents_inv s \<longleftrightarrow>
     (\<exists>d. map_of (hk_dependencies (ob_checker s)) ''agents'' = Some d \<and> hd_check d = check_agents \<and>
        hd_status d \<in> {''unknown'', ''unhealthy''}) \<and>
     (\<forall>(n, t, d) \<in> set (hk_running (ob_checker s)). n = ''agents'' \<longrightarrow> hd_check d = check_agents) \<and>
     quiet_agents (ob_series s) \<and> list_all quiet_agents (ob_pending s)"

lemma agents_inv_new: "agents_inv (new_observed version t0)"
  by (simp add: agents_inv_def new_observed_def new_health_checker_def register_dependency_def zero_dependency_def Let_def)

lemma agents_inv_tick:
  assumes "agents_inv s" and "distinct (keys (hk_dependencies (ob_checker s)))"
  shows "agents_inv (s\<lparr>ob_checker := periodic_checks now (ob_checker s)\<rparr>)"
proof -
  have "hd_check d = check_agents" if "(''agents'', d) \<in> set (hk_dependencies (ob_checker s))" for d
    using assms map_of_is_SomeI [OF assms(2) that] by (auto simp: agents_inv_def)
  then show ?thesis using assms(1) by (auto simp: agents_inv_def periodic_checks_def)
qed

lemma agents_inv_finish:
  assumes inv: "agents_inv s" and c: "c \<in> set (hk_running (ob_checker s))"
    and ans: "agents_answer env" and err: "err \<in> check_results env now c"
  shows "agents_inv (observe_finish now c err s)"
proof -
  obtain n begun dep where n: "c = (n, begun, dep)" by (cases c)
  have fails: "n = ''agents'' \<Longrightarrow> err \<noteq> None"
    using inv c err agents_check_fails [OF ans] by (auto simp: agents_inv_def check_results_def n split: if_splits)
  obtain d where d: "map_of (hk_dependencies (ob_checker s)) ''agents'' = Some d" "hd_check d = check_agents"
    "hd_status d \<in> {''unknown'', ''unhealthy''}" using inv by (auto simp: agents_inv_def)
  have "\<exists>d. map_of (hk_dependencies (finish_check now c err (ob_checker s))) ''agents'' = Some d \<and> hd_check d = check_agents \<and>
      hd_status d \<in> {''unknown'', ''unhealthy''}"
  proof (cases "n = ''agents''")
    case True
    then show ?thesis using d fails by (simp add: finish_check_def n map_of_update Let_def)
  next
    case False
    then show ?thesis using d by (simp add: finish_check_def n map_of_update Let_def)
  qed
  moreover have "\<forall>(n, t, d) \<in> set (hk_running (finish_check now c err (ob_checker s))). n = ''agents'' \<longrightarrow> hd_check d = check_agents"
    using inv set_remove1_subset [of c "hk_running (ob_checker s)"]
    by (fastforce simp: agents_inv_def finish_check_def n Let_def)
  moreover have "quiet_agents (health_series n (if err = None then ''healthy'' else ''unhealthy'') x)" for x
    using fails by (auto simp: health_series_def)
  ultimately show ?thesis
    using inv by (simp add: agents_inv_def observe_finish_def n)
qed

lemma agents_inv_publish: 
  assumes "agents_inv s" and "i < length (ob_pending s)"
  shows "agents_inv (publish_series i s)"
proof (cases "ob_pending s ! i")
  case (Cons op ops)
  have "quiet_agents (op # ops)" using assms Cons by (metis agents_inv_def list_all_length)
  then show ?thesis using assms by (auto simp: agents_inv_def publish_series_def Cons list_all_update)
qed (use assms in \<open>simp add: publish_series_def\<close>)

lemma agents_inv_uptime: "agents_inv s \<Longrightarrow> agents_inv (update_uptime now s)"
  by (simp add: agents_inv_def update_uptime_def uptime_series_def)

lemma checker_keys:
  assumes "observed_reachable answers version t0 s t"
  shows "distinct (keys (hk_dependencies (ob_checker s)))"
  using observed_checker [OF assms] reachable_inv by (fastforce simp: health_inv_def)

lemma agents_reachable_inv: "observed_reachable agents_answer version t0 s t \<Longrightarrow> agents_inv s"
proof (induction rule: observed_reachable.induct)
  case (tick s t now)
  then show ?case by (intro agents_inv_tick checker_keys)
qed (auto intro: agents_inv_new agents_inv_finish agents_inv_publish agents_inv_uptime)

subsection \<open>Properties\<close>

text \<open>C17: the agents' health check never succeeds: the controller asks for a path that no agent serves, so as long as
  agents answer at the endpoints, whatever they are, the agents are unknown or unhealthy, and the
  series never says otherwise; and the controller's readiness does not depend on it.\<close>

theorem agents_never_healthy:
  assumes "observed_reachable agents_answer version t0 s t"
  shows "\<exists>d. map_of (hk_dependencies (ob_checker s)) ''agents'' = Some d \<and> hd_status d \<in> {''unknown'', ''unhealthy''} \<and>
    \<not> failing d \<and> PSet ''health_check_status'' [''agents''] 1 \<notin> set (ob_series s)"
proof -
  obtain t' where "health_reachable version t0 (ob_checker s) t'" using observed_checker [OF assms] by blast
  then obtain d d2 d3 where deps: "hk_dependencies (ob_checker s) = [(''database'', d), (''agents'', d2), (''tracing'', d3)]"
    "failing d2 = False" using three_dependencies [OF reachable_inv] by metis
  then have "map_of (hk_dependencies (ob_checker s)) ''agents'' = Some d2" by simp
  then show ?thesis
    using agents_reachable_inv [OF assms] deps(2) by (auto simp: agents_inv_def quiet_agents_def)
qed

text \<open>The first check of an agent, which answers it with 404.\<close>

definition agent_env :: health_env where
  "agent_env = \<lparr>he_bad_url = (\<lambda>u. None), he_get = (\<lambda>u. Inr 404), he_agent_endpoints = [], he_otel_url = []\<rparr>"

theorem agents_never_healthy_witness:
  "\<exists>s d. observed_reachable agents_answer ''1'' 0 s (15 * second) \<and> length (ob_pending s) = 1 \<and>
     map_of (hk_dependencies (ob_checker s)) ''agents'' = Some d \<and> \<not> failing d \<and>
     PSet ''health_check_status'' [''agents''] 1 \<notin> set (ob_series s)"
proof -
  let ?s0 = "new_observed ''1'' 0"
  let ?s1 = "?s0\<lparr>ob_checker := periodic_checks (15 * second) (ob_checker ?s0)\<rparr>"
  let ?d = "zero_dependency\<lparr>hd_name := ''agents'', hd_check := check_agents, hd_timeout := 3 * second,
    hd_interval := 15 * second, hd_status := ''unknown'', hd_last_check := 0\<rparr>"
  let ?s2 = "observe_finish (15 * second) (''agents'', 15 * second, ?d) (check_agents agent_env) ?s1"
  have r1: "observed_reachable agents_answer ''1'' 0 ?s1 (15 * second)"
    by (rule observed_reachable.tick [OF observed_reachable.start]) (simp add: second_def)
  have run: "(''agents'', 15 * second, ?d) \<in> set (hk_running (ob_checker ?s1))"
    by (simp add: new_observed_def new_health_checker_def register_dependency_def zero_dependency_def periodic_checks_def
        time_sub_def second_def min_i64_def max_i64_def)
  have env: "agents_answer agent_env"
    unfolding agents_answer_def agent_has_no_health by (simp add: agent_env_def)
  have r2: "observed_reachable agents_answer ''1'' 0 ?s2 (15 * second)"
    by (rule observed_reachable.finish [OF r1 order_refl run env]) (simp add: check_results_def)
  have "length (ob_pending ?s2) = 1" by (simp add: observe_finish_def new_observed_def)
  with r2 agents_never_healthy [OF r2] show ?thesis by blast
qed

end
