(* ===== verification/TimeSeries.thy ===== *)
theory TimeSeries
  imports Replay
begin

text \<open>
  The time-series manager, \<open>controller/timeseries_manager.go\<close>, over the MongoDB driver, which is a
  parameter: connecting, disconnecting, inserting one document and finding documents. The replay and
  writer services store log events through it; their theories take the store as a list of events to
  which an event is appended or which refuses it, and here that list is shown to be what a
  documented driver keeps in the collection \<open>logs\<close>.
\<close>

text \<open>\<open>'c\<close> is a connection, \<open>'w\<close> the server, \<open>'q\<close> a filter, \<open>'v\<close> a document.\<close>

record ('c, 'w, 'q, 'v) mongo_driver =
  mo_connect :: "string \<Rightarrow> 'w \<Rightarrow> string + 'c"
  mo_disconnect :: "'c \<Rightarrow> 'w \<Rightarrow> 'w \<times> string option"
  mo_insert_one :: "'c \<Rightarrow> string \<Rightarrow> string \<Rightarrow> 'v \<Rightarrow> 'w \<Rightarrow> 'w \<times> string option"
  mo_find :: "'c \<Rightarrow> string \<Rightarrow> string \<Rightarrow> 'q \<Rightarrow> 'w \<Rightarrow> string + 'v list"

record 'c time_series_manager =
  tm_client :: 'c
  tm_database :: string

definition new_time_series_manager ::
  "('c, 'w, 'q, 'v) mongo_driver \<Rightarrow> string \<Rightarrow> string \<Rightarrow> 'w \<Rightarrow> string + 'c time_series_manager" where
  "new_time_series_manager drv uri database w = (case mo_connect drv uri w of
     Inl err \<Rightarrow> Inl err
   | Inr c \<Rightarrow> Inr \<lparr>tm_client = c, tm_database = database\<rparr>)"

definition ts_close :: "('c, 'w, 'q, 'v) mongo_driver \<Rightarrow> 'c time_series_manager \<Rightarrow> 'w \<Rightarrow> 'w \<times> string option" where
  "ts_close drv m w = mo_disconnect drv (tm_client m) w"

definition ts_store ::
  "('c, 'w, 'q, 'v) mongo_driver \<Rightarrow> 'c time_series_manager \<Rightarrow> string \<Rightarrow> 'v \<Rightarrow> 'w \<Rightarrow> 'w \<times> string option" where
  "ts_store drv m collection v w = mo_insert_one drv (tm_client m) (tm_database m) collection v w"

definition ts_query ::
  "('c, 'w, 'q, 'v) mongo_driver \<Rightarrow> 'c time_series_manager \<Rightarrow> string \<Rightarrow> 'q \<Rightarrow> 'w \<Rightarrow> string + 'v list" where
  "ts_query drv m collection q w = mo_find drv (tm_client m) (tm_database m) collection q w"

definition ts_insert_log_event ::
  "('c, 'w, 'q, log_event) mongo_driver \<Rightarrow> 'c time_series_manager \<Rightarrow> log_event \<Rightarrow> 'w \<Rightarrow> 'w \<times> string option" where
  "ts_insert_log_event drv m l w = ts_store drv m ''logs'' l w"

text \<open>What the driver documents: one document is inserted at the end of its collection, or nothing changes.\<close>

definition insert_documented ::
  "('c, 'w, 'q, 'v) mongo_driver \<Rightarrow> ('w \<Rightarrow> string \<times> string \<Rightarrow> 'v list) \<Rightarrow> bool" where
  "insert_documented drv contents \<longleftrightarrow> (\<forall>c db coll v w w' err. mo_insert_one drv c db coll v w = (w', err) \<longrightarrow>
     contents w' = (case err of
       None \<Rightarrow> (contents w)((db, coll) := contents w (db, coll) @ [v])
     | Some e \<Rightarrow> contents w))"

text \<open>The manager implements the list of log events of the replay and writer services: seen through the
  contents of its collection, an insertion is the list's insertion, refused exactly when it returns an error, and
  no other collection changes.\<close>

theorem insert_refines_list:
  assumes "insert_documented drv contents" and "ts_insert_log_event drv m l w = (w', err)"
  shows "insert_log_event (\<lambda>_ _. err = None) l (contents w (tm_database m, ''logs'')) =
      (contents w' (tm_database m, ''logs''), err = None) \<and>
    (\<forall>k. k \<noteq> (tm_database m, ''logs'') \<longrightarrow> contents w' k = contents w k)"
proof -
  have "contents w' = (case err of
      None \<Rightarrow> (contents w)((tm_database m, ''logs'') := contents w (tm_database m, ''logs'') @ [l])
    | Some e \<Rightarrow> contents w)"
    using assms unfolding insert_documented_def ts_insert_log_event_def ts_store_def by blast
  then show ?thesis by (cases err) (simp_all add: insert_log_event_def)
qed

text \<open>A server that keeps its collections in a function and refuses a second document.\<close>

definition small_driver :: "(unit, string \<times> string \<Rightarrow> log_event list, unit, log_event) mongo_driver" where
  "small_driver = \<lparr>mo_connect = (\<lambda>uri w. Inr ()), mo_disconnect = (\<lambda>c w. (w, None)),
     mo_insert_one = (\<lambda>c db coll v w. if w (db, coll) = [] then (w((db, coll) := [v]), None) else (w, Some ''full'')),
     mo_find = (\<lambda>c db coll q w. Inr (w (db, coll)))\<rparr>"

theorem insert_refines_list_witness:
  "\<forall>l :: log_event. insert_log_event (\<lambda>_ _. True) l [] = ([l], True)"
proof
  fix l :: log_event
  have d: "insert_documented small_driver id"
    by (auto simp: insert_documented_def small_driver_def split: if_splits)
  have "ts_insert_log_event small_driver \<lparr>tm_client = (), tm_database = ''d''\<rparr> l (\<lambda>_. []) =
      ((\<lambda>_. [])((''d'', ''logs'') := [l]), None)"
    by (simp add: ts_insert_log_event_def ts_store_def small_driver_def)
  from insert_refines_list [OF d this] show "insert_log_event (\<lambda>_ _. True) l [] = ([l], True)" by simp
qed

end
