(* ===== verification/Preflight.thy ===== *)
theory Preflight
  imports Wire Complex_Main
begin

text \<open>
  The agent's preflight checks, \<open>agent/preflight.go\<close>, and the stand-alone program with a copy of them,
  \<open>agent/cmd/doctor/main.go\<close>. The two differ in how a capability is read and how a line of
  \<open>/proc/cpuinfo\<close> is recognised: the definitions take these as the parameters \<open>getcap\<close> and
  \<open>cpu_line\<close>. The host is a parameter too; the state is the list of checks made and, to show what
  the checks do to the host, the commands run. Neither file compiles as it is: a stray brace closes
  \<open>getCapability\<close> of the first early (the model ends it there), and calls of the second pass a
  further description that the callee does not take (the model passes the last argument).
\<close>

subsection \<open>Data\<close>

datatype check_status = CsPass | CsFail | CsWarn | CsSkip

definition status_text :: "check_status \<Rightarrow> string" where
  "status_text st = (case st of CsPass \<Rightarrow> ''PASS'' | CsFail \<Rightarrow> ''FAIL'' | CsWarn \<Rightarrow> ''WARN'' | CsSkip \<Rightarrow> ''SKIP'')"

record preflight_check =
  pc_name :: string
  pc_description :: string
  pc_status :: check_status
  pc_error :: string
  pc_remediation :: string
  pc_required :: bool

record preflight_summary =
  pq_total :: int
  pq_passed :: int
  pq_failed :: int
  pq_warning :: int
  pq_skipped :: int
  pq_overall :: check_status

record preflight_result =
  pr_timestamp :: gtime
  pr_hostname :: string
  pr_os :: string
  pr_architecture :: string
  pr_checks :: "preflight_check list"
  pr_summary :: preflight_summary

text \<open>A command: the error of running it, its exit code (-1 when it did not start) and its output.\<close>

record command_result =
  cr_error :: "string option"
  cr_exit :: int
  cr_output :: string

record preflight_env =
  pe_now :: gtime
  pe_hostname :: "string option"
  pe_os :: string
  pe_arch :: string
  pe_look_path :: "string \<Rightarrow> string option"
  pe_command :: "string list \<Rightarrow> command_result"
  pe_stat :: "string \<Rightarrow> string option"
  pe_read :: "string \<Rightarrow> string + string"
  pe_statfs :: "string + (int \<times> int)"

record preflight_run =
  pf_checks :: "preflight_check list"
  pf_commands :: "string list list"

type_synonym step_result = "preflight_run \<times> panic option"

definition add_check :: "preflight_check \<Rightarrow> preflight_run \<Rightarrow> preflight_run" where
  "add_check c st = st\<lparr>pf_checks := pf_checks st @ [c]\<rparr>"

definition run_command :: "'a preflight_env_scheme \<Rightarrow> string list \<Rightarrow> preflight_run \<Rightarrow> preflight_run \<times> command_result" where
  "run_command env args st = (st\<lparr>pf_commands := pf_commands st @ [args]\<rparr>, pe_command env args)"

definition make_check :: "string \<Rightarrow> string \<Rightarrow> check_status \<Rightarrow> string \<Rightarrow> bool \<Rightarrow> string \<Rightarrow> preflight_check" where
  "make_check name desc st err required remediation = \<lparr>pc_name = name, pc_description = desc, pc_status = st,
     pc_error = err, pc_remediation = remediation, pc_required = required\<rparr>"

text \<open>The status of a check that does not hold.\<close>

definition missing_status :: "bool \<Rightarrow> bool \<Rightarrow> check_status" where
  "missing_status ok required = (if ok then CsPass else if required then CsFail else CsWarn)"

subsection \<open>Capabilities\<close>

type_synonym 'e getcap = "'e \<Rightarrow> string \<Rightarrow> preflight_run \<Rightarrow> preflight_run \<times> (string + bool)"

definition capability_number :: "string \<Rightarrow> int option" where
  "capability_number name = (if name = ''CAP_NET_ADMIN'' then Some 12 else if name = ''CAP_SYS_ADMIN'' then Some 21
     else if name = ''CAP_SYS_RESOURCE'' then Some 24 else None)"

definition check_capability_alternative :: "'a preflight_env_scheme \<Rightarrow> int \<Rightarrow> preflight_run \<Rightarrow> preflight_run \<times> bool" where
  "check_capability_alternative env n st =
     (if n = 12 then
        (let (st, r) = run_command env [''tc'', ''qdisc'', ''add'', ''dev'', ''lo'', ''root'', ''netem'', ''delay'', ''1ms''] st in
         (st, cr_exit r \<noteq> 1))
      else if n = 21 then (st, (case pe_read env ''/proc/sys/kernel/hostname'' of Inl _ \<Rightarrow> False | Inr _ \<Rightarrow> True))
      else (st, False))"

definition get_capability :: "'a preflight_env_scheme getcap" where
  "get_capability env name st = (case capability_number name of
     None \<Rightarrow> (st, Inl (''unknown capability: '' @ name))
   | Some n \<Rightarrow> (let (st, b) = check_capability_alternative env n st in (st, Inr b)))"

definition check_capability ::
  "'a preflight_env_scheme getcap \<Rightarrow> 'a preflight_env_scheme \<Rightarrow> string \<Rightarrow> string \<Rightarrow> bool \<Rightarrow> string \<Rightarrow> preflight_run \<Rightarrow> step_result" where
  "check_capability getcap env name desc required remediation st = (case getcap env name st of
     (st, Inl err) \<Rightarrow> (add_check (make_check name desc CsFail err required remediation) st, None)
   | (st, Inr b) \<Rightarrow> (add_check (make_check name desc (missing_status b required) [] required remediation) st, None))"

definition run_capability_checks :: "'a preflight_env_scheme getcap \<Rightarrow> 'a preflight_env_scheme \<Rightarrow> preflight_run \<Rightarrow> step_result" where
  "run_capability_checks getcap env st =
     ok_then (ok_then (check_capability getcap env ''CAP_NET_ADMIN'' ''Network administration capabilities'' True
         ''Run: sudo setcap cap_net_admin+ep /path/to/agent'' st)
       (check_capability getcap env ''CAP_SYS_ADMIN'' ''System administration capabilities'' False
         ''Run: sudo setcap cap_sys_admin+ep /path/to/agent''))
       (check_capability getcap env ''CAP_SYS_RESOURCE'' ''System resource management capabilities'' False
         ''Run: sudo setcap cap_sys_resource+ep /path/to/agent'')"

subsection \<open>Tools\<close>

text \<open>The error is read whether or not there is one.\<close>

definition check_tool_availability ::
  "'a preflight_env_scheme \<Rightarrow> string \<Rightarrow> string \<Rightarrow> bool \<Rightarrow> string \<Rightarrow> preflight_run \<Rightarrow> step_result" where
  "check_tool_availability env tool desc required remediation st = (case pe_look_path env tool of
     None \<Rightarrow> (st, Some NilDereference)
   | Some err \<Rightarrow> (add_check (make_check tool desc (missing_status False required) err required remediation) st, None))"

definition run_tool_availability_checks :: "'a preflight_env_scheme \<Rightarrow> preflight_run \<Rightarrow> step_result" where
  "run_tool_availability_checks env st =
     ok_then (ok_then (ok_then (ok_then
       (check_tool_availability env ''tc'' ''Traffic control utility'' True
          ''Install: apt-get install iproute2 (Ubuntu) or yum install iproute-tc (CentOS)'' st)
       (check_tool_availability env ''ip'' ''IP utility'' True
          ''Install: apt-get install iproute2 (Ubuntu) or yum install iproute (CentOS)''))
       (check_tool_availability env ''stress-ng'' ''Stress testing utility'' False
          ''Install: apt-get install stress-ng (Ubuntu) or yum install stress-ng (CentOS)''))
       (check_tool_availability env ''cgcreate'' ''Cgroup creation utility'' False
          ''Install: apt-get install cgroup-tools (Ubuntu) or yum install libcgroup-tools (CentOS)''))
       (check_tool_availability env ''ifconfig'' ''Interface configuration utility'' False
          ''Install: apt-get install net-tools (Ubuntu) or yum install net-tools (CentOS)'')"

subsection \<open>Containers\<close>

definition path_exists :: "'a preflight_env_scheme \<Rightarrow> string \<Rightarrow> bool" where
  "path_exists env p \<longleftrightarrow> pe_stat env p = None"

definition has_container_cgroup :: "'a preflight_env_scheme \<Rightarrow> bool" where
  "has_container_cgroup env = (case pe_read env ''/proc/1/cgroup'' of
     Inl _ \<Rightarrow> False
   | Inr s \<Rightarrow> list_ex (\<lambda>l. contains l ''docker'' \<or> contains l ''kubepods'') (scan_lines s))"

definition is_running_in_container :: "'a preflight_env_scheme \<Rightarrow> bool" where
  "is_running_in_container env \<longleftrightarrow>
     list_ex (path_exists env) [''/.dockerenv'', ''/proc/1/cgroup'', ''/proc/1/root''] \<or> has_container_cgroup env"

definition is_privileged_container :: "'a preflight_env_scheme \<Rightarrow> bool" where
  "is_privileged_container env \<longleftrightarrow> path_exists env ''/dev/net/tun'' \<or> path_exists env ''/proc/sys''"

definition check_container_mounts :: "'a preflight_env_scheme \<Rightarrow> preflight_run \<Rightarrow> preflight_run" where
  "check_container_mounts env st = foldl (\<lambda>st m. add_check (case pe_stat env m of
       None \<Rightarrow> make_check (''Mount: '' @ m) ''Required mount point available'' CsPass [] True ''Mount point is available''
     | Some err \<Rightarrow> make_check (''Mount: '' @ m) ''Required mount point missing'' CsFail err True
         (''Ensure container has access to '' @ m)) st) st [''/proc'', ''/sys'', ''/dev'']"

definition run_container_privilege_checks :: "'a preflight_env_scheme \<Rightarrow> preflight_run \<Rightarrow> step_result" where
  "run_container_privilege_checks env st =
     (if is_running_in_container env then
        (let st = add_check (make_check ''Container Privileges'' ''Container privilege assessment'' CsWarn [] False
               ''Ensure container has necessary capabilities and mounts'') st;
             st = add_check (if is_privileged_container env
               then make_check ''Privileged Container'' ''Container running with privileged mode'' CsPass [] False
                 ''Container has elevated privileges''
               else make_check ''Privileged Container'' ''Container running with privileged mode'' CsWarn [] False
                 ''Consider running with --privileged or specific capabilities'') st in
         (check_container_mounts env st, None))
      else (add_check (make_check ''Container Environment'' ''Running on bare metal or VM'' CsPass [] False
        ''No container-specific configuration needed'') st, None))"

subsection \<open>System requirements\<close>

definition check_kernel_version :: "'a preflight_env_scheme \<Rightarrow> preflight_run \<Rightarrow> preflight_run" where
  "check_kernel_version env st =
     (let (st, r) = run_command env [''uname'', ''-r''] st in
      (case cr_error r of
        Some err \<Rightarrow> add_check (make_check ''Kernel Version'' ''Kernel version check'' CsFail err True
          ''Ensure uname command is available'') st
      | None \<Rightarrow> add_check (make_check ''Kernel Version'' (''Kernel version: '' @ trim_space (cr_output r)) CsPass [] False
          ''Kernel version is available'') st))"

definition memory_line :: "int \<times> int \<Rightarrow> string \<Rightarrow> int \<times> int" where
  "memory_line acc line = (case acc of (total_kb, avail) \<Rightarrow>
     if has_prefix line ''MemTotal:'' then (second_number line total_kb, avail)
     else if has_prefix line ''MemAvailable:'' then (total_kb, second_number line avail)
     else (total_kb, avail))"

definition check_available_memory :: "'a preflight_env_scheme \<Rightarrow> preflight_run \<Rightarrow> preflight_run" where
  "check_available_memory env st = (case pe_read env ''/proc/meminfo'' of
     Inl err \<Rightarrow> add_check (make_check ''Available Memory'' ''Memory availability check'' CsFail err False
       ''Ensure /proc filesystem is mounted'') st
   | Inr s \<Rightarrow>
     (let (total_kb, avail) = foldl memory_line (0, 0) (scan_lines s) in
      if total_kb > 0 \<and> avail > 0 then
        (let gb = of_int avail / 1024 / 1024 :: rat in
         add_check (make_check ''Available Memory'' (''Available memory: '' @ fmt_float 2 gb @ '' GB'')
           (if gb < 1 then CsWarn else CsPass) [] False ''Ensure sufficient memory for experiments'') st)
      else st))"

definition check_available_disk_space :: "'a preflight_env_scheme \<Rightarrow> preflight_run \<Rightarrow> preflight_run" where
  "check_available_disk_space env st = (case pe_statfs env of
     Inl err \<Rightarrow> add_check (make_check ''Available Disk Space'' ''Disk space check'' CsFail err False
       ''Ensure filesystem is accessible'') st
   | Inr (bavail, bsize) \<Rightarrow>
     (let gb = of_int (u64 (bavail * u64 bsize)) / 1024 / 1024 / 1024 :: rat in
      add_check (make_check ''Available Disk Space'' (''Available disk space: '' @ fmt_float 2 gb @ '' GB'')
        (if gb < 1 then CsWarn else CsPass) [] False ''Ensure sufficient disk space for logs and experiments'') st))"

definition cpu_info_line :: "(string \<Rightarrow> string \<Rightarrow> bool) \<Rightarrow> int \<times> string \<Rightarrow> string \<Rightarrow> int \<times> string" where
  "cpu_info_line cpu_line acc line = (case acc of (n, model) \<Rightarrow>
     if cpu_line line ''processor'' then (n + 1, model)
     else if cpu_line line ''model name'' then
       (case split_on (CHR '':'') line of a # b # r \<Rightarrow> (n, trim_space b) | _ \<Rightarrow> (n, model))
     else (n, model))"

definition check_cpu_info :: "(string \<Rightarrow> string \<Rightarrow> bool) \<Rightarrow> 'a preflight_env_scheme \<Rightarrow> preflight_run \<Rightarrow> preflight_run" where
  "check_cpu_info cpu_line env st = (case pe_read env ''/proc/cpuinfo'' of
     Inl err \<Rightarrow> add_check (make_check ''CPU Information'' ''CPU information check'' CsFail err False
       ''Ensure /proc filesystem is mounted'') st
   | Inr s \<Rightarrow>
     (let (n, model) = foldl (cpu_info_line cpu_line) (0, []) (scan_lines s) in
      if n > 0 then add_check (make_check ''CPU Information'' (''CPU cores: '' @ itoa n @ '', Model: '' @ model)
        CsPass [] False ''CPU information is available'') st
      else st))"

definition run_system_requirement_checks ::
  "(string \<Rightarrow> string \<Rightarrow> bool) \<Rightarrow> 'a preflight_env_scheme \<Rightarrow> preflight_run \<Rightarrow> step_result" where
  "run_system_requirement_checks cpu_line env st =
     (check_cpu_info cpu_line env (check_available_disk_space env (check_available_memory env
       (check_kernel_version env st))), None)"

subsection \<open>Network\<close>

definition is_kernel_module_available :: "'a preflight_env_scheme \<Rightarrow> string \<Rightarrow> preflight_run \<Rightarrow> preflight_run \<times> bool" where
  "is_kernel_module_available env m st =
     (let (st, r) = run_command env [''lsmod''] st in
      if cr_error r = None \<and> contains (cr_output r) m then (st, True)
      else (let (st, r) = run_command env [''modprobe'', ''-n'', m] st in (st, cr_error r = None)))"

definition check_kernel_module ::
  "'a preflight_env_scheme \<Rightarrow> string \<Rightarrow> string \<Rightarrow> bool \<Rightarrow> string \<Rightarrow> preflight_run \<Rightarrow> preflight_run" where
  "check_kernel_module env m desc required remediation st =
     (let (st, ok) = is_kernel_module_available env m st in
      add_check (make_check m desc (missing_status ok required) [] required remediation) st)"

definition check_network_interface_count :: "'a preflight_env_scheme \<Rightarrow> preflight_run \<Rightarrow> preflight_run" where
  "check_network_interface_count env st =
     (let (st, r) = run_command env [''ip'', ''link'', ''show''] st in
      (case cr_error r of
        Some err \<Rightarrow> add_check (make_check ''Network Interfaces'' ''Network interface count check'' CsFail err False
          ''Ensure ip command is available'') st
      | None \<Rightarrow>
        (let n = length (filter (\<lambda>l. contains l '':'' \<and> \<not> contains l ''lo:'') (split_on newline (cr_output r))) in
         add_check (make_check ''Network Interfaces'' (''Network interfaces: '' @ itoa (int n))
           (if n < 2 then CsWarn else CsPass) [] False ''Ensure sufficient network interfaces for experiments'') st)))"

definition run_network_capability_checks :: "'a preflight_env_scheme \<Rightarrow> preflight_run \<Rightarrow> step_result" where
  "run_network_capability_checks env st =
     (check_network_interface_count env
       (check_kernel_module env ''sch_netem'' ''Network emulation scheduler'' True ''Load module: sudo modprobe sch_netem''
         (check_kernel_module env ''ifb'' ''Intermediate Functional Block device'' False ''Load module: sudo modprobe ifb'' st)),
      None)"

subsection \<open>The whole run\<close>

definition count_status :: "check_status \<Rightarrow> preflight_check list \<Rightarrow> int" where
  "count_status st cs = int (length (filter (\<lambda>c. pc_status c = st) cs))"

definition calculate_summary :: "preflight_check list \<Rightarrow> preflight_summary" where
  "calculate_summary cs =
     (let failed = count_status CsFail cs; warned = count_status CsWarn cs in
      \<lparr>pq_total = int (length cs), pq_passed = count_status CsPass cs, pq_failed = failed, pq_warning = warned,
       pq_skipped = count_status CsSkip cs,
       pq_overall = (if failed > 0 then CsFail else if warned > 0 then CsWarn else CsPass)\<rparr>)"

text \<open>The commands that were run, and the result unless a check panicked.\<close>

definition run_all_checks ::
  "'a preflight_env_scheme getcap \<Rightarrow> (string \<Rightarrow> string \<Rightarrow> bool) \<Rightarrow> 'a preflight_env_scheme \<Rightarrow> string list list \<times> preflight_result outcome" where
  "run_all_checks getcap cpu_line env =
     (case ok_then (ok_then (ok_then (ok_then
         (run_capability_checks getcap env \<lparr>pf_checks = [], pf_commands = []\<rparr>)
         (run_tool_availability_checks env))
         (run_container_privilege_checks env))
         (run_system_requirement_checks cpu_line env))
         (run_network_capability_checks env) of
       (st, Some p) \<Rightarrow> (pf_commands st, Panics p)
     | (st, None) \<Rightarrow> (pf_commands st, Ret \<lparr>pr_timestamp = pe_now env,
         pr_hostname = (case pe_hostname env of None \<Rightarrow> ''unknown'' | Some h \<Rightarrow> h),
         pr_os = pe_os env, pr_architecture = pe_arch env, pr_checks = pf_checks st,
         pr_summary = calculate_summary (pf_checks st)\<rparr>))"

definition agent_preflight :: "'a preflight_env_scheme \<Rightarrow> string list list \<times> preflight_result outcome" where
  "agent_preflight env = run_all_checks get_capability has_prefix env"

subsection \<open>Output\<close>

text \<open>The signs of the report, as UTF-8.\<close>

definition sign_pass :: string where "sign_pass = map char_of [226, 156, 133 :: nat]"
definition sign_fail :: string where "sign_fail = map char_of [226, 157, 140 :: nat]"
definition sign_warn :: string where "sign_warn = map char_of [226, 154, 160, 239, 184, 143 :: nat]"
definition sign_skip :: string where "sign_skip = map char_of [226, 143, 173, 239, 184, 143 :: nat]"

definition status_sign :: "check_status \<Rightarrow> string" where
  "status_sign st = (case st of CsPass \<Rightarrow> sign_pass | CsFail \<Rightarrow> sign_fail | CsWarn \<Rightarrow> sign_warn | CsSkip \<Rightarrow> sign_skip)"

definition print_check :: "preflight_check \<Rightarrow> string list" where
  "print_check c = [status_sign (pc_status c) @ '' '' @ pc_name c @ '': '' @ pc_description c] @
     (if pc_status c = CsFail \<or> pc_status c = CsWarn then
        (if pc_error c \<noteq> [] then [''   Error: '' @ pc_error c] else []) @ [''   Remediation: '' @ pc_remediation c]
      else []) @ [[]]"

definition print_results :: "(gtime \<Rightarrow> string) \<Rightarrow> preflight_result \<Rightarrow> string list" where
  "print_results rfc3339 r =
     [[], ''=== CHAOSLABS AGENT PREFLIGHT CHECK RESULTS ==='', ''Timestamp: '' @ rfc3339 (pr_timestamp r),
      ''Hostname: '' @ pr_hostname r, ''OS: '' @ pr_os r, ''Architecture: '' @ pr_architecture r, []] @
     concat (map print_check (pr_checks r)) @
     [''=== SUMMARY ==='', ''Total Checks: '' @ itoa (pq_total (pr_summary r)),
      ''Passed: '' @ itoa (pq_passed (pr_summary r)) @ '' '' @ sign_pass,
      ''Failed: '' @ itoa (pq_failed (pr_summary r)) @ '' '' @ sign_fail,
      ''Warnings: '' @ itoa (pq_warning (pr_summary r)) @ '' '' @ sign_warn,
      ''Skipped: '' @ itoa (pq_skipped (pr_summary r)) @ '' '' @ sign_skip,
      ''Overall Status: '' @ status_text (pq_overall (pr_summary r))] @
     (if pq_overall (pr_summary r) = CsFail then
        [[], sign_fail @ '' PREFLIGHT CHECKS FAILED - Agent may not function properly'',
         ''Please address the failed checks before running experiments.'']
      else if pq_overall (pr_summary r) = CsWarn then
        [[], sign_warn @ ''  PREFLIGHT CHECKS PASSED WITH WARNINGS'',
         ''Agent should function but some features may be limited.'']
      else [[], sign_pass @ '' PREFLIGHT CHECKS PASSED - Agent is ready for experiments''])"

end
