(* ===== verification/Doctor_Checks.thy ===== *)
theory Doctor_Checks
  imports Preflight
begin

text \<open>
  The copy of the preflight checks in \<open>agent/cmd/doctor/main.go\<close>, function by function, with the data
  types of the agent's, and how it relates to the original: run for run it makes the same checks but for the
  test of a capability, which asks the kernel first, and the lines of \<open>/proc/cpuinfo\<close>, which need only
  contain the word. The calls of three functions pass one argument more than the functions
  take, the reason of the check: the model passes the others.
\<close>

text \<open>What the kernel answers of capabilities.\<close>

record doctor_env = preflight_env +
  dc_capget_fails :: bool
  dc_bounding_set :: "int \<Rightarrow> string option"

subsection \<open>Capabilities\<close>

definition doctor_check_capability_alternative :: "doctor_env \<Rightarrow> int \<Rightarrow> preflight_run \<Rightarrow> preflight_run \<times> bool" where
  "doctor_check_capability_alternative env n st =
     (if n = 12 then
        (let (st, r) = run_command env [''tc'', ''qdisc'', ''add'', ''dev'', ''lo'', ''root'', ''netem'', ''delay'', ''1ms''] st in
         (st, cr_exit r \<noteq> 1))
      else if n = 21 then (st, (case pe_read env ''/proc/sys/kernel/hostname'' of Inl _ \<Rightarrow> False | Inr _ \<Rightarrow> True))
      else (st, False))"

definition doctor_get_capability :: "doctor_env getcap" where
  "doctor_get_capability env name st = (case capability_number name of
     None \<Rightarrow> (st, Inl (''unknown capability: '' @ name))
   | Some n \<Rightarrow>
     if dc_capget_fails env then (let (st, b) = doctor_check_capability_alternative env n st in (st, Inr b))
     else (case dc_bounding_set env n of
       Some err \<Rightarrow> (st, Inl (''failed to check capability: '' @ err))
     | None \<Rightarrow> (st, Inr True)))"

definition doctor_check_capability ::
  "doctor_env \<Rightarrow> string \<Rightarrow> string \<Rightarrow> bool \<Rightarrow> string \<Rightarrow> preflight_run \<Rightarrow> step_result" where
  "doctor_check_capability env name desc required remediation st = (case doctor_get_capability env name st of
     (st, Inl err) \<Rightarrow> (add_check (make_check name desc CsFail err required remediation) st, None)
   | (st, Inr b) \<Rightarrow> (add_check (make_check name desc (missing_status b required) [] required remediation) st, None))"

definition doctor_run_capability_checks :: "doctor_env \<Rightarrow> preflight_run \<Rightarrow> step_result" where
  "doctor_run_capability_checks env st =
     ok_then (ok_then (doctor_check_capability env ''CAP_NET_ADMIN'' ''Network administration capabilities'' True
         ''Run: sudo setcap cap_net_admin+ep /path/to/agent'' st)
       (doctor_check_capability env ''CAP_SYS_ADMIN'' ''System administration capabilities'' False
         ''Run: sudo setcap cap_sys_admin+ep /path/to/agent''))
       (doctor_check_capability env ''CAP_SYS_RESOURCE'' ''System resource management capabilities'' False
         ''Run: sudo setcap cap_sys_resource+ep /path/to/agent'')"

subsection \<open>Tools\<close>

definition doctor_check_tool_availability ::
  "doctor_env \<Rightarrow> string \<Rightarrow> string \<Rightarrow> bool \<Rightarrow> string \<Rightarrow> preflight_run \<Rightarrow> step_result" where
  "doctor_check_tool_availability env tool desc required remediation st = (case pe_look_path env tool of
     None \<Rightarrow> (st, Some NilDereference)
   | Some err \<Rightarrow> (add_check (make_check tool desc (missing_status False required) err required remediation) st, None))"

definition doctor_run_tool_availability_checks :: "doctor_env \<Rightarrow> preflight_run \<Rightarrow> step_result" where
  "doctor_run_tool_availability_checks env st =
     ok_then (ok_then (ok_then (ok_then
       (doctor_check_tool_availability env ''tc'' ''Traffic control utility'' True
          ''Install: apt-get install iproute2 (Ubuntu) or yum install iproute-tc (CentOS)'' st)
       (doctor_check_tool_availability env ''ip'' ''IP utility'' True
          ''Install: apt-get install iproute2 (Ubuntu) or yum install iproute (CentOS)''))
       (doctor_check_tool_availability env ''stress-ng'' ''Stress testing utility'' False
          ''Install: apt-get install stress-ng (Ubuntu) or yum install stress-ng (CentOS)''))
       (doctor_check_tool_availability env ''cgcreate'' ''Cgroup creation utility'' False
          ''Install: apt-get install cgroup-tools (Ubuntu) or yum install libcgroup-tools (CentOS)''))
       (doctor_check_tool_availability env ''ifconfig'' ''Interface configuration utility'' False
          ''Install: apt-get install net-tools (Ubuntu) or yum install net-tools (CentOS)'')"

subsection \<open>Containers\<close>

definition doctor_has_container_cgroup :: "doctor_env \<Rightarrow> bool" where
  "doctor_has_container_cgroup env = (case pe_read env ''/proc/1/cgroup'' of
     Inl _ \<Rightarrow> False
   | Inr s \<Rightarrow> list_ex (\<lambda>l. contains l ''docker'' \<or> contains l ''kubepods'') (scan_lines s))"

definition doctor_is_running_in_container :: "doctor_env \<Rightarrow> bool" where
  "doctor_is_running_in_container env \<longleftrightarrow>
     list_ex (path_exists env) [''/.dockerenv'', ''/proc/1/cgroup'', ''/proc/1/root''] \<or> doctor_has_container_cgroup env"

definition doctor_is_privileged_container :: "doctor_env \<Rightarrow> bool" where
  "doctor_is_privileged_container env \<longleftrightarrow> path_exists env ''/dev/net/tun'' \<or> path_exists env ''/proc/sys''"

definition doctor_check_container_mounts :: "doctor_env \<Rightarrow> preflight_run \<Rightarrow> preflight_run" where
  "doctor_check_container_mounts env st = foldl (\<lambda>st m. add_check (case pe_stat env m of
       None \<Rightarrow> make_check (''Mount: '' @ m) ''Required mount point available'' CsPass [] True ''Mount point is available''
     | Some err \<Rightarrow> make_check (''Mount: '' @ m) ''Required mount point missing'' CsFail err True
         (''Ensure container has access to '' @ m)) st) st [''/proc'', ''/sys'', ''/dev'']"

definition doctor_run_container_privilege_checks :: "doctor_env \<Rightarrow> preflight_run \<Rightarrow> step_result" where
  "doctor_run_container_privilege_checks env st =
     (if doctor_is_running_in_container env then
        (let st = add_check (make_check ''Container Privileges'' ''Container privilege assessment'' CsWarn [] False
               ''Ensure container has necessary capabilities and mounts'') st;
             st = add_check (if doctor_is_privileged_container env
               then make_check ''Privileged Container'' ''Container running with privileged mode'' CsPass [] False
                 ''Container has elevated privileges''
               else make_check ''Privileged Container'' ''Container running with privileged mode'' CsWarn [] False
                 ''Consider running with --privileged or specific capabilities'') st in
         (doctor_check_container_mounts env st, None))
      else (add_check (make_check ''Container Environment'' ''Running on bare metal or VM'' CsPass [] False
        ''No container-specific configuration needed'') st, None))"

subsection \<open>System requirements\<close>

definition doctor_check_kernel_version :: "doctor_env \<Rightarrow> preflight_run \<Rightarrow> preflight_run" where
  "doctor_check_kernel_version env st =
     (let (st, r) = run_command env [''uname'', ''-r''] st in
      (case cr_error r of
        Some err \<Rightarrow> add_check (make_check ''Kernel Version'' ''Kernel version check'' CsFail err True
          ''Ensure uname command is available'') st
      | None \<Rightarrow> add_check (make_check ''Kernel Version'' (''Kernel version: '' @ trim_space (cr_output r)) CsPass [] False
          ''Kernel version is available'') st))"

definition doctor_check_available_memory :: "doctor_env \<Rightarrow> preflight_run \<Rightarrow> preflight_run" where
  "doctor_check_available_memory env st = (case pe_read env ''/proc/meminfo'' of
     Inl err \<Rightarrow> add_check (make_check ''Available Memory'' ''Memory availability check'' CsFail err False
       ''Ensure /proc filesystem is mounted'') st
   | Inr s \<Rightarrow>
     (let (total_kb, avail) = foldl memory_line (0, 0) (scan_lines s) in
      if total_kb > 0 \<and> avail > 0 then
        (let gb = of_int avail / 1024 / 1024 :: rat in
         add_check (make_check ''Available Memory'' (''Available memory: '' @ fmt_float 2 gb @ '' GB'')
           (if gb < 1 then CsWarn else CsPass) [] False ''Ensure sufficient memory for experiments'') st)
      else st))"

definition doctor_check_available_disk_space :: "doctor_env \<Rightarrow> preflight_run \<Rightarrow> preflight_run" where
  "doctor_check_available_disk_space env st = (case pe_statfs env of
     Inl err \<Rightarrow> add_check (make_check ''Available Disk Space'' ''Disk space check'' CsFail err False
       ''Ensure filesystem is accessible'') st
   | Inr (bavail, bsize) \<Rightarrow>
     (let gb = of_int (u64 (bavail * u64 bsize)) / 1024 / 1024 / 1024 :: rat in
      add_check (make_check ''Available Disk Space'' (''Available disk space: '' @ fmt_float 2 gb @ '' GB'')
        (if gb < 1 then CsWarn else CsPass) [] False ''Ensure sufficient disk space for logs and experiments'') st))"

definition doctor_cpu_info_line :: "int \<times> string \<Rightarrow> string \<Rightarrow> int \<times> string" where
  "doctor_cpu_info_line acc line = (case acc of (n, model) \<Rightarrow>
     if contains line ''processor'' then (n + 1, model)
     else if contains line ''model name'' then
       (case split_on (CHR '':'') line of a # b # r \<Rightarrow> (n, trim_space b) | _ \<Rightarrow> (n, model))
     else (n, model))"

definition doctor_check_cpu_info :: "doctor_env \<Rightarrow> preflight_run \<Rightarrow> preflight_run" where
  "doctor_check_cpu_info env st = (case pe_read env ''/proc/cpuinfo'' of
     Inl err \<Rightarrow> add_check (make_check ''CPU Information'' ''CPU information check'' CsFail err False
       ''Ensure /proc filesystem is mounted'') st
   | Inr s \<Rightarrow>
     (let (n, model) = foldl doctor_cpu_info_line (0, []) (scan_lines s) in
      if n > 0 then add_check (make_check ''CPU Information'' (''CPU cores: '' @ itoa n @ '', Model: '' @ model)
        CsPass [] False ''CPU information is available'') st
      else st))"

definition doctor_run_system_requirement_checks ::
  "doctor_env \<Rightarrow> preflight_run \<Rightarrow> step_result" where
  "doctor_run_system_requirement_checks env st =
     (doctor_check_cpu_info env (doctor_check_available_disk_space env (doctor_check_available_memory env
       (doctor_check_kernel_version env st))), None)"

subsection \<open>Network\<close>

definition doctor_is_kernel_module_available :: "doctor_env \<Rightarrow> string \<Rightarrow> preflight_run \<Rightarrow> preflight_run \<times> bool" where
  "doctor_is_kernel_module_available env m st =
     (let (st, r) = run_command env [''lsmod''] st in
      if cr_error r = None \<and> contains (cr_output r) m then (st, True)
      else (let (st, r) = run_command env [''modprobe'', ''-n'', m] st in (st, cr_error r = None)))"

definition doctor_check_kernel_module ::
  "doctor_env \<Rightarrow> string \<Rightarrow> string \<Rightarrow> bool \<Rightarrow> string \<Rightarrow> preflight_run \<Rightarrow> preflight_run" where
  "doctor_check_kernel_module env m desc required remediation st =
     (let (st, ok) = doctor_is_kernel_module_available env m st in
      add_check (make_check m desc (missing_status ok required) [] required remediation) st)"

definition doctor_check_network_interface_count :: "doctor_env \<Rightarrow> preflight_run \<Rightarrow> preflight_run" where
  "doctor_check_network_interface_count env st =
     (let (st, r) = run_command env [''ip'', ''link'', ''show''] st in
      (case cr_error r of
        Some err \<Rightarrow> add_check (make_check ''Network Interfaces'' ''Network interface count check'' CsFail err False
          ''Ensure ip command is available'') st
      | None \<Rightarrow>
        (let n = length (filter (\<lambda>l. contains l '':'' \<and> \<not> contains l ''lo:'') (split_on newline (cr_output r))) in
         add_check (make_check ''Network Interfaces'' (''Network interfaces: '' @ itoa (int n))
           (if n < 2 then CsWarn else CsPass) [] False ''Ensure sufficient network interfaces for experiments'') st)))"

definition doctor_run_network_capability_checks :: "doctor_env \<Rightarrow> preflight_run \<Rightarrow> step_result" where
  "doctor_run_network_capability_checks env st =
     (doctor_check_network_interface_count env
       (doctor_check_kernel_module env ''sch_netem'' ''Network emulation scheduler'' True ''Load module: sudo modprobe sch_netem''
         (doctor_check_kernel_module env ''ifb'' ''Intermediate Functional Block device'' False ''Load module: sudo modprobe ifb'' st)),
      None)"

subsection \<open>The whole run\<close>

text \<open>One turn of the loop that counts; the overall status is set after it.\<close>

definition doctor_count :: "preflight_summary \<Rightarrow> preflight_check \<Rightarrow> preflight_summary" where
  "doctor_count sm c = (case pc_status c of
     CsPass \<Rightarrow> sm\<lparr>pq_passed := pq_passed sm + 1\<rparr>
   | CsFail \<Rightarrow> sm\<lparr>pq_failed := pq_failed sm + 1\<rparr>
   | CsWarn \<Rightarrow> sm\<lparr>pq_warning := pq_warning sm + 1\<rparr>
   | CsSkip \<Rightarrow> sm\<lparr>pq_skipped := pq_skipped sm + 1\<rparr>)"

definition doctor_calculate_summary :: "preflight_check list \<Rightarrow> preflight_summary" where
  "doctor_calculate_summary cs =
     (let sm = foldl doctor_count \<lparr>pq_total = int (length cs), pq_passed = 0, pq_failed = 0, pq_warning = 0,
            pq_skipped = 0, pq_overall = CsPass\<rparr> cs in
      sm\<lparr>pq_overall := (if pq_failed sm > 0 then CsFail else if pq_warning sm > 0 then CsWarn else CsPass)\<rparr>)"

definition doctor_checks ::
  "doctor_env \<Rightarrow> string list list \<times> preflight_result outcome" where
  "doctor_checks env =
     (case ok_then (ok_then (ok_then (ok_then
         (doctor_run_capability_checks env \<lparr>pf_checks = [], pf_commands = []\<rparr>)
         (doctor_run_tool_availability_checks env))
         (doctor_run_container_privilege_checks env))
         (doctor_run_system_requirement_checks env))
         (doctor_run_network_capability_checks env) of
       (st, Some p) \<Rightarrow> (pf_commands st, Panics p)
     | (st, None) \<Rightarrow> (pf_commands st, Ret \<lparr>pr_timestamp = pe_now env,
         pr_hostname = (case pe_hostname env of None \<Rightarrow> ''unknown'' | Some h \<Rightarrow> h),
         pr_os = pe_os env, pr_architecture = pe_arch env, pr_checks = pf_checks st,
         pr_summary = doctor_calculate_summary (pf_checks st)\<rparr>))"

subsection \<open>Output\<close>

definition doctor_print_check :: "preflight_check \<Rightarrow> string list" where
  "doctor_print_check c = [status_sign (pc_status c) @ '' '' @ pc_name c @ '': '' @ pc_description c] @
     (if pc_status c = CsFail \<or> pc_status c = CsWarn then
        (if pc_error c \<noteq> [] then [''   Error: '' @ pc_error c] else []) @ [''   Remediation: '' @ pc_remediation c]
      else []) @ [[]]"

definition doctor_print_results :: "(gtime \<Rightarrow> string) \<Rightarrow> preflight_result \<Rightarrow> string list" where
  "doctor_print_results rfc3339 r =
     [[], ''=== CHAOSLABS AGENT PREFLIGHT CHECK RESULTS ==='', ''Timestamp: '' @ rfc3339 (pr_timestamp r),
      ''Hostname: '' @ pr_hostname r, ''OS: '' @ pr_os r, ''Architecture: '' @ pr_architecture r, []] @
     concat (map doctor_print_check (pr_checks r)) @
     [''=== SUMMARY ==='', ''Total Checks: '' @ itoa (pq_total (pr_summary r)),
      ''Passed: '' @ itoa (pq_passed (pr_summary r)) @ '' '' @ sign_pass,
      ''Failed: '' @ itoa (pq_failed (pr_summary r)) @ '' '' @ sign_fail,
      ''Warnings: '' @ itoa (pq_warning (pr_summary r)) @ '' '' @ sign_warn,
      ''Skipped: '' @ itoa (pq_skipped (pr_summary r)) @ '' '' @ sign_skip,
      ''Overall Status: '' @ status_text (pq_overall (pr_summary r))] @
     (if pq_overall (pr_summary r) = CsFail then
        [[], sign_fail @ '' PREFLIGHT CHECKS FAILED - Agent may not function properly'',
         ''Please address the failed checks before running experiments.'']
      else if pq_overall (pr_summary r) = CsWarn then
        [[], sign_warn @ ''  PREFLIGHT CHECKS PASSED WITH WARNINGS'',
         ''Agent should function but some features may be limited.'']
      else [[], sign_pass @ '' PREFLIGHT CHECKS PASSED - Agent is ready for experiments''])"

subsection \<open>The copy and the original\<close>

text \<open>Function by function: the same checks, with the doctor's test of a capability and its lines of \<open>/proc/cpuinfo\<close>.\<close>

lemma doctor_alternative: "doctor_check_capability_alternative = check_capability_alternative"
  by (intro ext) (simp add: doctor_check_capability_alternative_def check_capability_alternative_def)

lemma doctor_capabilities: "doctor_run_capability_checks = run_capability_checks doctor_get_capability"
proof -
  have "doctor_check_capability = check_capability doctor_get_capability"
    by (intro ext) (simp add: doctor_check_capability_def check_capability_def)
  then show ?thesis by (intro ext) (simp add: doctor_run_capability_checks_def run_capability_checks_def)
qed

lemma doctor_tools: "doctor_run_tool_availability_checks = run_tool_availability_checks"
proof -
  have "doctor_check_tool_availability = check_tool_availability"
    by (intro ext) (simp add: doctor_check_tool_availability_def check_tool_availability_def)
  then show ?thesis by (intro ext) (simp add: doctor_run_tool_availability_checks_def run_tool_availability_checks_def)
qed

lemma doctor_containers: "doctor_run_container_privilege_checks = run_container_privilege_checks"
  by (intro ext) (simp add: doctor_run_container_privilege_checks_def run_container_privilege_checks_def
      doctor_is_running_in_container_def is_running_in_container_def doctor_has_container_cgroup_def has_container_cgroup_def
      doctor_is_privileged_container_def is_privileged_container_def doctor_check_container_mounts_def check_container_mounts_def)

lemma doctor_cpu: "doctor_check_cpu_info = check_cpu_info contains"
proof -
  have "doctor_cpu_info_line = cpu_info_line contains"
    by (intro ext) (simp add: doctor_cpu_info_line_def cpu_info_line_def)
  then show ?thesis by (intro ext) (unfold doctor_check_cpu_info_def check_cpu_info_def, simp only:)
qed

lemma doctor_system: "doctor_run_system_requirement_checks = run_system_requirement_checks contains"
  by (intro ext) (simp add: doctor_run_system_requirement_checks_def run_system_requirement_checks_def doctor_cpu
      doctor_check_kernel_version_def check_kernel_version_def doctor_check_available_memory_def check_available_memory_def
      doctor_check_available_disk_space_def check_available_disk_space_def)

lemma doctor_network: "doctor_run_network_capability_checks = run_network_capability_checks"
proof -
  have "doctor_check_kernel_module = check_kernel_module"
    by (intro ext) (simp add: doctor_check_kernel_module_def check_kernel_module_def
        doctor_is_kernel_module_available_def is_kernel_module_available_def)
  then show ?thesis
    by (intro ext) (simp add: doctor_run_network_capability_checks_def run_network_capability_checks_def
        doctor_check_network_interface_count_def check_network_interface_count_def)
qed

lemma doctor_counts:
  "foldl doctor_count sm cs = sm\<lparr>pq_passed := pq_passed sm + count_status CsPass cs,
     pq_failed := pq_failed sm + count_status CsFail cs, pq_warning := pq_warning sm + count_status CsWarn cs,
     pq_skipped := pq_skipped sm + count_status CsSkip cs\<rparr>"
proof (induction cs arbitrary: sm)
  case (Cons c cs)
  then show ?case by (cases "pc_status c") (simp_all add: doctor_count_def count_status_def)
qed (simp add: count_status_def)

lemma doctor_summary: "doctor_calculate_summary = calculate_summary"
  by (intro ext) (simp add: doctor_calculate_summary_def calculate_summary_def doctor_counts Let_def)

lemma doctor_prints: "doctor_print_results = print_results"
proof -
  have "doctor_print_check = print_check" by (intro ext) (simp add: doctor_print_check_def print_check_def)
  then show ?thesis by (intro ext) (simp add: doctor_print_results_def print_results_def)
qed

lemmas doctor_copies = doctor_alternative doctor_capabilities doctor_tools doctor_containers doctor_system doctor_network
  doctor_summary doctor_prints

lemma doctor_checks_eq: "doctor_checks = run_all_checks doctor_get_capability contains"
  by (intro ext) (unfold doctor_checks_def run_all_checks_def doctor_copies, rule refl)

end
