(* ===== verification/Doctor.thy ===== *)
theory Doctor
  imports Doctor_Checks
begin

text \<open>
  The doctor, \<open>agent/cmd/doctor/main.go\<close>: the preflight checks as a program, with its output formats
  and exit codes, and what the checks promise: the summary is the worst status, and the outcome on
  any host.
\<close>

subsection \<open>Severity\<close>

instantiation check_status :: linorder
begin

definition severity :: "check_status \<Rightarrow> nat" where
  "severity st = (case st of CsSkip \<Rightarrow> 0 | CsPass \<Rightarrow> 1 | CsWarn \<Rightarrow> 2 | CsFail \<Rightarrow> 3)"

definition less_eq_check_status :: "check_status \<Rightarrow> check_status \<Rightarrow> bool" where
  "less_eq_check_status a b \<longleftrightarrow> severity a \<le> severity b"

definition less_check_status :: "check_status \<Rightarrow> check_status \<Rightarrow> bool" where
  "less_check_status a b \<longleftrightarrow> severity a < severity b"

instance
proof
  fix a b c :: check_status
  show "(a < b) = (a \<le> b \<and> \<not> b \<le> a)" by (auto simp: less_eq_check_status_def less_check_status_def)
  show "a \<le> a" by (simp add: less_eq_check_status_def)
  show "a \<le> b \<Longrightarrow> b \<le> c \<Longrightarrow> a \<le> c" by (simp add: less_eq_check_status_def)
  show "a \<le> b \<Longrightarrow> b \<le> a \<Longrightarrow> a = b"
    by (auto simp: less_eq_check_status_def severity_def split: check_status.splits)
  show "a \<le> b \<or> b \<le> a" by (auto simp: less_eq_check_status_def)
qed

end

subsection \<open>The program\<close>

text \<open>The result as JSON; a struct's fields are in order.\<close>

definition struct_text :: "bool \<Rightarrow> nat \<Rightarrow> (string \<times> string) list \<Rightarrow> string" where
  "struct_text pretty d ms =
     (if pretty then indent_list d (CHR ''{'') (CHR ''}'') (map (\<lambda>(k, v). quote_str k @ '': '' @ v) ms)
      else CHR ''{'' # join '','' (map (\<lambda>(k, v). quote_str k @ '':'' @ v) ms) @ ''}'')"

definition array_text :: "bool \<Rightarrow> nat \<Rightarrow> string list \<Rightarrow> string" where
  "array_text pretty d xs = (if pretty then indent_list d (CHR ''['') (CHR '']'') xs
     else CHR ''['' # join '','' xs @ '']'')"

definition check_text :: "bool \<Rightarrow> preflight_check \<Rightarrow> string" where
  "check_text pretty c = struct_text pretty 2 [
     (''Name'', quote_str (pc_name c)), (''Description'', quote_str (pc_description c)),
     (''Status'', quote_str (status_text (pc_status c))), (''Error'', quote_str (pc_error c)),
     (''Remediation'', quote_str (pc_remediation c)), (''Required'', if pc_required c then ''true'' else ''false'')]"

definition result_text :: "(gtime \<Rightarrow> string) \<Rightarrow> bool \<Rightarrow> preflight_result \<Rightarrow> string" where
  "result_text rfc3339nano pretty r = struct_text pretty 0 [
     (''Timestamp'', quote_str (rfc3339nano (pr_timestamp r))), (''Hostname'', quote_str (pr_hostname r)),
     (''OS'', quote_str (pr_os r)), (''Architecture'', quote_str (pr_architecture r)),
     (''Checks'', array_text pretty 1 (map (check_text pretty) (pr_checks r))),
     (''Summary'', struct_text pretty 1 [
        (''TotalChecks'', itoa (pq_total (pr_summary r))), (''PassedChecks'', itoa (pq_passed (pr_summary r))),
        (''FailedChecks'', itoa (pq_failed (pr_summary r))), (''WarningChecks'', itoa (pq_warning (pr_summary r))),
        (''SkippedChecks'', itoa (pq_skipped (pr_summary r))),
        (''OverallStatus'', quote_str (status_text (pq_overall (pr_summary r))))])]"

record doctor_flags =
  df_format :: string
  df_output :: string
  df_check_only :: bool

text \<open>The times as texts, and how the file system answers the two calls that write the file.\<close>

record doctor_host =
  dh_rfc3339 :: "gtime \<Rightarrow> string"
  dh_rfc3339nano :: "gtime \<Rightarrow> string"
  dh_mkdir :: "string \<Rightarrow> string option"
  dh_write :: "string \<Rightarrow> string option"
  dh_dir :: "string \<Rightarrow> string"

record doctor_run =
  dr_stdout :: "string list"
  dr_stderr :: "string list"
  dr_files :: "(string \<times> string) list"
  dr_exit :: int

text \<open>Either the program exits, or it goes on with these lines on its output and these files.\<close>

definition output_json :: "doctor_host \<Rightarrow> preflight_result \<Rightarrow> bool \<Rightarrow> string \<Rightarrow> doctor_run + string list \<times> (string \<times> string) list" where
  "output_json host r pretty out_file =
     (let d = result_text (dh_rfc3339nano host) pretty r in
      if out_file \<noteq> [] then
        (case dh_mkdir host (dh_dir host out_file) of
          Some err \<Rightarrow> Inl \<lparr>dr_stdout = [], dr_stderr = [''Error creating output directory: '' @ err], dr_files = [], dr_exit = 1\<rparr>
        | None \<Rightarrow> (case dh_write host out_file of
            Some err \<Rightarrow> Inl \<lparr>dr_stdout = [], dr_stderr = [''Error writing output file: '' @ err], dr_files = [], dr_exit = 1\<rparr>
          | None \<Rightarrow> Inr ([''Results written to: '' @ out_file], [(out_file, d)])))
      else Inr ([d], []))"

definition doctor_report :: "doctor_host \<Rightarrow> doctor_flags \<Rightarrow> preflight_result \<Rightarrow> doctor_run + string list \<times> (string \<times> string) list" where
  "doctor_report host flags r =
     (if df_check_only flags then Inr ([], [])
      else if df_format flags = ''text'' then Inr (doctor_print_results (dh_rfc3339 host) r, [])
      else if df_format flags = ''json'' then output_json host r False (df_output flags)
      else if df_format flags = ''json-pretty'' then output_json host r True (df_output flags)
      else Inl \<lparr>dr_stdout = [], dr_stderr = [''Unknown output format: '' @ df_format flags], dr_files = [], dr_exit = 1\<rparr>)"

text \<open>The checks never return an error; a panic ends the program with exit code 2 and a trace.\<close>

definition doctor_main :: "doctor_host \<Rightarrow> doctor_flags \<Rightarrow> doctor_env \<Rightarrow> doctor_run" where
  "doctor_main host flags env = (case snd (doctor_checks env) of
     Panics p \<Rightarrow> \<lparr>dr_stdout = [], dr_stderr = [''panic''], dr_files = [], dr_exit = 2\<rparr>
   | Ret r \<Rightarrow> (case doctor_report host flags r of
       Inl run \<Rightarrow> run
     | Inr (out, fs) \<Rightarrow> \<lparr>dr_stdout = out, dr_stderr = [], dr_files = fs,
         dr_exit = (if pq_overall (pr_summary r) = CsFail then 1
           else if pq_overall (pr_summary r) = CsWarn then 2 else 0)\<rparr>))"

subsection \<open>The summary\<close>

lemma count_pos: "0 < count_status st cs \<longleftrightarrow> st \<in> pc_status ` set cs"
  by (auto simp: count_status_def filter_empty_conv)

lemma status_cases: "st = CsSkip \<or> st = CsPass \<or> st = CsWarn \<or> st = CsFail"
  by (cases st) simp_all

lemma severity_order [simp]: "CsSkip \<le> st" "st \<le> CsFail" "CsPass \<le> CsWarn" "\<not> CsWarn \<le> CsPass" "\<not> CsFail \<le> CsWarn"
  "\<not> CsFail \<le> CsPass"
  by (cases st; simp add: less_eq_check_status_def severity_def)+

lemma overall_is_worst: "pq_overall (calculate_summary cs) = Max (insert CsPass (pc_status ` set cs))"
proof -
  let ?S = "insert CsPass (pc_status ` set cs)"
  let ?o = "pq_overall (calculate_summary cs)"
  have "?o \<in> ?S" by (simp add: calculate_summary_def count_pos Let_def)
  moreover have "st \<le> ?o" if "st \<in> ?S" for st
    using that status_cases [of st] by (auto simp: calculate_summary_def count_pos Let_def image_iff)
  ultimately show ?thesis by (intro Max_eqI [symmetric]) simp_all
qed

lemma counts_total:
  "pq_passed (calculate_summary cs) + pq_failed (calculate_summary cs) + pq_warning (calculate_summary cs) +
     pq_skipped (calculate_summary cs) = pq_total (calculate_summary cs)"
proof -
  have "count_status CsPass cs + count_status CsFail cs + count_status CsWarn cs + count_status CsSkip cs = int (length cs)"
  proof (induction cs)
    case (Cons c cs)
    then show ?case by (cases "pc_status c") (simp_all add: count_status_def)
  qed (simp add: count_status_def)
  then show ?thesis by (simp add: calculate_summary_def Let_def)
qed

subsection \<open>The outcome\<close>

definition required_tools :: "string list" where
  "required_tools = [''tc'', ''ip'', ''stress-ng'', ''cgcreate'', ''ifconfig'']"

definition loopback_netem :: "string list" where
  "loopback_netem = [''tc'', ''qdisc'', ''add'', ''dev'', ''lo'', ''root'', ''netem'', ''delay'', ''1ms'']"

text \<open>The other commands of the checks: none of them changes anything.\<close>

definition reading_commands :: "string list list" where
  "reading_commands = [[''uname'', ''-r''], [''lsmod''], [''modprobe'', ''-n'', ''ifb''], [''modprobe'', ''-n'', ''sch_netem''],
     [''ip'', ''link'', ''show'']]"

text \<open>What a step adds: checks, and commands that only read.\<close>

definition appends :: "preflight_run \<Rightarrow> preflight_run \<Rightarrow> bool" where
  "appends st st' \<longleftrightarrow> set (pf_checks st) \<subseteq> set (pf_checks st') \<and>
     (\<exists>ms. pf_commands st' = pf_commands st @ ms \<and> set ms \<subseteq> set reading_commands)"

lemma appends_refl: "appends st st"
  by (simp add: appends_def)

lemma appends_trans: "appends a b \<Longrightarrow> appends b c \<Longrightarrow> appends a c"
  by (fastforce simp: appends_def)

lemma appends_add_check: "appends st st' \<Longrightarrow> appends st (add_check c st')"
  by (auto simp: appends_def add_check_def)

lemma appends_command:
  "appends st st' \<Longrightarrow> args \<in> set reading_commands \<Longrightarrow> run_command env args st' = (st2, r) \<Longrightarrow> appends st st2"
  by (fastforce simp: appends_def run_command_def)

lemma appends_kernel: "appends st (check_kernel_version env st)"
  by (auto simp: check_kernel_version_def reading_commands_def Let_def split: prod.split option.split
      intro!: appends_add_check intro: appends_command [OF appends_refl])

lemma appends_reads:
  "appends st (check_available_memory env st)" "appends st (check_available_disk_space env st)"
  "appends st (check_cpu_info cpu_line env st)"
  by (auto simp: check_available_memory_def check_available_disk_space_def check_cpu_info_def Let_def
      split: sum.split prod.split intro: appends_add_check appends_refl)

lemma appends_module:
  assumes "m \<in> {''ifb'', ''sch_netem''}"
  shows "appends st (check_kernel_module env m desc required remediation st)"
proof -
  obtain st1 r1 where 1: "run_command env [''lsmod''] st = (st1, r1)" by fastforce
  obtain st2 r2 where 2: "run_command env [''modprobe'', ''-n'', m] st1 = (st2, r2)" by fastforce
  have a1: "appends st st1" by (rule appends_command [OF appends_refl _ 1]) (simp add: reading_commands_def)
  have "appends st st2" by (rule appends_command [OF a1 _ 2]) (use assms in \<open>auto simp: reading_commands_def\<close>)
  with a1 show ?thesis
    by (simp add: check_kernel_module_def is_kernel_module_available_def 1 2 appends_add_check)
qed

lemma appends_interfaces: "appends st (check_network_interface_count env st)"
  by (auto simp: check_network_interface_count_def reading_commands_def Let_def split: prod.split option.split
      intro!: appends_add_check intro: appends_command [OF appends_refl])

lemma appends_mounts: "appends st (check_container_mounts env st)"
  by (simp add: check_container_mounts_def appends_add_check appends_refl)

lemma appends_rest:
  "run_container_privilege_checks env st = (st', out) \<Longrightarrow> appends st st' \<and> out = None"
  "run_system_requirement_checks cpu_line env st = (st', out) \<Longrightarrow> appends st st' \<and> out = None"
  "run_network_capability_checks env st = (st', out) \<Longrightarrow> appends st st' \<and> out = None"
proof -
  show "run_container_privilege_checks env st = (st', out) \<Longrightarrow> appends st st' \<and> out = None"
    by (auto simp: run_container_privilege_checks_def Let_def split: if_splits
        intro: appends_trans [OF _ appends_mounts] appends_add_check appends_refl)
  show "run_system_requirement_checks cpu_line env st = (st', out) \<Longrightarrow> appends st st' \<and> out = None"
    using appends_trans [OF appends_trans [OF appends_trans [OF appends_kernel appends_reads(1)] appends_reads(2)] appends_reads(3)]
    by (auto simp: run_system_requirement_checks_def)
  show "run_network_capability_checks env st = (st', out) \<Longrightarrow> appends st st' \<and> out = None"
    using appends_trans [OF appends_trans [OF appends_module [of "''ifb''"] appends_module [of "''sch_netem''"]] appends_interfaces]
    by (auto simp: run_network_capability_checks_def)
qed

text \<open>The tools: the first one found is a panic; with none, \<open>tc\<close> is reported as a failure.\<close>

lemma tool_checks:
  assumes "run_tool_availability_checks env st = (st', out)"
  shows "appends st st' \<and> (case out of
      None \<Rightarrow> list_all (\<lambda>t. pe_look_path env t \<noteq> None) required_tools \<and> CsFail \<in> pc_status ` set (pf_checks st')
    | Some p \<Rightarrow> p = NilDereference \<and> list_ex (\<lambda>t. pe_look_path env t = None) required_tools)"
proof -
  have one: "check_tool_availability env t d req rem st = (case pe_look_path env t of None \<Rightarrow> (st, Some NilDereference)
      | Some err \<Rightarrow> (add_check (make_check t d (missing_status False req) err req rem) st, None))" for t d req rem st
    by (simp add: check_tool_availability_def)
  show ?thesis
    using assms
    by (auto simp: run_tool_availability_checks_def one required_tools_def missing_status_def make_check_def
        add_check_def appends_def split: option.splits)
qed

text \<open>
  The test of a capability as the checks use it: it adds no check, and the only command that it may run
  is the one that puts a qdisc on the loopback interface, for which capabilities \<open>tries\<close> says. The agent
  and the doctor have one each.
\<close>

locale capability_test =
  fixes getcap :: "'a preflight_env_scheme getcap"
    and env :: "'a preflight_env_scheme"
    and tries :: "string \<Rightarrow> bool"
  assumes only_admin: "\<not> tries ''CAP_SYS_ADMIN''" "\<not> tries ''CAP_SYS_RESOURCE''"
    and commands: "getcap env name st = (st', r) \<Longrightarrow> pf_checks st' = pf_checks st \<and>
      pf_commands st' = pf_commands st @ (if tries name then [loopback_netem] else [])"
begin

lemma one_capability:
  obtains st2 where "check_capability getcap env name d req rem st1 = (st2, None)"
    and "pf_commands st2 = pf_commands st1 @ (if tries name then [loopback_netem] else [])"
proof -
  obtain st2 r where g: "getcap env name st1 = (st2, r)" by fastforce
  then have "pf_commands st2 = pf_commands st1 @ (if tries name then [loopback_netem] else [])"
    using commands by blast
  then show ?thesis using that g by (cases r) (auto simp: check_capability_def add_check_def)
qed

lemma capability_checks:
  assumes "run_capability_checks getcap env st = (st', out)"
  shows "out = None \<and> pf_commands st' = pf_commands st @ (if tries ''CAP_NET_ADMIN'' then [loopback_netem] else [])"
proof -
  note one = one_capability
  note run = assms [unfolded run_capability_checks_def]
  obtain s1 where 1: "check_capability getcap env ''CAP_NET_ADMIN'' ''Network administration capabilities'' True
      ''Run: sudo setcap cap_net_admin+ep /path/to/agent'' st = (s1, None)"
    "pf_commands s1 = pf_commands st @ (if tries ''CAP_NET_ADMIN'' then [loopback_netem] else [])" by (rule one)
  obtain s2 where 2: "check_capability getcap env ''CAP_SYS_ADMIN'' ''System administration capabilities'' False
      ''Run: sudo setcap cap_sys_admin+ep /path/to/agent'' s1 = (s2, None)"
    "pf_commands s2 = pf_commands s1 @ (if tries ''CAP_SYS_ADMIN'' then [loopback_netem] else [])" by (rule one)
  obtain s3 where 3: "check_capability getcap env ''CAP_SYS_RESOURCE'' ''System resource management capabilities'' False
      ''Run: sudo setcap cap_sys_resource+ep /path/to/agent'' s2 = (s3, None)"
    "pf_commands s3 = pf_commands s2 @ (if tries ''CAP_SYS_RESOURCE'' then [loopback_netem] else [])" by (rule one)
  have "st' = s3 \<and> out = None" using run by (simp add: 1(1) 2(1) 3(1))
  then show ?thesis by (simp add: 1(2) 2(2) 3(2) only_admin)
qed

lemma run_all_outcome:
  assumes "run_all_checks getcap cpu_line env = (cmds, out)"
  shows "(\<exists>ms. cmds = (if tries ''CAP_NET_ADMIN'' then [loopback_netem] else []) @ ms \<and> set ms \<subseteq> set reading_commands) \<and>
    (case out of
      Panics p \<Rightarrow> p = NilDereference \<and> list_ex (\<lambda>t. pe_look_path env t = None) required_tools
    | Ret r \<Rightarrow> list_all (\<lambda>t. pe_look_path env t \<noteq> None) required_tools \<and> pq_overall (pr_summary r) = CsFail)"
proof -
  obtain s1 o1 where 1: "run_capability_checks getcap env \<lparr>pf_checks = [], pf_commands = []\<rparr> = (s1, o1)" by fastforce
  have c1: "o1 = None" "pf_commands s1 = (if tries ''CAP_NET_ADMIN'' then [loopback_netem] else [])"
    using capability_checks [OF 1] by auto
  obtain s2 o2 where 2: "run_tool_availability_checks env s1 = (s2, o2)" by fastforce
  note t = tool_checks [OF 2]
  show ?thesis
  proof (cases o2)
    case (Some p)
    then have "cmds = pf_commands s2" "out = Panics p"
      using assms by (simp_all add: run_all_checks_def 1 2 c1)
    then show ?thesis using t Some c1(2) by (auto simp: appends_def)
  next
    case None
    obtain s3 o3 where 3: "run_container_privilege_checks env s2 = (s3, o3)" by fastforce
    obtain s4 o4 where 4: "run_system_requirement_checks cpu_line env s3 = (s4, o4)" by fastforce
    obtain s5 o5 where 5: "run_network_capability_checks env s4 = (s5, o5)" by fastforce
    note r = appends_rest(1) [OF 3] appends_rest(2) [OF 4] appends_rest(3) [OF 5]
    have a: "appends s1 s5" "appends s2 s5" using t r appends_trans by blast+
    have "CsFail \<in> pc_status ` set (pf_checks s5)" using t None a(2) by (auto simp: appends_def)
    then have "pq_overall (calculate_summary (pf_checks s5)) = CsFail"
      by (simp add: calculate_summary_def count_pos Let_def)
    moreover have "cmds = pf_commands s5" "\<exists>r. out = Ret r \<and> pr_summary r = calculate_summary (pf_checks s5)"
      using assms r by (auto simp: run_all_checks_def 1 2 3 4 5 c1 None)
    ultimately show ?thesis using t None c1(2) a(1) by (auto simp: appends_def)
  qed
qed

end

interpretation agent_test: capability_test get_capability env "\<lambda>name. name = ''CAP_NET_ADMIN''" for env
  by unfold_locales (auto simp: get_capability_def capability_number_def check_capability_alternative_def
      run_command_def loopback_netem_def Let_def split: if_splits)

interpretation doctor_test: capability_test doctor_get_capability env
  "\<lambda>name. name = ''CAP_NET_ADMIN'' \<and> dc_capget_fails env" for env
  by unfold_locales (auto simp: doctor_get_capability_def capability_number_def doctor_alternative check_capability_alternative_def
      run_command_def loopback_netem_def Let_def split: if_splits option.splits)

subsection \<open>Properties\<close>

text \<open>The summary counts every check once, and its overall status is the worst one there is, with
  skipped checks best and at least a pass, whatever the order of the checks.\<close>

theorem summary_is_worst_status:
  "pq_overall (calculate_summary cs) = Max (insert CsPass (pc_status ` set cs)) \<and>
   pq_passed (calculate_summary cs) + pq_failed (calculate_summary cs) + pq_warning (calculate_summary cs) +
     pq_skipped (calculate_summary cs) = pq_total (calculate_summary cs) \<and> pq_total (calculate_summary cs) = int (length cs)"
  using overall_is_worst counts_total by (simp add: calculate_summary_def Let_def)


subsection \<open>The doctor and the agent\<close>

text \<open>The checks whose outcome the differences between the two programs do not touch.\<close>

definition shared_check :: "preflight_check \<Rightarrow> bool" where
  "shared_check c \<longleftrightarrow> pc_name c \<notin> {''CAP_NET_ADMIN'', ''CAP_SYS_ADMIN'', ''CAP_SYS_RESOURCE'', ''CPU Information''}"

definition agrees :: "preflight_run \<Rightarrow> preflight_run \<Rightarrow> bool" where
  "agrees a b \<longleftrightarrow> filter shared_check (pf_checks a) = filter shared_check (pf_checks b)"

definition agree :: "step_result \<Rightarrow> step_result \<Rightarrow> bool" where
  "agree x y \<longleftrightarrow> snd x = snd y \<and> agrees (fst x) (fst y)"

lemma agrees_add [simp]: "agrees a b \<Longrightarrow> agrees (add_check c a) (add_check c b)"
  by (simp add: agrees_def add_check_def)

lemma agrees_hidden:
  "\<not> shared_check c \<Longrightarrow> agrees (add_check c a) b = agrees a b" "\<not> shared_check c \<Longrightarrow> agrees a (add_check c b) = agrees a b"
  by (simp_all add: agrees_def add_check_def)

lemma agrees_commands [simp]: "agrees (a\<lparr>pf_commands := x\<rparr>) b = agrees a b" "agrees a (b\<lparr>pf_commands := y\<rparr>) = agrees a b"
  by (simp_all add: agrees_def)

lemma agree_ok_then:
  assumes "agree x y" and "\<And>a b. agrees a b \<Longrightarrow> agree (f a) (g b)"
  shows "agree (ok_then x f) (ok_then y g)"
  using assms by (simp add: agree_def ok_then_cases)

lemma agree_tools: "agrees a b \<Longrightarrow> agree (run_tool_availability_checks env a) (run_tool_availability_checks env b)"
  unfolding run_tool_availability_checks_def check_tool_availability_def
  by (intro agree_ok_then) (auto simp: agree_def split: option.split)

lemma agree_containers:
  assumes "agrees a b"
  shows "agree (run_container_privilege_checks env a) (run_container_privilege_checks env b)"
proof -
  have "agrees a b \<Longrightarrow> agrees (check_container_mounts env a) (check_container_mounts env b)" for a b
    by (simp add: check_container_mounts_def)
  then show ?thesis using assms by (simp add: run_container_privilege_checks_def agree_def Let_def)
qed

lemma agrees_kernel: "agrees a b \<Longrightarrow> agrees (check_kernel_version env a) (check_kernel_version env b)"
  by (simp add: check_kernel_version_def run_command_def split: option.split)

lemma agrees_reads:
  "agrees a b \<Longrightarrow> agrees (check_available_memory env a) (check_available_memory env b)"
  "agrees a b \<Longrightarrow> agrees (check_available_disk_space env a) (check_available_disk_space env b)"
  by (auto simp: check_available_memory_def check_available_disk_space_def Let_def split: sum.split prod.split)

lemma agrees_cpu: "agrees a b \<Longrightarrow> agrees (check_cpu_info l env a) (check_cpu_info l' env b)"
  by (auto simp: check_cpu_info_def Let_def agrees_hidden shared_check_def make_check_def split: sum.split prod.split)

lemma agree_system: "agrees a b \<Longrightarrow> agree (run_system_requirement_checks l env a) (run_system_requirement_checks l' env b)"
  by (simp add: run_system_requirement_checks_def agree_def agrees_kernel agrees_reads agrees_cpu)

lemma agree_network: "agrees a b \<Longrightarrow> agree (run_network_capability_checks env a) (run_network_capability_checks env b)"
proof -
  have "agrees a b \<Longrightarrow> agrees (check_kernel_module env m d req rem a) (check_kernel_module env m d req rem b)" for a b m d req rem
    by (simp add: check_kernel_module_def is_kernel_module_available_def run_command_def)
  moreover have "agrees a b \<Longrightarrow> agrees (check_network_interface_count env a) (check_network_interface_count env b)" for a b
    by (simp add: check_network_interface_count_def run_command_def Let_def split: option.split)
  ultimately show "agrees a b \<Longrightarrow> ?thesis" by (simp add: run_network_capability_checks_def agree_def)
qed

context capability_test
begin

lemma capability_hidden:
  assumes "name \<in> {''CAP_NET_ADMIN'', ''CAP_SYS_ADMIN'', ''CAP_SYS_RESOURCE''}"
  shows "\<exists>c. \<not> shared_check c \<and> pf_checks (fst (check_capability getcap env name d req rem st)) = pf_checks st @ [c] \<and>
    snd (check_capability getcap env name d req rem st) = None"
proof -
  obtain st' r where g: "getcap env name st = (st', r)" by fastforce
  then have "pf_checks st' = pf_checks st" using commands by blast
  then show ?thesis
    using assms g by (cases r) (auto simp: check_capability_def add_check_def make_check_def shared_check_def)
qed

lemma capabilities_hidden: "agree (run_capability_checks getcap env st) (st, None)"
proof -
  have one: "agree x (st, None) \<Longrightarrow> agree (ok_then x (check_capability getcap env name d req rem)) (st, None)"
    if "name \<in> {''CAP_NET_ADMIN'', ''CAP_SYS_ADMIN'', ''CAP_SYS_RESOURCE''}" for x name d req rem
    using capability_hidden [OF that, of d req rem "fst x"] by (auto simp: agree_def agrees_def ok_then_cases)
  have "run_capability_checks getcap env st = ok_then (ok_then (ok_then (st, None)
      (check_capability getcap env ''CAP_NET_ADMIN'' ''Network administration capabilities'' True
         ''Run: sudo setcap cap_net_admin+ep /path/to/agent''))
      (check_capability getcap env ''CAP_SYS_ADMIN'' ''System administration capabilities'' False
         ''Run: sudo setcap cap_sys_admin+ep /path/to/agent''))
      (check_capability getcap env ''CAP_SYS_RESOURCE'' ''System resource management capabilities'' False
         ''Run: sudo setcap cap_sys_resource+ep /path/to/agent'')"
    by (simp add: run_capability_checks_def)
  moreover have "agree (st, None) (st, None)" by (simp add: agree_def agrees_def)
  ultimately show ?thesis by (simp only:) (intro one; simp)
qed

end

text \<open>The order of the steps of a run, up to the shared checks.\<close>

lemma agree_rest:
  assumes "agree x y"
  shows "agree (ok_then (ok_then (ok_then (ok_then x (run_tool_availability_checks env)) (run_container_privilege_checks env))
      (run_system_requirement_checks l env)) (run_network_capability_checks env))
    (ok_then (ok_then (ok_then (ok_then y (run_tool_availability_checks env)) (run_container_privilege_checks env))
      (run_system_requirement_checks l' env)) (run_network_capability_checks env))"
  by (intro agree_ok_then assms agree_tools agree_containers agree_system agree_network)

lemma run_all_agree:
  assumes "agree x y"
    and "run = (\<lambda>r. case r of (st, Some p) \<Rightarrow> (pf_commands st, Panics p)
      | (st, None) \<Rightarrow> (pf_commands st, Ret (res (pf_checks st) :: preflight_result)))"
    and "\<And>cs. pr_checks (res cs) = cs"
  shows "case (snd (run x), snd (run y)) of
      (Panics p, Panics q) \<Rightarrow> p = q
    | (Ret r, Ret r') \<Rightarrow> filter shared_check (pr_checks r) = filter shared_check (pr_checks r')
    | _ \<Rightarrow> False"
  using assms by (cases x; cases y) (auto simp: agree_def agrees_def split: option.split)

text \<open>C33: on every host the doctor and the agent come to the same end: they panic alike, and otherwise they
  report the same checks in the same order, but for the three capabilities and the CPU.\<close>

theorem doctor_agrees_with_agent:
  "case (snd (doctor_checks env), snd (agent_preflight env)) of
      (Panics p, Panics q) \<Rightarrow> p = q
    | (Ret r, Ret r') \<Rightarrow> filter shared_check (pr_checks r) = filter shared_check (pr_checks r')
    | _ \<Rightarrow> False"
proof -
  let ?st = "\<lparr>pf_checks = [], pf_commands = []\<rparr>"
  have "agree (run_capability_checks doctor_get_capability env ?st) (run_capability_checks get_capability env ?st)"
    using doctor_test.capabilities_hidden [of env ?st] agent_test.capabilities_hidden [of env ?st]
    by (simp add: agree_def agrees_def)
  note a = agree_rest [OF this, of env contains has_prefix]
  show ?thesis
    unfolding doctor_checks_eq agent_preflight_def run_all_checks_def
    by (rule run_all_agree [OF a refl]) simp
qed

end
