(* ===== verification/Bench.thy ===== *)
theory Bench
  imports Pipeline
begin

text \<open>
  The benchmark program, \<open>bench/benchmark.go\<close>: the load test and the monitor that fill a collector, the
  statistics computed from it, and the kernel's counters. Latencies and their sums are 64-bit
  integers of nanoseconds, which wrap; floats are rationals and \<open>math.Sqrt\<close> is the parameter \<open>fsqrt\<close>.
  The outputs of the host's commands are parameters. \<open>Bench_Report\<close> has what is made of the result.
\<close>

subsection \<open>Data\<close>

record bench_config =
  bc_controller_url :: string
  bc_agent_url :: string
  bc_duration :: duration
  bc_concurrency :: int
  bc_experiment_type :: string

record latency_stats =
  ls_p50 :: duration
  ls_p95 :: duration
  ls_p99 :: duration
  ls_mean :: duration
  ls_min :: duration
  ls_max :: duration
  ls_count :: nat
  ls_std_dev :: duration

record resource_stats =
  us_min :: rat
  us_max :: rat
  us_mean :: rat
  us_p95 :: rat
  us_p99 :: rat
  us_std_dev :: rat

record kernel_stats =
  ks_retransmits :: int
  ks_tcp_drops :: int
  ks_netdev_drops :: int
  ks_interrupts :: rat
  ks_switches :: int
  ks_page_faults :: int
  ks_load :: "rat list"

record metrics_collector =
  mc_latencies :: "duration list"
  mc_cpu :: "rat list"
  mc_mem :: "rat list"

record bench_result =
  br_timestamp :: gtime
  br_config :: bench_config
  br_latency :: latency_stats
  br_cpu :: resource_stats
  br_memory :: resource_stats
  br_kernel :: kernel_stats
  br_errors :: "string list"

definition new_metrics_collector :: metrics_collector where
  "new_metrics_collector = \<lparr>mc_latencies = [], mc_cpu = [], mc_mem = []\<rparr>"

definition add_latency :: "duration \<Rightarrow> metrics_collector \<Rightarrow> metrics_collector" where
  "add_latency l mc = mc\<lparr>mc_latencies := mc_latencies mc @ [l]\<rparr>"

definition add_cpu_usage :: "rat \<Rightarrow> metrics_collector \<Rightarrow> metrics_collector" where
  "add_cpu_usage c mc = mc\<lparr>mc_cpu := mc_cpu mc @ [c]\<rparr>"

definition add_mem_usage :: "rat \<Rightarrow> metrics_collector \<Rightarrow> metrics_collector" where
  "add_mem_usage m mc = mc\<lparr>mc_mem := mc_mem mc @ [m]\<rparr>"

definition get_latencies :: "metrics_collector \<Rightarrow> duration list" where
  "get_latencies mc = mc_latencies mc"

definition get_cpu_usage :: "metrics_collector \<Rightarrow> rat list" where
  "get_cpu_usage mc = mc_cpu mc"

definition get_mem_usage :: "metrics_collector \<Rightarrow> rat list" where
  "get_mem_usage mc = mc_mem mc"

definition default_bench_config :: "string list \<Rightarrow> bench_config" where
  "default_bench_config args = \<lparr>
     bc_controller_url = (case args of a # _ \<Rightarrow> a | [] \<Rightarrow> ''http://localhost:8080''),
     bc_agent_url = (case args of _ # b # _ \<Rightarrow> b | _ \<Rightarrow> ''http://localhost:9090''),
     bc_duration = 5 * minute, bc_concurrency = 10, bc_experiment_type = ''network-latency''\<rparr>"

subsection \<open>Percentiles and statistics\<close>

definition percentile_at :: "'a::zero list \<Rightarrow> nat \<Rightarrow> 'a" where
  "percentile_at xs p = (if xs = [] then 0
     else let i = p * length xs div 100 in
       xs ! (if length xs \<le> i then length xs - 1 else i))"

definition calculate_percentile :: "duration list \<Rightarrow> nat \<Rightarrow> duration" where
  "calculate_percentile xs p = percentile_at xs p"

definition calculate_float_percentile :: "rat list \<Rightarrow> nat \<Rightarrow> rat" where
  "calculate_float_percentile xs p = percentile_at xs p"

text \<open>
  \<open>time.Duration(math.Sqrt(float64(v)))\<close>: the root of a negative number is NaN, which the conversion
  makes the least integer on amd64 (the language leaves it open).
\<close>

definition root_duration :: "(rat \<Rightarrow> rat) \<Rightarrow> duration \<Rightarrow> duration" where
  "root_duration fsqrt v = (if v < 0 then min_i64 else \<lfloor>fsqrt (of_int v)\<rfloor>)"

definition zero_latency_stats :: latency_stats where
  "zero_latency_stats = \<lparr>ls_p50 = 0, ls_p95 = 0, ls_p99 = 0, ls_mean = 0, ls_min = 0, ls_max = 0, ls_count = 0,
     ls_std_dev = 0\<rparr>"

definition total_duration :: "duration list \<Rightarrow> duration" where
  "total_duration ls = foldl (\<lambda>t l. i64 (t + l)) 0 ls"

definition variance_sum :: "duration \<Rightarrow> duration list \<Rightarrow> duration" where
  "variance_sum mean ls = foldl (\<lambda>v l. let diff = i64 (l - mean) in i64 (v + i64 (diff * diff))) 0 ls"

definition calculate_latency_stats :: "(rat \<Rightarrow> rat) \<Rightarrow> duration list \<Rightarrow> latency_stats" where
  "calculate_latency_stats fsqrt latencies = (if latencies = [] then zero_latency_stats
     else let sorted = sort latencies; n = length sorted;
       mean = go_quot (total_duration sorted) (int n);
       variance = go_quot (variance_sum mean sorted) (int n) in
     \<lparr>ls_p50 = calculate_percentile sorted 50, ls_p95 = calculate_percentile sorted 95,
      ls_p99 = calculate_percentile sorted 99, ls_mean = mean, ls_min = sorted ! 0, ls_max = sorted ! (n - 1),
      ls_count = n, ls_std_dev = root_duration fsqrt variance\<rparr>)"

definition zero_resource_stats :: resource_stats where
  "zero_resource_stats = \<lparr>us_min = 0, us_max = 0, us_mean = 0, us_p95 = 0, us_p99 = 0, us_std_dev = 0\<rparr>"

definition calculate_resource_stats :: "(rat \<Rightarrow> rat) \<Rightarrow> rat list \<Rightarrow> resource_stats" where
  "calculate_resource_stats fsqrt values = (if values = [] then zero_resource_stats
     else let sorted = sort values; n = length sorted;
       mean = foldl (+) 0 sorted / of_nat n;
       variance = foldl (\<lambda>v x. v + (x - mean) * (x - mean)) 0 sorted / of_nat n in
     \<lparr>us_min = sorted ! 0, us_max = sorted ! (n - 1), us_mean = mean,
      us_p95 = calculate_float_percentile sorted 95, us_p99 = calculate_float_percentile sorted 99,
      us_std_dev = fsqrt variance\<rparr>)"

subsection \<open>The load test\<close>

text \<open>The request that the load test posts again and again.\<close>

definition bench_experiment :: "bench_config \<Rightarrow> string \<Rightarrow> string" where
  "bench_experiment cfg start = json_struct [
     (''name'', JStr ''benchmark-experiment''), (''description'', JStr ''Benchmark load test''),
     (''experiment_type'', JStr (bc_experiment_type cfg)), (''target'', JStr ''localhost''),
     (''duration'', JInt 30), (''delay_ms'', JInt 100), (''loss_percent'', JInt 5),
     (''cpu_workers'', JInt 2), (''mem_size_mb'', JInt 100), (''start_time'', JStr start)]"

definition request_interval :: "bench_config \<Rightarrow> duration outcome" where
  "request_interval cfg = (let n = i64 (bc_concurrency cfg * 2) in
     if n = 0 then Panics IntegerDivideByZero
     else let d = go_quot second n in if d \<le> 0 then Panics NonPositiveTicker else Ret d)"

text \<open>One tick: the time that the request took, and whether it was answered, with any status.\<close>

definition load_tick :: "duration \<times> bool \<Rightarrow> metrics_collector \<Rightarrow> metrics_collector" where
  "load_tick t mc = (case t of (latency, answered) \<Rightarrow> if answered then add_latency latency mc else mc)"

definition run_http_load_test ::
  "bench_config \<Rightarrow> (duration \<times> bool) list \<Rightarrow> metrics_collector \<Rightarrow> metrics_collector outcome" where
  "run_http_load_test cfg ticks mc = obind (request_interval cfg) (\<lambda>d. Ret (fold load_tick ticks mc))"

subsection \<open>Resources\<close>

text \<open>
  \<open>run\<close> maps a command to its output, \<open>None\<close> when it fails; \<open>parse_float\<close> is \<open>strconv.ParseFloat\<close>: the
  value it returns and whether the text is a number.
\<close>

type_synonym host_run = "string list \<Rightarrow> string option"
type_synonym float_parser = "string \<Rightarrow> rat \<times> bool"

definition get_pid :: "host_run \<Rightarrow> string \<Rightarrow> string" where
  "get_pid run name = (case run [''pgrep'', name] of None \<Rightarrow> ''1'' | Some out \<Rightarrow> trim_space out)"

definition get_process_stats :: "float_parser \<Rightarrow> host_run \<Rightarrow> string \<Rightarrow> rat \<times> rat" where
  "get_process_stats pf run name =
     (case run [''ps'', ''-p'', get_pid run name, ''-o'', ''%cpu,%mem'', ''--no-headers''] of
        None \<Rightarrow> (0, 0)
      | Some out \<Rightarrow> (case str_fields out of a # b # _ \<Rightarrow> (fst (pf a), fst (pf b)) | _ \<Rightarrow> (0, 0)))"

definition monitor_tick :: "float_parser \<Rightarrow> host_run \<Rightarrow> metrics_collector \<Rightarrow> metrics_collector" where
  "monitor_tick pf run mc =
     (let (cpu, mem) = get_process_stats pf run ''controller'';
          mc = add_mem_usage mem (add_cpu_usage cpu mc);
          (cpu, mem) = get_process_stats pf run ''agent'' in
      add_mem_usage mem (add_cpu_usage cpu mc))"

definition monitor_resources :: "float_parser \<Rightarrow> host_run list \<Rightarrow> metrics_collector \<Rightarrow> metrics_collector" where
  "monitor_resources pf ticks mc = fold (monitor_tick pf) ticks mc"

text \<open>What the four files of the kernel hold when they are read; \<open>/proc/stat\<close> is read twice.\<close>

record kernel_files =
  kf_netstat :: "string option"
  kf_stat :: "string option"
  kf_stat_again :: "string option"
  kf_vmstat :: "string option"
  kf_loadavg :: "string option"

text \<open>The second word of the last line that is selected, given to a parser.\<close>

definition line_value :: "(string \<Rightarrow> bool) \<Rightarrow> (string \<Rightarrow> 'v) \<Rightarrow> string option \<Rightarrow> 'v \<Rightarrow> 'v" where
  "line_value selected parse out v0 = (case out of None \<Rightarrow> v0
     | Some text \<Rightarrow> foldl (\<lambda>v l. if selected l then (case str_fields l of a # b # _ \<Rightarrow> parse b | _ \<Rightarrow> v) else v) v0
         (split_on newline text))"

definition collect_kernel_metrics :: "float_parser \<Rightarrow> kernel_files \<Rightarrow> kernel_stats" where
  "collect_kernel_metrics pf k = \<lparr>
     ks_retransmits = line_value (\<lambda>l. contains l ''TcpRetransSegs'') parse_int_value (kf_netstat k) 0,
     ks_tcp_drops = 0, ks_netdev_drops = 0,
     ks_interrupts = line_value (\<lambda>l. has_prefix l ''intr'') (\<lambda>w. fst (pf w)) (kf_stat k) 0,
     ks_switches = line_value (\<lambda>l. has_prefix l ''ctxt'') parse_int_value (kf_stat_again k) 0,
     ks_page_faults = line_value (\<lambda>l. has_prefix l ''pgfault'') parse_int_value (kf_vmstat k) 0,
     ks_load = (case kf_loadavg k of None \<Rightarrow> []
       | Some text \<Rightarrow> (let ws = str_fields text in
           if 3 \<le> length ws then map (\<lambda>w. fst (pf w)) (filter (\<lambda>w. snd (pf w)) (take 3 ws)) else []))\<rparr>"

subsection \<open>A run\<close>

text \<open>The two goroutines fill different lists of the collector, so their order does not matter.\<close>

definition run_benchmark ::
  "(rat \<Rightarrow> rat) \<Rightarrow> float_parser \<Rightarrow> gtime \<Rightarrow> bench_config \<Rightarrow> (duration \<times> bool) list \<Rightarrow> host_run list \<Rightarrow> kernel_files
    \<Rightarrow> bench_result outcome" where
  "run_benchmark fsqrt pf now cfg loads monitors k =
     obind (run_http_load_test cfg loads (monitor_resources pf monitors new_metrics_collector)) (\<lambda>mc.
       Ret \<lparr>br_timestamp = now, br_config = cfg,
         br_latency = calculate_latency_stats fsqrt (get_latencies mc),
         br_cpu = calculate_resource_stats fsqrt (get_cpu_usage mc),
         br_memory = calculate_resource_stats fsqrt (get_mem_usage mc),
         br_kernel = collect_kernel_metrics pf k, br_errors = []\<rparr>)"

subsection \<open>Lemmas on the statistics\<close>

lemma length_filter_sort: "length (filter P (sort xs)) = length (filter P xs)"
  by (metis mset_filter mset_sort size_mset)

lemma sum_map_sort: "sum_list (map f (sort xs)) = (sum_list (map f xs) :: int)"
proof -
  have "mset (map f (sort xs)) = mset (map f xs)" by simp
  then show ?thesis by (metis sum_mset_sum_list)
qed

lemma sum_list_sort: "sum_list (sort xs) = sum_list (xs :: int list)"
  using sum_map_sort [of "\<lambda>x. x" xs] by simp

lemma sort_eq_Nil [simp]: "sort xs = [] \<longleftrightarrow> xs = []"
  by (metis set_empty set_sort)

lemma sorted_ends:
  assumes "xs \<noteq> []"
  shows "sort xs ! 0 = Min (set xs)" "sort xs ! (length xs - 1) = Max (set xs)"
proof -
  have s: "sorted (sort xs)" "length (sort xs) = length xs" by simp_all
  have ne: "0 < length xs" using assms by simp
  have "sort xs ! 0 \<le> x \<and> x \<le> sort xs ! (length xs - 1)" if x: "x \<in> set xs" for x
  proof -
    from x have "x \<in> set (sort xs)" by simp
    then obtain i where i: "i < length xs" "sort xs ! i = x" unfolding in_set_conv_nth s(2) by blast
    have "sort xs ! 0 \<le> sort xs ! i" by (rule sorted_nth_mono [OF s(1)]) (use i s(2) in simp_all)
    moreover have "sort xs ! i \<le> sort xs ! (length xs - 1)"
      by (rule sorted_nth_mono [OF s(1)]) (use i s(2) in simp_all)
    ultimately show ?thesis using i(2) by simp
  qed
  moreover have "sort xs ! i \<in> set xs" if "i < length xs" for i
    using nth_mem [of i "sort xs"] that by simp
  then have "sort xs ! 0 \<in> set xs" "sort xs ! (length xs - 1) \<in> set xs" using ne by simp_all
  ultimately show "sort xs ! 0 = Min (set xs)" "sort xs ! (length xs - 1) = Max (set xs)"
    by (auto intro!: Min_eqI [symmetric] Max_eqI [symmetric])
qed

text \<open>\<open>v\<close> is the \<open>p\<close>-th percentile of the list: the element at rank \<open>p * n div 100\<close>.\<close>

definition is_percentile :: "'a::linorder list \<Rightarrow> nat \<Rightarrow> 'a \<Rightarrow> bool" where
  "is_percentile xs p v \<longleftrightarrow> v \<in> set xs \<and>
     length (filter (\<lambda>x. x < v) xs) \<le> p * length xs div 100 \<and>
     p * length xs div 100 < length (filter (\<lambda>x. x \<le> v) xs)"

lemma nth_rank:
  assumes "sorted xs" "i < length xs"
  shows "length (filter (\<lambda>x. x < xs ! i) xs) \<le> i" "i < length (filter (\<lambda>x. x \<le> xs ! i) xs)"
proof -
  have "filter (\<lambda>x. x < xs ! i) (drop i xs) = []"
    using assms by (auto simp: filter_empty_conv in_set_conv_nth not_less intro!: sorted_nth_mono)
  then have "length (filter (\<lambda>x. x < xs ! i) xs) \<le> length (take i xs)"
    by (metis append_Nil2 append_take_drop_id filter_append length_filter_le)
  then show "length (filter (\<lambda>x. x < xs ! i) xs) \<le> i" by simp
  have "filter (\<lambda>x. x \<le> xs ! i) (take (Suc i) xs) = take (Suc i) xs"
    using assms by (auto simp: filter_id_conv in_set_conv_nth intro!: sorted_nth_mono)
  then have "length (take (Suc i) xs) \<le> length (filter (\<lambda>x. x \<le> xs ! i) xs)"
    by (metis append_take_drop_id filter_append length_append le_add1)
  then show "i < length (filter (\<lambda>x. x \<le> xs ! i) xs)" using assms(2) by simp
qed

lemma percentile_at_correct:
  assumes "xs \<noteq> []" "p < 100"
  shows "is_percentile xs p (percentile_at (sort xs) p)"
proof -
  let ?i = "p * length xs div 100"
  have "p * length xs < 100 * length xs" using assms by simp
  then have i: "?i < length xs" by (simp add: less_mult_imp_div_less mult.commute)
  then have "percentile_at (sort xs) p = sort xs ! ?i" using assms by (simp add: percentile_at_def Let_def)
  moreover have "sort xs ! ?i \<in> set xs" using i by (metis length_sort nth_mem set_sort)
  ultimately show ?thesis
    using nth_rank [of "sort xs" ?i] i by (simp add: is_percentile_def length_filter_sort)
qed

lemma total_exact:
  assumes "\<forall>l \<in> set ls. 0 \<le> l" "0 \<le> a" "a + sum_list ls \<le> max_i64"
  shows "foldl (\<lambda>t l. i64 (t + l)) a ls = a + sum_list ls"
  using assms
proof (induction ls arbitrary: a)
  case (Cons l ls)
  have "0 \<le> sum_list ls" using Cons.prems(1) by (simp add: sum_list_nonneg)
  then have "i64 (a + l) = a + l" using Cons.prems by (intro i64_id) (auto simp: min_i64_def)
  then show ?case using Cons.IH [of "a + l"] Cons.prems by simp
qed simp

lemma mean_between:
  assumes "ls \<noteq> []" "\<forall>l \<in> set ls. a \<le> l \<and> l \<le> (b::int)"
  shows "a \<le> sum_list ls div int (length ls) \<and> sum_list ls div int (length ls) \<le> b"
proof -
  have "int (length ls) * a \<le> sum_list ls \<and> sum_list ls \<le> int (length ls) * b"
    using assms(2) by (induction ls) (auto simp: algebra_simps)
  moreover have "0 < int (length ls)" using assms(1) by simp
  ultimately show ?thesis
    by (metis zdiv_mono1 nonzero_mult_div_cancel_left order_less_irrefl)
qed

lemma variance_exact:
  assumes "\<forall>l \<in> set ls. \<bar>l - m\<bar> \<le> d" "0 \<le> a" "a + int (length ls) * (d * d) \<le> max_i64" "0 \<le> d"
  shows "foldl (\<lambda>v l. let diff = i64 (l - m) in i64 (v + i64 (diff * diff))) a ls =
    a + sum_list (map (\<lambda>l. (l - m) * (l - m)) ls)"
  using assms(1-3)
proof (induction ls arbitrary: a)
  case (Cons l ls)
  let ?x = "l - m"
  define y where "y = ?x * ?x"
  have x: "\<bar>?x\<bar> \<le> d" using Cons.prems(1) by simp
  have sq: "y \<le> d * d" "0 \<le> y"
    using mult_mono [OF x x] assms(4) by (simp_all add: y_def flip: abs_mult)
  have rest: "0 \<le> int (length ls) * (d * d)" using assms(4) by simp
  have bound: "a + y + int (length ls) * (d * d) \<le> max_i64"
    using Cons.prems(3) sq by (simp add: algebra_simps)
  have dd: "d \<le> d * d" using assms(4) by (cases "d = 0") (simp_all add: mult_le_cancel_left1)
  have "d * d \<le> max_i64" using Cons.prems(2,3) rest by (simp add: algebra_simps)
  then have "i64 ?x = ?x" using x dd by (intro i64_id) (auto simp: min_i64_def max_i64_def)
  moreover have "y \<le> max_i64" "a + y \<le> max_i64" using sq(2) bound rest Cons.prems(2) by linarith+
  then have "i64 y = y" "i64 (a + y) = a + y"
    using sq(2) Cons.prems(2) by (simp_all add: i64_id min_i64_def)
  ultimately show ?case
    using Cons.IH [of "a + y"] Cons.prems bound sq by (simp add: Let_def flip: y_def)
qed simp



lemma sum_overflows:
  assumes "2 ^ 62 \<le> y" "y < (2::int) ^ 63"
  shows "i64 y = y" "i64 (y + y) = y + y - 2 ^ 64"
proof -
  show "i64 y = y" using assms by (simp add: i64_id min_i64_def max_i64_def)
  have "(y + y + 2 ^ 63) mod 2 ^ 64 = (y + y - 2 ^ 63) mod (2 ^ 64 :: int)"
    using mod_add_self2 [of "y + y - 2 ^ 63" "2 ^ 64"] by (simp add: add.commute)
  also have "\<dots> = y + y - 2 ^ 63" using assms by (intro mod_pos_pos_trivial) simp_all
  finally show "i64 (y + y) = y + y - 2 ^ 64" by (simp add: i64_def)
qed

text \<open>The deviation overflows for ordinary latencies. When two answers took times that differ by
  4.3 to 6 seconds (and a request may take up to 30), the sum of the two squares no longer fits in 64
  bits and wraps to a negative number, whose root is not a number: the report then shows the least
  64-bit duration, about minus 292 years, as the standard deviation.\<close>

theorem latency_deviation_overflows:
  assumes "0 \<le> a" and "2147483648 \<le> d" and "d \<le> 3037000499" and "2 * a + 2 * d \<le> max_i64"
  shows "ls_std_dev (calculate_latency_stats fsqrt [a, a + 2 * d]) = min_i64"
proof -
  have "sort [a, a + 2 * d] = [a, a + 2 * d]" using assms(2) by simp
  moreover have "total_duration [a, a + 2 * d] = 2 * a + 2 * d"
    using total_exact [of "[a, a + 2 * d]" 0] assms by (simp add: total_duration_def)
  then have mean: "go_quot (total_duration [a, a + 2 * d]) 2 = a + d"
    using assms by (simp add: go_quot_nonneg)
  define y where "y = d * d"
  have "2147483648 * 2147483648 \<le> d * d" "d * d \<le> 3037000499 * 3037000499"
    using assms(2,3) by (intro mult_mono; simp)+
  then have y: "2 ^ 62 \<le> y" "y < (2::int) ^ 63" by (simp_all add: y_def)
  have "i64 (- d) = - d" "i64 d = d" using assms(2,3) by (simp_all add: i64_id min_i64_def max_i64_def)
  then have "variance_sum (a + d) [a, a + 2 * d] = y + y - 2 ^ 64"
    using sum_overflows [OF y] by (simp add: variance_sum_def Let_def y_def)
  moreover have "go_quot (y + y - 2 ^ 64) 2 < 0"
    using y by (simp add: go_quot_neg)
  ultimately show ?thesis
    by (simp add: calculate_latency_stats_def Let_def mean root_duration_def)
qed

theorem latency_deviation_overflows_witness:
  "ls_std_dev (calculate_latency_stats id [1000000000, 6000000000]) = min_i64"
  using latency_deviation_overflows [of 1000000000 2500000000 id] by (simp add: max_i64_def)

subsection \<open>The benchmark against the controller\<close>

definition bench_request :: "bench_config \<Rightarrow> string \<Rightarrow> string \<Rightarrow> string \<Rightarrow> body_request" where
  "bench_request cfg start remote key = \<lparr>hr_method = ''POST'', hr_path = ''/start'',
     hr_headers = [(''Content-Type'', ''application/json'')], hr_remote = remote,
     br_body = Some (bench_experiment cfg start), br_query_key = key, br_validator = False\<rparr>"

lemma bench_decodes:
  "decode_experiment pt (bench_experiment cfg start) = map_option (\<lambda>t. zero_experiment\<lparr>
     er_name := ''benchmark-experiment'', er_description := ''Benchmark load test'',
     er_experiment_type := bc_experiment_type cfg, er_target := ''localhost'', er_duration := 30,
     er_delay_ms := 100, er_loss_percent := 5, er_cpu_workers := 2, er_mem_size_mb := 100,
     er_start_time := t\<rparr>) (pt start)"
proof -
  have "json_parse (bench_experiment cfg start) = Some (JObj [
     (''name'', JStr ''benchmark-experiment''), (''description'', JStr ''Benchmark load test''),
     (''experiment_type'', JStr (bc_experiment_type cfg)), (''target'', JStr ''localhost''),
     (''duration'', JInt 30), (''delay_ms'', JInt 100), (''loss_percent'', JInt 5),
     (''cpu_workers'', JInt 2), (''mem_size_mb'', JInt 100), (''start_time'', JStr start)])"
    unfolding bench_experiment_def by (subst json_parse_struct) simp_all
  then show ?thesis
    by (cases "pt start"; simp add: decode_experiment_def decode_struct_def)
      (simp_all add: find_field_def experiment_fields_def dec_defs zero_experiment_def min_i64_def max_i64_def)
qed

lemma no_agents_invalid:
  assumes "validator_documented check" and "er_agent_count e < 1"
  shows "validate_request check e \<noteq> None"
proof -
  have "check registered_validators (experiment_tags e) \<noteq> []"
    using assms by (auto simp: validator_documented_def experiment_tags_def)
  then show ?thesis by (simp add: validate_request_def Let_def)
qed

text \<open>The benchmark measures how fast the controller refuses. Whatever the configuration, the
  controller validates each request of the load test, which declares JSON content, and refuses it,
  because it has no agent count: nothing is recorded, scheduled or sent to an agent. The answer is
  400, or 429 from the rate limiter, and its time is taken into the latency statistics all the same.\<close>

theorem benchmark_measures_rejections:
  assumes "validator_documented (ce_check env)"
    and "controller_handler env (bench_request cfg start remote key) [] s = (s', out)"
  shows "ct_experiments s' = ct_experiments s \<and> ct_scheduled s' = ct_scheduled s \<and> ct_posts s' = ct_posts s \<and>
    (case out of Panics p \<Rightarrow> True | Ret resp \<Rightarrow> rs_status resp = 400 \<or> rs_status resp = 429) \<and>
    mc_latencies (load_tick (latency, True) mc) = mc_latencies mc @ [latency]"
proof -
  let ?r = "bench_request cfg start remote key"
  have post: "hr_method ?r = ''POST''" and json: "json_content ?r"
    by (simp_all add: bench_request_def json_content_def header_get_def)
  have refused: "\<exists>resp. register_handlers env (?r\<lparr>br_validator := True\<rparr>) hs s0 = (s0, Ret resp) \<and> rs_status resp = 400"
    for hs s0
  proof (cases "ce_parse_time env start")
    case None
    then show ?thesis
      by (simp add: register_handlers_def start_experiment_handler_def bench_request_def bench_decodes)
  next
    case (Some t)
    then obtain e where e: "decode_experiment (ce_parse_time env) (bench_experiment cfg start) = Some e"
      "er_agent_count e = 0"
      by (simp add: bench_decodes zero_experiment_def)
    then have "validate_request (ce_check env) e \<noteq> None" using no_agents_invalid [OF assms(1)] by simp
    with e(1) show ?thesis
      by (auto simp: register_handlers_def start_experiment_handler_def bench_request_def)
  qed
  from controller_post [OF post, of env s] show ?thesis
  proof (elim disjE exE conjE)
    fix hs ls
    assume "controller_handler env ?r [] s =
      register_handlers env (if json_content ?r then ?r\<lparr>br_validator := True\<rparr> else ?r) hs (s\<lparr>ct_limiters := ls\<rparr>)"
    then show ?thesis
      using refused [of hs "s\<lparr>ct_limiters := ls\<rparr>"] json assms(2) by (auto simp: load_tick_def add_latency_def)
  next
    fix ls out' l
    assume "controller_handler env ?r [] s = (s\<lparr>ct_limiters := ls\<rparr>, out')"
      "\<forall>resp. out' = Ret resp \<longrightarrow> rs_status resp = 429"
    then show ?thesis
      using assms(2) by (auto simp: load_tick_def add_latency_def split: outcome.split)
  qed
qed

theorem benchmark_measures_rejections_witness:
  "\<exists>s' out. controller_handler sample_env (bench_request (default_bench_config []) ''T'' [] []) [] (new_controller None) = (s', out) \<and>
     ct_posts s' = [] \<and> (case out of Panics p \<Rightarrow> True | Ret resp \<Rightarrow> rs_status resp = 400 \<or> rs_status resp = 429)"
proof -
  obtain s' out where h: "controller_handler sample_env (bench_request (default_bench_config []) ''T'' [] []) []
      (new_controller None) = (s', out)" by fastforce
  have "validator_documented (ce_check sample_env)"
    by (simp add: sample_env_def first_failures_documented)
  from benchmark_measures_rejections [OF this h, of 0 new_metrics_collector] h show ?thesis
    by (auto simp: new_controller_def)
qed

end
