(* ===== verification/Bench_Report.thy ===== *)
theory Bench_Report
  imports Bench Manifest
begin

text \<open>
  What the benchmark program (\<open>bench/benchmark.go\<close>) makes of its result: the JSON file, the plots as
  text, the printed summary, and \<open>main\<close>. The texts of times and floats in JSON are parameters, and
  \<open>writable\<close> says which files can be written: the code ignores the errors.
\<close>

subsection \<open>Durations as text\<close>

text \<open>\<open>Duration.String\<close>: the fraction without its trailing zeros.\<close>

definition frac_text :: "nat \<Rightarrow> nat \<Rightarrow> string" where
  "frac_text prec u = (let ds = rev (dropWhile (\<lambda>c. c = CHR ''0'') (rev (pad0 prec (u mod 10 ^ prec)))) in
     if ds = [] then [] else CHR ''.'' # ds)"

definition duration_text :: "duration \<Rightarrow> string" where
  "duration_text d = (let u = nat \<bar>d\<bar>; sign = (if d < 0 then ''-'' else []) in
     if u = 0 then ''0s''
     else if u < 10 ^ 3 then sign @ nat_str u @ ''ns''
     else if u < 10 ^ 6 then sign @ nat_str (u div 10 ^ 3) @ frac_text 3 u @ [CHR 0xC2, CHR 0xB5] @ ''s''
     else if u < 10 ^ 9 then sign @ nat_str (u div 10 ^ 6) @ frac_text 6 u @ ''ms''
     else (let s = u div 10 ^ 9; m = s div 60; h = m div 60 in
       sign @ (if h > 0 then nat_str h @ ''h'' else []) @ (if m > 0 then nat_str (m mod 60) @ ''m'' else []) @
       nat_str (s mod 60) @ frac_text 9 u @ ''s''))"

subsection \<open>Reports\<close>

text \<open>\<open>Printf("%.2f%%", v)\<close>\<close>

definition percent_text :: "rat \<Rightarrow> string" where
  "percent_text v = fmt_float 2 v @ ''%''"

definition print_summary :: "bench_result \<Rightarrow> string list" where
  "print_summary r = [[], ''=== Benchmark Summary ==='',
     ''HTTP Latency P50: '' @ duration_text (ls_p50 (br_latency r)),
     ''HTTP Latency P95: '' @ duration_text (ls_p95 (br_latency r)),
     ''HTTP Latency P99: '' @ duration_text (ls_p99 (br_latency r)),
     ''HTTP Latency Mean: '' @ duration_text (ls_mean (br_latency r)),
     ''HTTP Latency Count: '' @ nat_str (ls_count (br_latency r)),
     ''CPU Usage P95: '' @ percent_text (us_p95 (br_cpu r)),
     ''Memory Usage P95: '' @ percent_text (us_p95 (br_memory r)),
     ''TCP Retransmits: '' @ itoa (ks_retransmits (br_kernel r)),
     ''CPU Interrupts: '' @ fmt_float 0 (ks_interrupts (br_kernel r))]"

definition written_file :: "(string \<Rightarrow> bool) \<Rightarrow> string \<Rightarrow> string list \<Rightarrow> (string \<times> string) list" where
  "written_file writable name lines = (if writable name then [(name, concat (map line lines))] else [])"

definition generate_plots :: "(string \<Rightarrow> bool) \<Rightarrow> bench_result \<Rightarrow> string \<Rightarrow> (string \<times> string) list" where
  "generate_plots writable r dir = (let l = br_latency r; c = br_cpu r; m = br_memory r in
     written_file writable (dir @ ''/latency_distribution.txt'') [''HTTP Latency Distribution'',
       ''P50: '' @ duration_text (ls_p50 l), ''P95: '' @ duration_text (ls_p95 l),
       ''P99: '' @ duration_text (ls_p99 l), ''Mean: '' @ duration_text (ls_mean l),
       ''StdDev: '' @ duration_text (ls_std_dev l)] @
     written_file writable (dir @ ''/resource_usage.txt'') [''Resource Usage Summary'',
       ''CPU Usage:'', ''  P95: '' @ percent_text (us_p95 c), ''  P99: '' @ percent_text (us_p99 c),
       ''  Mean: '' @ percent_text (us_mean c), ''  StdDev: '' @ percent_text (us_std_dev c), [],
       ''Memory Usage:'', ''  P95: '' @ percent_text (us_p95 m), ''  P99: '' @ percent_text (us_p99 m),
       ''  Mean: '' @ percent_text (us_mean m), ''  StdDev: '' @ percent_text (us_std_dev m)])"

text \<open>\<open>json.MarshalIndent\<close> of the result; a list without elements that was never made is \<open>null\<close>.\<close>

definition resource_json :: "(rat \<Rightarrow> string) \<Rightarrow> resource_stats \<Rightarrow> string" where
  "resource_json ft u = indent_struct 1 [(''min'', ft (us_min u)), (''max'', ft (us_max u)), (''mean'', ft (us_mean u)),
     (''p95'', ft (us_p95 u)), (''p99'', ft (us_p99 u)), (''std_dev'', ft (us_std_dev u))]"

definition bench_json :: "(rat \<Rightarrow> string) \<Rightarrow> string \<Rightarrow> bench_result \<Rightarrow> string" where
  "bench_json ft stamp r = (let c = br_config r; l = br_latency r; k = br_kernel r in indent_struct 0 [
     (''timestamp'', quote_str stamp),
     (''config'', indent_struct 1 [(''controller_url'', quote_str (bc_controller_url c)),
        (''agent_url'', quote_str (bc_agent_url c)), (''duration'', itoa (bc_duration c)),
        (''concurrency'', itoa (bc_concurrency c)), (''experiment_type'', quote_str (bc_experiment_type c))]),
     (''http_latency'', indent_struct 1 [(''p50'', itoa (ls_p50 l)), (''p95'', itoa (ls_p95 l)),
        (''p99'', itoa (ls_p99 l)), (''mean'', itoa (ls_mean l)), (''min'', itoa (ls_min l)),
        (''max'', itoa (ls_max l)), (''count'', nat_str (ls_count l)), (''std_dev'', itoa (ls_std_dev l))]),
     (''cpu_usage'', resource_json ft (br_cpu r)), (''memory_usage'', resource_json ft (br_memory r)),
     (''kernel_metrics'', indent_struct 1 [(''tcp_retransmits'', itoa (ks_retransmits k)),
        (''tcp_drops'', itoa (ks_tcp_drops k)), (''netdev_drops'', itoa (ks_netdev_drops k)),
        (''cpu_interrupts'', ft (ks_interrupts k)), (''context_switches'', itoa (ks_switches k)),
        (''page_faults'', itoa (ks_page_faults k)), (''load_average'', indent_slice 2 (map ft (ks_load k)))]),
     (''errors'', indent_list 1 (CHR ''['') (CHR '']'') (map quote_str (br_errors r)))])"

text \<open>The file is empty when the time cannot be written.\<close>

definition save_results :: "(string \<Rightarrow> bool) \<Rightarrow> (rat \<Rightarrow> string) \<Rightarrow> (gtime \<Rightarrow> string option) \<Rightarrow> string \<Rightarrow> bench_result
    \<Rightarrow> (string \<times> string) list" where
  "save_results writable ft rfc stamp r = (let name = ''benchmark_'' @ stamp @ ''.json'' in
     if writable name then [(name, case rfc (br_timestamp r) of None \<Rightarrow> [] | Some t \<Rightarrow> bench_json ft t r)] else [])"

text \<open>\<open>stamp\<close> is the time of the end in the layout of the file name.\<close>

definition bench_main :: "(string \<Rightarrow> bool) \<Rightarrow> (rat \<Rightarrow> string) \<Rightarrow> (gtime \<Rightarrow> string option) \<Rightarrow> string \<Rightarrow> (rat \<Rightarrow> rat) \<Rightarrow>
    float_parser \<Rightarrow> gtime \<Rightarrow> string list \<Rightarrow> (duration \<times> bool) list \<Rightarrow> host_run list \<Rightarrow> kernel_files
    \<Rightarrow> ((string \<times> string) list \<times> string list) outcome" where
  "bench_main writable ft rfc stamp fsqrt pf now args loads monitors k =
     obind (run_benchmark fsqrt pf now (default_bench_config args) loads monitors k) (\<lambda>r.
       Ret (save_results writable ft rfc stamp r, print_summary r))"

text \<open>
  Whatever the arguments, the host and the controller do, the program ends with its summary: its fixed
  configuration gives a ticker of 50 ms. The number of latencies that it prints is that of the
  requests that were answered.
\<close>

lemma load_ticks: "mc_latencies (fold load_tick loads mc) = mc_latencies mc @ map fst (filter snd loads)"
  by (induction loads arbitrary: mc) (auto simp: load_tick_def add_latency_def)

lemma monitor_keeps_latencies: "mc_latencies (monitor_resources pf ticks mc) = mc_latencies mc"
  unfolding monitor_resources_def
  by (induction ticks arbitrary: mc)
    (simp_all add: monitor_tick_def add_cpu_usage_def add_mem_usage_def Let_def case_prod_beta)

lemma count_latencies: "ls_count (calculate_latency_stats fsqrt ls) = length ls"
  by (simp add: calculate_latency_stats_def zero_latency_stats_def Let_def)

theorem bench_main_ends:
  "\<exists>r. bench_main writable ft rfc stamp fsqrt pf now args loads monitors k =
      Ret (save_results writable ft rfc stamp r, print_summary r) \<and>
    br_config r = default_bench_config args \<and> br_errors r = [] \<and>
    ls_count (br_latency r) = length (filter snd loads)"
proof -
  have "request_interval (default_bench_config args) = Ret (50 * millisecond)"
    by (simp add: request_interval_def default_bench_config_def i64_def go_quot_def second_def millisecond_def)
  then have "\<exists>r. run_benchmark fsqrt pf now (default_bench_config args) loads monitors k = Ret r \<and>
      br_config r = default_bench_config args \<and> br_errors r = [] \<and> ls_count (br_latency r) = length (filter snd loads)"
    by (simp add: run_benchmark_def run_http_load_test_def count_latencies get_latencies_def
        load_ticks monitor_keeps_latencies new_metrics_collector_def)
  then show ?thesis by (auto simp: bench_main_def)
qed

end
