(* ===== verification/Migrate.thy ===== *)
theory Migrate
  imports Prelude
begin

text \<open>
  The migration of MongoDB collections to time-series collections,
  \<open>controller/internal/migrate/migrate_timeseries.go\<close>, and the tool that runs it,
  \<open>controller/cmd/migrate/main.go\<close>. The database is a parameter: \<open>mongo_lib\<close> gives what the driver answers
  in a state of the database and the state afterwards, and the time that a query takes; the error of
  \<open>md_find_all\<close> is the one of the query or of decoding, with the words that the code puts before it.
\<close>

subsection \<open>Data\<close>

datatype bson_val =
    BvTime gtime
  | BvStr string
  | BvInt32 int
  | BvInt64 int
  | BvDouble rat
  | BvObjectId string

type_synonym document = "(string \<times> bson_val) list"

record collection_stats =
  cn_count :: int
  cn_size :: int
  cn_storage :: int
  cn_index :: int
  cn_avg_obj :: rat
  cn_query_time :: duration

record migration_result =
  mr_collection :: string
  mr_records :: int
  mr_duration :: duration
  mr_before :: collection_stats
  mr_after :: collection_stats
  mr_gain :: rat
  mr_reduction :: rat

record query_benchmark =
  qb_collection :: string
  qb_time_range :: duration
  qb_aggregation :: duration

type_synonym migrator = "migration_result list"

record 'd mongo_lib =
  md_stats :: "string \<Rightarrow> 'd \<Rightarrow> string + document"
  md_recent :: "string \<Rightarrow> gtime \<Rightarrow> 'd \<Rightarrow> string + duration"
  md_create_ts :: "string \<Rightarrow> string \<Rightarrow> string \<Rightarrow> 'd \<Rightarrow> 'd \<times> string option"
  md_find_all :: "string \<Rightarrow> 'd \<Rightarrow> string + document list"
  md_insert_many :: "string \<Rightarrow> document list \<Rightarrow> 'd \<Rightarrow> 'd \<times> string option"
  md_range :: "string \<Rightarrow> gtime \<Rightarrow> gtime \<Rightarrow> 'd \<Rightarrow> string + duration"
  md_group :: "string \<Rightarrow> gtime \<Rightarrow> 'd \<Rightarrow> string + duration"

subsection \<open>One document\<close>

definition document_time :: "gtime \<Rightarrow> document \<Rightarrow> bson_val" where
  "document_time now doc = (case map_of doc ''timestamp'' of Some v \<Rightarrow> v
     | None \<Rightarrow> (case map_of doc ''createdAt'' of Some v \<Rightarrow> v
       | None \<Rightarrow> (case map_of doc ''updatedAt'' of Some v \<Rightarrow> v | None \<Rightarrow> BvTime now)))"

definition document_agent :: "document \<Rightarrow> bson_val" where
  "document_agent doc = (case map_of doc ''agentId'' of Some v \<Rightarrow> v
     | None \<Rightarrow> (case map_of doc ''agent'' of Some v \<Rightarrow> v | None \<Rightarrow> BvStr ''unknown''))"

definition transform_document :: "gtime \<Rightarrow> document \<Rightarrow> document" where
  "transform_document now doc =
     (let t = AList.update ''timestamp'' (document_time now doc) [];
          t = AList.update ''agentId'' (document_agent doc) t;
          t = foldl (\<lambda>t (k, v). if k \<noteq> ''_id'' then AList.update k v t else t) t doc in
      AList.update ''expireAt'' (BvTime (now + 7 * 24 * hour)) t)"

subsection \<open>Statistics\<close>

text \<open>The assertion \<open>x.(int64)\<close>.\<close>

definition assert_int64 :: "bson_val option \<Rightarrow> int outcome" where
  "assert_int64 v = (case v of Some (BvInt64 i) \<Rightarrow> Ret i | _ \<Rightarrow> Panics TypeAssertionFailed)"

definition measure_query_performance :: "'d mongo_lib \<Rightarrow> gtime \<Rightarrow> string \<Rightarrow> 'd \<Rightarrow> string + duration" where
  "measure_query_performance lib now name d = md_recent lib name (now + - 24 * hour) d"

definition get_collection_stats ::
  "'d mongo_lib \<Rightarrow> gtime \<Rightarrow> string \<Rightarrow> 'd \<Rightarrow> (string + collection_stats) outcome" where
  "get_collection_stats lib now name d = (case md_stats lib name d of
     Inl err \<Rightarrow> Ret (Inl (''failed to get collection stats: '' @ err))
   | Inr r \<Rightarrow>
     obind (assert_int64 (map_of r ''count'')) (\<lambda>count.
     obind (assert_int64 (map_of r ''size'')) (\<lambda>sz.
     obind (assert_int64 (map_of r ''storageSize'')) (\<lambda>storage.
     obind (assert_int64 (map_of r ''totalIndexSize'')) (\<lambda>index.
       Ret (Inr \<lparr>cn_count = count, cn_size = sz, cn_storage = storage, cn_index = index,
         cn_avg_obj = (case map_of r ''avgObjSize'' of Some (BvInt64 i) \<Rightarrow> of_int i | _ \<Rightarrow> 0),
         cn_query_time = (case measure_query_performance lib now name d of Inl _ \<Rightarrow> 0 | Inr t \<Rightarrow> t)\<rparr>))))))"

definition calculate_performance_gain :: "collection_stats \<Rightarrow> collection_stats \<Rightarrow> rat" where
  "calculate_performance_gain before after = (if cn_query_time before = 0 then 0
     else of_int (i64 (cn_query_time before - cn_query_time after)) / of_int (cn_query_time before) * 100)"

definition calculate_disk_usage_reduction :: "collection_stats \<Rightarrow> collection_stats \<Rightarrow> rat" where
  "calculate_disk_usage_reduction before after = (if cn_storage before = 0 then 0
     else of_int (i64 (cn_storage before - cn_storage after)) / of_int (cn_storage before) * 100)"

subsection \<open>Migrating a collection\<close>

definition create_time_series_collection :: "'d mongo_lib \<Rightarrow> string \<Rightarrow> 'd \<Rightarrow> 'd \<times> string option" where
  "create_time_series_collection lib name d = md_create_ts lib name ''timestamp'' ''agentId'' d"

text \<open>\<open>clock i\<close> is the time at which document \<open>i\<close> is transformed.\<close>

definition transform_all :: "(nat \<Rightarrow> gtime) \<Rightarrow> document list \<Rightarrow> document list" where
  "transform_all clock docs = map (\<lambda>(i, doc). transform_document (clock i) doc) (enumerate 0 docs)"

definition migrate_data ::
  "'d mongo_lib \<Rightarrow> (nat \<Rightarrow> gtime) \<Rightarrow> string \<Rightarrow> string \<Rightarrow> 'd \<Rightarrow> 'd \<times> (string + int)" where
  "migrate_data lib clock source target d = (case md_find_all lib source d of
     Inl err \<Rightarrow> (d, Inl err)
   | Inr docs \<Rightarrow>
     (let transformed = transform_all clock docs in
      if transformed = [] then (d, Inr 0)
      else (case md_insert_many lib target transformed d of
          (d, Some err) \<Rightarrow> (d, Inl (''failed to insert into target collection: '' @ err))
        | (d, None) \<Rightarrow> (d, Inr (int (length transformed))))))"

definition migrate_collection ::
  "'d mongo_lib \<Rightarrow> gtime \<Rightarrow> (nat \<Rightarrow> gtime) \<Rightarrow> duration \<Rightarrow> string \<Rightarrow> 'd \<Rightarrow> migrator
    \<Rightarrow> ('d \<times> migrator \<times> string option) outcome" where
  "migrate_collection lib now clock elapsed name d m =
     obind (get_collection_stats lib now name d) (\<lambda>before. case before of
       Inl err \<Rightarrow> Ret (d, m, Some (''failed to get before stats: '' @ err))
     | Inr before \<Rightarrow>
       (let target = name @ ''_ts'' in
        case create_time_series_collection lib target d of
          (d, Some err) \<Rightarrow> Ret (d, m, Some (''failed to create time-series collection: '' @ err))
        | (d, None) \<Rightarrow> (case migrate_data lib clock name target d of
            (d, Inl err) \<Rightarrow> Ret (d, m, Some (''failed to migrate data: '' @ err))
          | (d, Inr records) \<Rightarrow>
            obind (get_collection_stats lib now target d) (\<lambda>after. case after of
              Inl err \<Rightarrow> Ret (d, m, Some (''failed to get after stats: '' @ err))
            | Inr after \<Rightarrow> Ret (d, m @ [\<lparr>mr_collection = name, mr_records = records, mr_duration = elapsed,
                mr_before = before, mr_after = after, mr_gain = calculate_performance_gain before after,
                mr_reduction = calculate_disk_usage_reduction before after\<rparr>], None)))))"

subsection \<open>Query benchmarks\<close>

definition benchmark_time_range_query :: "'d mongo_lib \<Rightarrow> gtime \<Rightarrow> string \<Rightarrow> 'd \<Rightarrow> string + duration" where
  "benchmark_time_range_query lib now name d = md_range lib name (now + - 24 * hour) now d"

definition benchmark_aggregation_query :: "'d mongo_lib \<Rightarrow> gtime \<Rightarrow> string \<Rightarrow> 'd \<Rightarrow> string + duration" where
  "benchmark_aggregation_query lib now name d = md_group lib name (now + - 24 * hour) d"

text \<open>A collection of which a query fails is left out.\<close>

fun run_benchmarks_of :: "'d mongo_lib \<Rightarrow> gtime \<Rightarrow> 'd \<Rightarrow> string list \<Rightarrow> (string \<times> query_benchmark) list" where
  "run_benchmarks_of lib now d [] = []"
| "run_benchmarks_of lib now d (n # ns) =
     (case (benchmark_time_range_query lib now n d, benchmark_aggregation_query lib now n d) of
        (Inr t, Inr a) \<Rightarrow> (n, \<lparr>qb_collection = n, qb_time_range = t, qb_aggregation = a\<rparr>) # run_benchmarks_of lib now d ns
      | _ \<Rightarrow> run_benchmarks_of lib now d ns)"

definition run_query_benchmarks :: "'d mongo_lib \<Rightarrow> gtime \<Rightarrow> 'd \<Rightarrow> (string \<times> query_benchmark) list" where
  "run_query_benchmarks lib now d = run_benchmarks_of lib now d [''logs'', ''experiments'', ''metrics'']"

definition run_time_series_benchmarks :: "'d mongo_lib \<Rightarrow> gtime \<Rightarrow> 'd \<Rightarrow> (string \<times> query_benchmark) list" where
  "run_time_series_benchmarks lib now d = run_benchmarks_of lib now d [''logs_ts'', ''experiments_ts'', ''metrics_ts'']"

definition improvement :: "duration \<Rightarrow> duration \<Rightarrow> rat option" where
  "improvement before after = (if before > 0
     then Some (of_int (i64 (before - after)) / of_int before * 100) else None)"

record bench_comparison =
  bp_collection :: string
  bp_time_range :: "rat option"
  bp_aggregation :: "rat option"

text \<open>What is logged for each collection that both benchmarks measured.\<close>

definition compare_benchmark_results ::
  "(string \<times> query_benchmark) list \<Rightarrow> (string \<times> query_benchmark) list \<Rightarrow> bench_comparison list" where
  "compare_benchmark_results before after = List.map_filter (\<lambda>(n, b). map_option (\<lambda>a.
     \<lparr>bp_collection = n, bp_time_range = improvement (qb_time_range b) (qb_time_range a),
      bp_aggregation = improvement (qb_aggregation b) (qb_aggregation a)\<rparr>) (map_of after (n @ ''_ts''))) before"

definition run_benchmarks :: "'d mongo_lib \<Rightarrow> gtime \<Rightarrow> 'd \<Rightarrow> bench_comparison list" where
  "run_benchmarks lib now d =
     compare_benchmark_results (run_query_benchmarks lib now d) (run_time_series_benchmarks lib now d)"

subsection \<open>Report\<close>

record migration_summary =
  sm_collections :: nat
  sm_records :: int
  sm_time :: duration
  sm_gain :: rat
  sm_reduction :: rat

definition calculate_migration_summary :: "migrator \<Rightarrow> migration_summary" where
  "calculate_migration_summary m =
     (let average = (\<lambda>total :: rat. if m = [] then total else total / of_nat (length m)) in
      \<lparr>sm_collections = length m,
       sm_records = foldl (\<lambda>t r. i64 (t + mr_records r)) 0 m,
       sm_time = foldl (\<lambda>t r. i64 (t + mr_duration r)) 0 m,
       sm_gain = average (foldl (\<lambda>t r. t + mr_gain r) 0 m),
       sm_reduction = average (foldl (\<lambda>t r. t + mr_reduction r) 0 m)\<rparr>)"

record migration_report =
  rt_timestamp :: gtime
  rt_results :: "migration_result list"
  rt_summary :: migration_summary

text \<open>The report that is written to a file; \<open>write\<close> is the outcome of writing it.\<close>

definition generate_report :: "gtime \<Rightarrow> (migration_report \<Rightarrow> string option) \<Rightarrow> migrator \<Rightarrow> migration_report \<times> string option" where
  "generate_report now write m =
     (let r = \<lparr>rt_timestamp = now, rt_results = m, rt_summary = calculate_migration_summary m\<rparr> in
      (r, map_option (\<lambda>err. ''failed to write report: '' @ err) (write r)))"

subsection \<open>The tool\<close>

record migrate_flags =
  mf_collections :: string
  mf_benchmarks :: bool
  mf_dry_run :: bool
  mf_help :: bool

record migrate_env =
  mv_now :: gtime
  mv_clock :: "string \<Rightarrow> nat \<Rightarrow> gtime"
  mv_elapsed :: "string \<Rightarrow> duration"
  mv_connect :: "string option"
  mv_write :: "migration_report \<Rightarrow> string option"

datatype tool_end =
    ToolHelp
  | ToolFatal string
  | ToolListed "string list"
  | ToolMigrated migrator "(string \<times> string) list" "migration_report \<times> string option"

definition collection_list :: "string \<Rightarrow> string list" where
  "collection_list s = map trim_space (split_on (CHR '','') s)"

text \<open>The loop over the collections: an error is logged and the loop goes on.\<close>

fun migrate_collections ::
  "'d mongo_lib \<Rightarrow> migrate_env \<Rightarrow> string list \<Rightarrow> 'd \<Rightarrow> migrator \<Rightarrow> (string \<times> string) list
    \<Rightarrow> ('d \<times> migrator \<times> (string \<times> string) list) outcome" where
  "migrate_collections lib env [] d m errs = Ret (d, m, errs)"
| "migrate_collections lib env (n # ns) d m errs =
     (if n = [] then migrate_collections lib env ns d m errs
      else obind (migrate_collection lib (mv_now env) (mv_clock env n) (mv_elapsed env n) n d m) (\<lambda>(d, m, err).
        migrate_collections lib env ns d m (errs @ (case err of None \<Rightarrow> [] | Some e \<Rightarrow> [(n, e)]))))"

definition migrate_tool ::
  "'d mongo_lib \<Rightarrow> migrate_env \<Rightarrow> migrate_flags \<Rightarrow> 'd \<Rightarrow> ('d \<times> bench_comparison list list \<times> tool_end) outcome" where
  "migrate_tool lib env f d =
     (if mf_help f then Ret (d, [], ToolHelp)
      else (case mv_connect env of
        Some err \<Rightarrow> Ret (d, [], ToolFatal (''Failed to create migrator: failed to connect to MongoDB: '' @ err))
      | None \<Rightarrow>
        (let ns = collection_list (mf_collections f);
             first = (if mf_benchmarks f then [run_benchmarks lib (mv_now env) d] else []) in
         if mf_dry_run f then Ret (d, first, ToolListed (filter (\<lambda>n. n \<noteq> []) ns))
         else obind (migrate_collections lib env ns d [] []) (\<lambda>(d, m, errs).
           Ret (d, first @ (if mf_benchmarks f then [run_benchmarks lib (mv_now env) d] else []),
             ToolMigrated m errs (generate_report (mv_now env) (mv_write env) m))))))"

subsection \<open>Documents\<close>

definition copy_members :: "document \<Rightarrow> document \<Rightarrow> document" where
  "copy_members t doc = foldl (\<lambda>t (k, v). if k \<noteq> ''_id'' then AList.update k v t else t) t doc"

lemma copy_members_Cons:
  "copy_members t ((k, v) # doc) = copy_members (if k \<noteq> ''_id'' then AList.update k v t else t) doc"
  by (simp add: copy_members_def)

lemma distinct_copy: "distinct (keys t) \<Longrightarrow> distinct (keys (copy_members t doc))"
proof (induction doc arbitrary: t)
  case (Cons p doc)
  then show ?case by (cases p) (simp add: copy_members_Cons distinct_keys_update)
qed (simp add: copy_members_def)

lemma map_of_copy:
  "distinct (keys doc) \<Longrightarrow> map_of (copy_members t doc) k =
     (case (if k = ''_id'' then None else map_of doc k) of None \<Rightarrow> map_of t k | Some v \<Rightarrow> Some v)"
proof (induction doc arbitrary: t)
  case (Cons p doc)
  obtain k' v where p: "p = (k', v)" by force
  then have d: "distinct (keys doc)" and "map_of doc k' = None"
    using Cons.prems by (auto simp: map_of_eq_None_iff)
  then show ?case using Cons.IH [OF d] by (auto simp: p copy_members_Cons map_of_update split: option.split)
qed (simp add: copy_members_def)

text \<open>What becomes of a document. After the migration it expires seven days after it was
  transformed, whatever expiry it had; it has no _id, so that the database gives it a new one; every
  other field keeps its value; and a document without a timestamp or an agentId gets them from
  createdAt or updatedAt and from agent, or else the present time and the agent unknown.\<close>

theorem transform_document_result:
  assumes "distinct (keys doc)"
  shows "map_of (transform_document now doc) k =
      (if k = ''expireAt'' then Some (BvTime (now + 7 * 24 * hour))
       else if k = ''_id'' then None
       else (case map_of doc k of Some v \<Rightarrow> Some v
         | None \<Rightarrow> if k = ''timestamp'' then Some (document_time now doc)
             else if k = ''agentId'' then Some (document_agent doc) else None)) \<and>
    distinct (keys (transform_document now doc))"
proof -
  let ?t = "AList.update ''agentId'' (document_agent doc) (AList.update ''timestamp'' (document_time now doc) [])"
  have t: "distinct (keys ?t)" by (intro distinct_keys_update) simp
  show ?thesis
    unfolding transform_document_def Let_def copy_members_def [symmetric]
    using map_of_copy [OF assms, of ?t k] distinct_copy [OF t, of doc]
    by (auto simp: map_of_update distinct_keys_update split: option.split)
qed

theorem transform_document_result_witness:
  "map_of (transform_document 5 [(''_id'', BvObjectId ''x''), (''createdAt'', BvTime 3), (''level'', BvStr ''info'')]) ''timestamp'' =
     Some (BvTime 3)"
  using transform_document_result [of "[(''_id'', BvObjectId ''x''), (''createdAt'', BvTime 3), (''level'', BvStr ''info'')]"
      5 "''timestamp''"]
  by (simp add: document_time_def)

subsection \<open>Collections\<close>

text \<open>
  What MongoDB documents: a collection is created once, empty; \<open>insertMany\<close> adds the documents in order
  and stops at the first that fails. \<open>docs_of\<close> gives the documents of a collection that exists.
\<close>

definition stored :: "('d \<Rightarrow> string \<Rightarrow> document list option) \<Rightarrow> 'd \<Rightarrow> string \<Rightarrow> document list" where
  "stored docs_of d n = (case docs_of d n of None \<Rightarrow> [] | Some ds \<Rightarrow> ds)"

definition db_documented :: "'d mongo_lib \<Rightarrow> ('d \<Rightarrow> string \<Rightarrow> document list option) \<Rightarrow> bool" where
  "db_documented lib docs_of \<longleftrightarrow>
     (\<forall>n d ds. md_find_all lib n d = Inr ds \<longrightarrow> ds = stored docs_of d n) \<and>
     (\<forall>n t g d d'. md_create_ts lib n t g d = (d', None) \<longrightarrow>
        docs_of d n = None \<and> docs_of d' = (docs_of d)(n := Some [])) \<and>
     (\<forall>n t g d d' e. md_create_ts lib n t g d = (d', Some e) \<longrightarrow> docs_of d' = docs_of d) \<and>
     (\<forall>n ds d d'. md_insert_many lib n ds d = (d', None) \<longrightarrow>
        docs_of d' = (docs_of d)(n := Some (stored docs_of d n @ ds))) \<and>
     (\<forall>n ds d d' e. md_insert_many lib n ds d = (d', Some e) \<longrightarrow>
        (\<exists>k. docs_of d' = (docs_of d)(n := Some (stored docs_of d n @ take k ds))))"

lemma transform_all_Nil: "transform_all clock docs = [] \<longleftrightarrow> docs = []"
  by (cases docs) (simp_all add: transform_all_def)

lemma db_documentedD:
  assumes "db_documented lib docs_of"
  shows "md_find_all lib n d = Inr ds \<Longrightarrow> ds = stored docs_of d n"
    and "md_create_ts lib n t g d = (d', None) \<Longrightarrow> docs_of d n = None \<and> docs_of d' = (docs_of d)(n := Some [])"
    and "md_create_ts lib n t g d = (d', Some e) \<Longrightarrow> docs_of d' = docs_of d"
    and "md_insert_many lib n ds d = (d', None) \<Longrightarrow> docs_of d' = (docs_of d)(n := Some (stored docs_of d n @ ds))"
    and "md_insert_many lib n ds d = (d', Some e) \<Longrightarrow>
      \<exists>k. docs_of d' = (docs_of d)(n := Some (stored docs_of d n @ take k ds))"
  using assms unfolding db_documented_def by metis+

lemma migrate_data_result:
  assumes db: "db_documented lib docs_of" and empty: "docs_of d target = Some []" and neq: "source \<noteq> target"
    and run: "migrate_data lib clock source target d = (d', r)"
  shows "\<exists>k. docs_of d' = (docs_of d)(target := Some (take k (transform_all clock (stored docs_of d source)))) \<and>
    (\<forall>n. r = Inr n \<longrightarrow> k = length (stored docs_of d source) \<and> n = int k)"
proof (cases "md_find_all lib source d")
  case (Inl err)
  then show ?thesis using run empty by (intro exI [of _ 0]) (auto simp: migrate_data_def)
next
  case (Inr docs)
  let ?ts = "transform_all clock docs"
  have docs: "docs = stored docs_of d source" by (rule db_documentedD(1) [OF db Inr])
  have len: "length ?ts = length docs" by (simp add: transform_all_def)
  have st: "stored docs_of d target = []" using empty by (simp add: stored_def)
  show ?thesis
  proof (cases "docs = []")
    case True
    then show ?thesis using run Inr empty docs
      by (intro exI [of _ 0]) (auto simp: migrate_data_def transform_all_def)
  next
    case False
    obtain d1 e where i: "md_insert_many lib target ?ts d = (d1, e)" by fastforce
    have r: "d' = d1" "r = (case e of None \<Rightarrow> Inr (int (length docs))
        | Some err \<Rightarrow> Inl (''failed to insert into target collection: '' @ err))"
      using run Inr False i len by (auto simp: migrate_data_def transform_all_Nil split: option.splits)
    show ?thesis
    proof (cases e)
      case None
      then have "docs_of d1 = (docs_of d)(target := Some ?ts)"
        using db_documentedD(4) [OF db] i st by auto
      then show ?thesis using r None docs len by (intro exI [of _ "length docs"]) simp
    next
      case (Some err)
      then have "md_insert_many lib target ?ts d = (d1, Some err)" using i by simp
      from db_documentedD(5) [OF db this] obtain k where
        "docs_of d1 = (docs_of d)(target := Some (stored docs_of d target @ take k ?ts))" ..
      then have "docs_of d' = (docs_of d)(target := Some (take k ?ts))" using r(1) st by simp
      moreover have "r = Inl (''failed to insert into target collection: '' @ err)" using r(2) Some by simp
      ultimately show ?thesis unfolding docs by blast
    qed
  qed
qed

text \<open>Creating the new collection and copying into it.\<close>

lemma create_and_copy:
  assumes db: "db_documented lib docs_of" and neq: "name \<noteq> ts"
    and create: "create_time_series_collection lib ts d = (d1, None)"
    and copy: "migrate_data lib clock name ts d1 = (d2, r)"
  shows "docs_of d ts = None"
    and "\<exists>k. docs_of d2 = (docs_of d)(ts := Some (take k (transform_all clock (stored docs_of d name)))) \<and>
      (\<forall>n. r = Inr n \<longrightarrow> length (stored docs_of d name) \<le> k \<and> n = int (length (stored docs_of d name)))"
proof -
  have d1: "docs_of d ts = None" "docs_of d1 = (docs_of d)(ts := Some [])"
    using db_documentedD(2) [OF db] create unfolding create_time_series_collection_def by blast+
  then have "stored docs_of d1 name = stored docs_of d name" using neq by (simp add: stored_def)
  with migrate_data_result [OF db _ neq copy] d1 show "docs_of d ts = None"
    and "\<exists>k. docs_of d2 = (docs_of d)(ts := Some (take k (transform_all clock (stored docs_of d name)))) \<and>
      (\<forall>n. r = Inr n \<longrightarrow> length (stored docs_of d name) \<le> k \<and> n = int (length (stored docs_of d name)))"
    by auto
qed

lemma length_transform_all [simp]: "length (transform_all clock ds) = length ds"
  by (simp add: transform_all_def)

lemma all_taken: "\<exists>k. xs = take k xs"
  by (rule exI [of _ "length xs"]) simp

text \<open>C22: what migrating a collection does, whenever it returns. Only the new collection changes, and
  the source in particular does not. Success means that the new collection did not exist, that it
  now holds the transformed documents of the source, all of them and in order, and that one
  result with their number is added. An error adds no result; it leaves a collection that existed
  as it was, and otherwise a first part of the documents, so that the next attempt fails too: a
  migration that was interrupted cannot be repeated or completed with this tool.\<close>

theorem migrate_collection_result:
  assumes "db_documented lib docs_of"
    and "migrate_collection lib now clock elapsed name d m = Ret (d', m', err)"
  shows "let ts = name @ ''_ts''; docs = transform_all clock (stored docs_of d name) in
    docs_of d' = (docs_of d)(ts := docs_of d' ts) \<and>
    (case err of
       None \<Rightarrow> docs_of d ts = None \<and> docs_of d' ts = Some docs \<and>
         (\<exists>r. m' = m @ [r] \<and> mr_collection r = name \<and> mr_records r = int (length docs))
     | Some e \<Rightarrow> m' = m \<and>
         (if docs_of d ts = None then docs_of d' ts = None \<or> (\<exists>k. docs_of d' ts = Some (take k docs))
          else docs_of d' = docs_of d))"
proof -
  let ?ts = "name @ ''_ts''"
  have neq: "name \<noteq> ?ts" by simp
  obtain sb where sb: "get_collection_stats lib now name d = Ret sb"
    using assms(2) by (cases "get_collection_stats lib now name d") (simp_all add: migrate_collection_def)
  obtain d1 e1 where c: "create_time_series_collection lib ?ts d = (d1, e1)" by fastforce
  obtain d2 r where md: "migrate_data lib clock name ?ts d1 = (d2, r)" by fastforce
  note run = assms(2) [unfolded migrate_collection_def sb obind.simps Let_def c prod.case]
  show ?thesis
  proof (cases sb)
    case (Inl e)
    then show ?thesis using run by auto
  next
    case before: (Inr before)
    show ?thesis
    proof (cases e1)
      case (Some e)
      then have "docs_of d1 = docs_of d"
        using db_documentedD(3) [OF assms(1)] c unfolding create_time_series_collection_def by blast
      then show ?thesis using run before Some by auto
    next
      case None
      note copied = create_and_copy [OF assms(1) neq c [unfolded None] md]
      show ?thesis
      proof (cases r)
        case (Inl e)
        then show ?thesis using run before None md copied by auto
      next
        case (Inr records)
        obtain sa where "get_collection_stats lib now ?ts d2 = Ret sa"
          using run before None md Inr by (cases "get_collection_stats lib now ?ts d2") simp_all
        then show ?thesis using run before None md Inr copied by (cases sa) (auto intro: all_taken)
      qed
    qed
  qed
qed

text \<open>A database that keeps lists of documents and reports statistics as 64-bit integers.\<close>

definition list_db :: "(string \<Rightarrow> document list option) mongo_lib" where
  "list_db = \<lparr>
     md_stats = (\<lambda>n d. Inr [(''count'', BvInt64 (int (length (stored id d n)))), (''size'', BvInt64 10),
       (''storageSize'', BvInt64 4), (''totalIndexSize'', BvInt64 1)]),
     md_recent = (\<lambda>n t d. Inr 5),
     md_create_ts = (\<lambda>n t g d. if d n = None then (d(n := Some []), None) else (d, Some ''exists'')),
     md_find_all = (\<lambda>n d. Inr (stored id d n)),
     md_insert_many = (\<lambda>n ds d. (d(n := Some (stored id d n @ ds)), None)),
     md_range = (\<lambda>n t u d. Inr 1), md_group = (\<lambda>n t d. Inr 1)\<rparr>"

lemma list_db_documented: "db_documented list_db id"
  unfolding db_documented_def by (simp add: list_db_def)

theorem migrate_collection_result_witness:
  "\<exists>d' m'. migrate_collection list_db 0 (\<lambda>i. 5) 1 ''logs'' [''logs'' \<mapsto> [[(''createdAt'', BvTime 3)]]] [] = Ret (d', m', None) \<and>
     d' ''logs_ts'' = Some [transform_document 5 [(''createdAt'', BvTime 3)]] \<and> length m' = 1"
proof -
  let ?d = "[''logs'' \<mapsto> [[(''createdAt'', BvTime 3)]]]"
  obtain d' m' where h: "migrate_collection list_db 0 (\<lambda>i. 5) 1 ''logs'' ?d [] = Ret (d', m', None)"
    by (simp add: migrate_collection_def get_collection_stats_def assert_int64_def measure_query_performance_def
        create_time_series_collection_def migrate_data_def transform_all_def stored_def list_db_def Let_def)
  from migrate_collection_result [OF list_db_documented this] h show ?thesis
    by (auto simp: Let_def transform_all_def stored_def)
qed

text \<open>
  The statistics of a small collection: MongoDB reports a number that fits in 32 bits as a 32-bit
  integer, and then the tool panics.
\<close>

lemma small_collection_panics:
  assumes "md_stats lib name d = Inr r" and "map_of r ''count'' = Some (BvInt32 i)"
  shows "migrate_collection lib now clock elapsed name d m = Panics TypeAssertionFailed"
  using assms by (simp add: migrate_collection_def get_collection_stats_def assert_int64_def)

end
