(* ===== verification/Spec2Isabelle.thy ===== *)
theory Spec2Isabelle
  imports Netem Cgroups Scheduler Verified_Export Writer DiffEmit Rate_Limit Dispatch Schema Broadcast Health_Enhanced Agent_Health TimeSeries Doctor Bench_Report Observability Migrate
begin

text \<open>
  A verification library for ChaosLabs, a chaos-engineering system written in Go. An agent on each
  host injects faults; a controller accepts experiments over HTTP, sends them to agents and offers
  services around them; a command-line tool works with exported results.

  Parts and theories, in the order in which they build on each other:

  \<^item> \<open>Prelude\<close> holds the pieces of Go and its library that the code uses: calls that may panic
    (\<open>outcome\<close>), 64-bit integers (\<open>i64\<close> and \<open>u64\<close> wrap where the code can overflow), times and durations
    in nanoseconds, maps as association lists, strings as byte lists. \<open>Json\<close>, \<open>Wire\<close>, \<open>Http\<close>, \<open>Paths\<close> and
    \<open>Sha256\<close> model the standard packages of these names, each with what the components rely on, the
    round trip of JSON above all.
  \<^item> The agent. \<open>Netem\<close> is \<open>agent/netem.go\<close> (network faults with \<open>tc\<close>), \<open>Cgroups\<close> is \<open>agent/cgroups.go\<close>,
    both with a cleanup goroutine whose contract is the locale \<open>ttl_registry\<close> of \<open>Ttl_Registry\<close>, interpreted
    on each; \<open>Scheduler\<close> is \<open>agent/scheduler.go\<close> (timing wheels); \<open>Experiments\<close> is \<open>agent/experiments.go\<close> (the
    injection endpoint) and \<open>Agent_Main\<close> is \<open>agent/main.go\<close>, with the injections that run side by side;
    \<open>Preflight\<close> is \<open>agent/preflight.go\<close>, \<open>Doctor_Checks\<close> its copy in \<open>agent/cmd/doctor/main.go\<close>, and \<open>Doctor\<close> the
    program around the copy and the comparison of the two.
  \<^item> The controller. \<open>Controller\<close> is \<open>controller/middleware.go\<close> and \<open>controller/handlers.go\<close>, chained as in
    \<open>controller/main.go\<close>; \<open>Schema\<close> is \<open>controller/schema.go\<close>; \<open>Health\<close> and \<open>Health_Enhanced\<close> are
    \<open>controller/health.go\<close> and \<open>controller/health_enhanced.go\<close>. \<open>Storage\<close> (the locale \<open>export_storage\<close>, with
    its interpretation on the local file system of \<open>controller/storage.go\<close>) and \<open>Export\<close> are the export
    service, \<open>controller/export_service.go\<close>; \<open>Replay\<close> is \<open>controller/replay_service.go\<close>; \<open>TimeSeries\<close> is
    \<open>controller/timeseries_manager.go\<close>, which implements the list of log events of the replay and writer services; \<open>EventBus\<close> and
    \<open>Writer\<close> are \<open>controller/eventbus.go\<close> and its consumer \<open>controller/writer_service.go\<close>; \<open>DiffEmit\<close> is
    \<open>controller/diff_emit_engine.go\<close>; \<open>Notifier\<close>, with its runs in \<open>Broadcast\<close>, is
    \<open>controller/enhanced_notifier_service.go\<close>.
  \<^item> The tools. \<open>Migrate\<close> is \<open>controller/internal/migrate/migrate_timeseries.go\<close> and its program
    \<open>controller/cmd/migrate/main.go\<close>; \<open>Cli\<close> and \<open>Manifest\<close> are \<open>cli/main.go\<close>: verification of
    exports, comparison and loading, then the manifest as JSON text, as the controller writes it and the tool
    reads it, and the commands with their exit status.
  \<^item> The benchmark. \<open>Bench\<close> and \<open>Bench_Report\<close> are \<open>bench/benchmark.go\<close>: the load test, the monitor and the
    statistics, with what the controller makes of the load test's requests, then the reports and \<open>main\<close>.
  \<^item> Both. \<open>Observability\<close> is \<open>observability.go\<close> and \<open>tracing_otlp.go\<close> of the agent and the controller: the
    instruments, and each recorder as the measurements that it hands to OpenTelemetry. \<open>Metrics\<close> holds the
    Prometheus series of both, which the other files declare and write.
  \<^item> Across parts: \<open>Pipeline\<close> follows an experiment from the request to the controller to the commands
    that the agent runs, \<open>Rate_Limit\<close> states what clients see of the limits and of conditional requests in
    every run, \<open>Dispatch\<close> how an experiment is shared out among agents, \<open>Agent_Health\<close> what the health checks make of the agents' answers, and \<open>Verified_Export\<close> that
    what a completed export job leaves in the storage passes the tool.

  State and operations. A struct is a \<open>record\<close> with its fields, an operation a function from the state
  to the new state and its result, an error a value, a panic \<open>Panics\<close>. Objects that the code shares by
  pointer live in an explicit heap (scheduled operations, export and replay jobs, notifier clients).
  Goroutines and requests interleave as sequences of events or as \<open>inductive\<close> reachability
  (\<open>ctl_run\<close>, \<open>notifier_run\<close>, \<open>health_reachable\<close>, \<open>agent_reachable\<close> and others): an operation under a lock is one step, a job that
  runs beside others is split where the code lets go of the lock.

  Interfaces. A contract that several operations or programs share is a locale, interpreted on the model
  of the code: \<open>ttl_registry\<close> (entries that expire, the cgroups and the network faults), \<open>export_storage\<close> (the
  file system), \<open>deduplicating_handler\<close> (the handlers of the writer service), \<open>capability_test\<close> (those of the
  agent and the doctor) and \<open>instrumented\<close> (the metrics of the agent and the controller).

  Conventions. An operation reads the clock once, and the reading is an argument, unless a later
  reading matters. The order in which Go walks over a map is the order of the association list, so a
  theorem about any list holds for every order. Floats are rationals. Everything outside the
  repository is an argument of the definitions that use it: commands and files of the host, NATS and
  MongoDB, the token bucket of the rate limiter, the struct validator, the formats of times and
  floats. Where a theorem needs what their documentation promises, it is a named hypothesis
  (\<open>validator_documented\<close>, \<open>rate_documented\<close>) and the witness instantiates it with a function that computes.

  What the lemmas show. Each component has an invariant that all its operations keep, and theorems
  for the behaviour of its operations on every branch; the encodings have round trips; the cleanup
  loops, the diff engine and the fault manager refine an abstract specification of what they promise.
  Some theorems state what the code does although it does not mean to, such as experiment types that
  no agent knows, preflight checks that cannot succeed, or waits that are given in the wrong unit.

  Bounds and fuel. The JSON parser takes fuel, one more than the length of the text, which is enough
  for every text that the printer writes (\<open>Json.json_parse_str\<close>). All other loops are recursion on the data,
  so they end by construction.

  Not modelled: the calls of the recorders and spans inside the components, log lines, help texts, the text of
  JSON decoding errors, and JSON numbers with a fraction or an exponent; of the notifier, the parts that
  are built and never used (message router, load balancer, filter manager); the tests, which are not the
  implementation, and the dashboard and deployment files, which are not Go.
\<close>

end
